theory Spec2Isabelle
  imports Main "HOL-Library.Word" "HOL-Library.Char_ord" "HOL-Library.Sublist"
begin

unbundle bit_operations_syntax

section \<open>Data model of \<^verbatim>\<open>common/util/FontUtils.cpp\<close>\<close>

text \<open>
  Both C++ \<^verbatim>\<open>char\<close> and \<^verbatim>\<open>u8\<close> are 8-bit bytes and are modelled by the HOL type
  \<^typ>\<open>char\<close>; the casts between them keep the bit pattern.  A \<^verbatim>\<open>std::string\<close> and a
  \<^verbatim>\<open>std::vector<u8>\<close> are lists of such bytes.  The order on \<^typ>\<open>char\<close> compares the
  unsigned byte values; the source compares (possibly signed) \<^verbatim>\<open>char\<close> values only against
  the ASCII ranges \<^verbatim>\<open>'0'..'9'\<close>, \<^verbatim>\<open>'A'..'Z'\<close> and \<^verbatim>\<open>'a'..'z'\<close>, where both readings agree.
\<close>

datatype GameTextVersion = JAK1_V1 | JAK1_V2 | JAK2

record EncodeInfo =
  chars :: string
  bytes :: "char list"

record ReplaceInfo =
  from_s :: string
  to_s :: string

record GameTextFontBank =
  m_version :: GameTextVersion
  m_encode_info :: "EncodeInfo list"
  m_replace_info :: "ReplaceInfo list"
  m_passthrus :: "char set"

text \<open>
  Every \<^verbatim>\<open>throw\<close> of the source is a value of this type.  \<open>OutOfBounds\<close> stands for a read
  outside the input buffer (undefined behaviour in C++).  The other constructors are, in
  order, the exceptions with the messages "incomplete string escape code", "invalid
  character escape hex number", "invalid character escape", "unknown string escape code",
  "unknown text version", and the \<^verbatim>\<open>std::out_of_range\<close> of \<^verbatim>\<open>std::map::at\<close>.
\<close>

datatype error =
    OutOfBounds
  | IncompleteEscape
  | InvalidHexEscape
  | InvalidCharEscape
  | InvalidEscape
  | UnknownVersion
  | OutOfRange

subsection \<open>Construction: the two tables are sorted, longest pattern first\<close>

text \<open>
  \<^verbatim>\<open>std::sort(first, last, comp)\<close> yields some permutation ordered by the comparator; the order
  of elements that the comparator does not separate is unspecified.  The model fixes one such
  permutation: insertion sort that keeps equal elements in their original order.
\<close>

fun sort_insert :: "('a \<Rightarrow> 'a \<Rightarrow> bool) \<Rightarrow> 'a \<Rightarrow> 'a list \<Rightarrow> 'a list" where
  "sort_insert cmp x [] = [x]"
| "sort_insert cmp x (y # ys) =
     (if cmp y x then y # sort_insert cmp x ys else x # y # ys)"

fun std_sort :: "('a \<Rightarrow> 'a \<Rightarrow> bool) \<Rightarrow> 'a list \<Rightarrow> 'a list" where
  "std_sort cmp [] = []"
| "std_sort cmp (x # xs) = sort_insert cmp x (std_sort cmp xs)"

definition encode_comp :: "EncodeInfo \<Rightarrow> EncodeInfo \<Rightarrow> bool" where
  "encode_comp a b \<longleftrightarrow> length (bytes a) > length (bytes b)"

definition replace_comp :: "ReplaceInfo \<Rightarrow> ReplaceInfo \<Rightarrow> bool" where
  "replace_comp a b \<longleftrightarrow> length (from_s a) > length (from_s b)"

definition new_GameTextFontBank ::
  "GameTextVersion \<Rightarrow> EncodeInfo list \<Rightarrow> ReplaceInfo list \<Rightarrow> char set \<Rightarrow> GameTextFontBank" where
  "new_GameTextFontBank version encode_info replace_info passthrus =
     \<lparr> m_version = version,
       m_encode_info = std_sort encode_comp encode_info,
       m_replace_info = std_sort replace_comp replace_info,
       m_passthrus = passthrus \<rparr>"

subsection \<open>The four longest-match resolvers\<close>

text \<open>
  \<^verbatim>\<open>find_encode_to_utf8(const char* in)\<close>: the pointer \<open>in\<close> is modelled by the list of
  bytes from the pointed-to position to the end of the buffer; \<^verbatim>\<open>in[i]\<close> with \<open>i\<close> at or
  beyond the end of that list is a read outside the buffer.  The inner loop stops at the
  first mismatch, so it reads \<^verbatim>\<open>in[i]\<close> only while all earlier bytes matched.
\<close>

fun match_bytes :: "char list \<Rightarrow> char list \<Rightarrow> error + bool" where
  "match_bytes inp [] = Inr True"
| "match_bytes [] (b # bs) = Inl OutOfBounds"
| "match_bytes (c # inp) (b # bs) = (if c \<noteq> b then Inr False else match_bytes inp bs)"

fun find_encode_to_utf8_loop ::
  "EncodeInfo list \<Rightarrow> char list \<Rightarrow> EncodeInfo option \<Rightarrow> error + EncodeInfo option" where
  "find_encode_to_utf8_loop [] inp best_info = Inr best_info"
| "find_encode_to_utf8_loop (info # rest) inp best_info =
     (if length (bytes info) = 0 then find_encode_to_utf8_loop rest inp best_info
      else
        (case match_bytes inp (bytes info) of
           Inl e \<Rightarrow> Inl e
         | Inr found \<Rightarrow>
             if found \<and>
                (case best_info of
                   None \<Rightarrow> True
                 | Some b \<Rightarrow> length (chars info) > length (chars b))
             then find_encode_to_utf8_loop rest inp (Some info)
             else find_encode_to_utf8_loop rest inp best_info))"

definition find_encode_to_utf8 :: "EncodeInfo list \<Rightarrow> char list \<Rightarrow> error + EncodeInfo option" where
  "find_encode_to_utf8 encode_info inp = find_encode_to_utf8_loop encode_info inp None"

text \<open>
  \<^verbatim>\<open>find_encode_to_game(const std::string& in, int off)\<close>.  The inner loop runs while
  \<^verbatim>\<open>found && i < chars.length() && i + off < in.size()\<close>; the list argument of
  \<open>match_chars\<close> is the rest of the pattern from index \<open>i\<close> on, and \<open>pos\<close> is \<open>i + off\<close>.
  The offset is taken to be non-negative.
\<close>

fun match_chars :: "string \<Rightarrow> nat \<Rightarrow> string \<Rightarrow> bool" where
  "match_chars inp pos [] = True"
| "match_chars inp pos (c # cs) =
     (if pos < length inp
      then (if inp ! pos \<noteq> c then False else match_chars inp (pos + 1) cs)
      else True)"

fun find_encode_to_game_loop ::
  "EncodeInfo list \<Rightarrow> string \<Rightarrow> nat \<Rightarrow> EncodeInfo option \<Rightarrow> EncodeInfo option" where
  "find_encode_to_game_loop [] inp off best_info = best_info"
| "find_encode_to_game_loop (info # rest) inp off best_info =
     (if length (chars info) = 0 then find_encode_to_game_loop rest inp off best_info
      else
        if match_chars inp off (chars info) \<and>
           (case best_info of
              None \<Rightarrow> True
            | Some b \<Rightarrow> length (chars info) > length (chars b))
        then find_encode_to_game_loop rest inp off (Some info)
        else find_encode_to_game_loop rest inp off best_info)"

definition find_encode_to_game :: "EncodeInfo list \<Rightarrow> string \<Rightarrow> nat \<Rightarrow> EncodeInfo option" where
  "find_encode_to_game encode_info inp off = find_encode_to_game_loop encode_info inp off None"

text \<open>
  \<^verbatim>\<open>find_replace_to_utf8\<close> and \<^verbatim>\<open>find_replace_to_game\<close> skip a rule when
  \<^verbatim>\<open>in.size() - off < pattern.size()\<close>, a subtraction of 64-bit \<^verbatim>\<open>size_t\<close> values that
  wraps around when \<open>off\<close> exceeds the size.  Otherwise \<^verbatim>\<open>memcmp\<close> compares the pattern
  with the bytes at \<open>off\<close>; with \<open>off\<close> beyond the size it would read outside the string.
\<close>

definition size_t_sub :: "nat \<Rightarrow> nat \<Rightarrow> nat" where
  "size_t_sub a b = (if b \<le> a then a - b else 2 ^ 64 - (b - a))"

definition memcmp_eq :: "string \<Rightarrow> nat \<Rightarrow> string \<Rightarrow> error + bool" where
  "memcmp_eq inp off pat =
     (if off + length pat \<le> length inp
      then Inr (take (length pat) (drop off inp) = pat)
      else Inl OutOfBounds)"

fun find_replace_to_utf8_loop ::
  "ReplaceInfo list \<Rightarrow> string \<Rightarrow> nat \<Rightarrow> ReplaceInfo option \<Rightarrow> error + ReplaceInfo option" where
  "find_replace_to_utf8_loop [] inp off best_info = Inr best_info"
| "find_replace_to_utf8_loop (info # rest) inp off best_info =
     (if from_s info = [] \<or> size_t_sub (length inp) off < length (from_s info)
      then find_replace_to_utf8_loop rest inp off best_info
      else
        (case memcmp_eq inp off (from_s info) of
           Inl e \<Rightarrow> Inl e
         | Inr found \<Rightarrow>
             if found \<and>
                (case best_info of
                   None \<Rightarrow> True
                 | Some b \<Rightarrow> length (from_s info) > length (from_s b))
             then find_replace_to_utf8_loop rest inp off (Some info)
             else find_replace_to_utf8_loop rest inp off best_info))"

definition find_replace_to_utf8 ::
  "ReplaceInfo list \<Rightarrow> string \<Rightarrow> nat \<Rightarrow> error + ReplaceInfo option" where
  "find_replace_to_utf8 replace_info inp off = find_replace_to_utf8_loop replace_info inp off None"

fun find_replace_to_game_loop ::
  "ReplaceInfo list \<Rightarrow> string \<Rightarrow> nat \<Rightarrow> ReplaceInfo option \<Rightarrow> error + ReplaceInfo option" where
  "find_replace_to_game_loop [] inp off best_info = Inr best_info"
| "find_replace_to_game_loop (info # rest) inp off best_info =
     (if to_s info = [] \<or> size_t_sub (length inp) off < length (to_s info)
      then find_replace_to_game_loop rest inp off best_info
      else
        (case memcmp_eq inp off (to_s info) of
           Inl e \<Rightarrow> Inl e
         | Inr found \<Rightarrow>
             if found \<and>
                (case best_info of
                   None \<Rightarrow> True
                 | Some b \<Rightarrow> length (to_s info) > length (to_s b))
             then find_replace_to_game_loop rest inp off (Some info)
             else find_replace_to_game_loop rest inp off best_info))"

definition find_replace_to_game ::
  "ReplaceInfo list \<Rightarrow> string \<Rightarrow> nat \<Rightarrow> error + ReplaceInfo option" where
  "find_replace_to_game replace_info inp off = find_replace_to_game_loop replace_info inp off None"

subsection \<open>The replacement and encoding passes\<close>

text \<open>
  Each pass is the source's loop \<^verbatim>\<open>for (int i = 0; i < (int)str.length();)\<close> with the
  accumulator \<open>newstr\<close>; the result is both assigned to the argument and returned.
  String lengths are assumed to fit the \<^verbatim>\<open>int\<close> casts.
\<close>

function replace_to_utf8_loop ::
  "ReplaceInfo list \<Rightarrow> string \<Rightarrow> nat \<Rightarrow> string \<Rightarrow> error + string" where
  "replace_to_utf8_loop replace_info str i newstr =
     (if i < length str then
        (case find_replace_to_utf8 replace_info str i of
           Inl e \<Rightarrow> Inl e
         | Inr None \<Rightarrow> replace_to_utf8_loop replace_info str (i + 1) (newstr @ [str ! i])
         | Inr (Some remap) \<Rightarrow>
             replace_to_utf8_loop replace_info str (i + length (from_s remap)) (newstr @ to_s remap))
      else Inr newstr)"
  by pat_completeness auto
termination
proof (relation "measure (\<lambda>(replace_info, str, i, newstr). length str - i)")
  have nonempty: "from_s r \<noteq> []"
    if "find_replace_to_utf8_loop tbl inp off best = Inr (Some r)"
      and "\<forall>b. best = Some b \<longrightarrow> from_s b \<noteq> []"
    for tbl inp off best r
    using that
    by (induction tbl arbitrary: best) (auto split: if_splits sum.splits)
  fix replace_info :: "ReplaceInfo list" and str :: string and i :: nat and newstr :: string
    and x2 :: "ReplaceInfo option" and remap :: ReplaceInfo
  assume "i < length str" "find_replace_to_utf8 replace_info str i = Inr x2" "x2 = Some remap"
  then have "from_s remap \<noteq> []"
    using nonempty [of replace_info str i None remap] by (simp add: find_replace_to_utf8_def)
  with \<open>i < length str\<close>
  show "((replace_info, str, i + length (from_s remap), newstr @ to_s remap),
         (replace_info, str, i, newstr))
        \<in> measure (\<lambda>(replace_info, str, i, newstr). length str - i)"
    by (cases "from_s remap") auto
qed auto

definition replace_to_utf8 :: "GameTextFontBank \<Rightarrow> string \<Rightarrow> error + string" where
  "replace_to_utf8 bank str = replace_to_utf8_loop (m_replace_info bank) str 0 []"

function replace_to_game_loop ::
  "ReplaceInfo list \<Rightarrow> string \<Rightarrow> nat \<Rightarrow> string \<Rightarrow> error + string" where
  "replace_to_game_loop replace_info str i newstr =
     (if i < length str then
        (case find_replace_to_game replace_info str i of
           Inl e \<Rightarrow> Inl e
         | Inr None \<Rightarrow> replace_to_game_loop replace_info str (i + 1) (newstr @ [str ! i])
         | Inr (Some remap) \<Rightarrow>
             replace_to_game_loop replace_info str (i + length (to_s remap)) (newstr @ from_s remap))
      else Inr newstr)"
  by pat_completeness auto
termination
proof (relation "measure (\<lambda>(replace_info, str, i, newstr). length str - i)")
  have nonempty: "to_s r \<noteq> []"
    if "find_replace_to_game_loop tbl inp off best = Inr (Some r)"
      and "\<forall>b. best = Some b \<longrightarrow> to_s b \<noteq> []"
    for tbl inp off best r
    using that
    by (induction tbl arbitrary: best) (auto split: if_splits sum.splits)
  fix replace_info :: "ReplaceInfo list" and str :: string and i :: nat and newstr :: string
    and x2 :: "ReplaceInfo option" and remap :: ReplaceInfo
  assume "i < length str" "find_replace_to_game replace_info str i = Inr x2" "x2 = Some remap"
  then have "to_s remap \<noteq> []"
    using nonempty [of replace_info str i None remap] by (simp add: find_replace_to_game_def)
  with \<open>i < length str\<close>
  show "((replace_info, str, i + length (to_s remap), newstr @ from_s remap),
         (replace_info, str, i, newstr))
        \<in> measure (\<lambda>(replace_info, str, i, newstr). length str - i)"
    by (cases "to_s remap") auto
qed auto

definition replace_to_game :: "GameTextFontBank \<Rightarrow> string \<Rightarrow> error + string" where
  "replace_to_game bank str = replace_to_game_loop (m_replace_info bank) str 0 []"

function encode_utf8_to_game_loop ::
  "EncodeInfo list \<Rightarrow> string \<Rightarrow> nat \<Rightarrow> string \<Rightarrow> string" where
  "encode_utf8_to_game_loop encode_info str i newstr =
     (if i < length str then
        (case find_encode_to_game encode_info str i of
           None \<Rightarrow> encode_utf8_to_game_loop encode_info str (i + 1) (newstr @ [str ! i])
         | Some remap \<Rightarrow>
             encode_utf8_to_game_loop encode_info str (i + length (chars remap)) (newstr @ bytes remap))
      else newstr)"
  by pat_completeness auto
termination
proof (relation "measure (\<lambda>(encode_info, str, i, newstr). length str - i)")
  have nonempty: "chars r \<noteq> []"
    if "find_encode_to_game_loop tbl inp off best = Some r"
      and "\<forall>b. best = Some b \<longrightarrow> chars b \<noteq> []"
    for tbl inp off best r
    using that
    by (induction tbl arbitrary: best) (auto split: if_splits)
  fix encode_info :: "EncodeInfo list" and str :: string and i :: nat and newstr :: string
    and remap :: EncodeInfo
  assume "i < length str" "find_encode_to_game encode_info str i = Some remap"
  then have "chars remap \<noteq> []"
    using nonempty [of encode_info str i None remap] by (simp add: find_encode_to_game_def)
  with \<open>i < length str\<close>
  show "((encode_info, str, i + length (chars remap), newstr @ bytes remap),
         (encode_info, str, i, newstr))
        \<in> measure (\<lambda>(encode_info, str, i, newstr). length str - i)"
    by (cases "chars remap") auto
qed auto

definition encode_utf8_to_game :: "GameTextFontBank \<Rightarrow> string \<Rightarrow> string" where
  "encode_utf8_to_game bank str = encode_utf8_to_game_loop (m_encode_info bank) str 0 []"

subsection \<open>Forward transcoder: \<^verbatim>\<open>convert_utf8_to_game\<close>\<close>

text \<open>
  Modelled from the spec: \<^verbatim>\<open>str_util::hex_char\<close> is declared in \<^verbatim>\<open>string_util.h\<close>, which is
  not part of the source given here.  The spec calls its argument a "valid hexadecimal
  digit": a decimal digit or one of the letters a to f in either case.
\<close>

definition hex_char :: "char \<Rightarrow> bool" where
  "hex_char c \<longleftrightarrow>
     (CHR ''0'' \<le> c \<and> c \<le> CHR ''9'') \<or> (CHR ''a'' \<le> c \<and> c \<le> CHR ''f'') \<or>
     (CHR ''A'' \<le> c \<and> c \<le> CHR ''F'')"

text \<open>
  \<^verbatim>\<open>std::stoul(hex_num, &end, 16)\<close> on the two-character buffer: the value of the leading
  hexadecimal digits and the number of characters consumed.  It is only called after both
  characters passed \<open>hex_char\<close>.
\<close>

definition hex_value :: "char \<Rightarrow> nat" where
  "hex_value c =
     (if CHR ''0'' \<le> c \<and> c \<le> CHR ''9'' then of_char c - of_char CHR ''0''
      else if CHR ''a'' \<le> c \<and> c \<le> CHR ''f'' then of_char c - of_char CHR ''a'' + 10
      else of_char c - of_char CHR ''A'' + 10)"

definition stoul_hex :: "char \<Rightarrow> char \<Rightarrow> nat \<times> nat" where
  "stoul_hex first second =
     (if \<not> hex_char first then (0, 0)
      else if \<not> hex_char second then (hex_value first, 1)
      else (hex_value first * 16 + hex_value second, 2))"

text \<open>
  The escape loop \<^verbatim>\<open>for (size_t i = 0; i < str.size(); ++i)\<close>: every recursive call adds
  the \<^verbatim>\<open>++i\<close> of the loop header to what the body added to \<open>i\<close>.
\<close>

function escape_loop :: "string \<Rightarrow> nat \<Rightarrow> string \<Rightarrow> error + string" where
  "escape_loop str i newstr =
     (if i < length str then
        (let c = str ! i in
         if c = CHR 0x22 then escape_loop str (i + 1 + 1) (newstr @ [CHR 0x22])
         else if c = CHR 0x5C then
           (if i + 1 \<ge> length str then Inl IncompleteEscape
            else
              (let p = str ! (i + 1) in
               if p = CHR ''c'' then
                 (if i + 3 \<ge> length str then Inl IncompleteEscape
                  else
                    (let first = str ! (i + 2); second = str ! (i + 3) in
                     if \<not> hex_char first \<or> \<not> hex_char second then Inl InvalidHexEscape
                     else
                       (case stoul_hex first second of
                          (val, end_pos) \<Rightarrow>
                            if end_pos \<noteq> 2 then Inl InvalidCharEscape
                            else escape_loop str (i + 3 + 1) (newstr @ [char_of val]))))
               else if p = CHR 0x22 \<or> p = CHR 0x5C then escape_loop str (i + 1 + 1) (newstr @ [p])
               else Inl InvalidEscape))
         else escape_loop str (i + 1) (newstr @ [c]))
      else Inr newstr)"
  by pat_completeness auto
termination
  by (relation "measure (\<lambda>(str, i, newstr). length str - i)") auto

definition convert_utf8_to_game :: "GameTextFontBank \<Rightarrow> string \<Rightarrow> bool \<Rightarrow> error + string" where
  "convert_utf8_to_game bank str escape =
     (case (if escape then escape_loop str 0 [] else Inr str) of
        Inl e \<Rightarrow> Inl e
      | Inr newstr \<Rightarrow>
          (case replace_to_game bank newstr of
             Inl e \<Rightarrow> Inl e
           | Inr replaced \<Rightarrow> Inr (encode_utf8_to_game bank replaced)))"

subsection \<open>Validity policy: \<^verbatim>\<open>valid_char_range\<close>\<close>

definition valid_char_range :: "GameTextFontBank \<Rightarrow> char \<Rightarrow> bool" where
  "valid_char_range bank c =
     (if m_version bank = JAK1_V1 \<or> m_version bank = JAK1_V2 then
        ((CHR ''0'' \<le> c \<and> c \<le> CHR ''9'') \<or> (CHR ''A'' \<le> c \<and> c \<le> CHR ''Z'') \<or>
         c \<in> m_passthrus bank) \<and> c \<noteq> CHR 0x5C
      else if m_version bank = JAK2 then
        ((CHR ''0'' \<le> c \<and> c \<le> CHR ''9'') \<or> (CHR ''A'' \<le> c \<and> c \<le> CHR ''Z'') \<or>
         (CHR ''a'' \<le> c \<and> c \<le> CHR ''z'') \<or> c \<in> m_passthrus bank) \<and> c \<noteq> CHR 0x5C
      else False)"

subsection \<open>Reverse transcoder: \<^verbatim>\<open>convert_game_to_utf8\<close>\<close>

text \<open>
  The Korean pre-pass \<^verbatim>\<open>convert_korean_text_from_game(const char* in)\<close>.  As for
  \<open>find_encode_to_utf8\<close> the pointer is the list of bytes from its position to the end
  of the buffer, \<^verbatim>\<open>++in\<close> drops the head, and \<^verbatim>\<open>*in\<close> on the empty list is a read outside
  the buffer.  The pre-pass also extends the global \<^verbatim>\<open>seqs\<close>, a sorted vector of the 64-bit
  sequence codes seen so far (\<^verbatim>\<open>save_seq\<close> is constantly true).  A shift by 64 bits or more,
  undefined in C++, is taken to give zero.
\<close>

fun korean_ascii_run :: "char list \<Rightarrow> string \<Rightarrow> error + (char list \<times> string)" where
  "korean_ascii_run [] out = Inl OutOfBounds"
| "korean_ascii_run (c # rest) out =
     (if c \<noteq> CHR 0x00 \<and> c \<noteq> CHR 0x03 \<and> c \<noteq> CHR 0x04
      then korean_ascii_run rest (out @ [c])
      else Inr (c # rest, out))"

fun korean_glyph_run ::
  "char list \<Rightarrow> nat \<Rightarrow> 64 word \<Rightarrow> string \<Rightarrow> error + (char list \<times> 64 word \<times> string)" where
  "korean_glyph_run [] i seq out = Inl OutOfBounds"
| "korean_glyph_run (c # rest) i seq out =
     (if c \<noteq> CHR 0x00 \<and> c \<noteq> CHR 0x03 \<and> c \<noteq> CHR 0x04 then
        (if c = CHR 0x05 then
           (case rest of
              [] \<Rightarrow> Inl OutOfBounds
            | d # rest' \<Rightarrow>
                korean_glyph_run rest' (i + 1)
                  (seq OR push_bit (i * 16) (0x100 OR of_char d)) (out @ [CHR 0x01, d]))
         else
           korean_glyph_run rest (i + 1)
             (seq OR push_bit (i * 16) (0x300 OR of_char c)) (out @ [CHR 0x03, c]))
      else Inr (c # rest, seq, out))"

function convert_korean_loop ::
  "char list \<Rightarrow> string \<Rightarrow> 64 word list \<Rightarrow> error + (string \<times> 64 word list)" where
  "convert_korean_loop inp out seqs =
     (case inp of
        [] \<Rightarrow> Inl OutOfBounds
      | c # rest \<Rightarrow>
          if c = CHR 0x00 then Inr (out, seqs)
          else if c = CHR 0x03 then
            (case korean_ascii_run rest out of
               Inl e \<Rightarrow> Inl e
             | Inr (inp', out') \<Rightarrow> convert_korean_loop inp' out' seqs)
          else
            (case rest of
               [] \<Rightarrow> Inl OutOfBounds
             | len # rest' \<Rightarrow>
                 (case korean_glyph_run rest' 0 0 out of
                    Inl e \<Rightarrow> Inl e
                  | Inr (inp', seq, out') \<Rightarrow>
                      convert_korean_loop inp' out'
                        (if seq \<in> set seqs then seqs else sort (seqs @ [seq])))))"
  by pat_completeness auto
termination
proof (relation "measure (\<lambda>(inp, out, seqs). length inp)")
  have ascii: "length inp' \<le> length inp"
    if "korean_ascii_run inp out = Inr (inp', out')" for inp out inp' out'
    using that by (induction inp out rule: korean_ascii_run.induct) (auto split: if_splits)
  have glyph: "length inp' \<le> length inp"
    if "korean_glyph_run inp i seq out = Inr (inp', seq', out')" for inp i seq out inp' seq' out'
    using that
    by (induction inp i seq out rule: korean_glyph_run.induct)
       (auto split: if_splits list.splits)
  fix inp :: "char list" and out :: string and seqs :: "64 word list"
    and c :: char and rest :: "char list"
  assume inp: "inp = c # rest"
  {
    fix x2 :: "char list \<times> string" and inp' :: "char list" and out' :: string
    assume "korean_ascii_run rest out = Inr x2" "(inp', out') = x2"
    then have "length inp' \<le> length rest" using ascii [of rest out inp' out'] by simp
    with inp show "((inp', out', seqs), (inp, out, seqs)) \<in> measure (\<lambda>(inp, out, seqs). length inp)"
      by simp
  next
    fix len :: char and rest' :: "char list"
      and x2 :: "char list \<times> 64 word \<times> string" and inp' :: "char list"
      and y :: "64 word \<times> string" and seq :: "64 word" and out' :: string
    assume "rest = len # rest'" "korean_glyph_run rest' 0 0 out = Inr x2"
      "(inp', y) = x2" "(seq, out') = y"
    then have "length inp' \<le> length rest'"
      using glyph [of rest' 0 0 out inp' seq out'] by auto
    with inp \<open>rest = len # rest'\<close>
    show "((inp', out', if seq \<in> set seqs then seqs else sort (seqs @ [seq])), (inp, out, seqs))
          \<in> measure (\<lambda>(inp, out, seqs). length inp)"
      by simp
  }
qed auto

definition convert_korean_text_from_game ::
  "char list \<Rightarrow> 64 word list \<Rightarrow> error + (string \<times> 64 word list)" where
  "convert_korean_text_from_game inp seqs = convert_korean_loop inp [] seqs"

text \<open>
  The byte-decode loop \<^verbatim>\<open>while (*in)\<close>.  After a match the pointer moves by
  \<^verbatim>\<open>remap->bytes.size() - 1\<close> and then by the \<^verbatim>\<open>in++\<close> that ends every iteration.
  \<^verbatim>\<open>fmt::format("\\c{:02x}", uint8_t(*in))\<close> gives a backslash, the letter c and two
  lower-case hexadecimal digits.
\<close>

definition hex_digit :: "nat \<Rightarrow> char" where
  "hex_digit n = ''0123456789abcdef'' ! n"

definition format_c_escape :: "char \<Rightarrow> string" where
  "format_c_escape c =
     [CHR 0x5C, CHR ''c'', hex_digit ((of_char c :: nat) div 16), hex_digit ((of_char c :: nat) mod 16)]"

function decode_loop :: "GameTextFontBank \<Rightarrow> char list \<Rightarrow> string \<Rightarrow> error + string" where
  "decode_loop bank inp temp =
     (case inp of
        [] \<Rightarrow> Inl OutOfBounds
      | c # rest \<Rightarrow>
          if c = CHR 0x00 then Inr temp
          else
            (case find_encode_to_utf8 (m_encode_info bank) inp of
               Inl e \<Rightarrow> Inl e
             | Inr (Some remap) \<Rightarrow>
                 decode_loop bank (drop (length (bytes remap) - 1 + 1) inp) (temp @ chars remap)
             | Inr None \<Rightarrow>
                 if valid_char_range bank c \<or> c = CHR 0x0A \<or> c = CHR 0x09 \<or> c = CHR 0x5C \<or>
                    c = CHR 0x22
                 then decode_loop bank (drop 1 inp) (temp @ [c])
                 else decode_loop bank (drop 1 inp) (temp @ format_c_escape c)))"
  by pat_completeness auto
termination
  by (relation "measure (\<lambda>(bank, inp, temp). length inp)") auto

text \<open>Escape emission, \<^verbatim>\<open>for (size_t i = 0; i < temp.length(); ++i)\<close>.\<close>

function escape_emit_loop :: "string \<Rightarrow> nat \<Rightarrow> string \<Rightarrow> string" where
  "escape_emit_loop temp i result =
     (if i < length temp then
        (let c = temp ! i in
         if c = CHR 0x0A then escape_emit_loop temp (i + 1) (result @ [CHR 0x5C, CHR ''n''])
         else if c = CHR 0x09 then escape_emit_loop temp (i + 1) (result @ [CHR 0x5C, CHR ''t''])
         else if c = CHR 0x5C then
           (if i < length temp - 1 \<and> temp ! (i + 1) = CHR ''c''
            then escape_emit_loop temp (i + 1) (result @ [c])
            else escape_emit_loop temp (i + 1) (result @ [CHR 0x5C, CHR 0x5C]))
         else if c = CHR 0x22 then escape_emit_loop temp (i + 1) (result @ [CHR 0x5C, CHR 0x22])
         else escape_emit_loop temp (i + 1) (result @ [c]))
      else result)"
  by pat_completeness auto
termination
  by (relation "measure (\<lambda>(temp, i, result). length temp - i)") auto

text \<open>
  \<^verbatim>\<open>convert_game_to_utf8(const char* in, bool korean)\<close>.  With \<open>korean\<close> set the input is
  replaced by \<^verbatim>\<open>result.c_str()\<close>, the pre-pass output followed by its terminating zero.
  The function returns the text together with the new value of the global \<^verbatim>\<open>seqs\<close>.
\<close>

definition convert_game_to_utf8 ::
  "GameTextFontBank \<Rightarrow> 64 word list \<Rightarrow> char list \<Rightarrow> bool \<Rightarrow> error + (string \<times> 64 word list)" where
  "convert_game_to_utf8 bank seqs inp korean =
     (case (if korean
            then (case convert_korean_text_from_game inp seqs of
                    Inl e \<Rightarrow> Inl e
                  | Inr (result, seqs') \<Rightarrow> Inr (result @ [CHR 0x00], seqs'))
            else Inr (inp, seqs)) of
        Inl e \<Rightarrow> Inl e
      | Inr (inp', seqs') \<Rightarrow>
          (case decode_loop bank inp' [] of
             Inl e \<Rightarrow> Inl e
           | Inr temp \<Rightarrow>
               (case replace_to_utf8 bank temp of
                  Inl e \<Rightarrow> Inl e
                | Inr temp' \<Rightarrow>
                    (case replace_to_utf8 bank (escape_emit_loop temp' 0 []) of
                       Inl e \<Rightarrow> Inl e
                     | Inr text \<Rightarrow> Inr (text, seqs')))))"

subsection \<open>The mapping tables of the three versions\<close>

text \<open>
  The tables are the source's initialisers, entry by entry and in the source's order; each
  table is written as the concatenation of parts, of at most forty entries for an encode
  table and of at most ten entries for a replace table.
  A string literal of the source is the list of its UTF-8 bytes; bytes outside the plain
  ASCII letters, digits and punctuation are written \<open>CHR 0x..\<close>.
\<close>

definition s_encode_info_null :: "EncodeInfo list" where
  "s_encode_info_null = []"

definition s_replace_info_null :: "ReplaceInfo list" where
  "s_replace_info_null = []"

text \<open>The passthrough set of Jak 1 (both versions).\<close>

definition s_passthrus_jak1 :: "char set" where
  "s_passthrus_jak1 =
    {CHR ''~'', CHR '' '', CHR '','', CHR ''.'', CHR ''-'', CHR ''+'', CHR ''('', CHR '')'', CHR ''!'', CHR '':'', CHR ''?'', CHR ''='', CHR ''%'', CHR ''*'', CHR ''/'', CHR ''#'', CHR '';'', CHR ''<'', CHR ''>'', CHR ''@'', CHR ''['', CHR ''_''}"

text \<open>The encode table of Jak 1 (v1), 199 entries.\<close>

definition s_encode_info_jak1_part1 :: "EncodeInfo list" where
  "s_encode_info_jak1_part1 =
    [\<lparr>chars = [CHR 0xCB, CHR 0x87], bytes = [CHR 0x10]\<rparr>,
     \<lparr>chars = [CHR 0x60], bytes = [CHR 0x11]\<rparr>,
     \<lparr>chars = [CHR 0x27], bytes = [CHR 0x12]\<rparr>,
     \<lparr>chars = [CHR 0x5E], bytes = [CHR 0x13]\<rparr>,
     \<lparr>chars = ''<TIL>'', bytes = [CHR 0x14]\<rparr>,
     \<lparr>chars = [CHR 0xC2, CHR 0xA8], bytes = [CHR 0x15]\<rparr>,
     \<lparr>chars = [CHR 0xC2, CHR 0xBA], bytes = [CHR 0x16]\<rparr>,
     \<lparr>chars = [CHR 0xC2, CHR 0xA1], bytes = [CHR 0x17]\<rparr>,
     \<lparr>chars = [CHR 0xC2, CHR 0xBF], bytes = [CHR 0x18]\<rparr>,
     \<lparr>chars = [CHR 0xE6, CHR 0xB5, CHR 0xB7], bytes = [CHR 0x1A]\<rparr>,
     \<lparr>chars = [CHR 0xC3, CHR 0x86], bytes = [CHR 0x1B]\<rparr>,
     \<lparr>chars = [CHR 0xE7, CHR 0x95, CHR 0x8C], bytes = [CHR 0x1C]\<rparr>,
     \<lparr>chars = [CHR 0xC3, CHR 0x87], bytes = [CHR 0x1D]\<rparr>,
     \<lparr>chars = [CHR 0xE5, CHR 0xAD, CHR 0xA6], bytes = [CHR 0x1E]\<rparr>,
     \<lparr>chars = [CHR 0xC3, CHR 0x9F], bytes = [CHR 0x1F]\<rparr>,
     \<lparr>chars = [CHR 0xE3, CHR 0x83, CHR 0xAF], bytes = [CHR 0x24]\<rparr>,
     \<lparr>chars = [CHR 0xE3, CHR 0x83, CHR 0xB2], bytes = [CHR 0x26]\<rparr>,
     \<lparr>chars = [CHR 0xE3, CHR 0x83, CHR 0xB3], bytes = [CHR 0x27]\<rparr>,
     \<lparr>chars = [CHR 0xE5, CHR 0xB2, CHR 0xA9], bytes = [CHR 0x5C]\<rparr>,
     \<lparr>chars = [CHR 0xE6, CHR 0x97, CHR 0xA7], bytes = [CHR 0x5D]\<rparr>,
     \<lparr>chars = [CHR 0xE7, CHR 0xA9, CHR 0xBA], bytes = [CHR 0x5E]\<rparr>,
     \<lparr>chars = [CHR 0xE3, CHR 0x83, CHR 0xAE], bytes = [CHR 0x60]\<rparr>,
     \<lparr>chars = [CHR 0xE6, CHR 0x92, CHR 0x83], bytes = [CHR 0x61]\<rparr>,
     \<lparr>chars = [CHR 0xE8, CHR 0xB3, CHR 0xA2], bytes = [CHR 0x62]\<rparr>,
     \<lparr>chars = [CHR 0xE6, CHR 0xB9, CHR 0x96], bytes = [CHR 0x63]\<rparr>,
     \<lparr>chars = [CHR 0xE5, CHR 0x8F, CHR 0xA3], bytes = [CHR 0x64]\<rparr>,
     \<lparr>chars = [CHR 0xE8, CHR 0xA1, CHR 0x8C], bytes = [CHR 0x65]\<rparr>,
     \<lparr>chars = [CHR 0xE5, CHR 0x90, CHR 0x88], bytes = [CHR 0x66]\<rparr>,
     \<lparr>chars = [CHR 0xE5, CHR 0xA3, CHR 0xAB], bytes = [CHR 0x67]\<rparr>,
     \<lparr>chars = [CHR 0xE5, CHR 0xAF, CHR 0xBA], bytes = [CHR 0x68]\<rparr>,
     \<lparr>chars = [CHR 0xE5, CHR 0xB1, CHR 0xB1], bytes = [CHR 0x69]\<rparr>,
     \<lparr>chars = [CHR 0xE8, CHR 0x80, CHR 0x85], bytes = [CHR 0x6A]\<rparr>,
     \<lparr>chars = [CHR 0xE6, CHR 0x89, CHR 0x80], bytes = [CHR 0x6B]\<rparr>,
     \<lparr>chars = [CHR 0xE6, CHR 0x9B, CHR 0xB8], bytes = [CHR 0x6C]\<rparr>,
     \<lparr>chars = [CHR 0xE5, CHR 0xB0, CHR 0x8F], bytes = [CHR 0x6D]\<rparr>,
     \<lparr>chars = [CHR 0xE6, CHR 0xB2, CHR 0xBC], bytes = [CHR 0x6E]\<rparr>,
     \<lparr>chars = [CHR 0xE4, CHR 0xB8, CHR 0x8A], bytes = [CHR 0x6F]\<rparr>,
     \<lparr>chars = [CHR 0xE5, CHR 0x9F, CHR 0x8E], bytes = [CHR 0x70]\<rparr>,
     \<lparr>chars = [CHR 0xE5, CHR 0xA0, CHR 0xB4], bytes = [CHR 0x71]\<rparr>,
     \<lparr>chars = [CHR 0xE5, CHR 0x87, CHR 0xBA], bytes = [CHR 0x72]\<rparr>]"

definition s_encode_info_jak1_part2 :: "EncodeInfo list" where
  "s_encode_info_jak1_part2 =
    [\<lparr>chars = [CHR 0xE9, CHR 0x97, CHR 0x87], bytes = [CHR 0x73]\<rparr>,
     \<lparr>chars = [CHR 0xE9, CHR 0x81, CHR 0xBA], bytes = [CHR 0x74]\<rparr>,
     \<lparr>chars = [CHR 0xE9, CHR 0xBB, CHR 0x84], bytes = [CHR 0x75]\<rparr>,
     \<lparr>chars = [CHR 0xE5, CHR 0xB1, CHR 0x8B], bytes = [CHR 0x76]\<rparr>,
     \<lparr>chars = [CHR 0xE4, CHR 0xB8, CHR 0x8B], bytes = [CHR 0x77]\<rparr>,
     \<lparr>chars = [CHR 0xE5, CHR 0xAE, CHR 0xB6], bytes = [CHR 0x78]\<rparr>,
     \<lparr>chars = [CHR 0xE7, CHR 0x81, CHR 0xAB], bytes = [CHR 0x79]\<rparr>,
     \<lparr>chars = [CHR 0xE8, CHR 0x8A, CHR 0xB1], bytes = [CHR 0x7A]\<rparr>,
     \<lparr>chars = [CHR 0xE3, CHR 0x83, CHR 0xAC], bytes = [CHR 0x7B]\<rparr>,
     \<lparr>chars = [CHR 0xC5, CHR 0x92], bytes = [CHR 0x7C]\<rparr>,
     \<lparr>chars = [CHR 0xE3, CHR 0x83, CHR 0xAD], bytes = [CHR 0x7D]\<rparr>,
     \<lparr>chars = [CHR 0xE9, CHR 0x9D, CHR 0x92], bytes = [CHR 0x7F]\<rparr>,
     \<lparr>chars = [CHR 0xE3, CHR 0x83, CHR 0xBB], bytes = [CHR 0x90]\<rparr>,
     \<lparr>chars = [CHR 0xE3, CHR 0x82, CHR 0x9B], bytes = [CHR 0x91]\<rparr>,
     \<lparr>chars = [CHR 0xE3, CHR 0x82, CHR 0x9C], bytes = [CHR 0x92]\<rparr>,
     \<lparr>chars = [CHR 0xE3, CHR 0x83, CHR 0xBC], bytes = [CHR 0x93]\<rparr>,
     \<lparr>chars = [CHR 0xE3, CHR 0x80, CHR 0x8E], bytes = [CHR 0x94]\<rparr>,
     \<lparr>chars = [CHR 0xE3, CHR 0x80, CHR 0x8F], bytes = [CHR 0x95]\<rparr>,
     \<lparr>chars = [CHR 0xE3, CHR 0x81, CHR 0x81], bytes = [CHR 0x96]\<rparr>,
     \<lparr>chars = [CHR 0xE3, CHR 0x81, CHR 0x82], bytes = [CHR 0x97]\<rparr>,
     \<lparr>chars = [CHR 0xE3, CHR 0x81, CHR 0x83], bytes = [CHR 0x98]\<rparr>,
     \<lparr>chars = [CHR 0xE3, CHR 0x81, CHR 0x84], bytes = [CHR 0x99]\<rparr>,
     \<lparr>chars = [CHR 0xE3, CHR 0x81, CHR 0x85], bytes = [CHR 0x9A]\<rparr>,
     \<lparr>chars = [CHR 0xE3, CHR 0x81, CHR 0x86], bytes = [CHR 0x9B]\<rparr>,
     \<lparr>chars = [CHR 0xE3, CHR 0x81, CHR 0x87], bytes = [CHR 0x9C]\<rparr>,
     \<lparr>chars = [CHR 0xE3, CHR 0x81, CHR 0x88], bytes = [CHR 0x9D]\<rparr>,
     \<lparr>chars = [CHR 0xE3, CHR 0x81, CHR 0x89], bytes = [CHR 0x9E]\<rparr>,
     \<lparr>chars = [CHR 0xE3, CHR 0x81, CHR 0x8A], bytes = [CHR 0x9F]\<rparr>,
     \<lparr>chars = [CHR 0xE3, CHR 0x81, CHR 0x8B], bytes = [CHR 0xA0]\<rparr>,
     \<lparr>chars = [CHR 0xE3, CHR 0x81, CHR 0x8D], bytes = [CHR 0xA1]\<rparr>,
     \<lparr>chars = [CHR 0xE3, CHR 0x81, CHR 0x8F], bytes = [CHR 0xA2]\<rparr>,
     \<lparr>chars = [CHR 0xE3, CHR 0x81, CHR 0x91], bytes = [CHR 0xA3]\<rparr>,
     \<lparr>chars = [CHR 0xE3, CHR 0x81, CHR 0x93], bytes = [CHR 0xA4]\<rparr>,
     \<lparr>chars = [CHR 0xE3, CHR 0x81, CHR 0x95], bytes = [CHR 0xA5]\<rparr>,
     \<lparr>chars = [CHR 0xE3, CHR 0x81, CHR 0x97], bytes = [CHR 0xA6]\<rparr>,
     \<lparr>chars = [CHR 0xE3, CHR 0x81, CHR 0x99], bytes = [CHR 0xA7]\<rparr>,
     \<lparr>chars = [CHR 0xE3, CHR 0x81, CHR 0x9B], bytes = [CHR 0xA8]\<rparr>,
     \<lparr>chars = [CHR 0xE3, CHR 0x81, CHR 0x9D], bytes = [CHR 0xA9]\<rparr>,
     \<lparr>chars = [CHR 0xE3, CHR 0x81, CHR 0x9F], bytes = [CHR 0xAA]\<rparr>,
     \<lparr>chars = [CHR 0xE3, CHR 0x81, CHR 0xA1], bytes = [CHR 0xAB]\<rparr>]"

definition s_encode_info_jak1_part3 :: "EncodeInfo list" where
  "s_encode_info_jak1_part3 =
    [\<lparr>chars = [CHR 0xE3, CHR 0x81, CHR 0xA3], bytes = [CHR 0xAC]\<rparr>,
     \<lparr>chars = [CHR 0xE3, CHR 0x81, CHR 0xA4], bytes = [CHR 0xAD]\<rparr>,
     \<lparr>chars = [CHR 0xE3, CHR 0x81, CHR 0xA6], bytes = [CHR 0xAE]\<rparr>,
     \<lparr>chars = [CHR 0xE3, CHR 0x81, CHR 0xA8], bytes = [CHR 0xAF]\<rparr>,
     \<lparr>chars = [CHR 0xE3, CHR 0x81, CHR 0xAA], bytes = [CHR 0xB0]\<rparr>,
     \<lparr>chars = [CHR 0xE3, CHR 0x81, CHR 0xAB], bytes = [CHR 0xB1]\<rparr>,
     \<lparr>chars = [CHR 0xE3, CHR 0x81, CHR 0xAC], bytes = [CHR 0xB2]\<rparr>,
     \<lparr>chars = [CHR 0xE3, CHR 0x81, CHR 0xAD], bytes = [CHR 0xB3]\<rparr>,
     \<lparr>chars = [CHR 0xE3, CHR 0x81, CHR 0xAE], bytes = [CHR 0xB4]\<rparr>,
     \<lparr>chars = [CHR 0xE3, CHR 0x81, CHR 0xAF], bytes = [CHR 0xB5]\<rparr>,
     \<lparr>chars = [CHR 0xE3, CHR 0x81, CHR 0xB2], bytes = [CHR 0xB6]\<rparr>,
     \<lparr>chars = [CHR 0xE3, CHR 0x81, CHR 0xB5], bytes = [CHR 0xB7]\<rparr>,
     \<lparr>chars = [CHR 0xE3, CHR 0x81, CHR 0xB8], bytes = [CHR 0xB8]\<rparr>,
     \<lparr>chars = [CHR 0xE3, CHR 0x81, CHR 0xBB], bytes = [CHR 0xB9]\<rparr>,
     \<lparr>chars = [CHR 0xE3, CHR 0x81, CHR 0xBE], bytes = [CHR 0xBA]\<rparr>,
     \<lparr>chars = [CHR 0xE3, CHR 0x81, CHR 0xBF], bytes = [CHR 0xBB]\<rparr>,
     \<lparr>chars = [CHR 0xE3, CHR 0x82, CHR 0x80], bytes = [CHR 0xBC]\<rparr>,
     \<lparr>chars = [CHR 0xE3, CHR 0x82, CHR 0x81], bytes = [CHR 0xBD]\<rparr>,
     \<lparr>chars = [CHR 0xE3, CHR 0x82, CHR 0x82], bytes = [CHR 0xBE]\<rparr>,
     \<lparr>chars = [CHR 0xE3, CHR 0x82, CHR 0x83], bytes = [CHR 0xBF]\<rparr>,
     \<lparr>chars = [CHR 0xE3, CHR 0x82, CHR 0x84], bytes = [CHR 0xC0]\<rparr>,
     \<lparr>chars = [CHR 0xE3, CHR 0x82, CHR 0x85], bytes = [CHR 0xC1]\<rparr>,
     \<lparr>chars = [CHR 0xE3, CHR 0x82, CHR 0x86], bytes = [CHR 0xC2]\<rparr>,
     \<lparr>chars = [CHR 0xE3, CHR 0x82, CHR 0x87], bytes = [CHR 0xC3]\<rparr>,
     \<lparr>chars = [CHR 0xE3, CHR 0x82, CHR 0x88], bytes = [CHR 0xC4]\<rparr>,
     \<lparr>chars = [CHR 0xE3, CHR 0x82, CHR 0x89], bytes = [CHR 0xC5]\<rparr>,
     \<lparr>chars = [CHR 0xE3, CHR 0x82, CHR 0x8A], bytes = [CHR 0xC6]\<rparr>,
     \<lparr>chars = [CHR 0xE3, CHR 0x82, CHR 0x8B], bytes = [CHR 0xC7]\<rparr>,
     \<lparr>chars = [CHR 0xE3, CHR 0x82, CHR 0x8C], bytes = [CHR 0xC8]\<rparr>,
     \<lparr>chars = [CHR 0xE3, CHR 0x82, CHR 0x8D], bytes = [CHR 0xC9]\<rparr>,
     \<lparr>chars = [CHR 0xE3, CHR 0x82, CHR 0x8E], bytes = [CHR 0xCA]\<rparr>,
     \<lparr>chars = [CHR 0xE3, CHR 0x82, CHR 0x8F], bytes = [CHR 0xCB]\<rparr>,
     \<lparr>chars = [CHR 0xE3, CHR 0x82, CHR 0x92], bytes = [CHR 0xCC]\<rparr>,
     \<lparr>chars = [CHR 0xE3, CHR 0x82, CHR 0x93], bytes = [CHR 0xCD]\<rparr>,
     \<lparr>chars = [CHR 0xE3, CHR 0x82, CHR 0xA1], bytes = [CHR 0xCE]\<rparr>,
     \<lparr>chars = [CHR 0xE3, CHR 0x82, CHR 0xA2], bytes = [CHR 0xCF]\<rparr>,
     \<lparr>chars = [CHR 0xE3, CHR 0x82, CHR 0xA3], bytes = [CHR 0xD0]\<rparr>,
     \<lparr>chars = [CHR 0xE3, CHR 0x82, CHR 0xA4], bytes = [CHR 0xD1]\<rparr>,
     \<lparr>chars = [CHR 0xE3, CHR 0x82, CHR 0xA5], bytes = [CHR 0xD2]\<rparr>,
     \<lparr>chars = [CHR 0xE3, CHR 0x82, CHR 0xA6], bytes = [CHR 0xD3]\<rparr>]"

definition s_encode_info_jak1_part4 :: "EncodeInfo list" where
  "s_encode_info_jak1_part4 =
    [\<lparr>chars = [CHR 0xE3, CHR 0x82, CHR 0xA7], bytes = [CHR 0xD4]\<rparr>,
     \<lparr>chars = [CHR 0xE3, CHR 0x82, CHR 0xA8], bytes = [CHR 0xD5]\<rparr>,
     \<lparr>chars = [CHR 0xE3, CHR 0x82, CHR 0xA9], bytes = [CHR 0xD6]\<rparr>,
     \<lparr>chars = [CHR 0xE3, CHR 0x82, CHR 0xAA], bytes = [CHR 0xD7]\<rparr>,
     \<lparr>chars = [CHR 0xE3, CHR 0x82, CHR 0xAB], bytes = [CHR 0xD8]\<rparr>,
     \<lparr>chars = [CHR 0xE3, CHR 0x82, CHR 0xAD], bytes = [CHR 0xD9]\<rparr>,
     \<lparr>chars = [CHR 0xE3, CHR 0x82, CHR 0xAF], bytes = [CHR 0xDA]\<rparr>,
     \<lparr>chars = [CHR 0xE3, CHR 0x82, CHR 0xB1], bytes = [CHR 0xDB]\<rparr>,
     \<lparr>chars = [CHR 0xE3, CHR 0x82, CHR 0xB3], bytes = [CHR 0xDC]\<rparr>,
     \<lparr>chars = [CHR 0xE3, CHR 0x82, CHR 0xB5], bytes = [CHR 0xDD]\<rparr>,
     \<lparr>chars = [CHR 0xE3, CHR 0x82, CHR 0xB7], bytes = [CHR 0xDE]\<rparr>,
     \<lparr>chars = [CHR 0xE3, CHR 0x82, CHR 0xB9], bytes = [CHR 0xDF]\<rparr>,
     \<lparr>chars = [CHR 0xE3, CHR 0x82, CHR 0xBB], bytes = [CHR 0xE0]\<rparr>,
     \<lparr>chars = [CHR 0xE3, CHR 0x82, CHR 0xBD], bytes = [CHR 0xE1]\<rparr>,
     \<lparr>chars = [CHR 0xE3, CHR 0x82, CHR 0xBF], bytes = [CHR 0xE2]\<rparr>,
     \<lparr>chars = [CHR 0xE3, CHR 0x83, CHR 0x81], bytes = [CHR 0xE3]\<rparr>,
     \<lparr>chars = [CHR 0xE3, CHR 0x83, CHR 0x83], bytes = [CHR 0xE4]\<rparr>,
     \<lparr>chars = [CHR 0xE3, CHR 0x83, CHR 0x84], bytes = [CHR 0xE5]\<rparr>,
     \<lparr>chars = [CHR 0xE3, CHR 0x83, CHR 0x86], bytes = [CHR 0xE6]\<rparr>,
     \<lparr>chars = [CHR 0xE3, CHR 0x83, CHR 0x88], bytes = [CHR 0xE7]\<rparr>,
     \<lparr>chars = [CHR 0xE3, CHR 0x83, CHR 0x8A], bytes = [CHR 0xE8]\<rparr>,
     \<lparr>chars = [CHR 0xE3, CHR 0x83, CHR 0x8B], bytes = [CHR 0xE9]\<rparr>,
     \<lparr>chars = [CHR 0xE3, CHR 0x83, CHR 0x8C], bytes = [CHR 0xEA]\<rparr>,
     \<lparr>chars = [CHR 0xE3, CHR 0x83, CHR 0x8D], bytes = [CHR 0xEB]\<rparr>,
     \<lparr>chars = [CHR 0xE3, CHR 0x83, CHR 0x8E], bytes = [CHR 0xEC]\<rparr>,
     \<lparr>chars = [CHR 0xE3, CHR 0x83, CHR 0x8F], bytes = [CHR 0xED]\<rparr>,
     \<lparr>chars = [CHR 0xE3, CHR 0x83, CHR 0x92], bytes = [CHR 0xEE]\<rparr>,
     \<lparr>chars = [CHR 0xE3, CHR 0x83, CHR 0x95], bytes = [CHR 0xEF]\<rparr>,
     \<lparr>chars = [CHR 0xE3, CHR 0x83, CHR 0x98], bytes = [CHR 0xF0]\<rparr>,
     \<lparr>chars = [CHR 0xE3, CHR 0x83, CHR 0x9B], bytes = [CHR 0xF1]\<rparr>,
     \<lparr>chars = [CHR 0xE3, CHR 0x83, CHR 0x9E], bytes = [CHR 0xF2]\<rparr>,
     \<lparr>chars = [CHR 0xE3, CHR 0x83, CHR 0x9F], bytes = [CHR 0xF3]\<rparr>,
     \<lparr>chars = [CHR 0xE3, CHR 0x83, CHR 0xA0], bytes = [CHR 0xF4]\<rparr>,
     \<lparr>chars = [CHR 0xE3, CHR 0x83, CHR 0xA1], bytes = [CHR 0xF5]\<rparr>,
     \<lparr>chars = [CHR 0xE3, CHR 0x83, CHR 0xA2], bytes = [CHR 0xF6]\<rparr>,
     \<lparr>chars = [CHR 0xE3, CHR 0x83, CHR 0xA3], bytes = [CHR 0xF7]\<rparr>,
     \<lparr>chars = [CHR 0xE3, CHR 0x83, CHR 0xA4], bytes = [CHR 0xF8]\<rparr>,
     \<lparr>chars = [CHR 0xE3, CHR 0x83, CHR 0xA5], bytes = [CHR 0xF9]\<rparr>,
     \<lparr>chars = [CHR 0xE3, CHR 0x83, CHR 0xA6], bytes = [CHR 0xFA]\<rparr>,
     \<lparr>chars = [CHR 0xE3, CHR 0x83, CHR 0xA7], bytes = [CHR 0xFB]\<rparr>]"

definition s_encode_info_jak1_part5 :: "EncodeInfo list" where
  "s_encode_info_jak1_part5 =
    [\<lparr>chars = [CHR 0xE3, CHR 0x83, CHR 0xA8], bytes = [CHR 0xFC]\<rparr>,
     \<lparr>chars = [CHR 0xE3, CHR 0x83, CHR 0xA9], bytes = [CHR 0xFD]\<rparr>,
     \<lparr>chars = [CHR 0xE3, CHR 0x83, CHR 0xAA], bytes = [CHR 0xFE]\<rparr>,
     \<lparr>chars = [CHR 0xE3, CHR 0x83, CHR 0xAB], bytes = [CHR 0xFF]\<rparr>,
     \<lparr>chars = [CHR 0xE5, CHR 0xAE, CHR 0x9D], bytes = [CHR 0x01, CHR 0x01]\<rparr>,
     \<lparr>chars = [CHR 0xE7, CHR 0x9F, CHR 0xB3], bytes = [CHR 0x01, CHR 0x10]\<rparr>,
     \<lparr>chars = [CHR 0xE8, CHR 0xB5, CHR 0xA4], bytes = [CHR 0x01, CHR 0x11]\<rparr>,
     \<lparr>chars = [CHR 0xE8, CHR 0xB7, CHR 0xA1], bytes = [CHR 0x01, CHR 0x12]\<rparr>,
     \<lparr>chars = [CHR 0xE5, CHR 0xB7, CHR 0x9D], bytes = [CHR 0x01, CHR 0x13]\<rparr>,
     \<lparr>chars = [CHR 0xE6, CHR 0x88, CHR 0xA6], bytes = [CHR 0x01, CHR 0x14]\<rparr>,
     \<lparr>chars = [CHR 0xE6, CHR 0x9D, CHR 0x91], bytes = [CHR 0x01, CHR 0x15]\<rparr>,
     \<lparr>chars = [CHR 0xE9, CHR 0x9A, CHR 0x8A], bytes = [CHR 0x01, CHR 0x16]\<rparr>,
     \<lparr>chars = [CHR 0xE5, CHR 0x8F, CHR 0xB0], bytes = [CHR 0x01, CHR 0x17]\<rparr>,
     \<lparr>chars = [CHR 0xE9, CHR 0x95, CHR 0xB7], bytes = [CHR 0x01, CHR 0x18]\<rparr>,
     \<lparr>chars = [CHR 0xE9, CHR 0xB3, CHR 0xA5], bytes = [CHR 0x01, CHR 0x19]\<rparr>,
     \<lparr>chars = [CHR 0xE8, CHR 0x89, CHR 0x87], bytes = [CHR 0x01, CHR 0x1A]\<rparr>,
     \<lparr>chars = [CHR 0xE6, CHR 0xB4, CHR 0x9E], bytes = [CHR 0x01, CHR 0x1B]\<rparr>,
     \<lparr>chars = [CHR 0xE9, CHR 0x81, CHR 0x93], bytes = [CHR 0x01, CHR 0x1C]\<rparr>,
     \<lparr>chars = [CHR 0xE7, CHR 0x99, CHR 0xBA], bytes = [CHR 0x01, CHR 0x1D]\<rparr>,
     \<lparr>chars = [CHR 0xE9, CHR 0xA3, CHR 0x9B], bytes = [CHR 0x01, CHR 0x1E]\<rparr>,
     \<lparr>chars = [CHR 0xE5, CHR 0x99, CHR 0xB4], bytes = [CHR 0x01, CHR 0x1F]\<rparr>,
     \<lparr>chars = [CHR 0xE6, CHR 0xB1, CHR 0xA0], bytes = [CHR 0x01, CHR 0xA0]\<rparr>,
     \<lparr>chars = [CHR 0xE4, CHR 0xB8, CHR 0xAD], bytes = [CHR 0x01, CHR 0xA1]\<rparr>,
     \<lparr>chars = [CHR 0xE5, CHR 0xA1, CHR 0x94], bytes = [CHR 0x01, CHR 0xA2]\<rparr>,
     \<lparr>chars = [CHR 0xE5, CHR 0xB3, CHR 0xB6], bytes = [CHR 0x01, CHR 0xA3]\<rparr>,
     \<lparr>chars = [CHR 0xE9, CHR 0x83, CHR 0xA8], bytes = [CHR 0x01, CHR 0xA4]\<rparr>,
     \<lparr>chars = [CHR 0xE7, CHR 0xA0, CHR 0xB2], bytes = [CHR 0x01, CHR 0xA5]\<rparr>,
     \<lparr>chars = [CHR 0xE7, CHR 0x94, CHR 0xA3], bytes = [CHR 0x01, CHR 0xA6]\<rparr>,
     \<lparr>chars = [CHR 0xE7, CHR 0x9C, CHR 0xB7], bytes = [CHR 0x01, CHR 0xA7]\<rparr>,
     \<lparr>chars = [CHR 0xE5, CHR 0x8A, CHR 0x9B], bytes = [CHR 0x01, CHR 0xA8]\<rparr>,
     \<lparr>chars = [CHR 0xE7, CHR 0xB7, CHR 0x91], bytes = [CHR 0x01, CHR 0xA9]\<rparr>,
     \<lparr>chars = [CHR 0xE5, CHR 0xB2, CHR 0xB8], bytes = [CHR 0x01, CHR 0xAA]\<rparr>,
     \<lparr>chars = [CHR 0xE5, CHR 0x83, CHR 0x8F], bytes = [CHR 0x01, CHR 0xAB]\<rparr>,
     \<lparr>chars = [CHR 0xE8, CHR 0xB0, CHR 0xB7], bytes = [CHR 0x01, CHR 0xAC]\<rparr>,
     \<lparr>chars = [CHR 0xE5, CHR 0xBF, CHR 0x83], bytes = [CHR 0x01, CHR 0xAD]\<rparr>,
     \<lparr>chars = [CHR 0xE6, CHR 0xA3, CHR 0xAE], bytes = [CHR 0x01, CHR 0xAE]\<rparr>,
     \<lparr>chars = [CHR 0xE6, CHR 0xB0, CHR 0xB4], bytes = [CHR 0x01, CHR 0xAF]\<rparr>,
     \<lparr>chars = [CHR 0xE8, CHR 0x88, CHR 0xB9], bytes = [CHR 0x01, CHR 0xB0]\<rparr>,
     \<lparr>chars = [CHR 0xE2, CHR 0x84, CHR 0xA2], bytes = [CHR 0x01, CHR 0xB1]\<rparr>]"

definition s_encode_info_jak1 :: "EncodeInfo list" where
  "s_encode_info_jak1 =
     s_encode_info_jak1_part1 @
     s_encode_info_jak1_part2 @
     s_encode_info_jak1_part3 @
     s_encode_info_jak1_part4 @
     s_encode_info_jak1_part5"

text \<open>The replace table of Jak 1 (both versions), 95 entries.\<close>

definition s_replace_info_jak1_part1 :: "ReplaceInfo list" where
  "s_replace_info_jak1_part1 =
    [\<lparr>from_s = ''A~Y~-21H~-5V'' @ [CHR 0xC2, CHR 0xBA] @ ''~Z'',
      to_s = [CHR 0xC3, CHR 0x85]\<rparr>,
     \<lparr>from_s = ''N~Y~-6H'' @ [CHR 0xC2, CHR 0xBA] @ ''~Z~+10H'',
      to_s = ''N'' @ [CHR 0xC2, CHR 0xBA]\<rparr>,
     \<lparr>from_s = ''O~Y~-16H~-1V/~Z'',
      to_s = [CHR 0xC3, CHR 0x98]\<rparr>,
     \<lparr>from_s = ''A~Y~-6H~+3V,~Z'',
      to_s = [CHR 0xC4, CHR 0x84]\<rparr>,
     \<lparr>from_s = ''E~Y~-6H~+2V,~Z'',
      to_s = [CHR 0xC4, CHR 0x98]\<rparr>,
     \<lparr>from_s = ''L~Y~-16H~+0V/~Z'',
      to_s = [CHR 0xC5, CHR 0x81]\<rparr>,
     \<lparr>from_s = ''Z~Y~-21H~-5V'' @ [CHR 0xC2, CHR 0xBA] @ ''~Z'',
      to_s = [CHR 0xC5, CHR 0xBB]\<rparr>,
     \<lparr>from_s = ''N~Y~-22H~-4V<TIL>~Z'',
      to_s = [CHR 0xC3, CHR 0x91]\<rparr>,
     \<lparr>from_s = ''A~Y~-21H~-5V<TIL>~Z'',
      to_s = [CHR 0xC3, CHR 0x83]\<rparr>,
     \<lparr>from_s = ''O~Y~-22H~-4V<TIL>~Z'',
      to_s = [CHR 0xC3, CHR 0x95]\<rparr>]"

definition s_replace_info_jak1_part2 :: "ReplaceInfo list" where
  "s_replace_info_jak1_part2 =
    [\<lparr>from_s = ''A~Y~-21H~-5V'' @ [CHR 0x27] @ ''~Z'',
      to_s = [CHR 0xC3, CHR 0x81]\<rparr>,
     \<lparr>from_s = ''E~Y~-22H~-5V'' @ [CHR 0x27] @ ''~Z'',
      to_s = [CHR 0xC3, CHR 0x89]\<rparr>,
     \<lparr>from_s = ''I~Y~-19H~-5V'' @ [CHR 0x27] @ ''~Z'',
      to_s = [CHR 0xC3, CHR 0x8D]\<rparr>,
     \<lparr>from_s = ''O~Y~-22H~-4V'' @ [CHR 0x27] @ ''~Z'',
      to_s = [CHR 0xC3, CHR 0x93]\<rparr>,
     \<lparr>from_s = ''U~Y~-24H~-3V'' @ [CHR 0x27] @ ''~Z'',
      to_s = [CHR 0xC3, CHR 0x9A]\<rparr>,
     \<lparr>from_s = ''C~Y~-21H~-5V'' @ [CHR 0x27] @ ''~Z'',
      to_s = [CHR 0xC4, CHR 0x86]\<rparr>,
     \<lparr>from_s = ''N~Y~-21H~-5V'' @ [CHR 0x27] @ ''~Z'',
      to_s = [CHR 0xC5, CHR 0x83]\<rparr>,
     \<lparr>from_s = ''S~Y~-21H~-5V'' @ [CHR 0x27] @ ''~Z'',
      to_s = [CHR 0xC5, CHR 0x9A]\<rparr>,
     \<lparr>from_s = ''Z~Y~-21H~-5V'' @ [CHR 0x27] @ ''~Z'',
      to_s = [CHR 0xC5, CHR 0xB9]\<rparr>,
     \<lparr>from_s = ''O~Y~-28H~-4V'' @ [CHR 0x27] @ ''~-9H'' @ [CHR 0x27] @ ''~Z'',
      to_s = [CHR 0xC5, CHR 0x90]\<rparr>]"

definition s_replace_info_jak1_part3 :: "ReplaceInfo list" where
  "s_replace_info_jak1_part3 =
    [\<lparr>from_s = ''U~Y~-27H~-4V'' @ [CHR 0x27] @ ''~-12H'' @ [CHR 0x27] @ ''~Z'',
      to_s = [CHR 0xC5, CHR 0xB0]\<rparr>,
     \<lparr>from_s = ''A~Y~-20H~-4V'' @ [CHR 0x5E] @ ''~Z'',
      to_s = [CHR 0xC3, CHR 0x82]\<rparr>,
     \<lparr>from_s = ''E~Y~-20H~-5V'' @ [CHR 0x5E] @ ''~Z'',
      to_s = [CHR 0xC3, CHR 0x8A]\<rparr>,
     \<lparr>from_s = ''I~Y~-19H~-5V'' @ [CHR 0x5E] @ ''~Z'',
      to_s = [CHR 0xC3, CHR 0x8E]\<rparr>,
     \<lparr>from_s = ''O~Y~-20H~-4V'' @ [CHR 0x5E] @ ''~Z'',
      to_s = [CHR 0xC3, CHR 0x94]\<rparr>,
     \<lparr>from_s = ''U~Y~-24H~-3V'' @ [CHR 0x5E] @ ''~Z'',
      to_s = [CHR 0xC3, CHR 0x9B]\<rparr>,
     \<lparr>from_s = ''A~Y~-21H~-5V'' @ [CHR 0x60] @ ''~Z'',
      to_s = [CHR 0xC3, CHR 0x80]\<rparr>,
     \<lparr>from_s = ''E~Y~-22H~-5V'' @ [CHR 0x60] @ ''~Z'',
      to_s = [CHR 0xC3, CHR 0x88]\<rparr>,
     \<lparr>from_s = ''I~Y~-19H~-5V'' @ [CHR 0x60] @ ''~Z'',
      to_s = [CHR 0xC3, CHR 0x8C]\<rparr>,
     \<lparr>from_s = ''O~Y~-22H~-4V'' @ [CHR 0x60] @ ''~Z'',
      to_s = [CHR 0xC3, CHR 0x92]\<rparr>]"

definition s_replace_info_jak1_part4 :: "ReplaceInfo list" where
  "s_replace_info_jak1_part4 =
    [\<lparr>from_s = ''U~Y~-24H~-3V'' @ [CHR 0x60] @ ''~Z'',
      to_s = [CHR 0xC3, CHR 0x99]\<rparr>,
     \<lparr>from_s = ''A~Y~-21H~-5V'' @ [CHR 0xC2, CHR 0xA8] @ ''~Z'',
      to_s = [CHR 0xC3, CHR 0x84]\<rparr>,
     \<lparr>from_s = ''E~Y~-20H~-5V'' @ [CHR 0xC2, CHR 0xA8] @ ''~Z'',
      to_s = [CHR 0xC3, CHR 0x8B]\<rparr>,
     \<lparr>from_s = ''I~Y~-19H~-5V'' @ [CHR 0xC2, CHR 0xA8] @ ''~Z'',
      to_s = [CHR 0xC3, CHR 0x8F]\<rparr>,
     \<lparr>from_s = ''O~Y~-22H~-4V'' @ [CHR 0xC2, CHR 0xA8] @ ''~Z'',
      to_s = [CHR 0xC3, CHR 0x96]\<rparr>,
     \<lparr>from_s = ''O~Y~-22H~-3V'' @ [CHR 0xC2, CHR 0xA8] @ ''~Z'',
      to_s = [CHR 0xC3, CHR 0xB6]\<rparr>,
     \<lparr>from_s = ''U~Y~-22H~-3V'' @ [CHR 0xC2, CHR 0xA8] @ ''~Z'',
      to_s = [CHR 0xC3, CHR 0x9C]\<rparr>,
     \<lparr>from_s = ''~Y'' @ [CHR 0xE3, CHR 0x82, CHR 0xA6] @ ''~Z'' @ [CHR 0xE3, CHR 0x82, CHR 0x9B],
      to_s = [CHR 0xE3, CHR 0x83, CHR 0xB4]\<rparr>,
     \<lparr>from_s = ''~Y'' @ [CHR 0xE3, CHR 0x82, CHR 0xAB] @ ''~Z'' @ [CHR 0xE3, CHR 0x82, CHR 0x9B],
      to_s = [CHR 0xE3, CHR 0x82, CHR 0xAC]\<rparr>,
     \<lparr>from_s = ''~Y'' @ [CHR 0xE3, CHR 0x82, CHR 0xAD] @ ''~Z'' @ [CHR 0xE3, CHR 0x82, CHR 0x9B],
      to_s = [CHR 0xE3, CHR 0x82, CHR 0xAE]\<rparr>]"

definition s_replace_info_jak1_part5 :: "ReplaceInfo list" where
  "s_replace_info_jak1_part5 =
    [\<lparr>from_s = ''~Y'' @ [CHR 0xE3, CHR 0x82, CHR 0xAF] @ ''~Z'' @ [CHR 0xE3, CHR 0x82, CHR 0x9B],
      to_s = [CHR 0xE3, CHR 0x82, CHR 0xB0]\<rparr>,
     \<lparr>from_s = ''~Y'' @ [CHR 0xE3, CHR 0x82, CHR 0xB1] @ ''~Z'' @ [CHR 0xE3, CHR 0x82, CHR 0x9B],
      to_s = [CHR 0xE3, CHR 0x82, CHR 0xB2]\<rparr>,
     \<lparr>from_s = ''~Y'' @ [CHR 0xE3, CHR 0x82, CHR 0xB3] @ ''~Z'' @ [CHR 0xE3, CHR 0x82, CHR 0x9B],
      to_s = [CHR 0xE3, CHR 0x82, CHR 0xB4]\<rparr>,
     \<lparr>from_s = ''~Y'' @ [CHR 0xE3, CHR 0x82, CHR 0xB5] @ ''~Z'' @ [CHR 0xE3, CHR 0x82, CHR 0x9B],
      to_s = [CHR 0xE3, CHR 0x82, CHR 0xB6]\<rparr>,
     \<lparr>from_s = ''~Y'' @ [CHR 0xE3, CHR 0x82, CHR 0xB7] @ ''~Z'' @ [CHR 0xE3, CHR 0x82, CHR 0x9B],
      to_s = [CHR 0xE3, CHR 0x82, CHR 0xB8]\<rparr>,
     \<lparr>from_s = ''~Y'' @ [CHR 0xE3, CHR 0x82, CHR 0xB9] @ ''~Z'' @ [CHR 0xE3, CHR 0x82, CHR 0x9B],
      to_s = [CHR 0xE3, CHR 0x82, CHR 0xBA]\<rparr>,
     \<lparr>from_s = ''~Y'' @ [CHR 0xE3, CHR 0x82, CHR 0xBB] @ ''~Z'' @ [CHR 0xE3, CHR 0x82, CHR 0x9B],
      to_s = [CHR 0xE3, CHR 0x82, CHR 0xBC]\<rparr>,
     \<lparr>from_s = ''~Y'' @ [CHR 0xE3, CHR 0x82, CHR 0xBD] @ ''~Z'' @ [CHR 0xE3, CHR 0x82, CHR 0x9B],
      to_s = [CHR 0xE3, CHR 0x82, CHR 0xBE]\<rparr>,
     \<lparr>from_s = ''~Y'' @ [CHR 0xE3, CHR 0x82, CHR 0xBF] @ ''~Z'' @ [CHR 0xE3, CHR 0x82, CHR 0x9B],
      to_s = [CHR 0xE3, CHR 0x83, CHR 0x80]\<rparr>,
     \<lparr>from_s = ''~Y'' @ [CHR 0xE3, CHR 0x83, CHR 0x81] @ ''~Z'' @ [CHR 0xE3, CHR 0x82, CHR 0x9B],
      to_s = [CHR 0xE3, CHR 0x83, CHR 0x82]\<rparr>]"

definition s_replace_info_jak1_part6 :: "ReplaceInfo list" where
  "s_replace_info_jak1_part6 =
    [\<lparr>from_s = ''~Y'' @ [CHR 0xE3, CHR 0x83, CHR 0x84] @ ''~Z'' @ [CHR 0xE3, CHR 0x82, CHR 0x9B],
      to_s = [CHR 0xE3, CHR 0x83, CHR 0x85]\<rparr>,
     \<lparr>from_s = ''~Y'' @ [CHR 0xE3, CHR 0x83, CHR 0x86] @ ''~Z'' @ [CHR 0xE3, CHR 0x82, CHR 0x9B],
      to_s = [CHR 0xE3, CHR 0x83, CHR 0x87]\<rparr>,
     \<lparr>from_s = ''~Y'' @ [CHR 0xE3, CHR 0x83, CHR 0x88] @ ''~Z'' @ [CHR 0xE3, CHR 0x82, CHR 0x9B],
      to_s = [CHR 0xE3, CHR 0x83, CHR 0x89]\<rparr>,
     \<lparr>from_s = ''~Y'' @ [CHR 0xE3, CHR 0x83, CHR 0x8F] @ ''~Z'' @ [CHR 0xE3, CHR 0x82, CHR 0x9B],
      to_s = [CHR 0xE3, CHR 0x83, CHR 0x90]\<rparr>,
     \<lparr>from_s = ''~Y'' @ [CHR 0xE3, CHR 0x83, CHR 0x92] @ ''~Z'' @ [CHR 0xE3, CHR 0x82, CHR 0x9B],
      to_s = [CHR 0xE3, CHR 0x83, CHR 0x93]\<rparr>,
     \<lparr>from_s = ''~Y'' @ [CHR 0xE3, CHR 0x83, CHR 0x95] @ ''~Z'' @ [CHR 0xE3, CHR 0x82, CHR 0x9B],
      to_s = [CHR 0xE3, CHR 0x83, CHR 0x96]\<rparr>,
     \<lparr>from_s = ''~Y'' @ [CHR 0xE3, CHR 0x83, CHR 0x98] @ ''~Z'' @ [CHR 0xE3, CHR 0x82, CHR 0x9B],
      to_s = [CHR 0xE3, CHR 0x83, CHR 0x99]\<rparr>,
     \<lparr>from_s = ''~Y'' @ [CHR 0xE3, CHR 0x83, CHR 0x9B] @ ''~Z'' @ [CHR 0xE3, CHR 0x82, CHR 0x9B],
      to_s = [CHR 0xE3, CHR 0x83, CHR 0x9C]\<rparr>,
     \<lparr>from_s = ''~Y'' @ [CHR 0xE3, CHR 0x83, CHR 0x8F] @ ''~Z'' @ [CHR 0xE3, CHR 0x82, CHR 0x9C],
      to_s = [CHR 0xE3, CHR 0x83, CHR 0x91]\<rparr>,
     \<lparr>from_s = ''~Y'' @ [CHR 0xE3, CHR 0x83, CHR 0x92] @ ''~Z'' @ [CHR 0xE3, CHR 0x82, CHR 0x9C],
      to_s = [CHR 0xE3, CHR 0x83, CHR 0x94]\<rparr>]"

definition s_replace_info_jak1_part7 :: "ReplaceInfo list" where
  "s_replace_info_jak1_part7 =
    [\<lparr>from_s = ''~Y'' @ [CHR 0xE3, CHR 0x83, CHR 0x95] @ ''~Z'' @ [CHR 0xE3, CHR 0x82, CHR 0x9C],
      to_s = [CHR 0xE3, CHR 0x83, CHR 0x97]\<rparr>,
     \<lparr>from_s = ''~Y'' @ [CHR 0xE3, CHR 0x83, CHR 0x98] @ ''~Z'' @ [CHR 0xE3, CHR 0x82, CHR 0x9C],
      to_s = [CHR 0xE3, CHR 0x83, CHR 0x9A]\<rparr>,
     \<lparr>from_s = ''~Y'' @ [CHR 0xE3, CHR 0x83, CHR 0x9B] @ ''~Z'' @ [CHR 0xE3, CHR 0x82, CHR 0x9C],
      to_s = [CHR 0xE3, CHR 0x83, CHR 0x9D]\<rparr>,
     \<lparr>from_s = ''~Y'' @ [CHR 0xE3, CHR 0x81, CHR 0x8B] @ ''~Z'' @ [CHR 0xE3, CHR 0x82, CHR 0x9B],
      to_s = [CHR 0xE3, CHR 0x81, CHR 0x8C]\<rparr>,
     \<lparr>from_s = ''~Y'' @ [CHR 0xE3, CHR 0x81, CHR 0x8D] @ ''~Z'' @ [CHR 0xE3, CHR 0x82, CHR 0x9B],
      to_s = [CHR 0xE3, CHR 0x81, CHR 0x8E]\<rparr>,
     \<lparr>from_s = ''~Y'' @ [CHR 0xE3, CHR 0x81, CHR 0x8F] @ ''~Z'' @ [CHR 0xE3, CHR 0x82, CHR 0x9B],
      to_s = [CHR 0xE3, CHR 0x81, CHR 0x90]\<rparr>,
     \<lparr>from_s = ''~Y'' @ [CHR 0xE3, CHR 0x81, CHR 0x91] @ ''~Z'' @ [CHR 0xE3, CHR 0x82, CHR 0x9B],
      to_s = [CHR 0xE3, CHR 0x81, CHR 0x92]\<rparr>,
     \<lparr>from_s = ''~Y'' @ [CHR 0xE3, CHR 0x81, CHR 0x93] @ ''~Z'' @ [CHR 0xE3, CHR 0x82, CHR 0x9B],
      to_s = [CHR 0xE3, CHR 0x81, CHR 0x94]\<rparr>,
     \<lparr>from_s = ''~Y'' @ [CHR 0xE3, CHR 0x81, CHR 0x95] @ ''~Z'' @ [CHR 0xE3, CHR 0x82, CHR 0x9B],
      to_s = [CHR 0xE3, CHR 0x81, CHR 0x96]\<rparr>,
     \<lparr>from_s = ''~Y'' @ [CHR 0xE3, CHR 0x81, CHR 0x97] @ ''~Z'' @ [CHR 0xE3, CHR 0x82, CHR 0x9B],
      to_s = [CHR 0xE3, CHR 0x81, CHR 0x98]\<rparr>]"

definition s_replace_info_jak1_part8 :: "ReplaceInfo list" where
  "s_replace_info_jak1_part8 =
    [\<lparr>from_s = ''~Y'' @ [CHR 0xE3, CHR 0x81, CHR 0x99] @ ''~Z'' @ [CHR 0xE3, CHR 0x82, CHR 0x9B],
      to_s = [CHR 0xE3, CHR 0x81, CHR 0x9A]\<rparr>,
     \<lparr>from_s = ''~Y'' @ [CHR 0xE3, CHR 0x81, CHR 0x9B] @ ''~Z'' @ [CHR 0xE3, CHR 0x82, CHR 0x9B],
      to_s = [CHR 0xE3, CHR 0x81, CHR 0x9C]\<rparr>,
     \<lparr>from_s = ''~Y'' @ [CHR 0xE3, CHR 0x81, CHR 0x9D] @ ''~Z'' @ [CHR 0xE3, CHR 0x82, CHR 0x9B],
      to_s = [CHR 0xE3, CHR 0x81, CHR 0x9E]\<rparr>,
     \<lparr>from_s = ''~Y'' @ [CHR 0xE3, CHR 0x81, CHR 0x9F] @ ''~Z'' @ [CHR 0xE3, CHR 0x82, CHR 0x9B],
      to_s = [CHR 0xE3, CHR 0x81, CHR 0xA0]\<rparr>,
     \<lparr>from_s = ''~Y'' @ [CHR 0xE3, CHR 0x81, CHR 0xA1] @ ''~Z'' @ [CHR 0xE3, CHR 0x82, CHR 0x9B],
      to_s = [CHR 0xE3, CHR 0x81, CHR 0xA2]\<rparr>,
     \<lparr>from_s = ''~Y'' @ [CHR 0xE3, CHR 0x81, CHR 0xA4] @ ''~Z'' @ [CHR 0xE3, CHR 0x82, CHR 0x9B],
      to_s = [CHR 0xE3, CHR 0x81, CHR 0xA5]\<rparr>,
     \<lparr>from_s = ''~Y'' @ [CHR 0xE3, CHR 0x81, CHR 0xA6] @ ''~Z'' @ [CHR 0xE3, CHR 0x82, CHR 0x9B],
      to_s = [CHR 0xE3, CHR 0x81, CHR 0xA7]\<rparr>,
     \<lparr>from_s = ''~Y'' @ [CHR 0xE3, CHR 0x81, CHR 0xA8] @ ''~Z'' @ [CHR 0xE3, CHR 0x82, CHR 0x9B],
      to_s = [CHR 0xE3, CHR 0x81, CHR 0xA9]\<rparr>,
     \<lparr>from_s = ''~Y'' @ [CHR 0xE3, CHR 0x81, CHR 0xAF] @ ''~Z'' @ [CHR 0xE3, CHR 0x82, CHR 0x9B],
      to_s = [CHR 0xE3, CHR 0x81, CHR 0xB0]\<rparr>,
     \<lparr>from_s = ''~Y'' @ [CHR 0xE3, CHR 0x81, CHR 0xB2] @ ''~Z'' @ [CHR 0xE3, CHR 0x82, CHR 0x9B],
      to_s = [CHR 0xE3, CHR 0x81, CHR 0xB3]\<rparr>]"

definition s_replace_info_jak1_part9 :: "ReplaceInfo list" where
  "s_replace_info_jak1_part9 =
    [\<lparr>from_s = ''~Y'' @ [CHR 0xE3, CHR 0x81, CHR 0xB5] @ ''~Z'' @ [CHR 0xE3, CHR 0x82, CHR 0x9B],
      to_s = [CHR 0xE3, CHR 0x81, CHR 0xB6]\<rparr>,
     \<lparr>from_s = ''~Y'' @ [CHR 0xE3, CHR 0x81, CHR 0xB8] @ ''~Z'' @ [CHR 0xE3, CHR 0x82, CHR 0x9B],
      to_s = [CHR 0xE3, CHR 0x81, CHR 0xB9]\<rparr>,
     \<lparr>from_s = ''~Y'' @ [CHR 0xE3, CHR 0x81, CHR 0xBB] @ ''~Z'' @ [CHR 0xE3, CHR 0x82, CHR 0x9B],
      to_s = [CHR 0xE3, CHR 0x81, CHR 0xBC]\<rparr>,
     \<lparr>from_s = ''~Y'' @ [CHR 0xE3, CHR 0x81, CHR 0xAF] @ ''~Z'' @ [CHR 0xE3, CHR 0x82, CHR 0x9C],
      to_s = [CHR 0xE3, CHR 0x81, CHR 0xB1]\<rparr>,
     \<lparr>from_s = ''~Y'' @ [CHR 0xE3, CHR 0x81, CHR 0xB2] @ ''~Z'' @ [CHR 0xE3, CHR 0x82, CHR 0x9C],
      to_s = [CHR 0xE3, CHR 0x81, CHR 0xB4]\<rparr>,
     \<lparr>from_s = ''~Y'' @ [CHR 0xE3, CHR 0x81, CHR 0xB5] @ ''~Z'' @ [CHR 0xE3, CHR 0x82, CHR 0x9C],
      to_s = [CHR 0xE3, CHR 0x81, CHR 0xB7]\<rparr>,
     \<lparr>from_s = ''~Y'' @ [CHR 0xE3, CHR 0x81, CHR 0xB8] @ ''~Z'' @ [CHR 0xE3, CHR 0x82, CHR 0x9C],
      to_s = [CHR 0xE3, CHR 0x81, CHR 0xBA]\<rparr>,
     \<lparr>from_s = ''~Y'' @ [CHR 0xE3, CHR 0x81, CHR 0xBB] @ ''~Z'' @ [CHR 0xE3, CHR 0x82, CHR 0x9C],
      to_s = [CHR 0xE3, CHR 0x81, CHR 0xBD]\<rparr>,
     \<lparr>from_s = '',~+8H'',
      to_s = [CHR 0xE3, CHR 0x80, CHR 0x81]\<rparr>,
     \<lparr>from_s = ''~+8H '',
      to_s = [CHR 0xE3, CHR 0x80, CHR 0x80]\<rparr>]"

definition s_replace_info_jak1_part10 :: "ReplaceInfo list" where
  "s_replace_info_jak1_part10 =
    [\<lparr>from_s = ''~~'',
      to_s = [CHR 0xE4, CHR 0xB8, CHR 0x96]\<rparr>,
     \<lparr>from_s = ''~Y~22L<~Z~Y~27L*~Z~Y~1L>~Z~Y~23L[~Z~+26H'',
      to_s = ''<PAD_X>''\<rparr>,
     \<lparr>from_s = ''~Y~22L<~Z~Y~26L;~Z~Y~1L>~Z~Y~23L[~Z~+26H'',
      to_s = ''<PAD_TRIANGLE>''\<rparr>,
     \<lparr>from_s = ''~Y~22L<~Z~Y~25L@~Z~Y~1L>~Z~Y~23L[~Z~+26H'',
      to_s = ''<PAD_CIRCLE>''\<rparr>,
     \<lparr>from_s = ''~Y~22L<~Z~Y~24L#~Z~Y~1L>~Z~Y~23L[~Z~+26H'',
      to_s = ''<PAD_SQUARE>''\<rparr>]"

definition s_replace_info_jak1 :: "ReplaceInfo list" where
  "s_replace_info_jak1 =
     s_replace_info_jak1_part1 @
     s_replace_info_jak1_part2 @
     s_replace_info_jak1_part3 @
     s_replace_info_jak1_part4 @
     s_replace_info_jak1_part5 @
     s_replace_info_jak1_part6 @
     s_replace_info_jak1_part7 @
     s_replace_info_jak1_part8 @
     s_replace_info_jak1_part9 @
     s_replace_info_jak1_part10"

text \<open>The encode table of Jak 1 (v2), 201 entries.\<close>

definition s_encode_info_jak1_v2_part1 :: "EncodeInfo list" where
  "s_encode_info_jak1_v2_part1 =
    [\<lparr>chars = ''_'', bytes = [CHR 0x03]\<rparr>,
     \<lparr>chars = [CHR 0xCB, CHR 0x87], bytes = [CHR 0x10]\<rparr>,
     \<lparr>chars = [CHR 0x60], bytes = [CHR 0x11]\<rparr>,
     \<lparr>chars = [CHR 0x27], bytes = [CHR 0x12]\<rparr>,
     \<lparr>chars = [CHR 0x5E], bytes = [CHR 0x13]\<rparr>,
     \<lparr>chars = ''<TIL>'', bytes = [CHR 0x14]\<rparr>,
     \<lparr>chars = [CHR 0xC2, CHR 0xA8], bytes = [CHR 0x15]\<rparr>,
     \<lparr>chars = [CHR 0xC2, CHR 0xBA], bytes = [CHR 0x16]\<rparr>,
     \<lparr>chars = [CHR 0xC2, CHR 0xA1], bytes = [CHR 0x17]\<rparr>,
     \<lparr>chars = [CHR 0xC2, CHR 0xBF], bytes = [CHR 0x18]\<rparr>,
     \<lparr>chars = [CHR 0xE6, CHR 0xB5, CHR 0xB7], bytes = [CHR 0x1A]\<rparr>,
     \<lparr>chars = [CHR 0xC3, CHR 0x86], bytes = [CHR 0x1B]\<rparr>,
     \<lparr>chars = [CHR 0xE7, CHR 0x95, CHR 0x8C], bytes = [CHR 0x1C]\<rparr>,
     \<lparr>chars = [CHR 0xC3, CHR 0x87], bytes = [CHR 0x1D]\<rparr>,
     \<lparr>chars = [CHR 0xE5, CHR 0xAD, CHR 0xA6], bytes = [CHR 0x1E]\<rparr>,
     \<lparr>chars = [CHR 0xC3, CHR 0x9F], bytes = [CHR 0x1F]\<rparr>,
     \<lparr>chars = [CHR 0xE3, CHR 0x83, CHR 0xAF], bytes = [CHR 0x24]\<rparr>,
     \<lparr>chars = [CHR 0xE3, CHR 0x83, CHR 0xB2], bytes = [CHR 0x26]\<rparr>,
     \<lparr>chars = [CHR 0xE3, CHR 0x83, CHR 0xB3], bytes = [CHR 0x27]\<rparr>,
     \<lparr>chars = [CHR 0xE5, CHR 0xB2, CHR 0xA9], bytes = [CHR 0x5C]\<rparr>,
     \<lparr>chars = [CHR 0xE6, CHR 0x97, CHR 0xA7], bytes = [CHR 0x5D]\<rparr>,
     \<lparr>chars = [CHR 0xE7, CHR 0xA9, CHR 0xBA], bytes = [CHR 0x5E]\<rparr>,
     \<lparr>chars = [CHR 0xE6, CHR 0x8E, CHR 0x98], bytes = [CHR 0x5F]\<rparr>,
     \<lparr>chars = [CHR 0xE3, CHR 0x83, CHR 0xAE], bytes = [CHR 0x60]\<rparr>,
     \<lparr>chars = [CHR 0xE6, CHR 0x92, CHR 0x83], bytes = [CHR 0x61]\<rparr>,
     \<lparr>chars = [CHR 0xE8, CHR 0xB3, CHR 0xA2], bytes = [CHR 0x62]\<rparr>,
     \<lparr>chars = [CHR 0xE6, CHR 0xB9, CHR 0x96], bytes = [CHR 0x63]\<rparr>,
     \<lparr>chars = [CHR 0xE5, CHR 0x8F, CHR 0xA3], bytes = [CHR 0x64]\<rparr>,
     \<lparr>chars = [CHR 0xE8, CHR 0xA1, CHR 0x8C], bytes = [CHR 0x65]\<rparr>,
     \<lparr>chars = [CHR 0xE5, CHR 0x90, CHR 0x88], bytes = [CHR 0x66]\<rparr>,
     \<lparr>chars = [CHR 0xE5, CHR 0xA3, CHR 0xAB], bytes = [CHR 0x67]\<rparr>,
     \<lparr>chars = [CHR 0xE5, CHR 0xAF, CHR 0xBA], bytes = [CHR 0x68]\<rparr>,
     \<lparr>chars = [CHR 0xE5, CHR 0xB1, CHR 0xB1], bytes = [CHR 0x69]\<rparr>,
     \<lparr>chars = [CHR 0xE8, CHR 0x80, CHR 0x85], bytes = [CHR 0x6A]\<rparr>,
     \<lparr>chars = [CHR 0xE6, CHR 0x89, CHR 0x80], bytes = [CHR 0x6B]\<rparr>,
     \<lparr>chars = [CHR 0xE6, CHR 0x9B, CHR 0xB8], bytes = [CHR 0x6C]\<rparr>,
     \<lparr>chars = [CHR 0xE5, CHR 0xB0, CHR 0x8F], bytes = [CHR 0x6D]\<rparr>,
     \<lparr>chars = [CHR 0xE6, CHR 0xB2, CHR 0xBC], bytes = [CHR 0x6E]\<rparr>,
     \<lparr>chars = [CHR 0xE4, CHR 0xB8, CHR 0x8A], bytes = [CHR 0x6F]\<rparr>,
     \<lparr>chars = [CHR 0xE5, CHR 0x9F, CHR 0x8E], bytes = [CHR 0x70]\<rparr>]"

definition s_encode_info_jak1_v2_part2 :: "EncodeInfo list" where
  "s_encode_info_jak1_v2_part2 =
    [\<lparr>chars = [CHR 0xE5, CHR 0xA0, CHR 0xB4], bytes = [CHR 0x71]\<rparr>,
     \<lparr>chars = [CHR 0xE5, CHR 0x87, CHR 0xBA], bytes = [CHR 0x72]\<rparr>,
     \<lparr>chars = [CHR 0xE9, CHR 0x97, CHR 0x87], bytes = [CHR 0x73]\<rparr>,
     \<lparr>chars = [CHR 0xE9, CHR 0x81, CHR 0xBA], bytes = [CHR 0x74]\<rparr>,
     \<lparr>chars = [CHR 0xE9, CHR 0xBB, CHR 0x84], bytes = [CHR 0x75]\<rparr>,
     \<lparr>chars = [CHR 0xE5, CHR 0xB1, CHR 0x8B], bytes = [CHR 0x76]\<rparr>,
     \<lparr>chars = [CHR 0xE4, CHR 0xB8, CHR 0x8B], bytes = [CHR 0x77]\<rparr>,
     \<lparr>chars = [CHR 0xE5, CHR 0xAE, CHR 0xB6], bytes = [CHR 0x78]\<rparr>,
     \<lparr>chars = [CHR 0xE7, CHR 0x81, CHR 0xAB], bytes = [CHR 0x79]\<rparr>,
     \<lparr>chars = [CHR 0xE8, CHR 0x8A, CHR 0xB1], bytes = [CHR 0x7A]\<rparr>,
     \<lparr>chars = [CHR 0xE3, CHR 0x83, CHR 0xAC], bytes = [CHR 0x7B]\<rparr>,
     \<lparr>chars = [CHR 0xC5, CHR 0x92], bytes = [CHR 0x7C]\<rparr>,
     \<lparr>chars = [CHR 0xE3, CHR 0x83, CHR 0xAD], bytes = [CHR 0x7D]\<rparr>,
     \<lparr>chars = [CHR 0xE9, CHR 0x9D, CHR 0x92], bytes = [CHR 0x7F]\<rparr>,
     \<lparr>chars = [CHR 0xE3, CHR 0x83, CHR 0xBB], bytes = [CHR 0x90]\<rparr>,
     \<lparr>chars = [CHR 0xE3, CHR 0x82, CHR 0x9B], bytes = [CHR 0x91]\<rparr>,
     \<lparr>chars = [CHR 0xE3, CHR 0x82, CHR 0x9C], bytes = [CHR 0x92]\<rparr>,
     \<lparr>chars = [CHR 0xE3, CHR 0x83, CHR 0xBC], bytes = [CHR 0x93]\<rparr>,
     \<lparr>chars = [CHR 0xE3, CHR 0x80, CHR 0x8E], bytes = [CHR 0x94]\<rparr>,
     \<lparr>chars = [CHR 0xE3, CHR 0x80, CHR 0x8F], bytes = [CHR 0x95]\<rparr>,
     \<lparr>chars = [CHR 0xE3, CHR 0x81, CHR 0x81], bytes = [CHR 0x96]\<rparr>,
     \<lparr>chars = [CHR 0xE3, CHR 0x81, CHR 0x82], bytes = [CHR 0x97]\<rparr>,
     \<lparr>chars = [CHR 0xE3, CHR 0x81, CHR 0x83], bytes = [CHR 0x98]\<rparr>,
     \<lparr>chars = [CHR 0xE3, CHR 0x81, CHR 0x84], bytes = [CHR 0x99]\<rparr>,
     \<lparr>chars = [CHR 0xE3, CHR 0x81, CHR 0x85], bytes = [CHR 0x9A]\<rparr>,
     \<lparr>chars = [CHR 0xE3, CHR 0x81, CHR 0x86], bytes = [CHR 0x9B]\<rparr>,
     \<lparr>chars = [CHR 0xE3, CHR 0x81, CHR 0x87], bytes = [CHR 0x9C]\<rparr>,
     \<lparr>chars = [CHR 0xE3, CHR 0x81, CHR 0x88], bytes = [CHR 0x9D]\<rparr>,
     \<lparr>chars = [CHR 0xE3, CHR 0x81, CHR 0x89], bytes = [CHR 0x9E]\<rparr>,
     \<lparr>chars = [CHR 0xE3, CHR 0x81, CHR 0x8A], bytes = [CHR 0x9F]\<rparr>,
     \<lparr>chars = [CHR 0xE3, CHR 0x81, CHR 0x8B], bytes = [CHR 0xA0]\<rparr>,
     \<lparr>chars = [CHR 0xE3, CHR 0x81, CHR 0x8D], bytes = [CHR 0xA1]\<rparr>,
     \<lparr>chars = [CHR 0xE3, CHR 0x81, CHR 0x8F], bytes = [CHR 0xA2]\<rparr>,
     \<lparr>chars = [CHR 0xE3, CHR 0x81, CHR 0x91], bytes = [CHR 0xA3]\<rparr>,
     \<lparr>chars = [CHR 0xE3, CHR 0x81, CHR 0x93], bytes = [CHR 0xA4]\<rparr>,
     \<lparr>chars = [CHR 0xE3, CHR 0x81, CHR 0x95], bytes = [CHR 0xA5]\<rparr>,
     \<lparr>chars = [CHR 0xE3, CHR 0x81, CHR 0x97], bytes = [CHR 0xA6]\<rparr>,
     \<lparr>chars = [CHR 0xE3, CHR 0x81, CHR 0x99], bytes = [CHR 0xA7]\<rparr>,
     \<lparr>chars = [CHR 0xE3, CHR 0x81, CHR 0x9B], bytes = [CHR 0xA8]\<rparr>,
     \<lparr>chars = [CHR 0xE3, CHR 0x81, CHR 0x9D], bytes = [CHR 0xA9]\<rparr>]"

definition s_encode_info_jak1_v2_part3 :: "EncodeInfo list" where
  "s_encode_info_jak1_v2_part3 =
    [\<lparr>chars = [CHR 0xE3, CHR 0x81, CHR 0x9F], bytes = [CHR 0xAA]\<rparr>,
     \<lparr>chars = [CHR 0xE3, CHR 0x81, CHR 0xA1], bytes = [CHR 0xAB]\<rparr>,
     \<lparr>chars = [CHR 0xE3, CHR 0x81, CHR 0xA3], bytes = [CHR 0xAC]\<rparr>,
     \<lparr>chars = [CHR 0xE3, CHR 0x81, CHR 0xA4], bytes = [CHR 0xAD]\<rparr>,
     \<lparr>chars = [CHR 0xE3, CHR 0x81, CHR 0xA6], bytes = [CHR 0xAE]\<rparr>,
     \<lparr>chars = [CHR 0xE3, CHR 0x81, CHR 0xA8], bytes = [CHR 0xAF]\<rparr>,
     \<lparr>chars = [CHR 0xE3, CHR 0x81, CHR 0xAA], bytes = [CHR 0xB0]\<rparr>,
     \<lparr>chars = [CHR 0xE3, CHR 0x81, CHR 0xAB], bytes = [CHR 0xB1]\<rparr>,
     \<lparr>chars = [CHR 0xE3, CHR 0x81, CHR 0xAC], bytes = [CHR 0xB2]\<rparr>,
     \<lparr>chars = [CHR 0xE3, CHR 0x81, CHR 0xAD], bytes = [CHR 0xB3]\<rparr>,
     \<lparr>chars = [CHR 0xE3, CHR 0x81, CHR 0xAE], bytes = [CHR 0xB4]\<rparr>,
     \<lparr>chars = [CHR 0xE3, CHR 0x81, CHR 0xAF], bytes = [CHR 0xB5]\<rparr>,
     \<lparr>chars = [CHR 0xE3, CHR 0x81, CHR 0xB2], bytes = [CHR 0xB6]\<rparr>,
     \<lparr>chars = [CHR 0xE3, CHR 0x81, CHR 0xB5], bytes = [CHR 0xB7]\<rparr>,
     \<lparr>chars = [CHR 0xE3, CHR 0x81, CHR 0xB8], bytes = [CHR 0xB8]\<rparr>,
     \<lparr>chars = [CHR 0xE3, CHR 0x81, CHR 0xBB], bytes = [CHR 0xB9]\<rparr>,
     \<lparr>chars = [CHR 0xE3, CHR 0x81, CHR 0xBE], bytes = [CHR 0xBA]\<rparr>,
     \<lparr>chars = [CHR 0xE3, CHR 0x81, CHR 0xBF], bytes = [CHR 0xBB]\<rparr>,
     \<lparr>chars = [CHR 0xE3, CHR 0x82, CHR 0x80], bytes = [CHR 0xBC]\<rparr>,
     \<lparr>chars = [CHR 0xE3, CHR 0x82, CHR 0x81], bytes = [CHR 0xBD]\<rparr>,
     \<lparr>chars = [CHR 0xE3, CHR 0x82, CHR 0x82], bytes = [CHR 0xBE]\<rparr>,
     \<lparr>chars = [CHR 0xE3, CHR 0x82, CHR 0x83], bytes = [CHR 0xBF]\<rparr>,
     \<lparr>chars = [CHR 0xE3, CHR 0x82, CHR 0x84], bytes = [CHR 0xC0]\<rparr>,
     \<lparr>chars = [CHR 0xE3, CHR 0x82, CHR 0x85], bytes = [CHR 0xC1]\<rparr>,
     \<lparr>chars = [CHR 0xE3, CHR 0x82, CHR 0x86], bytes = [CHR 0xC2]\<rparr>,
     \<lparr>chars = [CHR 0xE3, CHR 0x82, CHR 0x87], bytes = [CHR 0xC3]\<rparr>,
     \<lparr>chars = [CHR 0xE3, CHR 0x82, CHR 0x88], bytes = [CHR 0xC4]\<rparr>,
     \<lparr>chars = [CHR 0xE3, CHR 0x82, CHR 0x89], bytes = [CHR 0xC5]\<rparr>,
     \<lparr>chars = [CHR 0xE3, CHR 0x82, CHR 0x8A], bytes = [CHR 0xC6]\<rparr>,
     \<lparr>chars = [CHR 0xE3, CHR 0x82, CHR 0x8B], bytes = [CHR 0xC7]\<rparr>,
     \<lparr>chars = [CHR 0xE3, CHR 0x82, CHR 0x8C], bytes = [CHR 0xC8]\<rparr>,
     \<lparr>chars = [CHR 0xE3, CHR 0x82, CHR 0x8D], bytes = [CHR 0xC9]\<rparr>,
     \<lparr>chars = [CHR 0xE3, CHR 0x82, CHR 0x8E], bytes = [CHR 0xCA]\<rparr>,
     \<lparr>chars = [CHR 0xE3, CHR 0x82, CHR 0x8F], bytes = [CHR 0xCB]\<rparr>,
     \<lparr>chars = [CHR 0xE3, CHR 0x82, CHR 0x92], bytes = [CHR 0xCC]\<rparr>,
     \<lparr>chars = [CHR 0xE3, CHR 0x82, CHR 0x93], bytes = [CHR 0xCD]\<rparr>,
     \<lparr>chars = [CHR 0xE3, CHR 0x82, CHR 0xA1], bytes = [CHR 0xCE]\<rparr>,
     \<lparr>chars = [CHR 0xE3, CHR 0x82, CHR 0xA2], bytes = [CHR 0xCF]\<rparr>,
     \<lparr>chars = [CHR 0xE3, CHR 0x82, CHR 0xA3], bytes = [CHR 0xD0]\<rparr>,
     \<lparr>chars = [CHR 0xE3, CHR 0x82, CHR 0xA4], bytes = [CHR 0xD1]\<rparr>]"

definition s_encode_info_jak1_v2_part4 :: "EncodeInfo list" where
  "s_encode_info_jak1_v2_part4 =
    [\<lparr>chars = [CHR 0xE3, CHR 0x82, CHR 0xA5], bytes = [CHR 0xD2]\<rparr>,
     \<lparr>chars = [CHR 0xE3, CHR 0x82, CHR 0xA6], bytes = [CHR 0xD3]\<rparr>,
     \<lparr>chars = [CHR 0xE3, CHR 0x82, CHR 0xA7], bytes = [CHR 0xD4]\<rparr>,
     \<lparr>chars = [CHR 0xE3, CHR 0x82, CHR 0xA8], bytes = [CHR 0xD5]\<rparr>,
     \<lparr>chars = [CHR 0xE3, CHR 0x82, CHR 0xA9], bytes = [CHR 0xD6]\<rparr>,
     \<lparr>chars = [CHR 0xE3, CHR 0x82, CHR 0xAA], bytes = [CHR 0xD7]\<rparr>,
     \<lparr>chars = [CHR 0xE3, CHR 0x82, CHR 0xAB], bytes = [CHR 0xD8]\<rparr>,
     \<lparr>chars = [CHR 0xE3, CHR 0x82, CHR 0xAD], bytes = [CHR 0xD9]\<rparr>,
     \<lparr>chars = [CHR 0xE3, CHR 0x82, CHR 0xAF], bytes = [CHR 0xDA]\<rparr>,
     \<lparr>chars = [CHR 0xE3, CHR 0x82, CHR 0xB1], bytes = [CHR 0xDB]\<rparr>,
     \<lparr>chars = [CHR 0xE3, CHR 0x82, CHR 0xB3], bytes = [CHR 0xDC]\<rparr>,
     \<lparr>chars = [CHR 0xE3, CHR 0x82, CHR 0xB5], bytes = [CHR 0xDD]\<rparr>,
     \<lparr>chars = [CHR 0xE3, CHR 0x82, CHR 0xB7], bytes = [CHR 0xDE]\<rparr>,
     \<lparr>chars = [CHR 0xE3, CHR 0x82, CHR 0xB9], bytes = [CHR 0xDF]\<rparr>,
     \<lparr>chars = [CHR 0xE3, CHR 0x82, CHR 0xBB], bytes = [CHR 0xE0]\<rparr>,
     \<lparr>chars = [CHR 0xE3, CHR 0x82, CHR 0xBD], bytes = [CHR 0xE1]\<rparr>,
     \<lparr>chars = [CHR 0xE3, CHR 0x82, CHR 0xBF], bytes = [CHR 0xE2]\<rparr>,
     \<lparr>chars = [CHR 0xE3, CHR 0x83, CHR 0x81], bytes = [CHR 0xE3]\<rparr>,
     \<lparr>chars = [CHR 0xE3, CHR 0x83, CHR 0x83], bytes = [CHR 0xE4]\<rparr>,
     \<lparr>chars = [CHR 0xE3, CHR 0x83, CHR 0x84], bytes = [CHR 0xE5]\<rparr>,
     \<lparr>chars = [CHR 0xE3, CHR 0x83, CHR 0x86], bytes = [CHR 0xE6]\<rparr>,
     \<lparr>chars = [CHR 0xE3, CHR 0x83, CHR 0x88], bytes = [CHR 0xE7]\<rparr>,
     \<lparr>chars = [CHR 0xE3, CHR 0x83, CHR 0x8A], bytes = [CHR 0xE8]\<rparr>,
     \<lparr>chars = [CHR 0xE3, CHR 0x83, CHR 0x8B], bytes = [CHR 0xE9]\<rparr>,
     \<lparr>chars = [CHR 0xE3, CHR 0x83, CHR 0x8C], bytes = [CHR 0xEA]\<rparr>,
     \<lparr>chars = [CHR 0xE3, CHR 0x83, CHR 0x8D], bytes = [CHR 0xEB]\<rparr>,
     \<lparr>chars = [CHR 0xE3, CHR 0x83, CHR 0x8E], bytes = [CHR 0xEC]\<rparr>,
     \<lparr>chars = [CHR 0xE3, CHR 0x83, CHR 0x8F], bytes = [CHR 0xED]\<rparr>,
     \<lparr>chars = [CHR 0xE3, CHR 0x83, CHR 0x92], bytes = [CHR 0xEE]\<rparr>,
     \<lparr>chars = [CHR 0xE3, CHR 0x83, CHR 0x95], bytes = [CHR 0xEF]\<rparr>,
     \<lparr>chars = [CHR 0xE3, CHR 0x83, CHR 0x98], bytes = [CHR 0xF0]\<rparr>,
     \<lparr>chars = [CHR 0xE3, CHR 0x83, CHR 0x9B], bytes = [CHR 0xF1]\<rparr>,
     \<lparr>chars = [CHR 0xE3, CHR 0x83, CHR 0x9E], bytes = [CHR 0xF2]\<rparr>,
     \<lparr>chars = [CHR 0xE3, CHR 0x83, CHR 0x9F], bytes = [CHR 0xF3]\<rparr>,
     \<lparr>chars = [CHR 0xE3, CHR 0x83, CHR 0xA0], bytes = [CHR 0xF4]\<rparr>,
     \<lparr>chars = [CHR 0xE3, CHR 0x83, CHR 0xA1], bytes = [CHR 0xF5]\<rparr>,
     \<lparr>chars = [CHR 0xE3, CHR 0x83, CHR 0xA2], bytes = [CHR 0xF6]\<rparr>,
     \<lparr>chars = [CHR 0xE3, CHR 0x83, CHR 0xA3], bytes = [CHR 0xF7]\<rparr>,
     \<lparr>chars = [CHR 0xE3, CHR 0x83, CHR 0xA4], bytes = [CHR 0xF8]\<rparr>,
     \<lparr>chars = [CHR 0xE3, CHR 0x83, CHR 0xA5], bytes = [CHR 0xF9]\<rparr>]"

definition s_encode_info_jak1_v2_part5 :: "EncodeInfo list" where
  "s_encode_info_jak1_v2_part5 =
    [\<lparr>chars = [CHR 0xE3, CHR 0x83, CHR 0xA6], bytes = [CHR 0xFA]\<rparr>,
     \<lparr>chars = [CHR 0xE3, CHR 0x83, CHR 0xA7], bytes = [CHR 0xFB]\<rparr>,
     \<lparr>chars = [CHR 0xE3, CHR 0x83, CHR 0xA8], bytes = [CHR 0xFC]\<rparr>,
     \<lparr>chars = [CHR 0xE3, CHR 0x83, CHR 0xA9], bytes = [CHR 0xFD]\<rparr>,
     \<lparr>chars = [CHR 0xE3, CHR 0x83, CHR 0xAA], bytes = [CHR 0xFE]\<rparr>,
     \<lparr>chars = [CHR 0xE3, CHR 0x83, CHR 0xAB], bytes = [CHR 0xFF]\<rparr>,
     \<lparr>chars = [CHR 0xE5, CHR 0xAE, CHR 0x9D], bytes = [CHR 0x01, CHR 0x01]\<rparr>,
     \<lparr>chars = [CHR 0xE7, CHR 0x9F, CHR 0xB3], bytes = [CHR 0x01, CHR 0x10]\<rparr>,
     \<lparr>chars = [CHR 0xE8, CHR 0xB5, CHR 0xA4], bytes = [CHR 0x01, CHR 0x11]\<rparr>,
     \<lparr>chars = [CHR 0xE8, CHR 0xB7, CHR 0xA1], bytes = [CHR 0x01, CHR 0x12]\<rparr>,
     \<lparr>chars = [CHR 0xE5, CHR 0xB7, CHR 0x9D], bytes = [CHR 0x01, CHR 0x13]\<rparr>,
     \<lparr>chars = [CHR 0xE6, CHR 0x88, CHR 0xA6], bytes = [CHR 0x01, CHR 0x14]\<rparr>,
     \<lparr>chars = [CHR 0xE6, CHR 0x9D, CHR 0x91], bytes = [CHR 0x01, CHR 0x15]\<rparr>,
     \<lparr>chars = [CHR 0xE9, CHR 0x9A, CHR 0x8A], bytes = [CHR 0x01, CHR 0x16]\<rparr>,
     \<lparr>chars = [CHR 0xE5, CHR 0x8F, CHR 0xB0], bytes = [CHR 0x01, CHR 0x17]\<rparr>,
     \<lparr>chars = [CHR 0xE9, CHR 0x95, CHR 0xB7], bytes = [CHR 0x01, CHR 0x18]\<rparr>,
     \<lparr>chars = [CHR 0xE9, CHR 0xB3, CHR 0xA5], bytes = [CHR 0x01, CHR 0x19]\<rparr>,
     \<lparr>chars = [CHR 0xE8, CHR 0x89, CHR 0x87], bytes = [CHR 0x01, CHR 0x1A]\<rparr>,
     \<lparr>chars = [CHR 0xE6, CHR 0xB4, CHR 0x9E], bytes = [CHR 0x01, CHR 0x1B]\<rparr>,
     \<lparr>chars = [CHR 0xE9, CHR 0x81, CHR 0x93], bytes = [CHR 0x01, CHR 0x1C]\<rparr>,
     \<lparr>chars = [CHR 0xE7, CHR 0x99, CHR 0xBA], bytes = [CHR 0x01, CHR 0x1D]\<rparr>,
     \<lparr>chars = [CHR 0xE9, CHR 0xA3, CHR 0x9B], bytes = [CHR 0x01, CHR 0x1E]\<rparr>,
     \<lparr>chars = [CHR 0xE5, CHR 0x99, CHR 0xB4], bytes = [CHR 0x01, CHR 0x1F]\<rparr>,
     \<lparr>chars = [CHR 0xE6, CHR 0xB1, CHR 0xA0], bytes = [CHR 0x01, CHR 0xA0]\<rparr>,
     \<lparr>chars = [CHR 0xE4, CHR 0xB8, CHR 0xAD], bytes = [CHR 0x01, CHR 0xA1]\<rparr>,
     \<lparr>chars = [CHR 0xE5, CHR 0xA1, CHR 0x94], bytes = [CHR 0x01, CHR 0xA2]\<rparr>,
     \<lparr>chars = [CHR 0xE5, CHR 0xB3, CHR 0xB6], bytes = [CHR 0x01, CHR 0xA3]\<rparr>,
     \<lparr>chars = [CHR 0xE9, CHR 0x83, CHR 0xA8], bytes = [CHR 0x01, CHR 0xA4]\<rparr>,
     \<lparr>chars = [CHR 0xE7, CHR 0xA0, CHR 0xB2], bytes = [CHR 0x01, CHR 0xA5]\<rparr>,
     \<lparr>chars = [CHR 0xE7, CHR 0x94, CHR 0xA3], bytes = [CHR 0x01, CHR 0xA6]\<rparr>,
     \<lparr>chars = [CHR 0xE7, CHR 0x9C, CHR 0xB7], bytes = [CHR 0x01, CHR 0xA7]\<rparr>,
     \<lparr>chars = [CHR 0xE5, CHR 0x8A, CHR 0x9B], bytes = [CHR 0x01, CHR 0xA8]\<rparr>,
     \<lparr>chars = [CHR 0xE7, CHR 0xB7, CHR 0x91], bytes = [CHR 0x01, CHR 0xA9]\<rparr>,
     \<lparr>chars = [CHR 0xE5, CHR 0xB2, CHR 0xB8], bytes = [CHR 0x01, CHR 0xAA]\<rparr>,
     \<lparr>chars = [CHR 0xE5, CHR 0x83, CHR 0x8F], bytes = [CHR 0x01, CHR 0xAB]\<rparr>,
     \<lparr>chars = [CHR 0xE8, CHR 0xB0, CHR 0xB7], bytes = [CHR 0x01, CHR 0xAC]\<rparr>,
     \<lparr>chars = [CHR 0xE5, CHR 0xBF, CHR 0x83], bytes = [CHR 0x01, CHR 0xAD]\<rparr>,
     \<lparr>chars = [CHR 0xE6, CHR 0xA3, CHR 0xAE], bytes = [CHR 0x01, CHR 0xAE]\<rparr>,
     \<lparr>chars = [CHR 0xE6, CHR 0xB0, CHR 0xB4], bytes = [CHR 0x01, CHR 0xAF]\<rparr>,
     \<lparr>chars = [CHR 0xE8, CHR 0x88, CHR 0xB9], bytes = [CHR 0x01, CHR 0xB0]\<rparr>]"

definition s_encode_info_jak1_v2_part6 :: "EncodeInfo list" where
  "s_encode_info_jak1_v2_part6 =
    [\<lparr>chars = [CHR 0xE2, CHR 0x84, CHR 0xA2], bytes = [CHR 0x01, CHR 0xB1]\<rparr>]"

definition s_encode_info_jak1_v2 :: "EncodeInfo list" where
  "s_encode_info_jak1_v2 =
     s_encode_info_jak1_v2_part1 @
     s_encode_info_jak1_v2_part2 @
     s_encode_info_jak1_v2_part3 @
     s_encode_info_jak1_v2_part4 @
     s_encode_info_jak1_v2_part5 @
     s_encode_info_jak1_v2_part6"

text \<open>The passthrough set of Jak 2.\<close>

definition s_passthrus_jak2 :: "char set" where
  "s_passthrus_jak2 =
    {CHR ''~'', CHR '' '', CHR '','', CHR ''.'', CHR ''-'', CHR ''+'', CHR ''('', CHR '')'', CHR ''!'', CHR '':'', CHR ''?'', CHR ''='', CHR ''%'', CHR ''*'', CHR ''/'', CHR ''#'', CHR '';'', CHR ''<'', CHR ''>'', CHR ''@'', CHR ''['', CHR ''_'', CHR '']''}"

text \<open>The replace table of Jak 2, 133 entries.\<close>

definition s_replace_info_jak2_part1 :: "ReplaceInfo list" where
  "s_replace_info_jak2_part1 =
    [\<lparr>from_s = ''A~Y~-21H~-5V'' @ [CHR 0xC2, CHR 0xBA] @ ''~Z'',
      to_s = [CHR 0xC3, CHR 0x85]\<rparr>,
     \<lparr>from_s = ''N~Y~-6H'' @ [CHR 0xC2, CHR 0xBA] @ ''~Z~+10H'',
      to_s = ''N'' @ [CHR 0xC2, CHR 0xBA]\<rparr>,
     \<lparr>from_s = ''~+4V'' @ [CHR 0xC3, CHR 0xA7] @ ''~-4V'',
      to_s = '',c''\<rparr>,
     \<lparr>from_s = ''N~Y~-22H~-4V<TIL>~Z'',
      to_s = [CHR 0xC3, CHR 0x91]\<rparr>,
     \<lparr>from_s = ''n~Y~-24H~-4V<TIL>~Z'',
      to_s = [CHR 0xC3, CHR 0xB1]\<rparr>,
     \<lparr>from_s = ''A~Y~-21H~-5V<TIL>~Z'',
      to_s = [CHR 0xC3, CHR 0x83]\<rparr>,
     \<lparr>from_s = ''O~Y~-22H~-4V<TIL>~Z'',
      to_s = [CHR 0xC3, CHR 0x95]\<rparr>,
     \<lparr>from_s = ''A~Y~-21H~-5V'' @ [CHR 0x27] @ ''~Z'',
      to_s = [CHR 0xC3, CHR 0x81]\<rparr>,
     \<lparr>from_s = ''A~Y~-26H~-8V'' @ [CHR 0x27] @ ''~Z'',
      to_s = ''<'' @ [CHR 0xC3, CHR 0x81] @ ''_V2>''\<rparr>,
     \<lparr>from_s = ''a~Y~-25H~-5V'' @ [CHR 0x27] @ ''~Z'',
      to_s = [CHR 0xC3, CHR 0xA1]\<rparr>]"

definition s_replace_info_jak2_part2 :: "ReplaceInfo list" where
  "s_replace_info_jak2_part2 =
    [\<lparr>from_s = ''E~Y~-23H~-9V'' @ [CHR 0x27] @ ''~Z'',
      to_s = [CHR 0xC3, CHR 0x89]\<rparr>,
     \<lparr>from_s = ''e~Y~-26H~-5V'' @ [CHR 0x27] @ ''~Z'',
      to_s = [CHR 0xC3, CHR 0xA9]\<rparr>,
     \<lparr>from_s = ''I~Y~-19H~-5V'' @ [CHR 0x27] @ ''~Z'',
      to_s = [CHR 0xC3, CHR 0x8D]\<rparr>,
     \<lparr>from_s = ''i~Y~-19H~-8V'' @ [CHR 0x27] @ ''~Z'',
      to_s = [CHR 0xC3, CHR 0xAD]\<rparr>,
     \<lparr>from_s = ''O~Y~-22H~-4V'' @ [CHR 0x27] @ ''~Z'',
      to_s = [CHR 0xC3, CHR 0x93]\<rparr>,
     \<lparr>from_s = ''o~Y~-26H~-4V'' @ [CHR 0x27] @ ''~Z'',
      to_s = [CHR 0xC3, CHR 0xB3]\<rparr>,
     \<lparr>from_s = ''U~Y~-24H~-3V'' @ [CHR 0x27] @ ''~Z'',
      to_s = [CHR 0xC3, CHR 0x9A]\<rparr>,
     \<lparr>from_s = ''u~Y~-24H~-3V'' @ [CHR 0x27] @ ''~Z'',
      to_s = [CHR 0xC3, CHR 0xBA]\<rparr>,
     \<lparr>from_s = ''A~Y~-20H~-4V'' @ [CHR 0x5E] @ ''~Z'',
      to_s = [CHR 0xC3, CHR 0x82]\<rparr>,
     \<lparr>from_s = ''a~Y~-24H~-5V'' @ [CHR 0x5E] @ ''~Z'',
      to_s = [CHR 0xC3, CHR 0xA2]\<rparr>]"

definition s_replace_info_jak2_part3 :: "ReplaceInfo list" where
  "s_replace_info_jak2_part3 =
    [\<lparr>from_s = ''E~Y~-20H~-5V'' @ [CHR 0x5E] @ ''~Z'',
      to_s = [CHR 0xC3, CHR 0x8A]\<rparr>,
     \<lparr>from_s = ''e~Y~-25H~-4V'' @ [CHR 0x5E] @ ''~Zt'',
      to_s = [CHR 0xC3, CHR 0xAA]\<rparr>,
     \<lparr>from_s = ''I~Y~-19H~-5V'' @ [CHR 0x5E] @ ''~Z'',
      to_s = [CHR 0xC3, CHR 0x8E]\<rparr>,
     \<lparr>from_s = ''i~Y~-19H~-8V'' @ [CHR 0x5E] @ ''~Z'',
      to_s = [CHR 0xC3, CHR 0xAE]\<rparr>,
     \<lparr>from_s = ''O~Y~-20H~-4V'' @ [CHR 0x5E] @ ''~Z'',
      to_s = [CHR 0xC3, CHR 0x94]\<rparr>,
     \<lparr>from_s = ''o~Y~-25H~-4V'' @ [CHR 0x5E] @ ''~Z'',
      to_s = [CHR 0xC3, CHR 0xB4]\<rparr>,
     \<lparr>from_s = ''U~Y~-24H~-3V'' @ [CHR 0x5E] @ ''~Z'',
      to_s = [CHR 0xC3, CHR 0x9B]\<rparr>,
     \<lparr>from_s = ''u~Y~-23H~-3V'' @ [CHR 0x5E] @ ''~Z'',
      to_s = [CHR 0xC3, CHR 0xBB]\<rparr>,
     \<lparr>from_s = ''A~Y~-26H~-8V'' @ [CHR 0x60] @ ''~Z'',
      to_s = [CHR 0xC3, CHR 0x80]\<rparr>,
     \<lparr>from_s = ''a~Y~-25H~-5V'' @ [CHR 0x60] @ ''~Z'',
      to_s = [CHR 0xC3, CHR 0xA0]\<rparr>]"

definition s_replace_info_jak2_part4 :: "ReplaceInfo list" where
  "s_replace_info_jak2_part4 =
    [\<lparr>from_s = ''E~Y~-23H~-9V'' @ [CHR 0x60] @ ''~Z'',
      to_s = [CHR 0xC3, CHR 0x88]\<rparr>,
     \<lparr>from_s = ''e~Y~-26H~-5V'' @ [CHR 0x60] @ ''~Z'',
      to_s = [CHR 0xC3, CHR 0xA8]\<rparr>,
     \<lparr>from_s = ''I~Y~-19H~-5V'' @ [CHR 0x60] @ ''~Z'',
      to_s = [CHR 0xC3, CHR 0x8C]\<rparr>,
     \<lparr>from_s = ''i~Y~-19H~-8V'' @ [CHR 0x60] @ ''~Z'',
      to_s = [CHR 0xC3, CHR 0xAC]\<rparr>,
     \<lparr>from_s = ''O~Y~-22H~-4V'' @ [CHR 0x60] @ ''~Z'',
      to_s = [CHR 0xC3, CHR 0x92]\<rparr>,
     \<lparr>from_s = ''o~Y~-26H~-4V'' @ [CHR 0x60] @ ''~Z'',
      to_s = [CHR 0xC3, CHR 0xB2]\<rparr>,
     \<lparr>from_s = ''U~Y~-24H~-3V'' @ [CHR 0x60] @ ''~Z'',
      to_s = [CHR 0xC3, CHR 0x99]\<rparr>,
     \<lparr>from_s = ''u~Y~-24H~-3V'' @ [CHR 0x60] @ ''~Z'',
      to_s = [CHR 0xC3, CHR 0xB9]\<rparr>,
     \<lparr>from_s = ''A~Y~-26H~-8V'' @ [CHR 0xC2, CHR 0xA8] @ ''~Z'',
      to_s = [CHR 0xC3, CHR 0x84]\<rparr>,
     \<lparr>from_s = ''a~Y~-25H~-5V'' @ [CHR 0xC2, CHR 0xA8] @ ''~Z'',
      to_s = [CHR 0xC3, CHR 0xA4]\<rparr>]"

definition s_replace_info_jak2_part5 :: "ReplaceInfo list" where
  "s_replace_info_jak2_part5 =
    [\<lparr>from_s = ''E~Y~-20H~-5V'' @ [CHR 0xC2, CHR 0xA8] @ ''~Z'',
      to_s = [CHR 0xC3, CHR 0x8B]\<rparr>,
     \<lparr>from_s = ''I~Y~-19H~-5V'' @ [CHR 0xC2, CHR 0xA8] @ ''~Z'',
      to_s = [CHR 0xC3, CHR 0x8F]\<rparr>,
     \<lparr>from_s = ''O~Y~-26H~-8V'' @ [CHR 0xC2, CHR 0xA8] @ ''~Z'',
      to_s = [CHR 0xC3, CHR 0x96]\<rparr>,
     \<lparr>from_s = ''o~Y~-26H~-4V'' @ [CHR 0xC2, CHR 0xA8] @ ''~Z'',
      to_s = [CHR 0xC3, CHR 0xB6]\<rparr>,
     \<lparr>from_s = ''U~Y~-25H~-8V'' @ [CHR 0xC2, CHR 0xA8] @ ''~Z'',
      to_s = [CHR 0xC3, CHR 0x9C]\<rparr>,
     \<lparr>from_s = ''u~Y~-24H~-3V'' @ [CHR 0xC2, CHR 0xA8] @ ''~Z'',
      to_s = [CHR 0xC3, CHR 0xBC]\<rparr>,
     \<lparr>from_s = ''~Y'' @ [CHR 0xE3, CHR 0x82, CHR 0xA6] @ ''~Z'' @ [CHR 0xE3, CHR 0x82, CHR 0x9B],
      to_s = [CHR 0xE3, CHR 0x83, CHR 0xB4]\<rparr>,
     \<lparr>from_s = ''~Y'' @ [CHR 0xE3, CHR 0x82, CHR 0xAB] @ ''~Z'' @ [CHR 0xE3, CHR 0x82, CHR 0x9B],
      to_s = [CHR 0xE3, CHR 0x82, CHR 0xAC]\<rparr>,
     \<lparr>from_s = ''~Y'' @ [CHR 0xE3, CHR 0x82, CHR 0xAD] @ ''~Z'' @ [CHR 0xE3, CHR 0x82, CHR 0x9B],
      to_s = [CHR 0xE3, CHR 0x82, CHR 0xAE]\<rparr>,
     \<lparr>from_s = ''~Y'' @ [CHR 0xE3, CHR 0x82, CHR 0xAF] @ ''~Z'' @ [CHR 0xE3, CHR 0x82, CHR 0x9B],
      to_s = [CHR 0xE3, CHR 0x82, CHR 0xB0]\<rparr>]"

definition s_replace_info_jak2_part6 :: "ReplaceInfo list" where
  "s_replace_info_jak2_part6 =
    [\<lparr>from_s = ''~Y'' @ [CHR 0xE3, CHR 0x82, CHR 0xB1] @ ''~Z'' @ [CHR 0xE3, CHR 0x82, CHR 0x9B],
      to_s = [CHR 0xE3, CHR 0x82, CHR 0xB2]\<rparr>,
     \<lparr>from_s = ''~Y'' @ [CHR 0xE3, CHR 0x82, CHR 0xB3] @ ''~Z'' @ [CHR 0xE3, CHR 0x82, CHR 0x9B],
      to_s = [CHR 0xE3, CHR 0x82, CHR 0xB4]\<rparr>,
     \<lparr>from_s = ''~Y'' @ [CHR 0xE3, CHR 0x82, CHR 0xB5] @ ''~Z'' @ [CHR 0xE3, CHR 0x82, CHR 0x9B],
      to_s = [CHR 0xE3, CHR 0x82, CHR 0xB6]\<rparr>,
     \<lparr>from_s = ''~Y'' @ [CHR 0xE3, CHR 0x82, CHR 0xB7] @ ''~Z'' @ [CHR 0xE3, CHR 0x82, CHR 0x9B],
      to_s = [CHR 0xE3, CHR 0x82, CHR 0xB8]\<rparr>,
     \<lparr>from_s = ''~Y'' @ [CHR 0xE3, CHR 0x82, CHR 0xB9] @ ''~Z'' @ [CHR 0xE3, CHR 0x82, CHR 0x9B],
      to_s = [CHR 0xE3, CHR 0x82, CHR 0xBA]\<rparr>,
     \<lparr>from_s = ''~Y'' @ [CHR 0xE3, CHR 0x82, CHR 0xBB] @ ''~Z'' @ [CHR 0xE3, CHR 0x82, CHR 0x9B],
      to_s = [CHR 0xE3, CHR 0x82, CHR 0xBC]\<rparr>,
     \<lparr>from_s = ''~Y'' @ [CHR 0xE3, CHR 0x82, CHR 0xBD] @ ''~Z'' @ [CHR 0xE3, CHR 0x82, CHR 0x9B],
      to_s = [CHR 0xE3, CHR 0x82, CHR 0xBE]\<rparr>,
     \<lparr>from_s = ''~Y'' @ [CHR 0xE3, CHR 0x82, CHR 0xBF] @ ''~Z'' @ [CHR 0xE3, CHR 0x82, CHR 0x9B],
      to_s = [CHR 0xE3, CHR 0x83, CHR 0x80]\<rparr>,
     \<lparr>from_s = ''~Y'' @ [CHR 0xE3, CHR 0x83, CHR 0x81] @ ''~Z'' @ [CHR 0xE3, CHR 0x82, CHR 0x9B],
      to_s = [CHR 0xE3, CHR 0x83, CHR 0x82]\<rparr>,
     \<lparr>from_s = ''~Y'' @ [CHR 0xE3, CHR 0x83, CHR 0x84] @ ''~Z'' @ [CHR 0xE3, CHR 0x82, CHR 0x9B],
      to_s = [CHR 0xE3, CHR 0x83, CHR 0x85]\<rparr>]"

definition s_replace_info_jak2_part7 :: "ReplaceInfo list" where
  "s_replace_info_jak2_part7 =
    [\<lparr>from_s = ''~Y'' @ [CHR 0xE3, CHR 0x83, CHR 0x86] @ ''~Z'' @ [CHR 0xE3, CHR 0x82, CHR 0x9B],
      to_s = [CHR 0xE3, CHR 0x83, CHR 0x87]\<rparr>,
     \<lparr>from_s = ''~Y'' @ [CHR 0xE3, CHR 0x83, CHR 0x88] @ ''~Z'' @ [CHR 0xE3, CHR 0x82, CHR 0x9B],
      to_s = [CHR 0xE3, CHR 0x83, CHR 0x89]\<rparr>,
     \<lparr>from_s = ''~Y'' @ [CHR 0xE3, CHR 0x83, CHR 0x8F] @ ''~Z'' @ [CHR 0xE3, CHR 0x82, CHR 0x9B],
      to_s = [CHR 0xE3, CHR 0x83, CHR 0x90]\<rparr>,
     \<lparr>from_s = ''~Y'' @ [CHR 0xE3, CHR 0x83, CHR 0x92] @ ''~Z'' @ [CHR 0xE3, CHR 0x82, CHR 0x9B],
      to_s = [CHR 0xE3, CHR 0x83, CHR 0x93]\<rparr>,
     \<lparr>from_s = ''~Y'' @ [CHR 0xE3, CHR 0x83, CHR 0x95] @ ''~Z'' @ [CHR 0xE3, CHR 0x82, CHR 0x9B],
      to_s = [CHR 0xE3, CHR 0x83, CHR 0x96]\<rparr>,
     \<lparr>from_s = ''~Y'' @ [CHR 0xE3, CHR 0x83, CHR 0x98] @ ''~Z'' @ [CHR 0xE3, CHR 0x82, CHR 0x9B],
      to_s = [CHR 0xE3, CHR 0x83, CHR 0x99]\<rparr>,
     \<lparr>from_s = ''~Y'' @ [CHR 0xE3, CHR 0x83, CHR 0x9B] @ ''~Z'' @ [CHR 0xE3, CHR 0x82, CHR 0x9B],
      to_s = [CHR 0xE3, CHR 0x83, CHR 0x9C]\<rparr>,
     \<lparr>from_s = ''~Y'' @ [CHR 0xE3, CHR 0x83, CHR 0x8F] @ ''~Z'' @ [CHR 0xE3, CHR 0x82, CHR 0x9C],
      to_s = [CHR 0xE3, CHR 0x83, CHR 0x91]\<rparr>,
     \<lparr>from_s = ''~Y'' @ [CHR 0xE3, CHR 0x83, CHR 0x92] @ ''~Z'' @ [CHR 0xE3, CHR 0x82, CHR 0x9C],
      to_s = [CHR 0xE3, CHR 0x83, CHR 0x94]\<rparr>,
     \<lparr>from_s = ''~Y'' @ [CHR 0xE3, CHR 0x83, CHR 0x95] @ ''~Z'' @ [CHR 0xE3, CHR 0x82, CHR 0x9C],
      to_s = [CHR 0xE3, CHR 0x83, CHR 0x97]\<rparr>]"

definition s_replace_info_jak2_part8 :: "ReplaceInfo list" where
  "s_replace_info_jak2_part8 =
    [\<lparr>from_s = ''~Y'' @ [CHR 0xE3, CHR 0x83, CHR 0x98] @ ''~Z'' @ [CHR 0xE3, CHR 0x82, CHR 0x9C],
      to_s = [CHR 0xE3, CHR 0x83, CHR 0x9A]\<rparr>,
     \<lparr>from_s = ''~Y'' @ [CHR 0xE3, CHR 0x83, CHR 0x9B] @ ''~Z'' @ [CHR 0xE3, CHR 0x82, CHR 0x9C],
      to_s = [CHR 0xE3, CHR 0x83, CHR 0x9D]\<rparr>,
     \<lparr>from_s = ''~Y'' @ [CHR 0xE3, CHR 0x81, CHR 0x8B] @ ''~Z'' @ [CHR 0xE3, CHR 0x82, CHR 0x9B],
      to_s = [CHR 0xE3, CHR 0x81, CHR 0x8C]\<rparr>,
     \<lparr>from_s = ''~Y'' @ [CHR 0xE3, CHR 0x81, CHR 0x8D] @ ''~Z'' @ [CHR 0xE3, CHR 0x82, CHR 0x9B],
      to_s = [CHR 0xE3, CHR 0x81, CHR 0x8E]\<rparr>,
     \<lparr>from_s = ''~Y'' @ [CHR 0xE3, CHR 0x81, CHR 0x8F] @ ''~Z'' @ [CHR 0xE3, CHR 0x82, CHR 0x9B],
      to_s = [CHR 0xE3, CHR 0x81, CHR 0x90]\<rparr>,
     \<lparr>from_s = ''~Y'' @ [CHR 0xE3, CHR 0x81, CHR 0x91] @ ''~Z'' @ [CHR 0xE3, CHR 0x82, CHR 0x9B],
      to_s = [CHR 0xE3, CHR 0x81, CHR 0x92]\<rparr>,
     \<lparr>from_s = ''~Y'' @ [CHR 0xE3, CHR 0x81, CHR 0x93] @ ''~Z'' @ [CHR 0xE3, CHR 0x82, CHR 0x9B],
      to_s = [CHR 0xE3, CHR 0x81, CHR 0x94]\<rparr>,
     \<lparr>from_s = ''~Y'' @ [CHR 0xE3, CHR 0x81, CHR 0x95] @ ''~Z'' @ [CHR 0xE3, CHR 0x82, CHR 0x9B],
      to_s = [CHR 0xE3, CHR 0x81, CHR 0x96]\<rparr>,
     \<lparr>from_s = ''~Y'' @ [CHR 0xE3, CHR 0x81, CHR 0x97] @ ''~Z'' @ [CHR 0xE3, CHR 0x82, CHR 0x9B],
      to_s = [CHR 0xE3, CHR 0x81, CHR 0x98]\<rparr>,
     \<lparr>from_s = ''~Y'' @ [CHR 0xE3, CHR 0x81, CHR 0x99] @ ''~Z'' @ [CHR 0xE3, CHR 0x82, CHR 0x9B],
      to_s = [CHR 0xE3, CHR 0x81, CHR 0x9A]\<rparr>]"

definition s_replace_info_jak2_part9 :: "ReplaceInfo list" where
  "s_replace_info_jak2_part9 =
    [\<lparr>from_s = ''~Y'' @ [CHR 0xE3, CHR 0x81, CHR 0x9B] @ ''~Z'' @ [CHR 0xE3, CHR 0x82, CHR 0x9B],
      to_s = [CHR 0xE3, CHR 0x81, CHR 0x9C]\<rparr>,
     \<lparr>from_s = ''~Y'' @ [CHR 0xE3, CHR 0x81, CHR 0x9D] @ ''~Z'' @ [CHR 0xE3, CHR 0x82, CHR 0x9B],
      to_s = [CHR 0xE3, CHR 0x81, CHR 0x9E]\<rparr>,
     \<lparr>from_s = ''~Y'' @ [CHR 0xE3, CHR 0x81, CHR 0x9F] @ ''~Z'' @ [CHR 0xE3, CHR 0x82, CHR 0x9B],
      to_s = [CHR 0xE3, CHR 0x81, CHR 0xA0]\<rparr>,
     \<lparr>from_s = ''~Y'' @ [CHR 0xE3, CHR 0x81, CHR 0xA1] @ ''~Z'' @ [CHR 0xE3, CHR 0x82, CHR 0x9B],
      to_s = [CHR 0xE3, CHR 0x81, CHR 0xA2]\<rparr>,
     \<lparr>from_s = ''~Y'' @ [CHR 0xE3, CHR 0x81, CHR 0xA4] @ ''~Z'' @ [CHR 0xE3, CHR 0x82, CHR 0x9B],
      to_s = [CHR 0xE3, CHR 0x81, CHR 0xA5]\<rparr>,
     \<lparr>from_s = ''~Y'' @ [CHR 0xE3, CHR 0x81, CHR 0xA6] @ ''~Z'' @ [CHR 0xE3, CHR 0x82, CHR 0x9B],
      to_s = [CHR 0xE3, CHR 0x81, CHR 0xA7]\<rparr>,
     \<lparr>from_s = ''~Y'' @ [CHR 0xE3, CHR 0x81, CHR 0xA8] @ ''~Z'' @ [CHR 0xE3, CHR 0x82, CHR 0x9B],
      to_s = [CHR 0xE3, CHR 0x81, CHR 0xA9]\<rparr>,
     \<lparr>from_s = ''~Y'' @ [CHR 0xE3, CHR 0x81, CHR 0xAF] @ ''~Z'' @ [CHR 0xE3, CHR 0x82, CHR 0x9B],
      to_s = [CHR 0xE3, CHR 0x81, CHR 0xB0]\<rparr>,
     \<lparr>from_s = ''~Y'' @ [CHR 0xE3, CHR 0x81, CHR 0xB2] @ ''~Z'' @ [CHR 0xE3, CHR 0x82, CHR 0x9B],
      to_s = [CHR 0xE3, CHR 0x81, CHR 0xB3]\<rparr>,
     \<lparr>from_s = ''~Y'' @ [CHR 0xE3, CHR 0x81, CHR 0xB5] @ ''~Z'' @ [CHR 0xE3, CHR 0x82, CHR 0x9B],
      to_s = [CHR 0xE3, CHR 0x81, CHR 0xB6]\<rparr>]"

definition s_replace_info_jak2_part10 :: "ReplaceInfo list" where
  "s_replace_info_jak2_part10 =
    [\<lparr>from_s = ''~Y'' @ [CHR 0xE3, CHR 0x81, CHR 0xB8] @ ''~Z'' @ [CHR 0xE3, CHR 0x82, CHR 0x9B],
      to_s = [CHR 0xE3, CHR 0x81, CHR 0xB9]\<rparr>,
     \<lparr>from_s = ''~Y'' @ [CHR 0xE3, CHR 0x81, CHR 0xBB] @ ''~Z'' @ [CHR 0xE3, CHR 0x82, CHR 0x9B],
      to_s = [CHR 0xE3, CHR 0x81, CHR 0xBC]\<rparr>,
     \<lparr>from_s = ''~Y'' @ [CHR 0xE3, CHR 0x81, CHR 0xAF] @ ''~Z'' @ [CHR 0xE3, CHR 0x82, CHR 0x9C],
      to_s = [CHR 0xE3, CHR 0x81, CHR 0xB1]\<rparr>,
     \<lparr>from_s = ''~Y'' @ [CHR 0xE3, CHR 0x81, CHR 0xB2] @ ''~Z'' @ [CHR 0xE3, CHR 0x82, CHR 0x9C],
      to_s = [CHR 0xE3, CHR 0x81, CHR 0xB4]\<rparr>,
     \<lparr>from_s = ''~Y'' @ [CHR 0xE3, CHR 0x81, CHR 0xB5] @ ''~Z'' @ [CHR 0xE3, CHR 0x82, CHR 0x9C],
      to_s = [CHR 0xE3, CHR 0x81, CHR 0xB7]\<rparr>,
     \<lparr>from_s = ''~Y'' @ [CHR 0xE3, CHR 0x81, CHR 0xB8] @ ''~Z'' @ [CHR 0xE3, CHR 0x82, CHR 0x9C],
      to_s = [CHR 0xE3, CHR 0x81, CHR 0xBA]\<rparr>,
     \<lparr>from_s = ''~Y'' @ [CHR 0xE3, CHR 0x81, CHR 0xBB] @ ''~Z'' @ [CHR 0xE3, CHR 0x82, CHR 0x9C],
      to_s = [CHR 0xE3, CHR 0x81, CHR 0xBD]\<rparr>,
     \<lparr>from_s = '',~+8H'',
      to_s = [CHR 0xE3, CHR 0x80, CHR 0x81]\<rparr>,
     \<lparr>from_s = ''~+8H '',
      to_s = [CHR 0xE3, CHR 0x80, CHR 0x80]\<rparr>,
     \<lparr>from_s = ''~Y~22L<~Z~Y~27L*~Z~Y~1L>~Z~Y~23L[~Z~+26H'',
      to_s = ''<PAD_X>''\<rparr>]"

definition s_replace_info_jak2_part11 :: "ReplaceInfo list" where
  "s_replace_info_jak2_part11 =
    [\<lparr>from_s = ''~Y~22L<~Z~Y~26L;~Z~Y~1L>~Z~Y~23L[~Z~+26H'',
      to_s = ''<PAD_TRIANGLE>''\<rparr>,
     \<lparr>from_s = ''~Y~22L<~Z~Y~25L@~Z~Y~1L>~Z~Y~23L[~Z~+26H'',
      to_s = ''<PAD_CIRCLE>''\<rparr>,
     \<lparr>from_s = ''~Y~22L<~Z~Y~24L#~Z~Y~1L>~Z~Y~23L[~Z~+26H'',
      to_s = ''<PAD_SQUARE>''\<rparr>,
     \<lparr>from_s = ''~Y~22L<PAD_PART_DPAD_L>~Z~3L~+17H~-13V<PAD_PART_DPAD_U>~Z~22L~+17H~+14V<PAD_PART_DPAD_D>~Z~22L~+32H<PAD_PART_DPAD_R>~Z~+56H'',
      to_s = ''<PAD_DPAD_UP>''\<rparr>,
     \<lparr>from_s = ''~Y~22L<PAD_PART_DPAD_L>~Z~3L~+17H~-13V<PAD_PART_DPAD_U>~Z~3L~+17H~+14V<PAD_PART_DPAD_D>~Z~22L~+32H<PAD_PART_DPAD_R>~Z~+56H'',
      to_s = ''<PAD_DPAD_DOWN>''\<rparr>,
     \<lparr>from_s = ''~Y~22L<PAD_PART_DPAD_L>~Z~22L~+17H~-13V<PAD_PART_DPAD_U>~Z~22L~+17H~+14V<PAD_PART_DPAD_D>~Z~22L~+32H<PAD_PART_DPAD_R>~Z~+56H'',
      to_s = ''<PAD_DPAD_ANY>''\<rparr>,
     \<lparr>from_s = ''~Y~22L~-2H~-12V<PAD_PART_SHOULDER_TOP_LEFT><PAD_PART_SHOULDER_TOP_RIGHT>~Z~22L~-2H~+17V<PAD_PART_SHOULDER_BOTTOM_LEFT><PAD_PART_SHOULDER_BOTTOM_RIGHT>~Z~1L~+4H~+3V<PAD_PART_L1_NAME>~Z~+38H'',
      to_s = ''<PAD_L1>''\<rparr>,
     \<lparr>from_s = ''~Y~22L~-2H~-12V<PAD_PART_SHOULDER_TOP_LEFT><PAD_PART_SHOULDER_TOP_RIGHT>~Z~22L~-2H~+17V<PAD_PART_SHOULDER_BOTTOM_LEFT><PAD_PART_SHOULDER_BOTTOM_RIGHT>~Z~1L~+6H~+3V<PAD_PART_R1_NAME>~Z~+38H'',
      to_s = ''<PAD_R1>''\<rparr>,
     \<lparr>from_s = ''~Y~22L~-2H~-6V<PAD_PART_TRIGGER_TOP_LEFT><PAD_PART_TRIGGER_TOP_RIGHT>~Z~22L~-2H~+16V<PAD_PART_TRIGGER_BOTTOM_LEFT><PAD_PART_TRIGGER_BOTTOM_RIGHT>~Z~1L~+5H~-2V<PAD_PART_R2_NAME>~Z~+38H'',
      to_s = ''<PAD_R2>''\<rparr>,
     \<lparr>from_s = ''~Y~22L~-2H~-6V<PAD_PART_TRIGGER_TOP_LEFT><PAD_PART_TRIGGER_TOP_RIGHT>~Z~22L~-2H~+16V<PAD_PART_TRIGGER_BOTTOM_LEFT><PAD_PART_TRIGGER_BOTTOM_RIGHT>~Z~1L~+5H~-2V<PAD_PART_L2_NAME>~Z~+38H'',
      to_s = ''<PAD_L2>''\<rparr>]"

definition s_replace_info_jak2_part12 :: "ReplaceInfo list" where
  "s_replace_info_jak2_part12 =
    [\<lparr>from_s = ''~1L~+8H~Y<PAD_PART_STICK>~Z~6L~-16H<PAD_PART_STICK_LEFT>~Z~+16h~6L<PAD_PART_STICK_RIGHT>~Z~6L~-15V<PAD_PART_STICK_DOWN>~Z~+13V~6L<PAD_PART_STICK_UP>~Z~-10H~+9V~6L<PAD_PART_STICK_UP_LEFT>~Z~+10H~+9V~6L<PAD_PART_STICK_UP_RIGHT>~Z~-10H~-11V~6L<PAD_PART_STICK_DOWN_LEFT>~Z~+10H~-11V~6L<PAD_PART_STICK_DOWN_RIGHT>~Z~+32H'',
      to_s = ''<PAD_ANALOG_ANY>''\<rparr>,
     \<lparr>from_s = ''~Y~1L~+8H<PAD_PART_STICK>~Z~6L~-8H<PAD_PART_STICK_LEFT>~Z~+24H~6L<PAD_PART_STICK_RIGHT>~Z~+40H'',
      to_s = ''<PAD_ANALOG_LEFT_RIGHT>''\<rparr>,
     \<lparr>from_s = ''~Y~1L<PAD_PART_STICK>~Z~6L~-15V<PAD_PART_STICK_DOWN>~Z~+13V~6L<PAD_PART_STICK_UP>~Z~+26H'',
      to_s = ''<PAD_ANALOG_UP_DOWN>''\<rparr>,
     \<lparr>from_s = ''~Y~6L<~Z~Y~1L>~Z~Y~23L[~Z~+26H'',
      to_s = ''<ICON_MISSION_COMPLETE>''\<rparr>,
     \<lparr>from_s = ''~Y~3L<~Z~Y~1L>~Z~Y~23L[~Z~+26H'',
      to_s = ''<ICON_MISSION_TODO>''\<rparr>,
     \<lparr>from_s = ''~Y~6L<FLAG_PART_VERT_STRIPE_LARGE>~Z~+15H~1L<FLAG_PART_VERT_STRIPE_LARGE>~Z~+30H~3L<FLAG_PART_VERT_STRIPE_LARGE>~Z~+45H'',
      to_s = ''<FLAG_ITALIAN>''\<rparr>,
     \<lparr>from_s = ''~Y~5L<FLAG_PART_FILL>~Z~3L<FLAG_PART_TOP_BOTTOM_STRIPE>~]~-1H~Y~5L<FLAG_PART_FILL>~Z~3L<FLAG_PART_TOP_BOTTOM_STRIPE>~Z~+26H'',
      to_s = ''<FLAG_SPAIN>''\<rparr>,
     \<lparr>from_s = ''~Y~39L~~~Z~3L<FLAG_PART_HORZ_STRIPE_MIDDLE>~Z~5L<FLAG_PART_HORZ_STRIPE_BOTTOM>~]~-1H~Y~39L~~~Z~3L<FLAG_PART_HORZ_STRIPE_MIDDLE>~Z~5L<FLAG_PART_HORZ_STRIPE_BOTTOM>~Z~+26H'',
      to_s = ''<FLAG_GERMAN>''\<rparr>,
     \<lparr>from_s = ''~Y~7L<FLAG_PART_VERT_STRIPE_LARGE>~Z~+15H~1L<FLAG_PART_VERT_STRIPE_LARGE>~Z~+30H~3L<FLAG_PART_VERT_STRIPE_LARGE>~Z~+47H'',
      to_s = ''<FLAG_FRANCE>''\<rparr>,
     \<lparr>from_s = ''~Y~1L<FLAG_PART_FILL>~Z~3L<FLAG_PART_UK_CROSS_LEFT>~Z~7L<FLAG_PART_UK_FILL_LEFT>~]~-1H~Y~1L<FLAG_PART_FILL>~Z~3L<FLAG_PART_UK_CROSS_RIGHT>~Z~7L<FLAG_PART_UK_FILL_RIGHT>~Z~+26H'',
      to_s = ''<FLAG_UK>''\<rparr>]"

definition s_replace_info_jak2_part13 :: "ReplaceInfo list" where
  "s_replace_info_jak2_part13 =
    [\<lparr>from_s = ''~Y~1L<FLAG_PART_FILL>~Z~3L<FLAG_PART_USA_STRIPES_LEFT>~Z~7L<FLAG_PART_USA_STARS>~]~-1H~Y~1L<FLAG_PART_FILL>~Z~3L<FLAG_PART_USA_STRIPES_RIGHT>~Z~+26H'',
      to_s = ''<FLAG_USA>''\<rparr>,
     \<lparr>from_s = ''~Y~1L<FLAG_PART_FILL>~Z~39L<FLAG_PART_KOREA_TRIGRAMS_LEFT>~]~-1H~Y~1L<FLAG_PART_FILL>~Z~39L<FLAG_PART_KOREA_TRIGRAMS_RIGHT>~Z~-11H~7L<FLAG_PART_KOREA_CIRCLE_FILL>~Z~-11H~3L<FLAG_PART_KOREA_CIRCLE_TOP>~Z~+26H'',
      to_s = ''<FLAG_KOREA>''\<rparr>,
     \<lparr>from_s = ''~Y~1L<FLAG_PART_FILL>~]~-1H~Y~1L<FLAG_PART_FILL>~Z~-11H~3L<FLAG_PART_JAPAN_SUN>~Z~+26H'',
      to_s = ''<FLAG_JAPAN>''\<rparr>,
     \<lparr>from_s = ''~+7Vp~-7V'',
      to_s = ''p''\<rparr>,
     \<lparr>from_s = ''~+7Vy~-7V'',
      to_s = ''y''\<rparr>,
     \<lparr>from_s = ''~+7Vg~-7V'',
      to_s = ''g''\<rparr>,
     \<lparr>from_s = ''~+7Vq~-7V'',
      to_s = ''q''\<rparr>,
     \<lparr>from_s = ''~+1Vj~-1V'',
      to_s = ''j''\<rparr>,
     \<lparr>from_s = [CHR 0x5C, CHR 0x5C],
      to_s = ''~%''\<rparr>,
     \<lparr>from_s = ''~-4H~-3V<SOMETHING>~+3V~-4H'',
      to_s = ''<SUPERSCRIPT_QUOTE>''\<rparr>]"

definition s_replace_info_jak2_part14 :: "ReplaceInfo list" where
  "s_replace_info_jak2_part14 =
    [\<lparr>from_s = ''~Y~-6H'' @ [CHR 0xC2, CHR 0xBA] @ ''~Z~+10H'',
      to_s = [CHR 0xC2, CHR 0xB0]\<rparr>,
     \<lparr>from_s = ''~[~1L'',
      to_s = ''<COLOR_WHITE>''\<rparr>,
     \<lparr>from_s = ''~[~32L'',
      to_s = ''<COLOR_DEFAULT>''\<rparr>]"

definition s_replace_info_jak2 :: "ReplaceInfo list" where
  "s_replace_info_jak2 =
     s_replace_info_jak2_part1 @
     s_replace_info_jak2_part2 @
     s_replace_info_jak2_part3 @
     s_replace_info_jak2_part4 @
     s_replace_info_jak2_part5 @
     s_replace_info_jak2_part6 @
     s_replace_info_jak2_part7 @
     s_replace_info_jak2_part8 @
     s_replace_info_jak2_part9 @
     s_replace_info_jak2_part10 @
     s_replace_info_jak2_part11 @
     s_replace_info_jak2_part12 @
     s_replace_info_jak2_part13 @
     s_replace_info_jak2_part14"

text \<open>The encode table of Jak 2, 669 entries.\<close>

definition s_encode_info_jak2_part1 :: "EncodeInfo list" where
  "s_encode_info_jak2_part1 =
    [\<lparr>chars = [CHR 0xCB, CHR 0x87], bytes = [CHR 0x10]\<rparr>,
     \<lparr>chars = [CHR 0x60], bytes = [CHR 0x11]\<rparr>,
     \<lparr>chars = [CHR 0x27], bytes = [CHR 0x12]\<rparr>,
     \<lparr>chars = [CHR 0x5E], bytes = [CHR 0x13]\<rparr>,
     \<lparr>chars = ''<TIL>'', bytes = [CHR 0x14]\<rparr>,
     \<lparr>chars = [CHR 0xC2, CHR 0xA8], bytes = [CHR 0x15]\<rparr>,
     \<lparr>chars = [CHR 0xC2, CHR 0xBA], bytes = [CHR 0x16]\<rparr>,
     \<lparr>chars = [CHR 0xC2, CHR 0xA1], bytes = [CHR 0x17]\<rparr>,
     \<lparr>chars = [CHR 0xC2, CHR 0xBF], bytes = [CHR 0x18]\<rparr>,
     \<lparr>chars = ''<SOMETHING>'', bytes = [CHR 0x19]\<rparr>,
     \<lparr>chars = [CHR 0xC3, CHR 0xA7], bytes = [CHR 0x1D]\<rparr>,
     \<lparr>chars = [CHR 0xC3, CHR 0x87], bytes = [CHR 0x1E]\<rparr>,
     \<lparr>chars = [CHR 0xC3, CHR 0x9F], bytes = [CHR 0x1F]\<rparr>,
     \<lparr>chars = [CHR 0xC5, CHR 0x93], bytes = [CHR 0x5E]\<rparr>,
     \<lparr>chars = ''<FLAG_PART_HORZ_STRIPE_MIDDLE>'', bytes = [CHR 0x7F]\<rparr>,
     \<lparr>chars = ''<FLAG_PART_HORZ_STRIPE_BOTTOM>'', bytes = [CHR 0x80]\<rparr>,
     \<lparr>chars = ''<FLAG_PART_VERT_STRIPE_LARGE>'', bytes = [CHR 0x81]\<rparr>,
     \<lparr>chars = ''<FLAG_PART_VERT_STRIPE_RIGHT>'', bytes = [CHR 0x82]\<rparr>,
     \<lparr>chars = ''<FLAG_PART_VERT_STRIPE_LEFT>'', bytes = [CHR 0x83]\<rparr>,
     \<lparr>chars = ''<FLAG_PART_VERT_STRIPE_MIDDLE>'', bytes = [CHR 0x84]\<rparr>,
     \<lparr>chars = ''<FLAG_PART_FILL>'', bytes = [CHR 0x85]\<rparr>,
     \<lparr>chars = ''<FLAG_PART_JAPAN_SUN>'', bytes = [CHR 0x86]\<rparr>,
     \<lparr>chars = ''<FLAG_PART_KOREA_TRIGRAMS_LEFT>'', bytes = [CHR 0x87]\<rparr>,
     \<lparr>chars = ''<FLAG_PART_KOREA_TRIGRAMS_RIGHT>'', bytes = [CHR 0x88]\<rparr>,
     \<lparr>chars = ''<FLAG_PART_KOREA_CIRCLE_TOP>'', bytes = [CHR 0x89]\<rparr>,
     \<lparr>chars = ''<FLAG_PART_KOREA_CIRCLE_FILL>'', bytes = [CHR 0x8A]\<rparr>,
     \<lparr>chars = ''<FLAG_PART_TOP_BOTTOM_STRIPE>'', bytes = [CHR 0x8B]\<rparr>,
     \<lparr>chars = ''<FLAG_PART_UK_CROSS_LEFT>'', bytes = [CHR 0x8C]\<rparr>,
     \<lparr>chars = ''<FLAG_PART_UK_CROSS_RIGHT>'', bytes = [CHR 0x8D]\<rparr>,
     \<lparr>chars = ''<FLAG_PART_UK_FILL_LEFT>'', bytes = [CHR 0x8E]\<rparr>,
     \<lparr>chars = ''<FLAG_PART_UK_FILL_RIGHT>'', bytes = [CHR 0x8F]\<rparr>,
     \<lparr>chars = ''<FLAG_PART_USA_STRIPES_RIGHT>'', bytes = [CHR 0x90]\<rparr>,
     \<lparr>chars = ''<PAD_PART_STICK>'', bytes = [CHR 0x91]\<rparr>,
     \<lparr>chars = ''<PAD_PART_SELECT>'', bytes = [CHR 0x92]\<rparr>,
     \<lparr>chars = ''<PAD_PART_TRIGGER_BACK>'', bytes = [CHR 0x93]\<rparr>,
     \<lparr>chars = ''<PAD_PART_R1_NAME>'', bytes = [CHR 0x94]\<rparr>,
     \<lparr>chars = ''<PAD_PART_L1_NAME>'', bytes = [CHR 0x95]\<rparr>,
     \<lparr>chars = ''<PAD_PART_R2_NAME>'', bytes = [CHR 0x96]\<rparr>,
     \<lparr>chars = ''<PAD_PART_L2_NAME>'', bytes = [CHR 0x97]\<rparr>,
     \<lparr>chars = ''<PAD_PART_STICK_UP>'', bytes = [CHR 0x98]\<rparr>]"

definition s_encode_info_jak2_part2 :: "EncodeInfo list" where
  "s_encode_info_jak2_part2 =
    [\<lparr>chars = ''<PAD_PART_STICK_UP_RIGHT>'', bytes = [CHR 0x99]\<rparr>,
     \<lparr>chars = ''<FLAG_PART_USA_STRIPES_LEFT>'', bytes = [CHR 0x9A]\<rparr>,
     \<lparr>chars = ''<FLAG_PART_USA_STARS>'', bytes = [CHR 0x9B]\<rparr>,
     \<lparr>chars = ''<PAD_PART_STICK_DOWN>'', bytes = [CHR 0x9C]\<rparr>,
     \<lparr>chars = ''<PAD_PART_STICK_DOWN_LEFT>'', bytes = [CHR 0x9D]\<rparr>,
     \<lparr>chars = ''<PAD_PART_STICK_LEFT>'', bytes = [CHR 0x9E]\<rparr>,
     \<lparr>chars = ''<PAD_PART_STICK_UP_LEFT>'', bytes = [CHR 0x9F]\<rparr>,
     \<lparr>chars = ''<PAD_PART_DPAD_D>'', bytes = [CHR 0xA0]\<rparr>,
     \<lparr>chars = ''<PAD_PART_DPAD_L>'', bytes = [CHR 0xA1]\<rparr>,
     \<lparr>chars = ''<PAD_PART_DPAD_U>'', bytes = [CHR 0xA2]\<rparr>,
     \<lparr>chars = ''<PAD_PART_DPAD_R>'', bytes = [CHR 0xA3]\<rparr>,
     \<lparr>chars = ''<PAD_PART_STICK_RIGHT>'', bytes = [CHR 0xA4]\<rparr>,
     \<lparr>chars = ''<PAD_PART_STICK_DOWN_RIGHT>'', bytes = [CHR 0xA5]\<rparr>,
     \<lparr>chars = ''<PAD_PART_SHOULDER_TOP_LEFT>'', bytes = [CHR 0xA6]\<rparr>,
     \<lparr>chars = ''<PAD_PART_SHOULDER_TOP_RIGHT>'', bytes = [CHR 0xA7]\<rparr>,
     \<lparr>chars = ''<PAD_PART_TRIGGER_TOP_LEFT>'', bytes = [CHR 0xA8]\<rparr>,
     \<lparr>chars = ''<PAD_PART_TRIGGER_TOP_RIGHT>'', bytes = [CHR 0xA9]\<rparr>,
     \<lparr>chars = ''<PAD_PART_TRIGGER_SHIM1>'', bytes = [CHR 0xAA]\<rparr>,
     \<lparr>chars = ''<PAD_PART_TRIGGER_SHIM2>'', bytes = [CHR 0xAB]\<rparr>,
     \<lparr>chars = ''<PAD_PART_SHOULDER_SHIM2>'', bytes = [CHR 0xAC]\<rparr>,
     \<lparr>chars = ''<PAD_PART_SHOULDER_BOTTOM_LEFT>'', bytes = [CHR 0xB0]\<rparr>,
     \<lparr>chars = ''<PAD_PART_SHOULDER_BOTTOM_RIGHT>'', bytes = [CHR 0xB1]\<rparr>,
     \<lparr>chars = ''<PAD_PART_TRIGGER_BOTTOM_LEFT>'', bytes = [CHR 0xB2]\<rparr>,
     \<lparr>chars = ''<PAD_PART_TRIGGER_BOTTOM_RIGHT>'', bytes = [CHR 0xB3]\<rparr>,
     \<lparr>chars = [CHR 0xE3, CHR 0x83, CHR 0xBB], bytes = [CHR 0x01, CHR 0x10]\<rparr>,
     \<lparr>chars = [CHR 0xE3, CHR 0x82, CHR 0x9B], bytes = [CHR 0x01, CHR 0x11]\<rparr>,
     \<lparr>chars = [CHR 0xE3, CHR 0x82, CHR 0x9C], bytes = [CHR 0x01, CHR 0x12]\<rparr>,
     \<lparr>chars = [CHR 0xE3, CHR 0x83, CHR 0xBC], bytes = [CHR 0x01, CHR 0x13]\<rparr>,
     \<lparr>chars = [CHR 0xE3, CHR 0x80, CHR 0x8E], bytes = [CHR 0x01, CHR 0x14]\<rparr>,
     \<lparr>chars = [CHR 0xE3, CHR 0x80, CHR 0x8F], bytes = [CHR 0x01, CHR 0x15]\<rparr>,
     \<lparr>chars = [CHR 0xE3, CHR 0x81, CHR 0x81], bytes = [CHR 0x01, CHR 0x16]\<rparr>,
     \<lparr>chars = [CHR 0xE3, CHR 0x81, CHR 0x82], bytes = [CHR 0x01, CHR 0x17]\<rparr>,
     \<lparr>chars = [CHR 0xE3, CHR 0x81, CHR 0x83], bytes = [CHR 0x01, CHR 0x18]\<rparr>,
     \<lparr>chars = [CHR 0xE3, CHR 0x81, CHR 0x84], bytes = [CHR 0x01, CHR 0x19]\<rparr>,
     \<lparr>chars = [CHR 0xE3, CHR 0x81, CHR 0x85], bytes = [CHR 0x01, CHR 0x1A]\<rparr>,
     \<lparr>chars = [CHR 0xE3, CHR 0x81, CHR 0x86], bytes = [CHR 0x01, CHR 0x1B]\<rparr>,
     \<lparr>chars = [CHR 0xE3, CHR 0x81, CHR 0x87], bytes = [CHR 0x01, CHR 0x1C]\<rparr>,
     \<lparr>chars = [CHR 0xE3, CHR 0x81, CHR 0x88], bytes = [CHR 0x01, CHR 0x1D]\<rparr>,
     \<lparr>chars = [CHR 0xE3, CHR 0x81, CHR 0x89], bytes = [CHR 0x01, CHR 0x1E]\<rparr>,
     \<lparr>chars = [CHR 0xE3, CHR 0x81, CHR 0x8A], bytes = [CHR 0x01, CHR 0x1F]\<rparr>]"

definition s_encode_info_jak2_part3 :: "EncodeInfo list" where
  "s_encode_info_jak2_part3 =
    [\<lparr>chars = [CHR 0xE3, CHR 0x81, CHR 0x8B], bytes = [CHR 0x01, CHR 0x20]\<rparr>,
     \<lparr>chars = [CHR 0xE3, CHR 0x81, CHR 0x8D], bytes = [CHR 0x01, CHR 0x21]\<rparr>,
     \<lparr>chars = [CHR 0xE3, CHR 0x81, CHR 0x8F], bytes = [CHR 0x01, CHR 0x22]\<rparr>,
     \<lparr>chars = [CHR 0xE3, CHR 0x81, CHR 0x91], bytes = [CHR 0x01, CHR 0x23]\<rparr>,
     \<lparr>chars = [CHR 0xE3, CHR 0x81, CHR 0x93], bytes = [CHR 0x01, CHR 0x24]\<rparr>,
     \<lparr>chars = [CHR 0xE3, CHR 0x81, CHR 0x95], bytes = [CHR 0x01, CHR 0x25]\<rparr>,
     \<lparr>chars = [CHR 0xE3, CHR 0x81, CHR 0x97], bytes = [CHR 0x01, CHR 0x26]\<rparr>,
     \<lparr>chars = [CHR 0xE3, CHR 0x81, CHR 0x99], bytes = [CHR 0x01, CHR 0x27]\<rparr>,
     \<lparr>chars = [CHR 0xE3, CHR 0x81, CHR 0x9B], bytes = [CHR 0x01, CHR 0x28]\<rparr>,
     \<lparr>chars = [CHR 0xE3, CHR 0x81, CHR 0x9D], bytes = [CHR 0x01, CHR 0x29]\<rparr>,
     \<lparr>chars = [CHR 0xE3, CHR 0x81, CHR 0x9F], bytes = [CHR 0x01, CHR 0x2A]\<rparr>,
     \<lparr>chars = [CHR 0xE3, CHR 0x81, CHR 0xA1], bytes = [CHR 0x01, CHR 0x2B]\<rparr>,
     \<lparr>chars = [CHR 0xE3, CHR 0x81, CHR 0xA3], bytes = [CHR 0x01, CHR 0x2C]\<rparr>,
     \<lparr>chars = [CHR 0xE3, CHR 0x81, CHR 0xA4], bytes = [CHR 0x01, CHR 0x2D]\<rparr>,
     \<lparr>chars = [CHR 0xE3, CHR 0x81, CHR 0xA6], bytes = [CHR 0x01, CHR 0x2E]\<rparr>,
     \<lparr>chars = [CHR 0xE3, CHR 0x81, CHR 0xA8], bytes = [CHR 0x01, CHR 0x2F]\<rparr>,
     \<lparr>chars = [CHR 0xE3, CHR 0x81, CHR 0xAA], bytes = [CHR 0x01, CHR 0x30]\<rparr>,
     \<lparr>chars = [CHR 0xE3, CHR 0x81, CHR 0xAB], bytes = [CHR 0x01, CHR 0x31]\<rparr>,
     \<lparr>chars = [CHR 0xE3, CHR 0x81, CHR 0xAC], bytes = [CHR 0x01, CHR 0x32]\<rparr>,
     \<lparr>chars = [CHR 0xE3, CHR 0x81, CHR 0xAD], bytes = [CHR 0x01, CHR 0x33]\<rparr>,
     \<lparr>chars = [CHR 0xE3, CHR 0x81, CHR 0xAE], bytes = [CHR 0x01, CHR 0x34]\<rparr>,
     \<lparr>chars = [CHR 0xE3, CHR 0x81, CHR 0xAF], bytes = [CHR 0x01, CHR 0x35]\<rparr>,
     \<lparr>chars = [CHR 0xE3, CHR 0x81, CHR 0xB2], bytes = [CHR 0x01, CHR 0x36]\<rparr>,
     \<lparr>chars = [CHR 0xE3, CHR 0x81, CHR 0xB5], bytes = [CHR 0x01, CHR 0x37]\<rparr>,
     \<lparr>chars = [CHR 0xE3, CHR 0x81, CHR 0xB8], bytes = [CHR 0x01, CHR 0x38]\<rparr>,
     \<lparr>chars = [CHR 0xE3, CHR 0x81, CHR 0xBB], bytes = [CHR 0x01, CHR 0x39]\<rparr>,
     \<lparr>chars = [CHR 0xE3, CHR 0x81, CHR 0xBE], bytes = [CHR 0x01, CHR 0x3A]\<rparr>,
     \<lparr>chars = [CHR 0xE3, CHR 0x81, CHR 0xBF], bytes = [CHR 0x01, CHR 0x3B]\<rparr>,
     \<lparr>chars = [CHR 0xE3, CHR 0x82, CHR 0x80], bytes = [CHR 0x01, CHR 0x3C]\<rparr>,
     \<lparr>chars = [CHR 0xE3, CHR 0x82, CHR 0x81], bytes = [CHR 0x01, CHR 0x3D]\<rparr>,
     \<lparr>chars = [CHR 0xE3, CHR 0x82, CHR 0x82], bytes = [CHR 0x01, CHR 0x3E]\<rparr>,
     \<lparr>chars = [CHR 0xE3, CHR 0x82, CHR 0x83], bytes = [CHR 0x01, CHR 0x3F]\<rparr>,
     \<lparr>chars = [CHR 0xE3, CHR 0x82, CHR 0x84], bytes = [CHR 0x01, CHR 0x40]\<rparr>,
     \<lparr>chars = [CHR 0xE3, CHR 0x82, CHR 0x85], bytes = [CHR 0x01, CHR 0x41]\<rparr>,
     \<lparr>chars = [CHR 0xE3, CHR 0x82, CHR 0x86], bytes = [CHR 0x01, CHR 0x42]\<rparr>,
     \<lparr>chars = [CHR 0xE3, CHR 0x82, CHR 0x87], bytes = [CHR 0x01, CHR 0x43]\<rparr>,
     \<lparr>chars = [CHR 0xE3, CHR 0x82, CHR 0x88], bytes = [CHR 0x01, CHR 0x44]\<rparr>,
     \<lparr>chars = [CHR 0xE3, CHR 0x82, CHR 0x89], bytes = [CHR 0x01, CHR 0x45]\<rparr>,
     \<lparr>chars = [CHR 0xE3, CHR 0x82, CHR 0x8A], bytes = [CHR 0x01, CHR 0x46]\<rparr>,
     \<lparr>chars = [CHR 0xE3, CHR 0x82, CHR 0x8B], bytes = [CHR 0x01, CHR 0x47]\<rparr>]"

definition s_encode_info_jak2_part4 :: "EncodeInfo list" where
  "s_encode_info_jak2_part4 =
    [\<lparr>chars = [CHR 0xE3, CHR 0x82, CHR 0x8C], bytes = [CHR 0x01, CHR 0x48]\<rparr>,
     \<lparr>chars = [CHR 0xE3, CHR 0x82, CHR 0x8D], bytes = [CHR 0x01, CHR 0x49]\<rparr>,
     \<lparr>chars = [CHR 0xE3, CHR 0x82, CHR 0x8E], bytes = [CHR 0x01, CHR 0x4A]\<rparr>,
     \<lparr>chars = [CHR 0xE3, CHR 0x82, CHR 0x8F], bytes = [CHR 0x01, CHR 0x4B]\<rparr>,
     \<lparr>chars = [CHR 0xE3, CHR 0x82, CHR 0x92], bytes = [CHR 0x01, CHR 0x4C]\<rparr>,
     \<lparr>chars = [CHR 0xE3, CHR 0x82, CHR 0x93], bytes = [CHR 0x01, CHR 0x4D]\<rparr>,
     \<lparr>chars = [CHR 0xE3, CHR 0x82, CHR 0xA1], bytes = [CHR 0x01, CHR 0x4E]\<rparr>,
     \<lparr>chars = [CHR 0xE3, CHR 0x82, CHR 0xA2], bytes = [CHR 0x01, CHR 0x4F]\<rparr>,
     \<lparr>chars = [CHR 0xE3, CHR 0x82, CHR 0xA3], bytes = [CHR 0x01, CHR 0x50]\<rparr>,
     \<lparr>chars = [CHR 0xE3, CHR 0x82, CHR 0xA4], bytes = [CHR 0x01, CHR 0x51]\<rparr>,
     \<lparr>chars = [CHR 0xE3, CHR 0x82, CHR 0xA5], bytes = [CHR 0x01, CHR 0x52]\<rparr>,
     \<lparr>chars = [CHR 0xE3, CHR 0x82, CHR 0xA6], bytes = [CHR 0x01, CHR 0x53]\<rparr>,
     \<lparr>chars = [CHR 0xE3, CHR 0x82, CHR 0xA7], bytes = [CHR 0x01, CHR 0x54]\<rparr>,
     \<lparr>chars = [CHR 0xE3, CHR 0x82, CHR 0xA8], bytes = [CHR 0x01, CHR 0x55]\<rparr>,
     \<lparr>chars = [CHR 0xE3, CHR 0x82, CHR 0xA9], bytes = [CHR 0x01, CHR 0x56]\<rparr>,
     \<lparr>chars = [CHR 0xE3, CHR 0x82, CHR 0xAA], bytes = [CHR 0x01, CHR 0x57]\<rparr>,
     \<lparr>chars = [CHR 0xE3, CHR 0x82, CHR 0xAB], bytes = [CHR 0x01, CHR 0x58]\<rparr>,
     \<lparr>chars = [CHR 0xE3, CHR 0x82, CHR 0xAD], bytes = [CHR 0x01, CHR 0x59]\<rparr>,
     \<lparr>chars = [CHR 0xE3, CHR 0x82, CHR 0xAF], bytes = [CHR 0x01, CHR 0x5A]\<rparr>,
     \<lparr>chars = [CHR 0xE3, CHR 0x82, CHR 0xB1], bytes = [CHR 0x01, CHR 0x5B]\<rparr>,
     \<lparr>chars = [CHR 0xE3, CHR 0x82, CHR 0xB3], bytes = [CHR 0x01, CHR 0x5C]\<rparr>,
     \<lparr>chars = [CHR 0xE3, CHR 0x82, CHR 0xB5], bytes = [CHR 0x01, CHR 0x5D]\<rparr>,
     \<lparr>chars = [CHR 0xE3, CHR 0x82, CHR 0xB7], bytes = [CHR 0x01, CHR 0x5E]\<rparr>,
     \<lparr>chars = [CHR 0xE3, CHR 0x82, CHR 0xB9], bytes = [CHR 0x01, CHR 0x5F]\<rparr>,
     \<lparr>chars = [CHR 0xE3, CHR 0x82, CHR 0xBB], bytes = [CHR 0x01, CHR 0x60]\<rparr>,
     \<lparr>chars = [CHR 0xE3, CHR 0x82, CHR 0xBD], bytes = [CHR 0x01, CHR 0x61]\<rparr>,
     \<lparr>chars = [CHR 0xE3, CHR 0x82, CHR 0xBF], bytes = [CHR 0x01, CHR 0x62]\<rparr>,
     \<lparr>chars = [CHR 0xE3, CHR 0x83, CHR 0x81], bytes = [CHR 0x01, CHR 0x63]\<rparr>,
     \<lparr>chars = [CHR 0xE3, CHR 0x83, CHR 0x83], bytes = [CHR 0x01, CHR 0x64]\<rparr>,
     \<lparr>chars = [CHR 0xE3, CHR 0x83, CHR 0x84], bytes = [CHR 0x01, CHR 0x65]\<rparr>,
     \<lparr>chars = [CHR 0xE3, CHR 0x83, CHR 0x86], bytes = [CHR 0x01, CHR 0x66]\<rparr>,
     \<lparr>chars = [CHR 0xE3, CHR 0x83, CHR 0x88], bytes = [CHR 0x01, CHR 0x67]\<rparr>,
     \<lparr>chars = [CHR 0xE3, CHR 0x83, CHR 0x8A], bytes = [CHR 0x01, CHR 0x68]\<rparr>,
     \<lparr>chars = [CHR 0xE3, CHR 0x83, CHR 0x8B], bytes = [CHR 0x01, CHR 0x69]\<rparr>,
     \<lparr>chars = [CHR 0xE3, CHR 0x83, CHR 0x8C], bytes = [CHR 0x01, CHR 0x6A]\<rparr>,
     \<lparr>chars = [CHR 0xE3, CHR 0x83, CHR 0x8D], bytes = [CHR 0x01, CHR 0x6B]\<rparr>,
     \<lparr>chars = [CHR 0xE3, CHR 0x83, CHR 0x8E], bytes = [CHR 0x01, CHR 0x6C]\<rparr>,
     \<lparr>chars = [CHR 0xE3, CHR 0x83, CHR 0x8F], bytes = [CHR 0x01, CHR 0x6D]\<rparr>,
     \<lparr>chars = [CHR 0xE3, CHR 0x83, CHR 0x92], bytes = [CHR 0x01, CHR 0x6E]\<rparr>,
     \<lparr>chars = [CHR 0xE3, CHR 0x83, CHR 0x95], bytes = [CHR 0x01, CHR 0x6F]\<rparr>]"

definition s_encode_info_jak2_part5 :: "EncodeInfo list" where
  "s_encode_info_jak2_part5 =
    [\<lparr>chars = [CHR 0xE3, CHR 0x83, CHR 0x98], bytes = [CHR 0x01, CHR 0x70]\<rparr>,
     \<lparr>chars = [CHR 0xE3, CHR 0x83, CHR 0x9B], bytes = [CHR 0x01, CHR 0x71]\<rparr>,
     \<lparr>chars = [CHR 0xE3, CHR 0x83, CHR 0x9E], bytes = [CHR 0x01, CHR 0x72]\<rparr>,
     \<lparr>chars = [CHR 0xE3, CHR 0x83, CHR 0x9F], bytes = [CHR 0x01, CHR 0x73]\<rparr>,
     \<lparr>chars = [CHR 0xE3, CHR 0x83, CHR 0xA0], bytes = [CHR 0x01, CHR 0x74]\<rparr>,
     \<lparr>chars = [CHR 0xE3, CHR 0x83, CHR 0xA1], bytes = [CHR 0x01, CHR 0x75]\<rparr>,
     \<lparr>chars = [CHR 0xE3, CHR 0x83, CHR 0xA2], bytes = [CHR 0x01, CHR 0x76]\<rparr>,
     \<lparr>chars = [CHR 0xE3, CHR 0x83, CHR 0xA3], bytes = [CHR 0x01, CHR 0x77]\<rparr>,
     \<lparr>chars = [CHR 0xE3, CHR 0x83, CHR 0xA4], bytes = [CHR 0x01, CHR 0x78]\<rparr>,
     \<lparr>chars = [CHR 0xE3, CHR 0x83, CHR 0xA5], bytes = [CHR 0x01, CHR 0x79]\<rparr>,
     \<lparr>chars = [CHR 0xE3, CHR 0x83, CHR 0xA6], bytes = [CHR 0x01, CHR 0x7A]\<rparr>,
     \<lparr>chars = [CHR 0xE3, CHR 0x83, CHR 0xA7], bytes = [CHR 0x01, CHR 0x7B]\<rparr>,
     \<lparr>chars = [CHR 0xE3, CHR 0x83, CHR 0xA8], bytes = [CHR 0x01, CHR 0x7C]\<rparr>,
     \<lparr>chars = [CHR 0xE3, CHR 0x83, CHR 0xA9], bytes = [CHR 0x01, CHR 0x7D]\<rparr>,
     \<lparr>chars = [CHR 0xE3, CHR 0x83, CHR 0xAA], bytes = [CHR 0x01, CHR 0x7E]\<rparr>,
     \<lparr>chars = [CHR 0xE3, CHR 0x83, CHR 0xAB], bytes = [CHR 0x01, CHR 0x7F]\<rparr>,
     \<lparr>chars = [CHR 0xE3, CHR 0x83, CHR 0xAC], bytes = [CHR 0x01, CHR 0x80]\<rparr>,
     \<lparr>chars = [CHR 0xE3, CHR 0x83, CHR 0xAD], bytes = [CHR 0x01, CHR 0x81]\<rparr>,
     \<lparr>chars = [CHR 0xE3, CHR 0x83, CHR 0xAE], bytes = [CHR 0x01, CHR 0x82]\<rparr>,
     \<lparr>chars = [CHR 0xE3, CHR 0x83, CHR 0xAF], bytes = [CHR 0x01, CHR 0x83]\<rparr>,
     \<lparr>chars = [CHR 0xE3, CHR 0x83, CHR 0xB2], bytes = [CHR 0x01, CHR 0x84]\<rparr>,
     \<lparr>chars = [CHR 0xE3, CHR 0x83, CHR 0xB3], bytes = [CHR 0x01, CHR 0x85]\<rparr>,
     \<lparr>chars = [CHR 0xE4, CHR 0xBD, CHR 0x8D], bytes = [CHR 0x01, CHR 0x8C]\<rparr>,
     \<lparr>chars = [CHR 0xE9, CHR 0x81, CHR 0xBA], bytes = [CHR 0x01, CHR 0x8D]\<rparr>,
     \<lparr>chars = [CHR 0xE9, CHR 0x99, CHR 0xA2], bytes = [CHR 0x01, CHR 0x8E]\<rparr>,
     \<lparr>chars = [CHR 0xE6, CHR 0x98, CHR 0xA0], bytes = [CHR 0x01, CHR 0x8F]\<rparr>,
     \<lparr>chars = [CHR 0xE8, CHR 0xA1, CHR 0x9B], bytes = [CHR 0x01, CHR 0x90]\<rparr>,
     \<lparr>chars = [CHR 0xE5, CHR 0xBF, CHR 0x9C], bytes = [CHR 0x01, CHR 0x91]\<rparr>,
     \<lparr>chars = [CHR 0xE4, CHR 0xB8, CHR 0x8B], bytes = [CHR 0x01, CHR 0x92]\<rparr>,
     \<lparr>chars = [CHR 0xE7, CHR 0x94, CHR 0xBB], bytes = [CHR 0x01, CHR 0x93]\<rparr>,
     \<lparr>chars = [CHR 0xE8, CHR 0xA7, CHR 0xA3], bytes = [CHR 0x01, CHR 0x94]\<rparr>,
     \<lparr>chars = [CHR 0xE9, CHR 0x96, CHR 0x8B], bytes = [CHR 0x01, CHR 0x95]\<rparr>,
     \<lparr>chars = [CHR 0xE5, CHR 0xA4, CHR 0x96], bytes = [CHR 0x01, CHR 0x96]\<rparr>,
     \<lparr>chars = [CHR 0xE5, CHR 0xAE, CHR 0xB3], bytes = [CHR 0x01, CHR 0x97]\<rparr>,
     \<lparr>chars = [CHR 0xE8, CHR 0x93, CHR 0x8B], bytes = [CHR 0x01, CHR 0x98]\<rparr>,
     \<lparr>chars = [CHR 0xE5, CHR 0xAE, CHR 0x8C], bytes = [CHR 0x01, CHR 0x99]\<rparr>,
     \<lparr>chars = [CHR 0xE6, CHR 0x8F, CHR 0x9B], bytes = [CHR 0x01, CHR 0x9A]\<rparr>,
     \<lparr>chars = [CHR 0xE7, CHR 0x9B, CHR 0xA3], bytes = [CHR 0x01, CHR 0x9B]\<rparr>,
     \<lparr>chars = [CHR 0xE9, CHR 0x96, CHR 0x93], bytes = [CHR 0x01, CHR 0x9C]\<rparr>,
     \<lparr>chars = [CHR 0xE5, CHR 0x99, CHR 0xA8], bytes = [CHR 0x01, CHR 0x9D]\<rparr>]"

definition s_encode_info_jak2_part6 :: "EncodeInfo list" where
  "s_encode_info_jak2_part6 =
    [\<lparr>chars = [CHR 0xE8, CHR 0xA8, CHR 0x98], bytes = [CHR 0x01, CHR 0x9E]\<rparr>,
     \<lparr>chars = [CHR 0xE9, CHR 0x80, CHR 0x86], bytes = [CHR 0x01, CHR 0x9F]\<rparr>,
     \<lparr>chars = [CHR 0xE6, CHR 0x95, CHR 0x91], bytes = [CHR 0x01, CHR 0xA0]\<rparr>,
     \<lparr>chars = [CHR 0xE9, CHR 0x87, CHR 0x91], bytes = [CHR 0x01, CHR 0xA1]\<rparr>,
     \<lparr>chars = [CHR 0xE7, CHR 0xA9, CHR 0xBA], bytes = [CHR 0x01, CHR 0xA2]\<rparr>,
     \<lparr>chars = [CHR 0xE6, CHR 0x8E, CHR 0x98], bytes = [CHR 0x01, CHR 0xA3]\<rparr>,
     \<lparr>chars = [CHR 0xE8, CHR 0xAD, CHR 0xA6], bytes = [CHR 0x01, CHR 0xA4]\<rparr>,
     \<lparr>chars = [CHR 0xE8, CHR 0xBF, CHR 0x8E], bytes = [CHR 0x01, CHR 0xA5]\<rparr>,
     \<lparr>chars = [CHR 0xE6, CHR 0x92, CHR 0x83], bytes = [CHR 0x01, CHR 0xA6]\<rparr>,
     \<lparr>chars = [CHR 0xE5, CHR 0xBB, CHR 0xBA], bytes = [CHR 0x01, CHR 0xA7]\<rparr>,
     \<lparr>chars = [CHR 0xE6, CHR 0xBA, CHR 0x90], bytes = [CHR 0x01, CHR 0xA8]\<rparr>,
     \<lparr>chars = [CHR 0xE7, CHR 0x8F, CHR 0xBE], bytes = [CHR 0x01, CHR 0xA9]\<rparr>,
     \<lparr>chars = [CHR 0xE8, CHR 0xA8, CHR 0x80], bytes = [CHR 0x01, CHR 0xAA]\<rparr>,
     \<lparr>chars = [CHR 0xE9, CHR 0x99, CHR 0x90], bytes = [CHR 0x01, CHR 0xAB]\<rparr>,
     \<lparr>chars = [CHR 0xE5, CHR 0x80, CHR 0x8B], bytes = [CHR 0x01, CHR 0xAC]\<rparr>,
     \<lparr>chars = [CHR 0xE5, CHR 0xBA, CHR 0xAB], bytes = [CHR 0x01, CHR 0xAD]\<rparr>,
     \<lparr>chars = [CHR 0xE5, CHR 0xBE, CHR 0x8C], bytes = [CHR 0x01, CHR 0xAE]\<rparr>,
     \<lparr>chars = [CHR 0xE8, CHR 0xAA, CHR 0x9E], bytes = [CHR 0x01, CHR 0xAF]\<rparr>,
     \<lparr>chars = [CHR 0xE8, CHR 0xAD, CHR 0xB7], bytes = [CHR 0x01, CHR 0xB0]\<rparr>,
     \<lparr>chars = [CHR 0xE4, CHR 0xBA, CHR 0xA4], bytes = [CHR 0x01, CHR 0xB1]\<rparr>,
     \<lparr>chars = [CHR 0xE5, CHR 0x8A, CHR 0x9F], bytes = [CHR 0x01, CHR 0xB2]\<rparr>,
     \<lparr>chars = [CHR 0xE5, CHR 0x90, CHR 0x91], bytes = [CHR 0x01, CHR 0xB3]\<rparr>,
     \<lparr>chars = [CHR 0xE5, CHR 0xB7, CHR 0xA5], bytes = [CHR 0x01, CHR 0xB4]\<rparr>,
     \<lparr>chars = [CHR 0xE6, CHR 0x94, CHR 0xBB], bytes = [CHR 0x01, CHR 0xB5]\<rparr>,
     \<lparr>chars = [CHR 0xE6, CHR 0xBA, CHR 0x9D], bytes = [CHR 0x01, CHR 0xB6]\<rparr>,
     \<lparr>chars = [CHR 0xE8, CHR 0xA1, CHR 0x8C], bytes = [CHR 0x01, CHR 0xB7]\<rparr>,
     \<lparr>chars = [CHR 0xE9, CHR 0x89, CHR 0xB1], bytes = [CHR 0x01, CHR 0xB8]\<rparr>,
     \<lparr>chars = [CHR 0xE9, CHR 0x99, CHR 0x8D], bytes = [CHR 0x01, CHR 0xB9]\<rparr>,
     \<lparr>chars = [CHR 0xE5, CHR 0x90, CHR 0x88], bytes = [CHR 0x01, CHR 0xBA]\<rparr>,
     \<lparr>chars = [CHR 0xE5, CHR 0x91, CHR 0x8A], bytes = [CHR 0x01, CHR 0xBB]\<rparr>,
     \<lparr>chars = [CHR 0xE7, CHR 0x8D, CHR 0x84], bytes = [CHR 0x01, CHR 0xBC]\<rparr>,
     \<lparr>chars = [CHR 0xE5, CHR 0xBD, CHR 0xA9], bytes = [CHR 0x01, CHR 0xBD]\<rparr>,
     \<lparr>chars = [CHR 0xE4, CHR 0xBD, CHR 0x9C], bytes = [CHR 0x01, CHR 0xBE]\<rparr>,
     \<lparr>chars = [CHR 0xE5, CHR 0xB1, CHR 0xB1], bytes = [CHR 0x01, CHR 0xBF]\<rparr>,
     \<lparr>chars = [CHR 0xE4, CHR 0xBD, CHR 0xBF], bytes = [CHR 0x01, CHR 0xC0]\<rparr>,
     \<lparr>chars = [CHR 0xE5, CHR 0xA7, CHR 0x8B], bytes = [CHR 0x01, CHR 0xC1]\<rparr>,
     \<lparr>chars = [CHR 0xE8, CHR 0xA9, CHR 0xA6], bytes = [CHR 0x01, CHR 0xC2]\<rparr>,
     \<lparr>chars = [CHR 0xE5, CHR 0xAD, CHR 0x97], bytes = [CHR 0x01, CHR 0xC3]\<rparr>,
     \<lparr>chars = [CHR 0xE5, CHR 0xAF, CHR 0xBA], bytes = [CHR 0x01, CHR 0xC4]\<rparr>,
     \<lparr>chars = [CHR 0xE6, CHR 0x99, CHR 0x82], bytes = [CHR 0x01, CHR 0xC5]\<rparr>]"

definition s_encode_info_jak2_part7 :: "EncodeInfo list" where
  "s_encode_info_jak2_part7 =
    [\<lparr>chars = [CHR 0xE7, CHR 0xA4, CHR 0xBA], bytes = [CHR 0x01, CHR 0xC6]\<rparr>,
     \<lparr>chars = [CHR 0xE8, CHR 0x87, CHR 0xAA], bytes = [CHR 0x01, CHR 0xC7]\<rparr>,
     \<lparr>chars = [CHR 0xE5, CHR 0xBC, CHR 0x8F], bytes = [CHR 0x01, CHR 0xC8]\<rparr>,
     \<lparr>chars = [CHR 0xE7, CHR 0x9F, CHR 0xA2], bytes = [CHR 0x01, CHR 0xC9]\<rparr>,
     \<lparr>chars = [CHR 0xE5, CHR 0xB0, CHR 0x84], bytes = [CHR 0x01, CHR 0xCA]\<rparr>,
     \<lparr>chars = [CHR 0xE8, CHR 0x80, CHR 0x85], bytes = [CHR 0x01, CHR 0xCB]\<rparr>,
     \<lparr>chars = [CHR 0xE5, CHR 0xAE, CHR 0x88], bytes = [CHR 0x01, CHR 0xCC]\<rparr>,
     \<lparr>chars = [CHR 0xE6, CHR 0x89, CHR 0x8B], bytes = [CHR 0x01, CHR 0xCD]\<rparr>,
     \<lparr>chars = [CHR 0xE7, CHR 0xB5, CHR 0x82], bytes = [CHR 0x01, CHR 0xCE]\<rparr>,
     \<lparr>chars = [CHR 0xE9, CHR 0x80, CHR 0xB1], bytes = [CHR 0x01, CHR 0xCF]\<rparr>,
     \<lparr>chars = [CHR 0xE5, CHR 0x87, CHR 0xBA], bytes = [CHR 0x01, CHR 0xD0]\<rparr>,
     \<lparr>chars = [CHR 0xE6, CHR 0x89, CHR 0x80], bytes = [CHR 0x01, CHR 0xD1]\<rparr>,
     \<lparr>chars = [CHR 0xE6, CHR 0x9B, CHR 0xB8], bytes = [CHR 0x01, CHR 0xD2]\<rparr>,
     \<lparr>chars = [CHR 0xE5, CHR 0x8B, CHR 0x9D], bytes = [CHR 0x01, CHR 0xD3]\<rparr>,
     \<lparr>chars = [CHR 0xE7, CHR 0xAB, CHR 0xA0], bytes = [CHR 0x01, CHR 0xD4]\<rparr>,
     \<lparr>chars = [CHR 0xE4, CHR 0xB8, CHR 0x8A], bytes = [CHR 0x01, CHR 0xD5]\<rparr>,
     \<lparr>chars = [CHR 0xE4, CHR 0xB9, CHR 0x97], bytes = [CHR 0x01, CHR 0xD6]\<rparr>,
     \<lparr>chars = [CHR 0xE5, CHR 0xA0, CHR 0xB4], bytes = [CHR 0x01, CHR 0xD7]\<rparr>,
     \<lparr>chars = [CHR 0xE6, CHR 0xA3, CHR 0xAE], bytes = [CHR 0x01, CHR 0xD8]\<rparr>,
     \<lparr>chars = [CHR 0xE9, CHR 0x80, CHR 0xB2], bytes = [CHR 0x01, CHR 0xD9]\<rparr>,
     \<lparr>chars = [CHR 0xE4, CHR 0xBA, CHR 0xBA], bytes = [CHR 0x01, CHR 0xDA]\<rparr>,
     \<lparr>chars = [CHR 0xE6, CHR 0xB0, CHR 0xB4], bytes = [CHR 0x01, CHR 0xDB]\<rparr>,
     \<lparr>chars = [CHR 0xE6, CHR 0x95, CHR 0xB0], bytes = [CHR 0x01, CHR 0xDC]\<rparr>,
     \<lparr>chars = [CHR 0xE5, CHR 0x88, CHR 0xB6], bytes = [CHR 0x01, CHR 0xDD]\<rparr>,
     \<lparr>chars = [CHR 0xE6, CHR 0x80, CHR 0xA7], bytes = [CHR 0x01, CHR 0xDE]\<rparr>,
     \<lparr>chars = [CHR 0xE6, CHR 0x88, CHR 0x90], bytes = [CHR 0x01, CHR 0xDF]\<rparr>,
     \<lparr>chars = [CHR 0xE8, CHR 0x81, CHR 0x96], bytes = [CHR 0x01, CHR 0xE0]\<rparr>,
     \<lparr>chars = [CHR 0xE7, CHR 0x9F, CHR 0xB3], bytes = [CHR 0x01, CHR 0xE1]\<rparr>,
     \<lparr>chars = [CHR 0xE8, CHR 0xB7, CHR 0xA1], bytes = [CHR 0x01, CHR 0xE2]\<rparr>,
     \<lparr>chars = [CHR 0xE5, CHR 0x85, CHR 0x88], bytes = [CHR 0x01, CHR 0xE3]\<rparr>,
     \<lparr>chars = [CHR 0xE6, CHR 0x88, CHR 0xA6], bytes = [CHR 0x01, CHR 0xE4]\<rparr>,
     \<lparr>chars = [CHR 0xE8, CHR 0x88, CHR 0xB9], bytes = [CHR 0x01, CHR 0xE5]\<rparr>,
     \<lparr>chars = [CHR 0xE9, CHR 0x81, CHR 0xB8], bytes = [CHR 0x01, CHR 0xE6]\<rparr>,
     \<lparr>chars = [CHR 0xE8, CHR 0xB5, CHR 0xB0], bytes = [CHR 0x01, CHR 0xE7]\<rparr>,
     \<lparr>chars = [CHR 0xE9, CHR 0x80, CHR 0x81], bytes = [CHR 0x01, CHR 0xE8]\<rparr>,
     \<lparr>chars = [CHR 0xE5, CHR 0x83, CHR 0x8F], bytes = [CHR 0x01, CHR 0xE9]\<rparr>,
     \<lparr>chars = [CHR 0xE9, CHR 0x80, CHR 0xA0], bytes = [CHR 0x01, CHR 0xEA]\<rparr>,
     \<lparr>chars = [CHR 0xE7, CHR 0xB6, CHR 0x9A], bytes = [CHR 0x01, CHR 0xEB]\<rparr>,
     \<lparr>chars = [CHR 0xE5, CHR 0xAF, CHR 0xBE], bytes = [CHR 0x01, CHR 0xEC]\<rparr>,
     \<lparr>chars = [CHR 0xE8, CHR 0xA2, CHR 0x8B], bytes = [CHR 0x01, CHR 0xED]\<rparr>]"

definition s_encode_info_jak2_part8 :: "EncodeInfo list" where
  "s_encode_info_jak2_part8 =
    [\<lparr>chars = [CHR 0xE5, CHR 0x8F, CHR 0xB0], bytes = [CHR 0x01, CHR 0xEE]\<rparr>,
     \<lparr>chars = [CHR 0xE5, CHR 0xBC, CHR 0xBE], bytes = [CHR 0x01, CHR 0xEF]\<rparr>,
     \<lparr>chars = [CHR 0xE5, CHR 0x9C, CHR 0xB0], bytes = [CHR 0x01, CHR 0xF0]\<rparr>,
     \<lparr>chars = [CHR 0xE4, CHR 0xB8, CHR 0xAD], bytes = [CHR 0x01, CHR 0xF1]\<rparr>,
     \<lparr>chars = [CHR 0xE6, CHR 0x95, CHR 0xB5], bytes = [CHR 0x01, CHR 0xF2]\<rparr>,
     \<lparr>chars = [CHR 0xE8, CHR 0xBB, CHR 0xA2], bytes = [CHR 0x01, CHR 0xF3]\<rparr>,
     \<lparr>chars = [CHR 0xE9, CHR 0x9B, CHR 0xBB], bytes = [CHR 0x01, CHR 0xF4]\<rparr>,
     \<lparr>chars = [CHR 0xE5, CHR 0xA1, CHR 0x94], bytes = [CHR 0x01, CHR 0xF5]\<rparr>,
     \<lparr>chars = [CHR 0xE9, CHR 0xA0, CHR 0xAD], bytes = [CHR 0x01, CHR 0xF6]\<rparr>,
     \<lparr>chars = [CHR 0xE5, CHR 0x8B, CHR 0x95], bytes = [CHR 0x01, CHR 0xF7]\<rparr>,
     \<lparr>chars = [CHR 0xE5, CHR 0x86, CHR 0x85], bytes = [CHR 0x01, CHR 0xF8]\<rparr>,
     \<lparr>chars = [CHR 0xE6, CHR 0x97, CHR 0xA5], bytes = [CHR 0x01, CHR 0xF9]\<rparr>,
     \<lparr>chars = [CHR 0xE5, CHR 0x85, CHR 0xA5], bytes = [CHR 0x01, CHR 0xFA]\<rparr>,
     \<lparr>chars = [CHR 0xE5, CHR 0xB9, CHR 0xB4], bytes = [CHR 0x01, CHR 0xFB]\<rparr>,
     \<lparr>chars = [CHR 0xE8, CHR 0x83, CHR 0xBD], bytes = [CHR 0x01, CHR 0xFC]\<rparr>,
     \<lparr>chars = [CHR 0xE5, CHR 0xBB, CHR 0x83], bytes = [CHR 0x01, CHR 0xFD]\<rparr>,
     \<lparr>chars = [CHR 0xE6, CHR 0x8E, CHR 0x92], bytes = [CHR 0x01, CHR 0xFE]\<rparr>,
     \<lparr>chars = [CHR 0xE6, CHR 0x95, CHR 0x97], bytes = [CHR 0x01, CHR 0xFF]\<rparr>,
     \<lparr>chars = [CHR 0xE7, CHR 0x99, CHR 0xBA], bytes = [CHR 0x02, CHR 0x10]\<rparr>,
     \<lparr>chars = [CHR 0xE5, CHR 0x8F, CHR 0x8D], bytes = [CHR 0x02, CHR 0x11]\<rparr>,
     \<lparr>chars = [CHR 0xE5, CHR 0xBF, CHR 0x85], bytes = [CHR 0x02, CHR 0x12]\<rparr>,
     \<lparr>chars = [CHR 0xE8, CHR 0xA1, CHR 0xA8], bytes = [CHR 0x02, CHR 0x13]\<rparr>,
     \<lparr>chars = [CHR 0xE6, CHR 0xAD, CHR 0xA6], bytes = [CHR 0x02, CHR 0x14]\<rparr>,
     \<lparr>chars = [CHR 0xE5, CHR 0xA3, CHR 0x81], bytes = [CHR 0x02, CHR 0x15]\<rparr>,
     \<lparr>chars = [CHR 0xE5, CHR 0xA2, CHR 0x93], bytes = [CHR 0x02, CHR 0x16]\<rparr>,
     \<lparr>chars = [CHR 0xE6, CHR 0x94, CHR 0xBE], bytes = [CHR 0x02, CHR 0x17]\<rparr>,
     \<lparr>chars = [CHR 0xE6, CHR 0x96, CHR 0xB9], bytes = [CHR 0x02, CHR 0x18]\<rparr>,
     \<lparr>chars = [CHR 0xE7, CHR 0xA0, CHR 0xB2], bytes = [CHR 0x02, CHR 0x19]\<rparr>,
     \<lparr>chars = [CHR 0xE5, CHR 0xA6, CHR 0xA8], bytes = [CHR 0x02, CHR 0x1A]\<rparr>,
     \<lparr>chars = [CHR 0xE5, CHR 0x8C, CHR 0x97], bytes = [CHR 0x02, CHR 0x1B]\<rparr>,
     \<lparr>chars = [CHR 0xE6, CHR 0x9C, CHR 0xAC], bytes = [CHR 0x02, CHR 0x1C]\<rparr>,
     \<lparr>chars = [CHR 0xE5, CHR 0xB9, CHR 0x95], bytes = [CHR 0x02, CHR 0x1D]\<rparr>,
     \<lparr>chars = [CHR 0xE7, CHR 0x84, CHR 0xA1], bytes = [CHR 0x02, CHR 0x1E]\<rparr>,
     \<lparr>chars = [CHR 0xE8, CHR 0xBF, CHR 0xB7], bytes = [CHR 0x02, CHR 0x1F]\<rparr>,
     \<lparr>chars = [CHR 0xE9, CHR 0x9D, CHR 0xA2], bytes = [CHR 0x02, CHR 0x20]\<rparr>,
     \<lparr>chars = [CHR 0xE6, CHR 0x88, CHR 0xBB], bytes = [CHR 0x02, CHR 0x21]\<rparr>,
     \<lparr>chars = [CHR 0xE7, CHR 0xB4, CHR 0x8B], bytes = [CHR 0x02, CHR 0x22]\<rparr>,
     \<lparr>chars = [CHR 0xE8, CHR 0x96, CHR 0xAC], bytes = [CHR 0x02, CHR 0x23]\<rparr>,
     \<lparr>chars = [CHR 0xE8, CHR 0xBC, CHR 0xB8], bytes = [CHR 0x02, CHR 0x24]\<rparr>,
     \<lparr>chars = [CHR 0xE5, CHR 0x8B, CHR 0x87], bytes = [CHR 0x02, CHR 0x25]\<rparr>]"

definition s_encode_info_jak2_part9 :: "EncodeInfo list" where
  "s_encode_info_jak2_part9 =
    [\<lparr>chars = [CHR 0xE5, CHR 0x8F, CHR 0x8B], bytes = [CHR 0x02, CHR 0x26]\<rparr>,
     \<lparr>chars = [CHR 0xE9, CHR 0x81, CHR 0x8A], bytes = [CHR 0x02, CHR 0x27]\<rparr>,
     \<lparr>chars = [CHR 0xE5, CHR 0xAE, CHR 0xB9], bytes = [CHR 0x02, CHR 0x28]\<rparr>,
     \<lparr>chars = [CHR 0xE8, CHR 0xA6, CHR 0x81], bytes = [CHR 0x02, CHR 0x29]\<rparr>,
     \<lparr>chars = [CHR 0xE5, CHR 0x88, CHR 0xA9], bytes = [CHR 0x02, CHR 0x2A]\<rparr>,
     \<lparr>chars = [CHR 0xE4, CHR 0xBA, CHR 0x86], bytes = [CHR 0x02, CHR 0x2B]\<rparr>,
     \<lparr>chars = [CHR 0xE9, CHR 0x87, CHR 0x8F], bytes = [CHR 0x02, CHR 0x2C]\<rparr>,
     \<lparr>chars = [CHR 0xE5, CHR 0x8A, CHR 0x9B], bytes = [CHR 0x02, CHR 0x2D]\<rparr>,
     \<lparr>chars = [CHR 0xE7, CHR 0xB7, CHR 0xB4], bytes = [CHR 0x02, CHR 0x2E]\<rparr>,
     \<lparr>chars = [CHR 0xE9, CHR 0x80, CHR 0xA3], bytes = [CHR 0x02, CHR 0x2F]\<rparr>,
     \<lparr>chars = [CHR 0xE9, CHR 0x8C, CHR 0xB2], bytes = [CHR 0x02, CHR 0x30]\<rparr>,
     \<lparr>chars = [CHR 0xE8, CHR 0xA9, CHR 0xB1], bytes = [CHR 0x02, CHR 0x31]\<rparr>,
     \<lparr>chars = [CHR 0xE5, CHR 0xA2, CHR 0x9F], bytes = [CHR 0x02, CHR 0x32]\<rparr>,
     \<lparr>chars = [CHR 0xE8, CHR 0x84, CHR 0xB1], bytes = [CHR 0x02, CHR 0x33]\<rparr>,
     \<lparr>chars = [CHR 0xE6, CHR 0x97, CHR 0x97], bytes = [CHR 0x02, CHR 0x35]\<rparr>,
     \<lparr>chars = [CHR 0xE7, CHR 0xA0, CHR 0xB4], bytes = [CHR 0x02, CHR 0x36]\<rparr>,
     \<lparr>chars = [CHR 0xE5, CHR 0xA3, CHR 0x8A], bytes = [CHR 0x02, CHR 0x37]\<rparr>,
     \<lparr>chars = [CHR 0xE5, CHR 0x85, CHR 0xA8], bytes = [CHR 0x02, CHR 0x38]\<rparr>,
     \<lparr>chars = [CHR 0xE6, CHR 0xBB, CHR 0x85], bytes = [CHR 0x02, CHR 0x39]\<rparr>,
     \<lparr>chars = [CHR 0xE6, CHR 0xA9, CHR 0x9F], bytes = [CHR 0x02, CHR 0x3A]\<rparr>,
     \<lparr>chars = [CHR 0xE4, CHR 0xBB, CHR 0xB2], bytes = [CHR 0x02, CHR 0x3B]\<rparr>,
     \<lparr>chars = [CHR 0xE6, CHR 0xB8, CHR 0x93], bytes = [CHR 0x02, CHR 0x3C]\<rparr>,
     \<lparr>chars = [CHR 0xE8, CHR 0xB0, CHR 0xB7], bytes = [CHR 0x02, CHR 0x3D]\<rparr>,
     \<lparr>chars = [CHR 0xE5, CHR 0x84, CHR 0xAA], bytes = [CHR 0x02, CHR 0x3E]\<rparr>,
     \<lparr>chars = [CHR 0xE6, CHR 0x8E, CHR 0xA2], bytes = [CHR 0x02, CHR 0x3F]\<rparr>,
     \<lparr>chars = [CHR 0xE9, CHR 0x83, CHR 0xA8], bytes = [CHR 0x02, CHR 0x40]\<rparr>,
     \<lparr>chars = [CHR 0xE7, CHR 0xB4, CHR 0xA2], bytes = [CHR 0x02, CHR 0x41]\<rparr>,
     \<lparr>chars = [CHR 0xE5, CHR 0x89, CHR 0x8D], bytes = [CHR 0x02, CHR 0x43]\<rparr>,
     \<lparr>chars = [CHR 0xE5, CHR 0x8F, CHR 0xB3], bytes = [CHR 0x02, CHR 0x44]\<rparr>,
     \<lparr>chars = [CHR 0xE5, CHR 0xB7, CHR 0xA6], bytes = [CHR 0x02, CHR 0x45]\<rparr>,
     \<lparr>chars = [CHR 0xE4, CHR 0xBC, CHR 0x9A], bytes = [CHR 0x02, CHR 0x46]\<rparr>,
     \<lparr>chars = [CHR 0xE9, CHR 0xAB, CHR 0x98], bytes = [CHR 0x02, CHR 0x47]\<rparr>,
     \<lparr>chars = [CHR 0xE4, CHR 0xBD, CHR 0x8E], bytes = [CHR 0x02, CHR 0x48]\<rparr>,
     \<lparr>chars = [CHR 0xE6, CHR 0x8A, CHR 0xBC], bytes = [CHR 0x02, CHR 0x49]\<rparr>,
     \<lparr>chars = [CHR 0xE5, CHR 0x88, CHR 0x87], bytes = [CHR 0x02, CHR 0x4A]\<rparr>,
     \<lparr>chars = [CHR 0xE6, CHR 0x9B, CHR 0xBF], bytes = [CHR 0x02, CHR 0x4B]\<rparr>,
     \<lparr>chars = [CHR 0xE7, CHR 0xA7, CHR 0x92], bytes = [CHR 0x02, CHR 0x4D]\<rparr>,
     \<lparr>chars = [CHR 0xE7, CHR 0xAE, CHR 0xB1], bytes = [CHR 0x02, CHR 0x4E]\<rparr>,
     \<lparr>chars = [CHR 0xE6, CHR 0xB3, CHR 0xB3], bytes = [CHR 0x02, CHR 0x4F]\<rparr>,
     \<lparr>chars = [CHR 0xEF, CHR 0xBD, CHR 0x9E], bytes = [CHR 0x02, CHR 0x50]\<rparr>]"

definition s_encode_info_jak2_part10 :: "EncodeInfo list" where
  "s_encode_info_jak2_part10 =
    [\<lparr>chars = [CHR 0xE9, CHR 0x97, CHR 0x87], bytes = [CHR 0x02, CHR 0x56]\<rparr>,
     \<lparr>chars = [CHR 0xE4, CHR 0xBB, CHR 0xA5], bytes = [CHR 0x02, CHR 0x57]\<rparr>,
     \<lparr>chars = [CHR 0xE5, CHR 0xB1, CHR 0x8B], bytes = [CHR 0x02, CHR 0x58]\<rparr>,
     \<lparr>chars = [CHR 0xE4, CHR 0xBF, CHR 0xBA], bytes = [CHR 0x02, CHR 0x59]\<rparr>,
     \<lparr>chars = [CHR 0xE5, CHR 0x8C, CHR 0x96], bytes = [CHR 0x02, CHR 0x5A]\<rparr>,
     \<lparr>chars = [CHR 0xE7, CHR 0x95, CHR 0x8C], bytes = [CHR 0x02, CHR 0x5B]\<rparr>,
     \<lparr>chars = [CHR 0xE6, CHR 0x84, CHR 0x9F], bytes = [CHR 0x02, CHR 0x5C]\<rparr>,
     \<lparr>chars = [CHR 0xE6, CHR 0xB0, CHR 0x97], bytes = [CHR 0x02, CHR 0x5D]\<rparr>,
     \<lparr>chars = [CHR 0xE5, CHR 0x8D, CHR 0xB4], bytes = [CHR 0x02, CHR 0x5E]\<rparr>,
     \<lparr>chars = [CHR 0xE6, CHR 0x9B, CHR 0xB2], bytes = [CHR 0x02, CHR 0x5F]\<rparr>,
     \<lparr>chars = [CHR 0xE7, CHR 0xB6, CHR 0x99], bytes = [CHR 0x02, CHR 0x60]\<rparr>,
     \<lparr>chars = [CHR 0xE6, CHR 0xA8, CHR 0xA9], bytes = [CHR 0x02, CHR 0x61]\<rparr>,
     \<lparr>chars = [CHR 0xE8, CHR 0xA6, CHR 0x8B], bytes = [CHR 0x02, CHR 0x62]\<rparr>,
     \<lparr>chars = [CHR 0xE5, CHR 0x8F, CHR 0xA4], bytes = [CHR 0x02, CHR 0x63]\<rparr>,
     \<lparr>chars = [CHR 0xE5, CHR 0xA5, CHR 0xBD], bytes = [CHR 0x02, CHR 0x64]\<rparr>,
     \<lparr>chars = [CHR 0xE6, CHR 0x89, CHR 0x8D], bytes = [CHR 0x02, CHR 0x66]\<rparr>,
     \<lparr>chars = [CHR 0xE5, CHR 0xA3, CHR 0xAB], bytes = [CHR 0x02, CHR 0x67]\<rparr>,
     \<lparr>chars = [CHR 0xE5, CHR 0xAD, CHR 0x90], bytes = [CHR 0x02, CHR 0x68]\<rparr>,
     \<lparr>chars = [CHR 0xE6, CHR 0xAC, CHR 0xA1], bytes = [CHR 0x02, CHR 0x69]\<rparr>,
     \<lparr>chars = [CHR 0xE4, CHR 0xB8, CHR 0xBB], bytes = [CHR 0x02, CHR 0x6A]\<rparr>,
     \<lparr>chars = [CHR 0xE7, CHR 0xA8, CHR 0xAE], bytes = [CHR 0x02, CHR 0x6B]\<rparr>,
     \<lparr>chars = [CHR 0xE8, CHR 0xAE, CHR 0x90], bytes = [CHR 0x02, CHR 0x6C]\<rparr>,
     \<lparr>chars = [CHR 0xE5, CHR 0xA5, CHR 0xB3], bytes = [CHR 0x02, CHR 0x6D]\<rparr>,
     \<lparr>chars = [CHR 0xE5, CHR 0xB0, CHR 0x8F], bytes = [CHR 0x02, CHR 0x6E]\<rparr>,
     \<lparr>chars = [CHR 0xE7, CHR 0x84, CHR 0xBC], bytes = [CHR 0x02, CHR 0x6F]\<rparr>,
     \<lparr>chars = [CHR 0xE8, CHR 0xA8, CHR 0xBC], bytes = [CHR 0x02, CHR 0x70]\<rparr>,
     \<lparr>chars = [CHR 0xE7, CHR 0xA5, CHR 0x9E], bytes = [CHR 0x02, CHR 0x71]\<rparr>,
     \<lparr>chars = [CHR 0xE8, CHR 0xBA, CHR 0xAB], bytes = [CHR 0x02, CHR 0x72]\<rparr>,
     \<lparr>chars = [CHR 0xE5, CHR 0xAF, CHR 0xB8], bytes = [CHR 0x02, CHR 0x73]\<rparr>,
     \<lparr>chars = [CHR 0xE4, CHR 0xB8, CHR 0x96], bytes = [CHR 0x02, CHR 0x74]\<rparr>,
     \<lparr>chars = [CHR 0xE6, CHR 0x83, CHR 0xB3], bytes = [CHR 0x02, CHR 0x75]\<rparr>,
     \<lparr>chars = [CHR 0xE9, CHR 0x80, CHR 0x80], bytes = [CHR 0x02, CHR 0x76]\<rparr>,
     \<lparr>chars = [CHR 0xE7, CHR 0xAC, CHR 0xAC], bytes = [CHR 0x02, CHR 0x77]\<rparr>,
     \<lparr>chars = [CHR 0xE7, CHR 0x9D, CHR 0x80], bytes = [CHR 0x02, CHR 0x78]\<rparr>,
     \<lparr>chars = [CHR 0xE5, CHR 0xA4, CHR 0xA9], bytes = [CHR 0x02, CHR 0x79]\<rparr>,
     \<lparr>chars = [CHR 0xE5, CHR 0x80, CHR 0x92], bytes = [CHR 0x02, CHR 0x7A]\<rparr>,
     \<lparr>chars = [CHR 0xE5, CHR 0x88, CHR 0xB0], bytes = [CHR 0x02, CHR 0x7B]\<rparr>,
     \<lparr>chars = [CHR 0xE7, CHR 0xAA, CHR 0x81], bytes = [CHR 0x02, CHR 0x7C]\<rparr>,
     \<lparr>chars = [CHR 0xE7, CHR 0x88, CHR 0x86], bytes = [CHR 0x02, CHR 0x7D]\<rparr>,
     \<lparr>chars = [CHR 0xE7, CHR 0x95, CHR 0xAA], bytes = [CHR 0x02, CHR 0x7E]\<rparr>]"

definition s_encode_info_jak2_part11 :: "EncodeInfo list" where
  "s_encode_info_jak2_part11 =
    [\<lparr>chars = [CHR 0xE8, CHR 0xB2, CHR 0xA0], bytes = [CHR 0x02, CHR 0x7F]\<rparr>,
     \<lparr>chars = [CHR 0xE5, CHR 0xBE, CHR 0xA9], bytes = [CHR 0x02, CHR 0x80]\<rparr>,
     \<lparr>chars = [CHR 0xE7, CHR 0x89, CHR 0xA9], bytes = [CHR 0x02, CHR 0x81]\<rparr>,
     \<lparr>chars = [CHR 0xE7, CHR 0x9C, CHR 0xA0], bytes = [CHR 0x02, CHR 0x82]\<rparr>,
     \<lparr>chars = [CHR 0xE4, CHR 0xBA, CHR 0x88], bytes = [CHR 0x02, CHR 0x83]\<rparr>,
     \<lparr>chars = [CHR 0xE7, CHR 0x94, CHR 0xA8], bytes = [CHR 0x02, CHR 0x84]\<rparr>,
     \<lparr>chars = [CHR 0xE8, CHR 0x90, CHR 0xBD], bytes = [CHR 0x02, CHR 0x85]\<rparr>,
     \<lparr>chars = [CHR 0xE7, CHR 0xB7, CHR 0x91], bytes = [CHR 0x02, CHR 0x86]\<rparr>,
     \<lparr>chars = [CHR 0xE5, CHR 0xB0, CHR 0x81], bytes = [CHR 0x02, CHR 0x88]\<rparr>,
     \<lparr>chars = [CHR 0xE5, CHR 0x8D, CHR 0xB0], bytes = [CHR 0x02, CHR 0x89]\<rparr>,
     \<lparr>chars = [CHR 0xE6, CHR 0x89, CHR 0x89], bytes = [CHR 0x02, CHR 0x8A]\<rparr>,
     \<lparr>chars = [CHR 0xE6, CHR 0x9C, CHR 0x80], bytes = [CHR 0x02, CHR 0x8B]\<rparr>,
     \<lparr>chars = [CHR 0xE5, CHR 0x88, CHR 0xBB], bytes = [CHR 0x02, CHR 0x8C]\<rparr>,
     \<lparr>chars = [CHR 0xE8, CHR 0xB6, CHR 0xB3], bytes = [CHR 0x02, CHR 0x8D]\<rparr>,
     \<lparr>chars = ''<H186>'', bytes = [CHR 0x01, CHR 0x86]\<rparr>,
     \<lparr>chars = ''<H187>'', bytes = [CHR 0x01, CHR 0x87]\<rparr>,
     \<lparr>chars = ''<H188>'', bytes = [CHR 0x01, CHR 0x88]\<rparr>,
     \<lparr>chars = ''<H189>'', bytes = [CHR 0x01, CHR 0x89]\<rparr>,
     \<lparr>chars = ''<H18a>'', bytes = [CHR 0x01, CHR 0x8A]\<rparr>,
     \<lparr>chars = ''<H306>'', bytes = [CHR 0x03, CHR 0x06]\<rparr>,
     \<lparr>chars = ''<H307>'', bytes = [CHR 0x03, CHR 0x07]\<rparr>,
     \<lparr>chars = ''<H308>'', bytes = [CHR 0x03, CHR 0x08]\<rparr>,
     \<lparr>chars = ''<H309>'', bytes = [CHR 0x03, CHR 0x09]\<rparr>,
     \<lparr>chars = ''<H30a>'', bytes = [CHR 0x03, CHR 0x0A]\<rparr>,
     \<lparr>chars = ''<H30b>'', bytes = [CHR 0x03, CHR 0x0B]\<rparr>,
     \<lparr>chars = ''<H30c>'', bytes = [CHR 0x03, CHR 0x0C]\<rparr>,
     \<lparr>chars = ''<H30d>'', bytes = [CHR 0x03, CHR 0x0D]\<rparr>,
     \<lparr>chars = ''<H30e>'', bytes = [CHR 0x03, CHR 0x0E]\<rparr>,
     \<lparr>chars = ''<H30f>'', bytes = [CHR 0x03, CHR 0x0F]\<rparr>,
     \<lparr>chars = ''<H310>'', bytes = [CHR 0x03, CHR 0x10]\<rparr>,
     \<lparr>chars = ''<H311>'', bytes = [CHR 0x03, CHR 0x11]\<rparr>,
     \<lparr>chars = ''<H312>'', bytes = [CHR 0x03, CHR 0x12]\<rparr>,
     \<lparr>chars = ''<H313>'', bytes = [CHR 0x03, CHR 0x13]\<rparr>,
     \<lparr>chars = ''<H314>'', bytes = [CHR 0x03, CHR 0x14]\<rparr>,
     \<lparr>chars = ''<H315>'', bytes = [CHR 0x03, CHR 0x15]\<rparr>,
     \<lparr>chars = ''<H316>'', bytes = [CHR 0x03, CHR 0x16]\<rparr>,
     \<lparr>chars = ''<H317>'', bytes = [CHR 0x03, CHR 0x17]\<rparr>,
     \<lparr>chars = ''<H318>'', bytes = [CHR 0x03, CHR 0x18]\<rparr>,
     \<lparr>chars = ''<H319>'', bytes = [CHR 0x03, CHR 0x19]\<rparr>,
     \<lparr>chars = ''<H31a>'', bytes = [CHR 0x03, CHR 0x1A]\<rparr>]"

definition s_encode_info_jak2_part12 :: "EncodeInfo list" where
  "s_encode_info_jak2_part12 =
    [\<lparr>chars = ''<H31b>'', bytes = [CHR 0x03, CHR 0x1B]\<rparr>,
     \<lparr>chars = ''<H31c>'', bytes = [CHR 0x03, CHR 0x1C]\<rparr>,
     \<lparr>chars = ''<H31d>'', bytes = [CHR 0x03, CHR 0x1D]\<rparr>,
     \<lparr>chars = ''<H31e>'', bytes = [CHR 0x03, CHR 0x1E]\<rparr>,
     \<lparr>chars = ''<H31f>'', bytes = [CHR 0x03, CHR 0x1F]\<rparr>,
     \<lparr>chars = ''<H320>'', bytes = [CHR 0x03, CHR 0x20]\<rparr>,
     \<lparr>chars = ''<H321>'', bytes = [CHR 0x03, CHR 0x21]\<rparr>,
     \<lparr>chars = ''<H322>'', bytes = [CHR 0x03, CHR 0x22]\<rparr>,
     \<lparr>chars = ''<H323>'', bytes = [CHR 0x03, CHR 0x23]\<rparr>,
     \<lparr>chars = ''<H324>'', bytes = [CHR 0x03, CHR 0x24]\<rparr>,
     \<lparr>chars = ''<H325>'', bytes = [CHR 0x03, CHR 0x25]\<rparr>,
     \<lparr>chars = ''<H326>'', bytes = [CHR 0x03, CHR 0x26]\<rparr>,
     \<lparr>chars = ''<H327>'', bytes = [CHR 0x03, CHR 0x27]\<rparr>,
     \<lparr>chars = ''<H328>'', bytes = [CHR 0x03, CHR 0x28]\<rparr>,
     \<lparr>chars = ''<H329>'', bytes = [CHR 0x03, CHR 0x29]\<rparr>,
     \<lparr>chars = ''<H32a>'', bytes = [CHR 0x03, CHR 0x2A]\<rparr>,
     \<lparr>chars = ''<H32b>'', bytes = [CHR 0x03, CHR 0x2B]\<rparr>,
     \<lparr>chars = ''<H32c>'', bytes = [CHR 0x03, CHR 0x2C]\<rparr>,
     \<lparr>chars = ''<H32d>'', bytes = [CHR 0x03, CHR 0x2D]\<rparr>,
     \<lparr>chars = ''<H32e>'', bytes = [CHR 0x03, CHR 0x2E]\<rparr>,
     \<lparr>chars = ''<H32f>'', bytes = [CHR 0x03, CHR 0x2F]\<rparr>,
     \<lparr>chars = ''<H330>'', bytes = [CHR 0x03, CHR 0x30]\<rparr>,
     \<lparr>chars = ''<H331>'', bytes = [CHR 0x03, CHR 0x31]\<rparr>,
     \<lparr>chars = ''<H332>'', bytes = [CHR 0x03, CHR 0x32]\<rparr>,
     \<lparr>chars = ''<H333>'', bytes = [CHR 0x03, CHR 0x33]\<rparr>,
     \<lparr>chars = ''<H334>'', bytes = [CHR 0x03, CHR 0x34]\<rparr>,
     \<lparr>chars = ''<H335>'', bytes = [CHR 0x03, CHR 0x35]\<rparr>,
     \<lparr>chars = ''<H336>'', bytes = [CHR 0x03, CHR 0x36]\<rparr>,
     \<lparr>chars = ''<H337>'', bytes = [CHR 0x03, CHR 0x37]\<rparr>,
     \<lparr>chars = ''<H338>'', bytes = [CHR 0x03, CHR 0x38]\<rparr>,
     \<lparr>chars = ''<H339>'', bytes = [CHR 0x03, CHR 0x39]\<rparr>,
     \<lparr>chars = ''<H33a>'', bytes = [CHR 0x03, CHR 0x3A]\<rparr>,
     \<lparr>chars = ''<H33b>'', bytes = [CHR 0x03, CHR 0x3B]\<rparr>,
     \<lparr>chars = ''<H33c>'', bytes = [CHR 0x03, CHR 0x3C]\<rparr>,
     \<lparr>chars = ''<H33d>'', bytes = [CHR 0x03, CHR 0x3D]\<rparr>,
     \<lparr>chars = ''<H33e>'', bytes = [CHR 0x03, CHR 0x3E]\<rparr>,
     \<lparr>chars = ''<H33f>'', bytes = [CHR 0x03, CHR 0x3F]\<rparr>,
     \<lparr>chars = ''<H340>'', bytes = [CHR 0x03, CHR 0x40]\<rparr>,
     \<lparr>chars = ''<H341>'', bytes = [CHR 0x03, CHR 0x41]\<rparr>,
     \<lparr>chars = ''<H342>'', bytes = [CHR 0x03, CHR 0x42]\<rparr>]"

definition s_encode_info_jak2_part13 :: "EncodeInfo list" where
  "s_encode_info_jak2_part13 =
    [\<lparr>chars = ''<H343>'', bytes = [CHR 0x03, CHR 0x43]\<rparr>,
     \<lparr>chars = ''<H344>'', bytes = [CHR 0x03, CHR 0x44]\<rparr>,
     \<lparr>chars = ''<H345>'', bytes = [CHR 0x03, CHR 0x45]\<rparr>,
     \<lparr>chars = ''<H346>'', bytes = [CHR 0x03, CHR 0x46]\<rparr>,
     \<lparr>chars = ''<H347>'', bytes = [CHR 0x03, CHR 0x47]\<rparr>,
     \<lparr>chars = ''<H348>'', bytes = [CHR 0x03, CHR 0x48]\<rparr>,
     \<lparr>chars = ''<H349>'', bytes = [CHR 0x03, CHR 0x49]\<rparr>,
     \<lparr>chars = ''<H34a>'', bytes = [CHR 0x03, CHR 0x4A]\<rparr>,
     \<lparr>chars = ''<H34b>'', bytes = [CHR 0x03, CHR 0x4B]\<rparr>,
     \<lparr>chars = ''<H34c>'', bytes = [CHR 0x03, CHR 0x4C]\<rparr>,
     \<lparr>chars = ''<H34d>'', bytes = [CHR 0x03, CHR 0x4D]\<rparr>,
     \<lparr>chars = ''<H34e>'', bytes = [CHR 0x03, CHR 0x4E]\<rparr>,
     \<lparr>chars = ''<H34f>'', bytes = [CHR 0x03, CHR 0x4F]\<rparr>,
     \<lparr>chars = ''<H350>'', bytes = [CHR 0x03, CHR 0x50]\<rparr>,
     \<lparr>chars = ''<H351>'', bytes = [CHR 0x03, CHR 0x51]\<rparr>,
     \<lparr>chars = ''<H352>'', bytes = [CHR 0x03, CHR 0x52]\<rparr>,
     \<lparr>chars = ''<H353>'', bytes = [CHR 0x03, CHR 0x53]\<rparr>,
     \<lparr>chars = ''<H354>'', bytes = [CHR 0x03, CHR 0x54]\<rparr>,
     \<lparr>chars = ''<H355>'', bytes = [CHR 0x03, CHR 0x55]\<rparr>,
     \<lparr>chars = ''<H356>'', bytes = [CHR 0x03, CHR 0x56]\<rparr>,
     \<lparr>chars = ''<H357>'', bytes = [CHR 0x03, CHR 0x57]\<rparr>,
     \<lparr>chars = ''<H358>'', bytes = [CHR 0x03, CHR 0x58]\<rparr>,
     \<lparr>chars = ''<H359>'', bytes = [CHR 0x03, CHR 0x59]\<rparr>,
     \<lparr>chars = ''<H35a>'', bytes = [CHR 0x03, CHR 0x5A]\<rparr>,
     \<lparr>chars = ''<H35b>'', bytes = [CHR 0x03, CHR 0x5B]\<rparr>,
     \<lparr>chars = ''<H35c>'', bytes = [CHR 0x03, CHR 0x5C]\<rparr>,
     \<lparr>chars = ''<H35d>'', bytes = [CHR 0x03, CHR 0x5D]\<rparr>,
     \<lparr>chars = ''<H35e>'', bytes = [CHR 0x03, CHR 0x5E]\<rparr>,
     \<lparr>chars = ''<H35f>'', bytes = [CHR 0x03, CHR 0x5F]\<rparr>,
     \<lparr>chars = ''<H360>'', bytes = [CHR 0x03, CHR 0x60]\<rparr>,
     \<lparr>chars = ''<H361>'', bytes = [CHR 0x03, CHR 0x61]\<rparr>,
     \<lparr>chars = ''<H362>'', bytes = [CHR 0x03, CHR 0x62]\<rparr>,
     \<lparr>chars = ''<H363>'', bytes = [CHR 0x03, CHR 0x63]\<rparr>,
     \<lparr>chars = ''<H364>'', bytes = [CHR 0x03, CHR 0x64]\<rparr>,
     \<lparr>chars = ''<H365>'', bytes = [CHR 0x03, CHR 0x65]\<rparr>,
     \<lparr>chars = ''<H366>'', bytes = [CHR 0x03, CHR 0x66]\<rparr>,
     \<lparr>chars = ''<H367>'', bytes = [CHR 0x03, CHR 0x67]\<rparr>,
     \<lparr>chars = ''<H368>'', bytes = [CHR 0x03, CHR 0x68]\<rparr>,
     \<lparr>chars = ''<H369>'', bytes = [CHR 0x03, CHR 0x69]\<rparr>,
     \<lparr>chars = ''<H36a>'', bytes = [CHR 0x03, CHR 0x6A]\<rparr>]"

definition s_encode_info_jak2_part14 :: "EncodeInfo list" where
  "s_encode_info_jak2_part14 =
    [\<lparr>chars = ''<H36b>'', bytes = [CHR 0x03, CHR 0x6B]\<rparr>,
     \<lparr>chars = ''<H36c>'', bytes = [CHR 0x03, CHR 0x6C]\<rparr>,
     \<lparr>chars = ''<H36d>'', bytes = [CHR 0x03, CHR 0x6D]\<rparr>,
     \<lparr>chars = ''<H36e>'', bytes = [CHR 0x03, CHR 0x6E]\<rparr>,
     \<lparr>chars = ''<H36f>'', bytes = [CHR 0x03, CHR 0x6F]\<rparr>,
     \<lparr>chars = ''<H370>'', bytes = [CHR 0x03, CHR 0x70]\<rparr>,
     \<lparr>chars = ''<H371>'', bytes = [CHR 0x03, CHR 0x71]\<rparr>,
     \<lparr>chars = ''<H372>'', bytes = [CHR 0x03, CHR 0x72]\<rparr>,
     \<lparr>chars = ''<H373>'', bytes = [CHR 0x03, CHR 0x73]\<rparr>,
     \<lparr>chars = ''<H374>'', bytes = [CHR 0x03, CHR 0x74]\<rparr>,
     \<lparr>chars = ''<H375>'', bytes = [CHR 0x03, CHR 0x75]\<rparr>,
     \<lparr>chars = ''<H376>'', bytes = [CHR 0x03, CHR 0x76]\<rparr>,
     \<lparr>chars = ''<H377>'', bytes = [CHR 0x03, CHR 0x77]\<rparr>,
     \<lparr>chars = ''<H378>'', bytes = [CHR 0x03, CHR 0x78]\<rparr>,
     \<lparr>chars = ''<H379>'', bytes = [CHR 0x03, CHR 0x79]\<rparr>,
     \<lparr>chars = ''<H37a>'', bytes = [CHR 0x03, CHR 0x7A]\<rparr>,
     \<lparr>chars = ''<H37b>'', bytes = [CHR 0x03, CHR 0x7B]\<rparr>,
     \<lparr>chars = ''<H37c>'', bytes = [CHR 0x03, CHR 0x7C]\<rparr>,
     \<lparr>chars = ''<H37d>'', bytes = [CHR 0x03, CHR 0x7D]\<rparr>,
     \<lparr>chars = ''<H37e>'', bytes = [CHR 0x03, CHR 0x7E]\<rparr>,
     \<lparr>chars = ''<H37f>'', bytes = [CHR 0x03, CHR 0x7F]\<rparr>,
     \<lparr>chars = ''<H380>'', bytes = [CHR 0x03, CHR 0x80]\<rparr>,
     \<lparr>chars = ''<H381>'', bytes = [CHR 0x03, CHR 0x81]\<rparr>,
     \<lparr>chars = ''<H382>'', bytes = [CHR 0x03, CHR 0x82]\<rparr>,
     \<lparr>chars = ''<H383>'', bytes = [CHR 0x03, CHR 0x83]\<rparr>,
     \<lparr>chars = ''<H384>'', bytes = [CHR 0x03, CHR 0x84]\<rparr>,
     \<lparr>chars = ''<H385>'', bytes = [CHR 0x03, CHR 0x85]\<rparr>,
     \<lparr>chars = ''<H386>'', bytes = [CHR 0x03, CHR 0x86]\<rparr>,
     \<lparr>chars = ''<H387>'', bytes = [CHR 0x03, CHR 0x87]\<rparr>,
     \<lparr>chars = ''<H388>'', bytes = [CHR 0x03, CHR 0x88]\<rparr>,
     \<lparr>chars = ''<H389>'', bytes = [CHR 0x03, CHR 0x89]\<rparr>,
     \<lparr>chars = ''<H38a>'', bytes = [CHR 0x03, CHR 0x8A]\<rparr>,
     \<lparr>chars = ''<H38b>'', bytes = [CHR 0x03, CHR 0x8B]\<rparr>,
     \<lparr>chars = ''<H38c>'', bytes = [CHR 0x03, CHR 0x8C]\<rparr>,
     \<lparr>chars = ''<H38d>'', bytes = [CHR 0x03, CHR 0x8D]\<rparr>,
     \<lparr>chars = ''<H38e>'', bytes = [CHR 0x03, CHR 0x8E]\<rparr>,
     \<lparr>chars = ''<H38f>'', bytes = [CHR 0x03, CHR 0x8F]\<rparr>,
     \<lparr>chars = ''<H390>'', bytes = [CHR 0x03, CHR 0x90]\<rparr>,
     \<lparr>chars = ''<H391>'', bytes = [CHR 0x03, CHR 0x91]\<rparr>,
     \<lparr>chars = ''<H392>'', bytes = [CHR 0x03, CHR 0x92]\<rparr>]"

definition s_encode_info_jak2_part15 :: "EncodeInfo list" where
  "s_encode_info_jak2_part15 =
    [\<lparr>chars = ''<H393>'', bytes = [CHR 0x03, CHR 0x93]\<rparr>,
     \<lparr>chars = ''<H394>'', bytes = [CHR 0x03, CHR 0x94]\<rparr>,
     \<lparr>chars = ''<H395>'', bytes = [CHR 0x03, CHR 0x95]\<rparr>,
     \<lparr>chars = ''<H396>'', bytes = [CHR 0x03, CHR 0x96]\<rparr>,
     \<lparr>chars = ''<H397>'', bytes = [CHR 0x03, CHR 0x97]\<rparr>,
     \<lparr>chars = ''<H398>'', bytes = [CHR 0x03, CHR 0x98]\<rparr>,
     \<lparr>chars = ''<H399>'', bytes = [CHR 0x03, CHR 0x99]\<rparr>,
     \<lparr>chars = ''<H39a>'', bytes = [CHR 0x03, CHR 0x9A]\<rparr>,
     \<lparr>chars = ''<H39b>'', bytes = [CHR 0x03, CHR 0x9B]\<rparr>,
     \<lparr>chars = ''<H39c>'', bytes = [CHR 0x03, CHR 0x9C]\<rparr>,
     \<lparr>chars = ''<H39d>'', bytes = [CHR 0x03, CHR 0x9D]\<rparr>,
     \<lparr>chars = ''<H39e>'', bytes = [CHR 0x03, CHR 0x9E]\<rparr>,
     \<lparr>chars = ''<H39f>'', bytes = [CHR 0x03, CHR 0x9F]\<rparr>,
     \<lparr>chars = ''<H3a0>'', bytes = [CHR 0x03, CHR 0xA0]\<rparr>,
     \<lparr>chars = ''<H3a1>'', bytes = [CHR 0x03, CHR 0xA1]\<rparr>,
     \<lparr>chars = ''<H3a2>'', bytes = [CHR 0x03, CHR 0xA2]\<rparr>,
     \<lparr>chars = ''<H3a3>'', bytes = [CHR 0x03, CHR 0xA3]\<rparr>,
     \<lparr>chars = ''<H3a4>'', bytes = [CHR 0x03, CHR 0xA4]\<rparr>,
     \<lparr>chars = ''<H3a5>'', bytes = [CHR 0x03, CHR 0xA5]\<rparr>,
     \<lparr>chars = ''<H3a6>'', bytes = [CHR 0x03, CHR 0xA6]\<rparr>,
     \<lparr>chars = ''<H3a7>'', bytes = [CHR 0x03, CHR 0xA7]\<rparr>,
     \<lparr>chars = ''<H3a8>'', bytes = [CHR 0x03, CHR 0xA8]\<rparr>,
     \<lparr>chars = ''<H3a9>'', bytes = [CHR 0x03, CHR 0xA9]\<rparr>,
     \<lparr>chars = ''<H3aa>'', bytes = [CHR 0x03, CHR 0xAA]\<rparr>,
     \<lparr>chars = ''<H3ab>'', bytes = [CHR 0x03, CHR 0xAB]\<rparr>,
     \<lparr>chars = ''<H3ac>'', bytes = [CHR 0x03, CHR 0xAC]\<rparr>,
     \<lparr>chars = ''<H3ad>'', bytes = [CHR 0x03, CHR 0xAD]\<rparr>,
     \<lparr>chars = ''<H3ae>'', bytes = [CHR 0x03, CHR 0xAE]\<rparr>,
     \<lparr>chars = ''<H3af>'', bytes = [CHR 0x03, CHR 0xAF]\<rparr>,
     \<lparr>chars = ''<H3b0>'', bytes = [CHR 0x03, CHR 0xB0]\<rparr>,
     \<lparr>chars = ''<H3b1>'', bytes = [CHR 0x03, CHR 0xB1]\<rparr>,
     \<lparr>chars = ''<H3b2>'', bytes = [CHR 0x03, CHR 0xB2]\<rparr>,
     \<lparr>chars = ''<H3b3>'', bytes = [CHR 0x03, CHR 0xB3]\<rparr>,
     \<lparr>chars = ''<H3b4>'', bytes = [CHR 0x03, CHR 0xB4]\<rparr>,
     \<lparr>chars = ''<H3b5>'', bytes = [CHR 0x03, CHR 0xB5]\<rparr>,
     \<lparr>chars = ''<H3b6>'', bytes = [CHR 0x03, CHR 0xB6]\<rparr>,
     \<lparr>chars = ''<H3b7>'', bytes = [CHR 0x03, CHR 0xB7]\<rparr>,
     \<lparr>chars = ''<H3b8>'', bytes = [CHR 0x03, CHR 0xB8]\<rparr>,
     \<lparr>chars = ''<H3b9>'', bytes = [CHR 0x03, CHR 0xB9]\<rparr>,
     \<lparr>chars = ''<H3ba>'', bytes = [CHR 0x03, CHR 0xBA]\<rparr>]"

definition s_encode_info_jak2_part16 :: "EncodeInfo list" where
  "s_encode_info_jak2_part16 =
    [\<lparr>chars = ''<H3bb>'', bytes = [CHR 0x03, CHR 0xBB]\<rparr>,
     \<lparr>chars = ''<H3bc>'', bytes = [CHR 0x03, CHR 0xBC]\<rparr>,
     \<lparr>chars = ''<H3bd>'', bytes = [CHR 0x03, CHR 0xBD]\<rparr>,
     \<lparr>chars = ''<H3be>'', bytes = [CHR 0x03, CHR 0xBE]\<rparr>,
     \<lparr>chars = ''<H3bf>'', bytes = [CHR 0x03, CHR 0xBF]\<rparr>,
     \<lparr>chars = ''<H3c0>'', bytes = [CHR 0x03, CHR 0xC0]\<rparr>,
     \<lparr>chars = ''<H3c1>'', bytes = [CHR 0x03, CHR 0xC1]\<rparr>,
     \<lparr>chars = ''<H3c2>'', bytes = [CHR 0x03, CHR 0xC2]\<rparr>,
     \<lparr>chars = ''<H3c3>'', bytes = [CHR 0x03, CHR 0xC3]\<rparr>,
     \<lparr>chars = ''<H3c4>'', bytes = [CHR 0x03, CHR 0xC4]\<rparr>,
     \<lparr>chars = ''<H3c5>'', bytes = [CHR 0x03, CHR 0xC5]\<rparr>,
     \<lparr>chars = ''<H3c6>'', bytes = [CHR 0x03, CHR 0xC6]\<rparr>,
     \<lparr>chars = ''<H3c7>'', bytes = [CHR 0x03, CHR 0xC7]\<rparr>,
     \<lparr>chars = ''<H3c8>'', bytes = [CHR 0x03, CHR 0xC8]\<rparr>,
     \<lparr>chars = ''<H3c9>'', bytes = [CHR 0x03, CHR 0xC9]\<rparr>,
     \<lparr>chars = ''<H3ca>'', bytes = [CHR 0x03, CHR 0xCA]\<rparr>,
     \<lparr>chars = ''<H3cb>'', bytes = [CHR 0x03, CHR 0xCB]\<rparr>,
     \<lparr>chars = ''<H3cc>'', bytes = [CHR 0x03, CHR 0xCC]\<rparr>,
     \<lparr>chars = ''<H3cd>'', bytes = [CHR 0x03, CHR 0xCD]\<rparr>,
     \<lparr>chars = ''<H3ce>'', bytes = [CHR 0x03, CHR 0xCE]\<rparr>,
     \<lparr>chars = ''<H3cf>'', bytes = [CHR 0x03, CHR 0xCF]\<rparr>,
     \<lparr>chars = ''<H3d0>'', bytes = [CHR 0x03, CHR 0xD0]\<rparr>,
     \<lparr>chars = ''<H3d1>'', bytes = [CHR 0x03, CHR 0xD1]\<rparr>,
     \<lparr>chars = ''<H3d2>'', bytes = [CHR 0x03, CHR 0xD2]\<rparr>,
     \<lparr>chars = ''<H3d3>'', bytes = [CHR 0x03, CHR 0xD3]\<rparr>,
     \<lparr>chars = ''<H3d4>'', bytes = [CHR 0x03, CHR 0xD4]\<rparr>,
     \<lparr>chars = ''<H3d5>'', bytes = [CHR 0x03, CHR 0xD5]\<rparr>,
     \<lparr>chars = ''<H3d6>'', bytes = [CHR 0x03, CHR 0xD6]\<rparr>,
     \<lparr>chars = ''<H3d7>'', bytes = [CHR 0x03, CHR 0xD7]\<rparr>,
     \<lparr>chars = ''<H3d8>'', bytes = [CHR 0x03, CHR 0xD8]\<rparr>,
     \<lparr>chars = ''<H3d9>'', bytes = [CHR 0x03, CHR 0xD9]\<rparr>,
     \<lparr>chars = ''<H3da>'', bytes = [CHR 0x03, CHR 0xDA]\<rparr>,
     \<lparr>chars = ''<H3db>'', bytes = [CHR 0x03, CHR 0xDB]\<rparr>,
     \<lparr>chars = ''<H3dc>'', bytes = [CHR 0x03, CHR 0xDC]\<rparr>,
     \<lparr>chars = ''<H3dd>'', bytes = [CHR 0x03, CHR 0xDD]\<rparr>,
     \<lparr>chars = ''<H3de>'', bytes = [CHR 0x03, CHR 0xDE]\<rparr>,
     \<lparr>chars = ''<H3df>'', bytes = [CHR 0x03, CHR 0xDF]\<rparr>,
     \<lparr>chars = ''<H3e0>'', bytes = [CHR 0x03, CHR 0xE0]\<rparr>,
     \<lparr>chars = ''<H3e1>'', bytes = [CHR 0x03, CHR 0xE1]\<rparr>,
     \<lparr>chars = ''<H3e2>'', bytes = [CHR 0x03, CHR 0xE2]\<rparr>]"

definition s_encode_info_jak2_part17 :: "EncodeInfo list" where
  "s_encode_info_jak2_part17 =
    [\<lparr>chars = ''<H3e3>'', bytes = [CHR 0x03, CHR 0xE3]\<rparr>,
     \<lparr>chars = ''<H3e4>'', bytes = [CHR 0x03, CHR 0xE4]\<rparr>,
     \<lparr>chars = ''<H3e5>'', bytes = [CHR 0x03, CHR 0xE5]\<rparr>,
     \<lparr>chars = ''<H3e6>'', bytes = [CHR 0x03, CHR 0xE6]\<rparr>,
     \<lparr>chars = ''<H3e7>'', bytes = [CHR 0x03, CHR 0xE7]\<rparr>,
     \<lparr>chars = ''<H3e8>'', bytes = [CHR 0x03, CHR 0xE8]\<rparr>,
     \<lparr>chars = ''<H3e9>'', bytes = [CHR 0x03, CHR 0xE9]\<rparr>,
     \<lparr>chars = ''<H3ea>'', bytes = [CHR 0x03, CHR 0xEA]\<rparr>,
     \<lparr>chars = ''<H3eb>'', bytes = [CHR 0x03, CHR 0xEB]\<rparr>,
     \<lparr>chars = ''<H3ec>'', bytes = [CHR 0x03, CHR 0xEC]\<rparr>,
     \<lparr>chars = ''<H3ed>'', bytes = [CHR 0x03, CHR 0xED]\<rparr>,
     \<lparr>chars = ''<H3ee>'', bytes = [CHR 0x03, CHR 0xEE]\<rparr>,
     \<lparr>chars = ''<H3ef>'', bytes = [CHR 0x03, CHR 0xEF]\<rparr>,
     \<lparr>chars = ''<H3f0>'', bytes = [CHR 0x03, CHR 0xF0]\<rparr>,
     \<lparr>chars = ''<H3f1>'', bytes = [CHR 0x03, CHR 0xF1]\<rparr>,
     \<lparr>chars = ''<H3f2>'', bytes = [CHR 0x03, CHR 0xF2]\<rparr>,
     \<lparr>chars = ''<H3f3>'', bytes = [CHR 0x03, CHR 0xF3]\<rparr>,
     \<lparr>chars = ''<H3f4>'', bytes = [CHR 0x03, CHR 0xF4]\<rparr>,
     \<lparr>chars = ''<H3f5>'', bytes = [CHR 0x03, CHR 0xF5]\<rparr>,
     \<lparr>chars = ''<H3f6>'', bytes = [CHR 0x03, CHR 0xF6]\<rparr>,
     \<lparr>chars = ''<H3f7>'', bytes = [CHR 0x03, CHR 0xF7]\<rparr>,
     \<lparr>chars = ''<H3f8>'', bytes = [CHR 0x03, CHR 0xF8]\<rparr>,
     \<lparr>chars = ''<H3f9>'', bytes = [CHR 0x03, CHR 0xF9]\<rparr>,
     \<lparr>chars = ''<H3fa>'', bytes = [CHR 0x03, CHR 0xFA]\<rparr>,
     \<lparr>chars = ''<H3fb>'', bytes = [CHR 0x03, CHR 0xFB]\<rparr>,
     \<lparr>chars = ''<H3fc>'', bytes = [CHR 0x03, CHR 0xFC]\<rparr>,
     \<lparr>chars = ''<H3fd>'', bytes = [CHR 0x03, CHR 0xFD]\<rparr>,
     \<lparr>chars = ''<H3fe>'', bytes = [CHR 0x03, CHR 0xFE]\<rparr>,
     \<lparr>chars = ''<H3ff>'', bytes = [CHR 0x03, CHR 0xFF]\<rparr>]"

definition s_encode_info_jak2 :: "EncodeInfo list" where
  "s_encode_info_jak2 =
     s_encode_info_jak2_part1 @
     s_encode_info_jak2_part2 @
     s_encode_info_jak2_part3 @
     s_encode_info_jak2_part4 @
     s_encode_info_jak2_part5 @
     s_encode_info_jak2_part6 @
     s_encode_info_jak2_part7 @
     s_encode_info_jak2_part8 @
     s_encode_info_jak2_part9 @
     s_encode_info_jak2_part10 @
     s_encode_info_jak2_part11 @
     s_encode_info_jak2_part12 @
     s_encode_info_jak2_part13 @
     s_encode_info_jak2_part14 @
     s_encode_info_jak2_part15 @
     s_encode_info_jak2_part16 @
     s_encode_info_jak2_part17"

subsection \<open>The font banks and the version registry\<close>

text \<open>
  The three global banks are constructed in the order of their definitions.  Both Jak 1
  banks point to the one vector \<^verbatim>\<open>s_replace_info_jak1\<close>: the constructor of the v2 bank sorts
  the vector that the constructor of the v1 bank has already sorted.
\<close>

definition g_font_bank_jak1_v1 :: GameTextFontBank where
  "g_font_bank_jak1_v1 =
     new_GameTextFontBank JAK1_V1 s_encode_info_jak1 s_replace_info_jak1 s_passthrus_jak1"

definition g_font_bank_jak1_v2 :: GameTextFontBank where
  "g_font_bank_jak1_v2 =
     new_GameTextFontBank JAK1_V2 s_encode_info_jak1_v2
       (m_replace_info g_font_bank_jak1_v1) s_passthrus_jak1"

definition g_font_bank_jak2 :: GameTextFontBank where
  "g_font_bank_jak2 =
     new_GameTextFontBank JAK2 s_encode_info_jak2 s_replace_info_jak2 s_passthrus_jak2"

definition sTextVerEnumMap :: "string \<rightharpoonup> GameTextVersion" where
  "sTextVerEnumMap =
     map_of [(''jak1-v1'', JAK1_V1), (''jak1-v2'', JAK1_V2), (''jak2'', JAK2)]"

definition g_font_banks :: "GameTextVersion \<rightharpoonup> GameTextFontBank" where
  "g_font_banks =
     map_of [(JAK1_V1, g_font_bank_jak1_v1), (JAK1_V2, g_font_bank_jak1_v2),
             (JAK2, g_font_bank_jak2)]"

text \<open>
  The two overloads of \<^verbatim>\<open>get_font_bank\<close>.  Neither writes to any variable, so each is a
  function of its argument alone.
\<close>

definition get_font_bank :: "GameTextVersion \<Rightarrow> error + GameTextFontBank" where
  "get_font_bank version =
     (case g_font_banks version of None \<Rightarrow> Inl OutOfRange | Some bank \<Rightarrow> Inr bank)"

definition get_font_bank_name :: "string \<Rightarrow> error + GameTextFontBank" where
  "get_font_bank_name name =
     (case sTextVerEnumMap name of
        None \<Rightarrow> Inl UnknownVersion
      | Some version \<Rightarrow> get_font_bank version)"

subsection \<open>The operations of a bank as state transformers\<close>

text \<open>
  What a call on a bank can touch: the bank itself, whose fields point to the two tables
  and to the passthrough set, and the global vector \<^verbatim>\<open>seqs\<close>.  A call that ends in \<open>Inl\<close>
  did not return normally.
\<close>

record bank_state =
  font_bank :: GameTextFontBank
  seqs :: "64 word list"

datatype call =
    Find_encode_to_utf8 "char list"
  | Find_encode_to_game string nat
  | Find_replace_to_utf8 string nat
  | Find_replace_to_game string nat
  | Replace_to_utf8 string
  | Replace_to_game string
  | Encode_utf8_to_game string
  | Convert_utf8_to_game string bool
  | Valid_char_range char
  | Convert_game_to_utf8 "char list" bool

datatype result =
    Encode_rule "EncodeInfo option"
  | Replace_rule "ReplaceInfo option"
  | Text string
  | Flag bool

definition returns :: "bank_state \<Rightarrow> (error + 'a) \<Rightarrow> ('a \<Rightarrow> result) \<Rightarrow> error + (result \<times> bank_state)" where
  "returns st r wrap = (case r of Inl e \<Rightarrow> Inl e | Inr v \<Rightarrow> Inr (wrap v, st))"

fun exec :: "call \<Rightarrow> bank_state \<Rightarrow> error + (result \<times> bank_state)" where
  "exec (Find_encode_to_utf8 inp) st =
     returns st (find_encode_to_utf8 (m_encode_info (font_bank st)) inp) Encode_rule"
| "exec (Find_encode_to_game inp off) st =
     returns st (Inr (find_encode_to_game (m_encode_info (font_bank st)) inp off)) Encode_rule"
| "exec (Find_replace_to_utf8 inp off) st =
     returns st (find_replace_to_utf8 (m_replace_info (font_bank st)) inp off) Replace_rule"
| "exec (Find_replace_to_game inp off) st =
     returns st (find_replace_to_game (m_replace_info (font_bank st)) inp off) Replace_rule"
| "exec (Replace_to_utf8 str) st = returns st (replace_to_utf8 (font_bank st) str) Text"
| "exec (Replace_to_game str) st = returns st (replace_to_game (font_bank st) str) Text"
| "exec (Encode_utf8_to_game str) st =
     returns st (Inr (encode_utf8_to_game (font_bank st) str)) Text"
| "exec (Convert_utf8_to_game str escape) st =
     returns st (convert_utf8_to_game (font_bank st) str escape) Text"
| "exec (Valid_char_range c) st = returns st (Inr (valid_char_range (font_bank st) c)) Flag"
| "exec (Convert_game_to_utf8 inp korean) st =
     (case convert_game_to_utf8 (font_bank st) (seqs st) inp korean of
        Inl e \<Rightarrow> Inl e
      | Inr (text, seqs') \<Rightarrow> Inr (Text text, st\<lparr>seqs := seqs'\<rparr>))"

fun exec_all :: "call list \<Rightarrow> bank_state \<Rightarrow> error + bank_state" where
  "exec_all [] st = Inr st"
| "exec_all (c # cs) st =
     (case exec c st of Inl e \<Rightarrow> Inl e | Inr (r, st') \<Rightarrow> exec_all cs st')"

definition tables_sorted :: "GameTextFontBank \<Rightarrow> bool" where
  "tables_sorted bank \<longleftrightarrow>
     sorted_wrt (\<lambda>a b. length (bytes a) \<ge> length (bytes b)) (m_encode_info bank) \<and>
     sorted_wrt (\<lambda>a b. length (from_s a) \<ge> length (from_s b)) (m_replace_info bank)"

subsection \<open>Notions used to state the properties\<close>

text \<open>
  What one iteration of the escape loop takes from the input without raising, other than an
  unescaped double quote: an ordinary character, a backslash followed by a double quote or
  a backslash, or a backslash, the letter c and two hexadecimal digits.
\<close>

fun escape_unit :: "string \<Rightarrow> bool" where
  "escape_unit [c] = (c \<noteq> CHR 0x22 \<and> c \<noteq> CHR 0x5C)"
| "escape_unit [b, p] = (b = CHR 0x5C \<and> (p = CHR 0x22 \<or> p = CHR 0x5C))"
| "escape_unit [b, k, first, second] =
     (b = CHR 0x5C \<and> k = CHR ''c'' \<and> hex_char first \<and> hex_char second)"
| "escape_unit t = False"

text \<open>
  Two patterns are comparable when one is a prefix of the other.  These are the pairs
  between which a longest-match resolver has to choose, and the pairs that
  \<open>match_chars\<close> cannot tell apart at the end of the input.
\<close>

fun prefix_comparable :: "'a list \<Rightarrow> 'a list \<Rightarrow> bool" where
  "prefix_comparable [] ys = True"
| "prefix_comparable (x # xs) [] = True"
| "prefix_comparable (x # xs) (y # ys) = (x = y \<and> prefix_comparable xs ys)"

definition special_char :: "char \<Rightarrow> bool" where
  "special_char c \<longleftrightarrow> c = CHR 0x0A \<or> c = CHR 0x09 \<or> c = CHR 0x5C \<or> c = CHR 0x22"

text \<open>
  A byte is a literal of a bank when the reverse transcoder copies it wherever it stands: it
  is not the terminator, no encode rule has a byte sequence that starts with it, and it
  passes the literal test of the byte-decode loop.  A character is plain in a bank when it
  is such a literal, is not one of the escaped characters, and starts neither the character
  sequence of an encode rule nor a pattern of a replace rule: all four passes copy it
  wherever it stands.
\<close>

definition literal_byte :: "GameTextFontBank \<Rightarrow> char \<Rightarrow> bool" where
  "literal_byte bank c \<longleftrightarrow>
     c \<noteq> CHR 0x00 \<and> (valid_char_range bank c \<or> special_char c) \<and>
     (\<forall>r\<in>set (m_encode_info bank). bytes r = [] \<or> hd (bytes r) \<noteq> c)"

definition plain_char :: "GameTextFontBank \<Rightarrow> char \<Rightarrow> bool" where
  "plain_char bank c \<longleftrightarrow>
     literal_byte bank c \<and> \<not> special_char c \<and>
     (\<forall>r\<in>set (m_encode_info bank). chars r = [] \<or> hd (chars r) \<noteq> c) \<and>
     (\<forall>p\<in>set (m_replace_info bank).
        (from_s p = [] \<or> hd (from_s p) \<noteq> c) \<and> (to_s p = [] \<or> hd (to_s p) \<noteq> c))"

text \<open>
  A displayed text is made of units: the character sequence of an encode rule, the
  displayed substring of a replace rule, or a plain character.  On the way to the game a
  unit of the second kind is first replaced by the encoded substring of its rule, and the
  bytes of that unit are the encoding of this substring.
\<close>

datatype text_unit = Glyph EncodeInfo | Composite ReplaceInfo | Plain char

fun displayed :: "text_unit \<Rightarrow> string" where
  "displayed (Glyph r) = chars r"
| "displayed (Composite p) = to_s p"
| "displayed (Plain c) = [c]"

fun encoded :: "text_unit \<Rightarrow> string" where
  "encoded (Glyph r) = chars r"
| "encoded (Composite p) = from_s p"
| "encoded (Plain c) = [c]"

fun unit_bytes :: "GameTextFontBank \<Rightarrow> text_unit \<Rightarrow> char list" where
  "unit_bytes bank (Glyph r) = bytes r"
| "unit_bytes bank (Composite p) = encode_utf8_to_game bank (from_s p)"
| "unit_bytes bank (Plain c) = [c]"

fun unit_of :: "GameTextFontBank \<Rightarrow> text_unit \<Rightarrow> bool" where
  "unit_of bank (Glyph r) \<longleftrightarrow> r \<in> set (m_encode_info bank)"
| "unit_of bank (Composite p) \<longleftrightarrow> p \<in> set (m_replace_info bank)"
| "unit_of bank (Plain c) \<longleftrightarrow> plain_char bank c"

text \<open>
  An encoded substring is a raw code with image \<open>bs\<close> when it splits into character
  sequences of encode rules and literals, none of which is comparable with the character
  sequence of an encode rule, and \<open>bs\<close> is made of the byte sequences of the rules and of
  the literals.
\<close>

inductive raw_code :: "GameTextFontBank \<Rightarrow> string \<Rightarrow> char list \<Rightarrow> bool" for bank where
  raw_Nil: "raw_code bank [] []"
| raw_rule: "r \<in> set (m_encode_info bank) \<Longrightarrow> raw_code bank s bs \<Longrightarrow>
     raw_code bank (chars r @ s) (bytes r @ bs)"
| raw_literal: "literal_byte bank c \<Longrightarrow>
     \<forall>r\<in>set (m_encode_info bank). \<not> prefix_comparable (chars r) (c # s) \<Longrightarrow>
     raw_code bank s bs \<Longrightarrow> raw_code bank (c # s) (c # bs)"

text \<open>
  The tables of a bank are invertible when every encode rule has a non-empty character
  sequence without newline, tab, backslash and double quote and a non-empty byte sequence
  without the zero byte; no two different encode rules have comparable character sequences
  or comparable byte sequences; no pattern of a replace rule, encoded or displayed, is
  comparable with a suffix of the character sequence of an encode rule; every replace rule
  has non-empty patterns and a displayed substring without newline, tab, backslash and
  double quote; no two different replace rules have comparable encoded substrings or
  comparable displayed substrings; no encoded substring is comparable with a suffix of a
  displayed substring; and every encoded substring is a raw code.
\<close>

definition rule_well_formed :: "EncodeInfo \<Rightarrow> bool" where
  "rule_well_formed r \<longleftrightarrow>
     chars r \<noteq> [] \<and> bytes r \<noteq> [] \<and> list_all (\<lambda>b. b \<noteq> CHR 0x00) (bytes r) \<and>
     list_all (\<lambda>c. \<not> special_char c) (chars r)"

definition rules_separate :: "EncodeInfo \<Rightarrow> EncodeInfo \<Rightarrow> bool" where
  "rules_separate r r' \<longleftrightarrow>
     (prefix_comparable (chars r) (chars r') \<or> prefix_comparable (bytes r) (bytes r') \<longrightarrow> r = r')"

definition rule_avoids :: "ReplaceInfo list \<Rightarrow> EncodeInfo \<Rightarrow> bool" where
  "rule_avoids replace_info r \<longleftrightarrow>
     (\<forall>k<length (chars r). \<forall>p\<in>set replace_info.
        \<not> prefix_comparable (drop k (chars r)) (from_s p) \<and>
        \<not> prefix_comparable (drop k (chars r)) (to_s p))"

definition pattern_well_formed :: "ReplaceInfo \<Rightarrow> bool" where
  "pattern_well_formed p \<longleftrightarrow>
     from_s p \<noteq> [] \<and> to_s p \<noteq> [] \<and> list_all (\<lambda>c. \<not> special_char c) (to_s p)"

definition patterns_separate :: "ReplaceInfo \<Rightarrow> ReplaceInfo \<Rightarrow> bool" where
  "patterns_separate p q \<longleftrightarrow>
     (prefix_comparable (from_s p) (from_s q) \<or> prefix_comparable (to_s p) (to_s q) \<longrightarrow> p = q)"

definition display_avoids :: "ReplaceInfo list \<Rightarrow> ReplaceInfo \<Rightarrow> bool" where
  "display_avoids replace_info p \<longleftrightarrow>
     (\<forall>k<length (to_s p). \<forall>q\<in>set replace_info.
        \<not> prefix_comparable (drop k (to_s p)) (from_s q))"

definition tables_invertible :: "GameTextFontBank \<Rightarrow> bool" where
  "tables_invertible bank \<longleftrightarrow>
     (\<forall>r\<in>set (m_encode_info bank).
        rule_well_formed r \<and> rule_avoids (m_replace_info bank) r \<and>
        (\<forall>r'\<in>set (m_encode_info bank). rules_separate r r')) \<and>
     (\<forall>p\<in>set (m_replace_info bank).
        pattern_well_formed p \<and> display_avoids (m_replace_info bank) p \<and>
        (\<exists>bs. raw_code bank (from_s p) bs) \<and>
        (\<forall>q\<in>set (m_replace_info bank). patterns_separate p q))"

text \<open>
  Checks that decide invertibility of a concrete table part by part: \<open>all_of\<close> is
  \<open>list_all\<close>; \<open>cross_incomparable\<close> compares every pattern of one list with every
  pattern of another; \<open>patterns\<close> lists the encoded and the displayed patterns of a replace
  table, \<open>starting\<close> selects those that begin with a given character, and
  \<open>avoid_check\<close> compares every suffix of a character sequence that begins with one of
  the given first characters with the patterns beginning with the same character.
  \<open>raw_bytes\<close> splits an encoded substring into character sequences of encode rules and
  literals from a given list, and returns the image: at a position where no character
  sequence is pending it looks among the rules beginning with the current character for
  those comparable with the rest of the substring.
\<close>

definition all_of :: "('a \<Rightarrow> bool) \<Rightarrow> 'a list \<Rightarrow> bool" where
  "all_of P xs = list_all P xs"

definition cross_incomparable :: "'a list list \<Rightarrow> 'a list list \<Rightarrow> bool" where
  "cross_incomparable xs ys = all_of (\<lambda>x. all_of (\<lambda>y. \<not> prefix_comparable x y) ys) xs"

fun pairwise_incomparable :: "'a list list \<Rightarrow> bool" where
  "pairwise_incomparable [] = True"
| "pairwise_incomparable (x # xs) =
     (all_of (\<lambda>y. \<not> prefix_comparable x y) xs \<and> pairwise_incomparable xs)"

definition patterns :: "ReplaceInfo list \<Rightarrow> string list" where
  "patterns replace_info = map from_s replace_info @ map to_s replace_info"

definition starting :: "char \<Rightarrow> string list \<Rightarrow> string list" where
  "starting c pats = filter (\<lambda>p. p \<noteq> [] \<and> hd p = c) pats"

fun avoid_check :: "char list \<Rightarrow> string list \<Rightarrow> string \<Rightarrow> bool" where
  "avoid_check firsts pats [] = True"
| "avoid_check firsts pats (c # cs) =
     ((if c \<in> set firsts
       then all_of (\<lambda>p. \<not> prefix_comparable (c # cs) p) (starting c pats)
       else True) \<and>
      avoid_check firsts pats cs)"

definition rules_starting :: "char \<Rightarrow> EncodeInfo list \<Rightarrow> EncodeInfo list" where
  "rules_starting c encode_info = filter (\<lambda>r. chars r \<noteq> [] \<and> hd (chars r) = c) encode_info"

fun raw_bytes :: "EncodeInfo list \<Rightarrow> char list \<Rightarrow> string \<Rightarrow> string \<Rightarrow> char list option" where
  "raw_bytes encode_info lits [] [] = Some []"
| "raw_bytes encode_info lits (a # pending) [] = None"
| "raw_bytes encode_info lits (a # pending) (c # s) =
     (if a = c then raw_bytes encode_info lits pending s else None)"
| "raw_bytes encode_info lits [] (c # s) =
     (case filter (\<lambda>r. prefix_comparable (chars r) (c # s)) (rules_starting c encode_info) of
        [] \<Rightarrow>
          if c \<in> set lits then map_option ((#) c) (raw_bytes encode_info lits [] s) else None
      | [r] \<Rightarrow> map_option ((@) (bytes r)) (raw_bytes encode_info lits (tl (chars r)) s)
      | r # r' # rs \<Rightarrow> None)"

text \<open>The first characters of the replace patterns of Jak 1 and of Jak 2.\<close>

definition firsts_jak1 :: "char list" where
  "firsts_jak1 =
     [CHR '','', CHR ''<'', CHR ''A'', CHR ''C'', CHR ''E'', CHR ''I'', CHR ''L'', CHR ''N'',
      CHR ''O'', CHR ''S'', CHR ''U'', CHR ''Z'', CHR ''~'', CHR 0xC3, CHR 0xC4, CHR 0xC5,
      CHR 0xE3, CHR 0xE4]"

definition firsts_jak2 :: "char list" where
  "firsts_jak2 =
     [CHR '','', CHR ''<'', CHR ''A'', CHR ''E'', CHR ''I'', CHR ''N'', CHR ''O'', CHR ''U'',
      CHR 0x5C, CHR ''a'', CHR ''e'', CHR ''g'', CHR ''i'', CHR ''j'', CHR ''n'', CHR ''o'',
      CHR ''p'', CHR ''q'', CHR ''u'', CHR ''y'', CHR ''~'', CHR 0xC2, CHR 0xC3, CHR 0xE3]"

text \<open>
  The first characters of the character sequences of the three encode tables, and the
  literals in the encoded substrings of the replace tables.
\<close>

definition encode_firsts_jak1 :: "char list" where
  "encode_firsts_jak1 =
     [CHR 0x27, CHR ''<'', CHR 0x5E, CHR 0x60, CHR 0xC2, CHR 0xC3, CHR 0xC5, CHR 0xCB,
      CHR 0xE2, CHR 0xE3, CHR 0xE4, CHR 0xE5, CHR 0xE6, CHR 0xE7, CHR 0xE8, CHR 0xE9]"

definition encode_firsts_jak1_v2 :: "char list" where
  "encode_firsts_jak1_v2 =
     [CHR 0x27, CHR ''<'', CHR 0x5E, CHR ''_'', CHR 0x60, CHR 0xC2, CHR 0xC3, CHR 0xC5,
      CHR 0xCB, CHR 0xE2, CHR 0xE3, CHR 0xE4, CHR 0xE5, CHR 0xE6, CHR 0xE7, CHR 0xE8,
      CHR 0xE9]"

definition encode_firsts_jak2 :: "char list" where
  "encode_firsts_jak2 =
     [CHR 0x27, CHR ''<'', CHR 0x5E, CHR 0x60, CHR 0xC2, CHR 0xC3, CHR 0xC5, CHR 0xCB,
      CHR 0xE3, CHR 0xE4, CHR 0xE5, CHR 0xE6, CHR 0xE7, CHR 0xE8, CHR 0xE9, CHR 0xEF]"

definition raw_literals_jak1 :: "char list" where
  "raw_literals_jak1 =
     [CHR '' '', CHR ''#'', CHR ''*'', CHR ''+'', CHR '','', CHR ''-'', CHR ''/'',
      CHR ''0'', CHR ''1'', CHR ''2'', CHR ''3'', CHR ''4'', CHR ''5'', CHR ''6'',
      CHR ''7'', CHR ''8'', CHR ''9'', CHR '';'', CHR ''<'', CHR ''>'', CHR ''@'',
      CHR ''A'', CHR ''C'', CHR ''E'', CHR ''H'', CHR ''I'', CHR ''L'', CHR ''N'',
      CHR ''O'', CHR ''S'', CHR ''U'', CHR ''V'', CHR ''Y'', CHR ''Z'', CHR ''['',
      CHR ''~'']"


text \<open>The plain characters of the three banks.\<close>

definition plain_chars_jak1_v1 :: "char list" where
  "plain_chars_jak1_v1 =
     [CHR '' '', CHR ''!'', CHR ''#'', CHR ''%'', CHR ''('', CHR '')'', CHR ''*'',
      CHR ''+'', CHR ''-'', CHR ''.'', CHR ''/'', CHR ''0'', CHR ''1'', CHR ''2'',
      CHR ''3'', CHR ''4'', CHR ''5'', CHR ''6'', CHR ''7'', CHR ''8'', CHR ''9'',
      CHR '':'', CHR '';'', CHR ''='', CHR ''>'', CHR ''?'', CHR ''@'', CHR ''B'',
      CHR ''D'', CHR ''F'', CHR ''G'', CHR ''H'', CHR ''J'', CHR ''K'', CHR ''M'',
      CHR ''P'', CHR ''Q'', CHR ''R'', CHR ''T'', CHR ''V'', CHR ''W'', CHR ''X'',
      CHR ''Y'', CHR ''['', CHR ''_'']"

definition plain_chars_jak1_v2 :: "char list" where
  "plain_chars_jak1_v2 =
     [CHR '' '', CHR ''!'', CHR ''#'', CHR ''%'', CHR ''('', CHR '')'', CHR ''*'',
      CHR ''+'', CHR ''-'', CHR ''.'', CHR ''/'', CHR ''0'', CHR ''1'', CHR ''2'',
      CHR ''3'', CHR ''4'', CHR ''5'', CHR ''6'', CHR ''7'', CHR ''8'', CHR ''9'',
      CHR '':'', CHR '';'', CHR ''='', CHR ''>'', CHR ''?'', CHR ''@'', CHR ''B'',
      CHR ''D'', CHR ''F'', CHR ''G'', CHR ''H'', CHR ''J'', CHR ''K'', CHR ''M'',
      CHR ''P'', CHR ''Q'', CHR ''R'', CHR ''T'', CHR ''V'', CHR ''W'', CHR ''X'',
      CHR ''Y'', CHR ''['']"

definition plain_chars_jak2 :: "char list" where
  "plain_chars_jak2 =
     [CHR '' '', CHR ''!'', CHR ''#'', CHR ''%'', CHR ''('', CHR '')'', CHR ''*'',
      CHR ''+'', CHR ''-'', CHR ''.'', CHR ''/'', CHR ''0'', CHR ''1'', CHR ''2'',
      CHR ''3'', CHR ''4'', CHR ''5'', CHR ''6'', CHR ''7'', CHR ''8'', CHR ''9'',
      CHR '':'', CHR '';'', CHR ''='', CHR ''>'', CHR ''?'', CHR ''@'', CHR ''B'',
      CHR ''C'', CHR ''D'', CHR ''F'', CHR ''G'', CHR ''H'', CHR ''J'', CHR ''K'',
      CHR ''L'', CHR ''M'', CHR ''P'', CHR ''Q'', CHR ''R'', CHR ''S'', CHR ''T'',
      CHR ''V'', CHR ''W'', CHR ''X'', CHR ''Y'', CHR ''Z'', CHR ''['', CHR '']'',
      CHR ''_'', CHR ''b'', CHR ''c'', CHR ''d'', CHR ''f'', CHR ''h'', CHR ''k'',
      CHR ''l'', CHR ''m'', CHR ''r'', CHR ''s'', CHR ''t'', CHR ''v'', CHR ''w'',
      CHR ''x'', CHR ''z'']"

section \<open>Properties\<close>

declare replace_to_utf8_loop.simps [simp del] replace_to_game_loop.simps [simp del]
  encode_utf8_to_game_loop.simps [simp del] escape_loop.simps [simp del]
  convert_korean_loop.simps [simp del] decode_loop.simps [simp del]
  escape_emit_loop.simps [simp del]

subsection \<open>Escape interpretation\<close>

lemma escape_a_c41_b:
  "escape_loop [CHR ''a'', CHR 0x5C, CHR ''c'', CHR ''4'', CHR ''1'', CHR ''b''] 0 [] =
     Inr [CHR ''a'', CHR 0x41, CHR ''b'']"
  by code_simp

text \<open>
  C7.  For every bank, forward transcoding of the six characters \<^verbatim>\<open>a\c41b\<close> with escaping
  enabled gives the same result as forward transcoding of the three characters \<open>a\<close>,
  \<open>chr 0x41\<close>, \<open>b\<close> with escaping disabled.
\<close>

theorem escape_roundtrip_c41:
  "convert_utf8_to_game bank [CHR ''a'', CHR 0x5C, CHR ''c'', CHR ''4'', CHR ''1'', CHR ''b''] True =
   convert_utf8_to_game bank [CHR ''a'', CHR 0x41, CHR ''b''] False"
  by (simp add: convert_utf8_to_game_def escape_a_c41_b)

lemma escape_quote_next: "escape_loop [CHR 0x22, x] 0 [] = Inr [CHR 0x22]"
  by (simp add: escape_loop.simps)

text \<open>
  C1.  The escape loop adds one to \<open>i\<close> after copying a double quote, and the loop header
  adds one more: the character after the quote is skipped.  The escape stage maps a double
  quote followed by any character \<open>x\<close> to the double quote alone; with the Jak 1 (v1) bank
  the two characters \<^verbatim>\<open>"A\<close> are transcoded to the single byte \<open>0x22\<close> when escaping is
  enabled, and to the two bytes \<open>0x22 0x41\<close> when it is not.
\<close>

theorem quote_drops_following_char:
  "escape_loop [CHR 0x22, x] 0 [] = Inr [CHR 0x22] \<and>
   convert_utf8_to_game g_font_bank_jak1_v1 [CHR 0x22, CHR ''A''] True = Inr [CHR 0x22] \<and>
   convert_utf8_to_game g_font_bank_jak1_v1 [CHR 0x22, CHR ''A''] False = Inr [CHR 0x22, CHR ''A'']"
proof -
  have "convert_utf8_to_game g_font_bank_jak1_v1 [CHR 0x22, CHR ''A''] True = Inr [CHR 0x22]"
    by code_simp
  moreover
  have "convert_utf8_to_game g_font_bank_jak1_v1 [CHR 0x22, CHR ''A''] False =
      Inr [CHR 0x22, CHR ''A'']"
    by code_simp
  ultimately show ?thesis using escape_quote_next by simp
qed

subsection \<open>The resolvers\<close>

text \<open>
  C3.  \<open>find_encode_to_utf8\<close> replaces its candidate when the new rule has the longer
  character sequence, not the longer byte sequence.  A bank built from the rules
  \<open>ab \<leftrightarrow> 01\<close> and \<open>c \<leftrightarrow> 01 02\<close> holds them sorted by byte length, \<open>c\<close> first; on the input
  \<open>01 02 00\<close> the two-byte rule matches, yet the resolver returns the one-byte rule.
\<close>

theorem utf8_resolver_prefers_longer_chars:
  "m_encode_info (new_GameTextFontBank JAK2
      [\<lparr>chars = ''ab'', bytes = [CHR 0x01]\<rparr>, \<lparr>chars = ''c'', bytes = [CHR 0x01, CHR 0x02]\<rparr>]
      s_replace_info_null s_passthrus_jak2) =
     [\<lparr>chars = ''c'', bytes = [CHR 0x01, CHR 0x02]\<rparr>, \<lparr>chars = ''ab'', bytes = [CHR 0x01]\<rparr>] \<and>
   match_bytes [CHR 0x01, CHR 0x02, CHR 0x00] [CHR 0x01, CHR 0x02] = Inr True \<and>
   find_encode_to_utf8
     [\<lparr>chars = ''c'', bytes = [CHR 0x01, CHR 0x02]\<rparr>, \<lparr>chars = ''ab'', bytes = [CHR 0x01]\<rparr>]
     [CHR 0x01, CHR 0x02, CHR 0x00] = Inr (Some \<lparr>chars = ''ab'', bytes = [CHR 0x01]\<rparr>)"
  by (simp add: new_GameTextFontBank_def encode_comp_def find_encode_to_utf8_def)

text \<open>
  C4.  The inner loop of \<open>find_encode_to_game\<close> stops at the end of the input and leaves
  \<open>found\<close> set.  With the Jak 1 (v1) bank and the one-character input \<^verbatim>\<open><\<close> the resolver
  returns the rule of the five-character pattern \<^verbatim>\<open><TIL>\<close>; with the single rule
  \<open>AB \<leftrightarrow> 01\<close> and the input \<open>A\<close> it returns that rule.
\<close>

theorem game_resolver_matches_past_end:
  "find_encode_to_game (m_encode_info g_font_bank_jak1_v1) ''<'' 0 =
     Some \<lparr>chars = ''<TIL>'', bytes = [CHR 0x14]\<rparr> \<and>
   find_encode_to_game [\<lparr>chars = ''AB'', bytes = [CHR 0x01]\<rparr>] ''A'' 0 =
     Some \<lparr>chars = ''AB'', bytes = [CHR 0x01]\<rparr>"
proof -
  have "find_encode_to_game (m_encode_info g_font_bank_jak1_v1) ''<'' 0 =
     Some \<lparr>chars = ''<TIL>'', bytes = [CHR 0x14]\<rparr>"
    by code_simp
  then show ?thesis by (simp add: find_encode_to_game_def)
qed

subsection \<open>The version registry\<close>

text \<open>
  C8.  Looking up a bank by a name that the registry \<open>sTextVerEnumMap\<close> does not hold
  fails with \<open>UnknownVersion\<close>; looking up a registered name returns the bank that
  \<open>g_font_banks\<close> holds for the name's version, and that bank carries this version.  The
  lookup is a function of the name alone: it has no state to change.
\<close>

theorem get_font_bank_by_name:
  "(sTextVerEnumMap name = None \<longrightarrow> get_font_bank_name name = Inl UnknownVersion) \<and>
   (\<forall>version. sTextVerEnumMap name = Some version \<longrightarrow>
      (\<exists>bank. get_font_bank_name name = Inr bank \<and> g_font_banks version = Some bank \<and>
              m_version bank = version))"
proof -
  have banks:
    "g_font_banks JAK1_V1 = Some g_font_bank_jak1_v1 \<and> m_version g_font_bank_jak1_v1 = JAK1_V1"
    "g_font_banks JAK1_V2 = Some g_font_bank_jak1_v2 \<and> m_version g_font_bank_jak1_v2 = JAK1_V2"
    "g_font_banks JAK2 = Some g_font_bank_jak2 \<and> m_version g_font_bank_jak2 = JAK2"
    by (simp_all add: g_font_banks_def g_font_bank_jak1_v1_def g_font_bank_jak1_v2_def
          g_font_bank_jak2_def new_GameTextFontBank_def)
  have "\<exists>bank. get_font_bank version = Inr bank \<and> g_font_banks version = Some bank \<and>
      m_version bank = version" for version
    using banks by (cases version) (simp_all add: get_font_bank_def)
  then show ?thesis
    by (simp add: get_font_bank_name_def split: option.splits)
qed

theorem get_font_bank_by_name_witness:
  "sTextVerEnumMap ''not-a-real-version'' = None \<and>
   get_font_bank_name ''not-a-real-version'' = Inl UnknownVersion \<and>
   sTextVerEnumMap ''jak2'' = Some JAK2 \<and>
   (\<exists>bank. get_font_bank_name ''jak2'' = Inr bank \<and> g_font_banks JAK2 = Some bank \<and>
           m_version bank = JAK2)"
proof -
  have a: "sTextVerEnumMap ''not-a-real-version'' = None" by (simp add: sTextVerEnumMap_def)
  have b: "sTextVerEnumMap ''jak2'' = Some JAK2" by (simp add: sTextVerEnumMap_def)
  show ?thesis
    using get_font_bank_by_name [of "''not-a-real-version''"]
      get_font_bank_by_name [of "''jak2''"] a b
    by simp
qed

subsection \<open>The zero byte in the reverse transcoder\<close>

text \<open>
  C10.  In its glyph branch the Korean pre-pass steps over the marker byte and over the
  length byte without looking at them.  The two buffers \<open>04 00 41 00\<close> and \<open>04 00 42 00\<close>
  agree up to their first zero byte, and with the pre-pass enabled they are transcoded to
  different texts (\<^verbatim>\<open>\c03A\<close> and \<^verbatim>\<open>\c03B\<close>, bank of version Jak 2 with empty tables).  On the
  buffer \<open>04 00\<close>, which ends at its zero byte, the pre-pass reads outside the buffer;
  without the pre-pass the same buffer is transcoded to \<^verbatim>\<open>\c04\<close>.
\<close>

theorem korean_prepass_reads_past_zero:
  "convert_game_to_utf8
     (new_GameTextFontBank JAK2 s_encode_info_null s_replace_info_null s_passthrus_jak2) []
     [CHR 0x04, CHR 0x00, CHR 0x41, CHR 0x00] True =
     Inr ([CHR 0x5C, CHR ''c'', CHR ''0'', CHR ''3'', CHR ''A''], [0x341]) \<and>
   convert_game_to_utf8
     (new_GameTextFontBank JAK2 s_encode_info_null s_replace_info_null s_passthrus_jak2) []
     [CHR 0x04, CHR 0x00, CHR 0x42, CHR 0x00] True =
     Inr ([CHR 0x5C, CHR ''c'', CHR ''0'', CHR ''3'', CHR ''B''], [0x342]) \<and>
   convert_game_to_utf8
     (new_GameTextFontBank JAK2 s_encode_info_null s_replace_info_null s_passthrus_jak2) []
     [CHR 0x04, CHR 0x00] True = Inl OutOfBounds \<and>
   convert_game_to_utf8
     (new_GameTextFontBank JAK2 s_encode_info_null s_replace_info_null s_passthrus_jak2) []
     [CHR 0x04, CHR 0x00] False = Inr ([CHR 0x5C, CHR ''c'', CHR ''0'', CHR ''4''], [])"
  by code_simp

subsection \<open>The order of the tables\<close>

lemma set_sort_insert: "set (sort_insert cmp x xs) = insert x (set xs)"
  by (induction xs) auto

lemma set_std_sort: "set (std_sort cmp xs) = set xs"
  by (induction xs) (auto simp add: set_sort_insert)

lemma sorted_sort_insert:
  fixes key :: "'a \<Rightarrow> nat"
  assumes cmp: "\<And>a b. cmp a b \<longleftrightarrow> key b < key a"
    and xs: "sorted_wrt (\<lambda>a b. key b \<le> key a) xs"
  shows "sorted_wrt (\<lambda>a b. key b \<le> key a) (sort_insert cmp x xs)"
  using xs
proof (induction xs)
  case Nil
  then show ?case by simp
next
  case (Cons y ys)
  show ?case
  proof (cases "cmp y x")
    case True
    with Cons cmp show ?thesis
      by (auto simp add: set_sort_insert intro: less_imp_le)
  next
    case False
    then have "key y \<le> key x" using cmp by (simp add: not_less)
    with False Cons.prems show ?thesis by (auto intro: order_trans)
  qed
qed

lemma sorted_std_sort:
  fixes key :: "'a \<Rightarrow> nat"
  assumes cmp: "\<And>a b. cmp a b \<longleftrightarrow> key b < key a"
  shows "sorted_wrt (\<lambda>a b. key b \<le> key a) (std_sort cmp xs)"
  by (induction xs) (simp_all add: sorted_sort_insert [OF cmp])

lemma tables_sorted_new:
  "tables_sorted (new_GameTextFontBank version encode_info replace_info passthrus)"
  unfolding tables_sorted_def new_GameTextFontBank_def
  using sorted_std_sort [of encode_comp "\<lambda>a. length (bytes a)" encode_info]
    sorted_std_sort [of replace_comp "\<lambda>a. length (from_s a)" replace_info]
  by (simp add: encode_comp_def replace_comp_def)

lemma exec_keeps_bank: "exec c st = Inr (r, st') \<Longrightarrow> font_bank st' = font_bank st"
  by (cases c) (auto simp add: returns_def split: sum.splits prod.splits)

lemma exec_all_keeps_bank: "exec_all cs st = Inr st' \<Longrightarrow> font_bank st' = font_bank st"
proof (induction cs arbitrary: st)
  case Nil
  then show ?case by simp
next
  case (Cons c cs)
  then obtain r st1 where c: "exec c st = Inr (r, st1)" and cs: "exec_all cs st1 = Inr st'"
    by (auto split: sum.splits prod.splits)
  from Cons.IH [OF cs] exec_keeps_bank [OF c] show ?case by simp
qed

text \<open>
  C9.  The constructor leaves the encode table ordered by non-increasing length of the
  byte sequences and the replace table ordered by non-increasing length of the encoded
  substrings, with the same rules as before.  Every operation of a bank that returns, a
  resolver, a pass or a transcoder in either direction, leaves the encode table, the
  replace table and the passthrough set as they were (the reverse transcoder with the
  Korean pre-pass changes \<open>seqs\<close> only); so after any sequence of operations the bank is
  the same and its tables are still ordered.
\<close>

theorem tables_sorted_invariant:
  "tables_sorted (new_GameTextFontBank version encode_info replace_info passthrus) \<and>
   set (m_encode_info (new_GameTextFontBank version encode_info replace_info passthrus)) =
     set encode_info \<and>
   set (m_replace_info (new_GameTextFontBank version encode_info replace_info passthrus)) =
     set replace_info \<and>
   (exec c st = Inr (r, st') \<longrightarrow>
      m_encode_info (font_bank st') = m_encode_info (font_bank st) \<and>
      m_replace_info (font_bank st') = m_replace_info (font_bank st) \<and>
      m_passthrus (font_bank st') = m_passthrus (font_bank st)) \<and>
   (exec_all cs st = Inr st'' \<longrightarrow>
      font_bank st'' = font_bank st \<and>
      (tables_sorted (font_bank st) \<longrightarrow> tables_sorted (font_bank st'')))"
  using tables_sorted_new exec_keeps_bank exec_all_keeps_bank
  by (auto simp add: new_GameTextFontBank_def set_std_sort)

theorem tables_sorted_invariant_witness:
  "tables_sorted (new_GameTextFontBank JAK2
      [\<lparr>chars = ''ab'', bytes = [CHR 0x01]\<rparr>, \<lparr>chars = ''c'', bytes = [CHR 0x01, CHR 0x02]\<rparr>]
      [\<lparr>from_s = ''~Z'', to_s = ''z''\<rparr>, \<lparr>from_s = ''~+8H'', to_s = ''h''\<rparr>] s_passthrus_jak2) \<and>
   m_encode_info (new_GameTextFontBank JAK2
      [\<lparr>chars = ''ab'', bytes = [CHR 0x01]\<rparr>, \<lparr>chars = ''c'', bytes = [CHR 0x01, CHR 0x02]\<rparr>]
      [\<lparr>from_s = ''~Z'', to_s = ''z''\<rparr>, \<lparr>from_s = ''~+8H'', to_s = ''h''\<rparr>] s_passthrus_jak2) =
     [\<lparr>chars = ''c'', bytes = [CHR 0x01, CHR 0x02]\<rparr>, \<lparr>chars = ''ab'', bytes = [CHR 0x01]\<rparr>] \<and>
   exec (Convert_game_to_utf8 [CHR 0x04, CHR 0x01, CHR 0x41, CHR 0x00] True)
     \<lparr>font_bank = new_GameTextFontBank JAK2
        [\<lparr>chars = ''ab'', bytes = [CHR 0x01]\<rparr>, \<lparr>chars = ''c'', bytes = [CHR 0x01, CHR 0x02]\<rparr>]
        [\<lparr>from_s = ''~Z'', to_s = ''z''\<rparr>, \<lparr>from_s = ''~+8H'', to_s = ''h''\<rparr>] s_passthrus_jak2,
      seqs = []\<rparr> =
   Inr (Text [CHR 0x5C, CHR ''c'', CHR ''0'', CHR ''3'', CHR ''A''],
     \<lparr>font_bank = new_GameTextFontBank JAK2
        [\<lparr>chars = ''ab'', bytes = [CHR 0x01]\<rparr>, \<lparr>chars = ''c'', bytes = [CHR 0x01, CHR 0x02]\<rparr>]
        [\<lparr>from_s = ''~Z'', to_s = ''z''\<rparr>, \<lparr>from_s = ''~+8H'', to_s = ''h''\<rparr>] s_passthrus_jak2,
      seqs = [0x341]\<rparr>) \<and>
   exec_all
     [Convert_game_to_utf8 [CHR 0x04, CHR 0x01, CHR 0x41, CHR 0x00] True,
      Convert_utf8_to_game ''zc'' True, Find_encode_to_utf8 [CHR 0x01, CHR 0x02, CHR 0x00]]
     \<lparr>font_bank = new_GameTextFontBank JAK2
        [\<lparr>chars = ''ab'', bytes = [CHR 0x01]\<rparr>, \<lparr>chars = ''c'', bytes = [CHR 0x01, CHR 0x02]\<rparr>]
        [\<lparr>from_s = ''~Z'', to_s = ''z''\<rparr>, \<lparr>from_s = ''~+8H'', to_s = ''h''\<rparr>] s_passthrus_jak2,
      seqs = []\<rparr> =
   Inr \<lparr>font_bank = new_GameTextFontBank JAK2
        [\<lparr>chars = ''ab'', bytes = [CHR 0x01]\<rparr>, \<lparr>chars = ''c'', bytes = [CHR 0x01, CHR 0x02]\<rparr>]
        [\<lparr>from_s = ''~Z'', to_s = ''z''\<rparr>, \<lparr>from_s = ''~+8H'', to_s = ''h''\<rparr>] s_passthrus_jak2,
      seqs = [0x341]\<rparr> \<and>
   tables_sorted (font_bank
     \<lparr>font_bank = new_GameTextFontBank JAK2
        [\<lparr>chars = ''ab'', bytes = [CHR 0x01]\<rparr>, \<lparr>chars = ''c'', bytes = [CHR 0x01, CHR 0x02]\<rparr>]
        [\<lparr>from_s = ''~Z'', to_s = ''z''\<rparr>, \<lparr>from_s = ''~+8H'', to_s = ''h''\<rparr>] s_passthrus_jak2,
      seqs = [0x341]\<rparr>)"
proof -
  let ?b = "new_GameTextFontBank JAK2
      [\<lparr>chars = ''ab'', bytes = [CHR 0x01]\<rparr>, \<lparr>chars = ''c'', bytes = [CHR 0x01, CHR 0x02]\<rparr>]
      [\<lparr>from_s = ''~Z'', to_s = ''z''\<rparr>, \<lparr>from_s = ''~+8H'', to_s = ''h''\<rparr>] s_passthrus_jak2"
  let ?c = "Convert_game_to_utf8 [CHR 0x04, CHR 0x01, CHR 0x41, CHR 0x00] True"
  let ?cs = "[?c, Convert_utf8_to_game ''zc'' True,
      Find_encode_to_utf8 [CHR 0x01, CHR 0x02, CHR 0x00]]"
  let ?st = "\<lparr>font_bank = ?b, seqs = []\<rparr>"
  let ?st' = "\<lparr>font_bank = ?b, seqs = [0x341]\<rparr>"
  have step: "exec ?c ?st = Inr (Text [CHR 0x5C, CHR ''c'', CHR ''0'', CHR ''3'', CHR ''A''], ?st')"
    by code_simp
  have run: "exec_all ?cs ?st = Inr ?st'"
    by code_simp
  have tbl: "m_encode_info ?b =
      [\<lparr>chars = ''c'', bytes = [CHR 0x01, CHR 0x02]\<rparr>, \<lparr>chars = ''ab'', bytes = [CHR 0x01]\<rparr>]"
    by (simp add: new_GameTextFontBank_def encode_comp_def)
  show ?thesis
    using tables_sorted_invariant [of JAK2
        "[\<lparr>chars = ''ab'', bytes = [CHR 0x01]\<rparr>, \<lparr>chars = ''c'', bytes = [CHR 0x01, CHR 0x02]\<rparr>]"
        "[\<lparr>from_s = ''~Z'', to_s = ''z''\<rparr>, \<lparr>from_s = ''~+8H'', to_s = ''h''\<rparr>]" s_passthrus_jak2
        ?c ?st "Text [CHR 0x5C, CHR ''c'', CHR ''0'', CHR ''3'', CHR ''A'']" ?st' ?cs ?st']
      step run tbl
    by simp
qed

subsection \<open>Errors of the escape interpretation\<close>

lemma stoul_hex_end:
  "hex_char first \<Longrightarrow> hex_char second \<Longrightarrow> snd (stoul_hex first second) = 2"
  by (simp add: stoul_hex_def)

lemma escape_loop_unit:
  assumes "escape_unit t"
  shows "\<exists>acc'. escape_loop (pre @ t @ rest) (length pre) acc =
                escape_loop (pre @ t @ rest) (length pre + length t) acc'"
proof -
  consider (plain) c where "t = [c]" "c \<noteq> CHR 0x22" "c \<noteq> CHR 0x5C"
    | (pair) p where "t = [CHR 0x5C, p]" "p = CHR 0x22 \<or> p = CHR 0x5C"
    | (hex) first second where "t = [CHR 0x5C, CHR ''c'', first, second]"
        "hex_char first" "hex_char second"
    using assms by (auto elim!: escape_unit.elims)
  then show ?thesis
  proof cases
    case plain
    then show ?thesis
      by (subst escape_loop.simps) (auto simp add: nth_append)
  next
    case pair
    then show ?thesis
      by (subst escape_loop.simps) (auto simp add: nth_append)
  next
    case hex
    have step: "escape_loop (pre @ t @ rest) (length pre) acc =
        escape_loop (pre @ t @ rest) (length pre + 3 + 1)
          (acc @ [char_of (fst (stoul_hex first second))])"
      using hex stoul_hex_end [of first second]
      by (subst escape_loop.simps) (auto simp add: nth_append split: prod.splits)
    have "length pre + 3 + 1 = length pre + length t" using hex by simp
    with step show ?thesis by metis
  qed
qed

lemma escape_loop_units:
  assumes "\<forall>t\<in>set ts. escape_unit t"
  shows "\<exists>acc'. escape_loop (pre @ concat ts @ rest) (length pre) acc =
                escape_loop (pre @ concat ts @ rest) (length pre + length (concat ts)) acc'"
  using assms
proof (induction ts arbitrary: pre acc)
  case Nil
  then show ?case by auto
next
  case (Cons t ts)
  from Cons.prems have t: "escape_unit t" and ts: "\<forall>t\<in>set ts. escape_unit t" by auto
  from escape_loop_unit [OF t, of pre "concat ts @ rest" acc]
  obtain acc1 where 1: "escape_loop (pre @ t @ concat ts @ rest) (length pre) acc =
      escape_loop (pre @ t @ concat ts @ rest) (length pre + length t) acc1"
    by auto
  from Cons.IH [OF ts, of "pre @ t" acc1]
  obtain acc2 where 2: "escape_loop ((pre @ t) @ concat ts @ rest) (length (pre @ t)) acc1 =
      escape_loop ((pre @ t) @ concat ts @ rest) (length (pre @ t) + length (concat ts)) acc2"
    by auto
  from 1 2 show ?case by (auto simp add: add.assoc)
qed

lemma escape_loop_errors:
  "escape_loop (pre @ [CHR 0x5C]) (length pre) acc = Inl IncompleteEscape"
  "p \<noteq> CHR ''c'' \<Longrightarrow> p \<noteq> CHR 0x22 \<Longrightarrow> p \<noteq> CHR 0x5C \<Longrightarrow>
     escape_loop (pre @ CHR 0x5C # p # rest) (length pre) acc = Inl InvalidEscape"
  "length rest < 2 \<Longrightarrow>
     escape_loop (pre @ CHR 0x5C # CHR ''c'' # rest) (length pre) acc = Inl IncompleteEscape"
  "\<not> (hex_char first \<and> hex_char second) \<Longrightarrow>
     escape_loop (pre @ CHR 0x5C # CHR ''c'' # first # second # rest) (length pre) acc =
       Inl InvalidHexEscape"
  by (subst escape_loop.simps, auto simp add: nth_append)+

text \<open>
  Where a backslash follows complete units of the escape syntax, it starts an escape, and
  a wrong or missing continuation ends the conversion with an error.  The units are the
  ordinary characters (neither backslash nor double quote), \<^verbatim>\<open>\\\<close>, \<^verbatim>\<open>\"\<close> and \<^verbatim>\<open>\c\<close> with two
  hexadecimal digits; an unescaped double quote is not among them.
\<close>

lemma escape_errors_abort:
  assumes "\<forall>t\<in>set ts. escape_unit t"
  shows "convert_utf8_to_game bank (concat ts @ [CHR 0x5C]) True = Inl IncompleteEscape \<and>
    (p \<noteq> CHR ''c'' \<and> p \<noteq> CHR 0x22 \<and> p \<noteq> CHR 0x5C \<longrightarrow>
       convert_utf8_to_game bank (concat ts @ CHR 0x5C # p # rest) True = Inl InvalidEscape) \<and>
    (length rest < 2 \<longrightarrow>
       convert_utf8_to_game bank (concat ts @ CHR 0x5C # CHR ''c'' # rest) True =
         Inl IncompleteEscape) \<and>
    (\<not> (hex_char first \<and> hex_char second) \<longrightarrow>
       convert_utf8_to_game bank (concat ts @ CHR 0x5C # CHR ''c'' # first # second # rest) True =
         Inl InvalidHexEscape)"
proof -
  have reach: "\<exists>acc'. escape_loop (concat ts @ tail) 0 [] =
      escape_loop (concat ts @ tail) (length (concat ts)) acc'" for tail
    using escape_loop_units [OF assms, of "[]" tail "[]"] by simp
  show ?thesis
    using reach [of "[CHR 0x5C]"] reach [of "CHR 0x5C # p # rest"]
      reach [of "CHR 0x5C # CHR ''c'' # rest"]
      reach [of "CHR 0x5C # CHR ''c'' # first # second # rest"]
      escape_loop_errors [where pre = "concat ts"]
    by (auto simp add: convert_utf8_to_game_def)
qed

text \<open>
  C6.  After an unescaped double quote the escape loop skips one character (\<open>i += 1\<close> in
  the body and \<open>++i\<close> in the header), so what follows the quote is not read from its first
  character.  The three characters \<^verbatim>\<open>"\x\<close> hold the unknown escape \<^verbatim>\<open>\x\<close>, and with escaping
  enabled they are converted without an error: the backslash is skipped and the result is
  \<^verbatim>\<open>"x\<close> (escape stage alone, and the whole conversion with the Jak 1 (v1) bank).  In the
  five characters \<^verbatim>\<open>A"\\x\<close> every escape is valid, and every bank ends the conversion with
  \<open>InvalidEscape\<close>: the first backslash is skipped and the second is read as the start of
  the escape \<^verbatim>\<open>\x\<close>.
\<close>

theorem escape_after_quote_unchecked:
  "escape_loop [CHR 0x22, CHR 0x5C, CHR ''x''] 0 [] = Inr [CHR 0x22, CHR ''x''] \<and>
   convert_utf8_to_game g_font_bank_jak1_v1 [CHR 0x22, CHR 0x5C, CHR ''x''] True =
     Inr [CHR 0x22, CHR ''x''] \<and>
   convert_utf8_to_game bank [CHR ''A'', CHR 0x22, CHR 0x5C, CHR 0x5C, CHR ''x''] True =
     Inl InvalidEscape"
proof -
  have "escape_loop [CHR 0x22, CHR 0x5C, CHR ''x''] 0 [] = Inr [CHR 0x22, CHR ''x'']"
    by code_simp
  moreover
  have "convert_utf8_to_game g_font_bank_jak1_v1 [CHR 0x22, CHR 0x5C, CHR ''x''] True =
      Inr [CHR 0x22, CHR ''x'']"
    by code_simp
  moreover
  have "escape_loop [CHR ''A'', CHR 0x22, CHR 0x5C, CHR 0x5C, CHR ''x''] 0 [] =
      Inl InvalidEscape"
    by code_simp
  ultimately show ?thesis by (simp add: convert_utf8_to_game_def)
qed

subsection \<open>Round trip over the units of the tables\<close>

lemma prefix_comparable_iff: "prefix_comparable xs ys \<longleftrightarrow> prefix xs ys \<or> prefix ys xs"
  by (induction xs ys rule: prefix_comparable.induct) auto

lemma prefix_comparable_sym: "prefix_comparable a b \<longleftrightarrow> prefix_comparable b a"
  by (auto simp add: prefix_comparable_iff)

lemma prefix_append_comparable: "prefix p (x @ y) \<Longrightarrow> prefix_comparable x p"
  by (auto simp add: prefix_comparable_iff prefix_append)

lemma prefix_comparable_append: "prefix_comparable a (b @ c) \<Longrightarrow> prefix_comparable a b"
  by (auto simp add: prefix_comparable_iff prefix_append dest: append_prefixD)

lemma match_chars_iff: "match_chars inp pos pat \<longleftrightarrow> prefix_comparable pat (drop pos inp)"
proof (induction pat arbitrary: pos)
  case Nil
  then show ?case by simp
next
  case (Cons c cs)
  show ?case
  proof (cases "pos < length inp")
    case True
    then have "drop pos inp = inp ! pos # drop (Suc pos) inp" by (simp add: Cons_nth_drop_Suc)
    with True Cons.IH [of "pos + 1"] show ?thesis by auto
  next
    case False
    then show ?thesis by simp
  qed
qed

lemma match_bytes_prefix: "prefix pat inp \<Longrightarrow> match_bytes inp pat = Inr True"
  by (induction inp pat rule: match_bytes.induct) auto

lemma match_bytes_no_prefix:
  "\<not> prefix pat inp \<Longrightarrow> \<not> prefix inp pat \<Longrightarrow> match_bytes inp pat = Inr False"
  by (induction inp pat rule: match_bytes.induct) auto

lemma find_encode_to_utf8_loop_no_match:
  "\<forall>info\<in>set tbl. bytes info = [] \<or> match_bytes inp (bytes info) = Inr False \<Longrightarrow>
   find_encode_to_utf8_loop tbl inp best = Inr best"
  by (induction tbl arbitrary: best) auto

lemma find_encode_to_utf8_loop_unique:
  assumes "\<forall>info\<in>set tbl. bytes info = [] \<or> match_bytes inp (bytes info) = Inr False \<or>
      info = r"
    and "match_bytes inp (bytes r) = Inr True"
    and "best = None \<and> r \<in> set tbl \<and> bytes r \<noteq> [] \<or> best = Some r"
  shows "find_encode_to_utf8_loop tbl inp best = Inr (Some r)"
  using assms
proof (induction tbl arbitrary: best)
  case Nil
  then show ?case by simp
next
  case (Cons info tbl)
  show ?case
  proof (cases "info = r \<and> bytes r \<noteq> []")
    case True
    have "find_encode_to_utf8_loop tbl inp (Some r) = Inr (Some r)"
      using Cons.prems by (intro Cons.IH) auto
    with True Cons.prems show ?thesis by auto
  next
    case False
    with Cons.prems have skip: "bytes info = [] \<or> match_bytes inp (bytes info) = Inr False"
      by auto
    have "find_encode_to_utf8_loop tbl inp best = Inr (Some r)"
      using Cons.prems False by (intro Cons.IH) auto
    with skip show ?thesis by auto
  qed
qed

lemma find_encode_to_game_loop_unique:
  assumes "\<forall>info\<in>set tbl. chars info = [] \<or> \<not> match_chars inp off (chars info) \<or> info = r"
    and "match_chars inp off (chars r)"
    and "best = None \<and> r \<in> set tbl \<and> chars r \<noteq> [] \<or> best = Some r"
  shows "find_encode_to_game_loop tbl inp off best = Some r"
  using assms
proof (induction tbl arbitrary: best)
  case Nil
  then show ?case by simp
next
  case (Cons info tbl)
  show ?case
  proof (cases "info = r \<and> chars r \<noteq> []")
    case True
    have "find_encode_to_game_loop tbl inp off (Some r) = Some r"
      using Cons.prems by (intro Cons.IH) auto
    with True Cons.prems show ?thesis by auto
  next
    case False
    with Cons.prems have skip: "chars info = [] \<or> \<not> match_chars inp off (chars info)"
      by auto
    have "find_encode_to_game_loop tbl inp off best = Some r"
      using Cons.prems False by (intro Cons.IH) auto
    with skip show ?thesis by auto
  qed
qed

lemma find_replace_to_utf8_loop_no_match:
  "\<forall>info\<in>set tbl. from_s info = [] \<or> size_t_sub (length inp) off < length (from_s info) \<or>
      memcmp_eq inp off (from_s info) = Inr False \<Longrightarrow>
   find_replace_to_utf8_loop tbl inp off best = Inr best"
  by (induction tbl arbitrary: best) auto

lemma find_replace_to_game_loop_no_match:
  "\<forall>info\<in>set tbl. to_s info = [] \<or> size_t_sub (length inp) off < length (to_s info) \<or>
      memcmp_eq inp off (to_s info) = Inr False \<Longrightarrow>
   find_replace_to_game_loop tbl inp off best = Inr best"
  by (induction tbl arbitrary: best) auto

lemma no_occurrence_skips:
  assumes "i < length inp" and "\<not> prefix pat (drop i inp)"
  shows "pat = [] \<or> size_t_sub (length inp) i < length pat \<or> memcmp_eq inp i pat = Inr False"
proof (cases "i + length pat \<le> length inp")
  case True
  have "take (length pat) (drop i inp) \<noteq> pat"
    using assms(2) take_is_prefix [of "length pat" "drop i inp"] by auto
  with True show ?thesis by (simp add: memcmp_eq_def)
next
  case False
  with assms(1) show ?thesis by (auto simp add: size_t_sub_def)
qed


lemma find_encode_to_game_loop_no_match:
  "\<forall>info\<in>set tbl. chars info = [] \<or> \<not> match_chars inp off (chars info) \<Longrightarrow>
   find_encode_to_game_loop tbl inp off best = best"
  by (induction tbl arbitrary: best) auto

lemma find_replace_to_utf8_loop_unique:
  assumes "\<forall>info\<in>set tbl. from_s info = [] \<or>
      size_t_sub (length inp) off < length (from_s info) \<or>
      memcmp_eq inp off (from_s info) = Inr False \<or> info = r"
    and "from_s r \<noteq> []" and "\<not> size_t_sub (length inp) off < length (from_s r)"
    and "memcmp_eq inp off (from_s r) = Inr True"
    and "best = None \<and> r \<in> set tbl \<or> best = Some r"
  shows "find_replace_to_utf8_loop tbl inp off best = Inr (Some r)"
  using assms
proof (induction tbl arbitrary: best)
  case Nil
  then show ?case by simp
next
  case (Cons info tbl)
  show ?case
  proof (cases "info = r")
    case True
    have "find_replace_to_utf8_loop tbl inp off (Some r) = Inr (Some r)"
      using Cons.prems by (intro Cons.IH) auto
    with True Cons.prems show ?thesis by auto
  next
    case False
    with Cons.prems have skip: "from_s info = [] \<or>
        size_t_sub (length inp) off < length (from_s info) \<or>
        memcmp_eq inp off (from_s info) = Inr False"
      by auto
    have "find_replace_to_utf8_loop tbl inp off best = Inr (Some r)"
      using Cons.prems False by (intro Cons.IH) auto
    with skip show ?thesis by auto
  qed
qed

lemma find_replace_to_game_loop_unique:
  assumes "\<forall>info\<in>set tbl. to_s info = [] \<or>
      size_t_sub (length inp) off < length (to_s info) \<or>
      memcmp_eq inp off (to_s info) = Inr False \<or> info = r"
    and "to_s r \<noteq> []" and "\<not> size_t_sub (length inp) off < length (to_s r)"
    and "memcmp_eq inp off (to_s r) = Inr True"
    and "best = None \<and> r \<in> set tbl \<or> best = Some r"
  shows "find_replace_to_game_loop tbl inp off best = Inr (Some r)"
  using assms
proof (induction tbl arbitrary: best)
  case Nil
  then show ?case by simp
next
  case (Cons info tbl)
  show ?case
  proof (cases "info = r")
    case True
    have "find_replace_to_game_loop tbl inp off (Some r) = Inr (Some r)"
      using Cons.prems by (intro Cons.IH) auto
    with True Cons.prems show ?thesis by auto
  next
    case False
    with Cons.prems have skip: "to_s info = [] \<or>
        size_t_sub (length inp) off < length (to_s info) \<or>
        memcmp_eq inp off (to_s info) = Inr False"
      by auto
    have "find_replace_to_game_loop tbl inp off best = Inr (Some r)"
      using Cons.prems False by (intro Cons.IH) auto
    with skip show ?thesis by auto
  qed
qed

lemma occurrence_matches:
  assumes "prefix pat (drop i inp)" and "i \<le> length inp"
  shows "\<not> size_t_sub (length inp) i < length pat \<and> memcmp_eq inp i pat = Inr True"
proof -
  from assms(1) obtain zs where zs: "drop i inp = pat @ zs" by (auto simp add: prefix_def)
  then have "length inp - i = length pat + length zs"
    by (metis length_append length_drop)
  with assms(2) zs show ?thesis
    by (simp add: size_t_sub_def memcmp_eq_def)
qed

text \<open>
  One stretch of a replacement pass: a stretch in which no pattern starts is copied, and a
  pattern that is the only comparable one is replaced.
\<close>

lemma replace_to_game_loop_copy:
  assumes "\<forall>k<length x. \<forall>p\<in>set tbl. \<not> prefix_comparable (drop k x) (to_s p)"
  shows "replace_to_game_loop tbl (pre @ x @ rest) (length pre) acc =
         replace_to_game_loop tbl (pre @ x @ rest) (length pre + length x) (acc @ x)"
  using assms
proof (induction x arbitrary: pre acc)
  case Nil
  then show ?case by simp
next
  case (Cons c x)
  let ?inp = "pre @ (c # x) @ rest"
  have i: "length pre < length ?inp" by simp
  have "find_replace_to_game tbl ?inp (length pre) = Inr None"
    unfolding find_replace_to_game_def
  proof (intro find_replace_to_game_loop_no_match ballI)
    fix p assume p: "p \<in> set tbl"
    have "\<not> prefix_comparable (c # x) (to_s p)" using Cons.prems p by force
    then have "\<not> prefix (to_s p) (drop (length pre) ?inp)"
      using prefix_append_comparable [of "to_s p" "c # x" rest] by auto
    then show "to_s p = [] \<or> size_t_sub (length ?inp) (length pre) < length (to_s p) \<or>
        memcmp_eq ?inp (length pre) (to_s p) = Inr False"
      using no_occurrence_skips [OF i] by blast
  qed
  then have step: "replace_to_game_loop tbl ?inp (length pre) acc =
      replace_to_game_loop tbl ?inp (length pre + 1) (acc @ [c])"
    by (subst replace_to_game_loop.simps) simp
  have rest: "\<forall>k<length x. \<forall>p\<in>set tbl. \<not> prefix_comparable (drop k x) (to_s p)"
  proof (intro allI impI ballI)
    fix k p assume "k < length x" "p \<in> set tbl"
    with Cons.prems have "\<not> prefix_comparable (drop (Suc k) (c # x)) (to_s p)"
      by (metis Suc_less_eq length_Cons)
    then show "\<not> prefix_comparable (drop k x) (to_s p)" by simp
  qed
  from Cons.IH [OF rest, of "pre @ [c]" "acc @ [c]"] step show ?case by simp
qed

lemma replace_to_utf8_loop_copy:
  assumes "\<forall>k<length x. \<forall>p\<in>set tbl. \<not> prefix_comparable (drop k x) (from_s p)"
  shows "replace_to_utf8_loop tbl (pre @ x @ rest) (length pre) acc =
         replace_to_utf8_loop tbl (pre @ x @ rest) (length pre + length x) (acc @ x)"
  using assms
proof (induction x arbitrary: pre acc)
  case Nil
  then show ?case by simp
next
  case (Cons c x)
  let ?inp = "pre @ (c # x) @ rest"
  have i: "length pre < length ?inp" by simp
  have "find_replace_to_utf8 tbl ?inp (length pre) = Inr None"
    unfolding find_replace_to_utf8_def
  proof (intro find_replace_to_utf8_loop_no_match ballI)
    fix p assume p: "p \<in> set tbl"
    have "\<not> prefix_comparable (c # x) (from_s p)" using Cons.prems p by force
    then have "\<not> prefix (from_s p) (drop (length pre) ?inp)"
      using prefix_append_comparable [of "from_s p" "c # x" rest] by auto
    then show "from_s p = [] \<or> size_t_sub (length ?inp) (length pre) < length (from_s p) \<or>
        memcmp_eq ?inp (length pre) (from_s p) = Inr False"
      using no_occurrence_skips [OF i] by blast
  qed
  then have step: "replace_to_utf8_loop tbl ?inp (length pre) acc =
      replace_to_utf8_loop tbl ?inp (length pre + 1) (acc @ [c])"
    by (subst replace_to_utf8_loop.simps) simp
  have rest: "\<forall>k<length x. \<forall>p\<in>set tbl. \<not> prefix_comparable (drop k x) (from_s p)"
  proof (intro allI impI ballI)
    fix k p assume "k < length x" "p \<in> set tbl"
    with Cons.prems have "\<not> prefix_comparable (drop (Suc k) (c # x)) (from_s p)"
      by (metis Suc_less_eq length_Cons)
    then show "\<not> prefix_comparable (drop k x) (from_s p)" by simp
  qed
  from Cons.IH [OF rest, of "pre @ [c]" "acc @ [c]"] step show ?case by simp
qed

lemma replace_to_game_loop_fold:
  assumes p: "p \<in> set tbl" and ne: "to_s p \<noteq> []"
    and only: "\<forall>q\<in>set tbl. prefix_comparable (to_s q) (to_s p) \<longrightarrow> q = p"
  shows "replace_to_game_loop tbl (pre @ to_s p @ rest) (length pre) acc =
         replace_to_game_loop tbl (pre @ to_s p @ rest) (length pre + length (to_s p))
           (acc @ from_s p)"
proof -
  let ?inp = "pre @ to_s p @ rest"
  have i: "length pre < length ?inp" using ne by simp
  have "find_replace_to_game tbl ?inp (length pre) = Inr (Some p)"
    unfolding find_replace_to_game_def
  proof (rule find_replace_to_game_loop_unique)
    show "\<forall>q\<in>set tbl. to_s q = [] \<or> size_t_sub (length ?inp) (length pre) < length (to_s q) \<or>
        memcmp_eq ?inp (length pre) (to_s q) = Inr False \<or> q = p"
    proof
      fix q assume q: "q \<in> set tbl"
      show "to_s q = [] \<or> size_t_sub (length ?inp) (length pre) < length (to_s q) \<or>
          memcmp_eq ?inp (length pre) (to_s q) = Inr False \<or> q = p"
      proof (cases "q = p")
        case True
        then show ?thesis by simp
      next
        case False
        with only q have "\<not> prefix_comparable (to_s q) (to_s p)" by auto
        then have "\<not> prefix (to_s q) (drop (length pre) ?inp)"
          using prefix_append_comparable [of "to_s q" "to_s p" rest]
          by (auto simp add: prefix_comparable_sym)
        then show ?thesis using no_occurrence_skips [OF i] by blast
      qed
    qed
    show "to_s p \<noteq> []" by (rule ne)
    show "\<not> size_t_sub (length ?inp) (length pre) < length (to_s p)"
      "memcmp_eq ?inp (length pre) (to_s p) = Inr True"
      using occurrence_matches [of "to_s p" "length pre" ?inp] by simp_all
    show "None = None \<and> p \<in> set tbl \<or> None = Some p" using p by simp
  qed
  then show ?thesis
    using i by (subst replace_to_game_loop.simps) simp
qed

lemma replace_to_utf8_loop_fold:
  assumes p: "p \<in> set tbl" and ne: "from_s p \<noteq> []"
    and only: "\<forall>q\<in>set tbl. prefix_comparable (from_s q) (from_s p) \<longrightarrow> q = p"
  shows "replace_to_utf8_loop tbl (pre @ from_s p @ rest) (length pre) acc =
         replace_to_utf8_loop tbl (pre @ from_s p @ rest) (length pre + length (from_s p))
           (acc @ to_s p)"
proof -
  let ?inp = "pre @ from_s p @ rest"
  have i: "length pre < length ?inp" using ne by simp
  have "find_replace_to_utf8 tbl ?inp (length pre) = Inr (Some p)"
    unfolding find_replace_to_utf8_def
  proof (rule find_replace_to_utf8_loop_unique)
    show "\<forall>q\<in>set tbl. from_s q = [] \<or>
        size_t_sub (length ?inp) (length pre) < length (from_s q) \<or>
        memcmp_eq ?inp (length pre) (from_s q) = Inr False \<or> q = p"
    proof
      fix q assume q: "q \<in> set tbl"
      show "from_s q = [] \<or> size_t_sub (length ?inp) (length pre) < length (from_s q) \<or>
          memcmp_eq ?inp (length pre) (from_s q) = Inr False \<or> q = p"
      proof (cases "q = p")
        case True
        then show ?thesis by simp
      next
        case False
        with only q have "\<not> prefix_comparable (from_s q) (from_s p)" by auto
        then have "\<not> prefix (from_s q) (drop (length pre) ?inp)"
          using prefix_append_comparable [of "from_s q" "from_s p" rest]
          by (auto simp add: prefix_comparable_sym)
        then show ?thesis using no_occurrence_skips [OF i] by blast
      qed
    qed
    show "from_s p \<noteq> []" by (rule ne)
    show "\<not> size_t_sub (length ?inp) (length pre) < length (from_s p)"
      "memcmp_eq ?inp (length pre) (from_s p) = Inr True"
      using occurrence_matches [of "from_s p" "length pre" ?inp] by simp_all
    show "None = None \<and> p \<in> set tbl \<or> None = Some p" using p by simp
  qed
  then show ?thesis
    using i by (subst replace_to_utf8_loop.simps) simp
qed

text \<open>One step of the encoding pass and of the byte-decode loop.\<close>

lemma encode_loop_rule:
  assumes r: "r \<in> set tbl" and ne: "chars r \<noteq> []"
    and only: "\<forall>r'\<in>set tbl. prefix_comparable (chars r') (chars r) \<longrightarrow> r' = r"
  shows "encode_utf8_to_game_loop tbl (pre @ chars r @ rest) (length pre) acc =
         encode_utf8_to_game_loop tbl (pre @ chars r @ rest) (length pre + length (chars r))
           (acc @ bytes r)"
proof -
  let ?inp = "pre @ chars r @ rest"
  have i: "length pre < length ?inp" using ne by simp
  have "find_encode_to_game tbl ?inp (length pre) = Some r"
    unfolding find_encode_to_game_def
  proof (rule find_encode_to_game_loop_unique)
    show "\<forall>info\<in>set tbl. chars info = [] \<or> \<not> match_chars ?inp (length pre) (chars info) \<or>
        info = r"
      using only prefix_comparable_append [of _ "chars r" rest]
      by (auto simp add: match_chars_iff)
    show "match_chars ?inp (length pre) (chars r)"
      by (simp add: match_chars_iff prefix_comparable_iff)
    show "None = None \<and> r \<in> set tbl \<and> chars r \<noteq> [] \<or> None = Some r"
      using r ne by simp
  qed
  then show ?thesis
    using i by (subst encode_utf8_to_game_loop.simps) simp
qed

lemma encode_loop_literal:
  assumes "\<forall>r\<in>set tbl. \<not> prefix_comparable (chars r) (c # s)"
  shows "encode_utf8_to_game_loop tbl (pre @ (c # s) @ rest) (length pre) acc =
         encode_utf8_to_game_loop tbl (pre @ (c # s) @ rest) (length pre + 1) (acc @ [c])"
proof -
  let ?inp = "pre @ (c # s) @ rest"
  have "find_encode_to_game tbl ?inp (length pre) = None"
    unfolding find_encode_to_game_def
  proof (intro find_encode_to_game_loop_no_match ballI)
    fix info assume "info \<in> set tbl"
    with assms have "\<not> prefix_comparable (chars info) (c # s)" by simp
    then show "chars info = [] \<or> \<not> match_chars ?inp (length pre) (chars info)"
      using prefix_comparable_append [of "chars info" "c # s" rest]
      by (auto simp add: match_chars_iff)
  qed
  then show ?thesis
    by (subst encode_utf8_to_game_loop.simps) simp
qed

lemma decode_loop_rule:
  assumes r: "r \<in> set (m_encode_info bank)" and ne: "bytes r \<noteq> []"
    and nz: "CHR 0x00 \<notin> set (bytes r)"
    and only: "\<forall>r'\<in>set (m_encode_info bank).
      prefix_comparable (bytes r') (bytes r) \<longrightarrow> r' = r"
  shows "decode_loop bank (bytes r @ tail) temp = decode_loop bank tail (temp @ chars r)"
proof -
  let ?inp = "bytes r @ tail"
  obtain b bs where b: "bytes r = b # bs" using ne by (cases "bytes r") auto
  with nz have b0: "b \<noteq> CHR 0x00" by auto
  have "find_encode_to_utf8 (m_encode_info bank) ?inp = Inr (Some r)"
    unfolding find_encode_to_utf8_def
  proof (rule find_encode_to_utf8_loop_unique)
    show "\<forall>info\<in>set (m_encode_info bank). bytes info = [] \<or>
        match_bytes ?inp (bytes info) = Inr False \<or> info = r"
    proof
      fix info assume info: "info \<in> set (m_encode_info bank)"
      show "bytes info = [] \<or> match_bytes ?inp (bytes info) = Inr False \<or> info = r"
      proof (cases "info = r")
        case True
        then show ?thesis by simp
      next
        case False
        with only info have n: "\<not> prefix_comparable (bytes info) (bytes r)" by auto
        then have "\<not> prefix (bytes info) ?inp"
          using prefix_append_comparable [of "bytes info" "bytes r" tail]
          by (auto simp add: prefix_comparable_sym)
        moreover have "\<not> prefix ?inp (bytes info)"
          using n append_prefixD [of "bytes r" tail "bytes info"]
          by (auto simp add: prefix_comparable_iff)
        ultimately show ?thesis by (simp add: match_bytes_no_prefix)
      qed
    qed
    show "match_bytes ?inp (bytes r) = Inr True" by (simp add: match_bytes_prefix)
    show "None = None \<and> r \<in> set (m_encode_info bank) \<and> bytes r \<noteq> [] \<or> None = Some r"
      using r ne by simp
  qed
  moreover have "drop (length (bytes r) - 1 + 1) ?inp = tail" using ne by (simp add: b)
  ultimately show ?thesis
    using b b0 by (subst decode_loop.simps) (simp del: drop_append)
qed

lemma decode_loop_literal:
  assumes "literal_byte bank c"
  shows "decode_loop bank (c # tail) temp = decode_loop bank tail (temp @ [c])"
proof -
  have "find_encode_to_utf8 (m_encode_info bank) (c # tail) = Inr None"
    unfolding find_encode_to_utf8_def
  proof (intro find_encode_to_utf8_loop_no_match ballI)
    fix info assume "info \<in> set (m_encode_info bank)"
    with assms have "bytes info = [] \<or> hd (bytes info) \<noteq> c"
      by (simp add: literal_byte_def)
    then show "bytes info = [] \<or> match_bytes (c # tail) (bytes info) = Inr False"
      by (cases "bytes info") auto
  qed
  with assms show ?thesis
    by (subst decode_loop.simps) (auto simp add: literal_byte_def special_char_def)
qed

lemma escape_emit_loop_id:
  assumes "\<forall>c\<in>set s. \<not> special_char c"
  shows "escape_emit_loop s i acc = acc @ drop i s"
proof (induction "length s - i" arbitrary: i acc)
  case 0
  then show ?case by (subst escape_emit_loop.simps) simp
next
  case (Suc n)
  from Suc.hyps have i: "i < length s" by simp
  then have c: "\<not> special_char (s ! i)" using assms by simp
  have "escape_emit_loop s (i + 1) (acc @ [s ! i]) = (acc @ [s ! i]) @ drop (i + 1) s"
    using Suc.hyps by (intro Suc.hyps(1)) simp
  with i c show ?case
    by (subst escape_emit_loop.simps) (simp add: special_char_def Cons_nth_drop_Suc Let_def)
qed

lemma escape_loop_id:
  assumes "\<forall>c\<in>set s. \<not> special_char c"
  shows "escape_loop s i acc = Inr (acc @ drop i s)"
proof (induction "length s - i" arbitrary: i acc)
  case 0
  then show ?case by (subst escape_loop.simps) simp
next
  case (Suc n)
  from Suc.hyps have i: "i < length s" by simp
  then have c: "\<not> special_char (s ! i)" using assms by simp
  have "escape_loop s (i + 1) (acc @ [s ! i]) = Inr ((acc @ [s ! i]) @ drop (i + 1) s)"
    using Suc.hyps by (intro Suc.hyps(1)) simp
  with i c show ?case
    by (subst escape_loop.simps) (simp add: special_char_def Cons_nth_drop_Suc Let_def)
qed


text \<open>What the invertibility of the tables gives for a rule of each table.\<close>

lemma tables_invertible_encode:
  assumes "tables_invertible bank" "r \<in> set (m_encode_info bank)"
  shows "chars r \<noteq> []" "bytes r \<noteq> []" "CHR 0x00 \<notin> set (bytes r)"
    "\<forall>c\<in>set (chars r). \<not> special_char c"
    "\<forall>k<length (chars r). \<forall>p\<in>set (m_replace_info bank).
       \<not> prefix_comparable (drop k (chars r)) (from_s p)"
    "\<forall>k<length (chars r). \<forall>p\<in>set (m_replace_info bank).
       \<not> prefix_comparable (drop k (chars r)) (to_s p)"
    "\<forall>r'\<in>set (m_encode_info bank). prefix_comparable (chars r') (chars r) \<longrightarrow> r' = r"
    "\<forall>r'\<in>set (m_encode_info bank). prefix_comparable (bytes r') (bytes r) \<longrightarrow> r' = r"
  using assms
  by (auto simp add: tables_invertible_def rule_well_formed_def rules_separate_def
      rule_avoids_def list_all_iff)

lemma tables_invertible_replace:
  assumes "tables_invertible bank" "p \<in> set (m_replace_info bank)"
  shows "from_s p \<noteq> []" "to_s p \<noteq> []" "\<forall>c\<in>set (to_s p). \<not> special_char c"
    "\<forall>k<length (to_s p). \<forall>q\<in>set (m_replace_info bank).
       \<not> prefix_comparable (drop k (to_s p)) (from_s q)"
    "\<exists>bs. raw_code bank (from_s p) bs"
    "\<forall>q\<in>set (m_replace_info bank). prefix_comparable (from_s q) (from_s p) \<longrightarrow> q = p"
    "\<forall>q\<in>set (m_replace_info bank). prefix_comparable (to_s q) (to_s p) \<longrightarrow> q = p"
  using assms
  by (auto simp add: tables_invertible_def pattern_well_formed_def patterns_separate_def
      display_avoids_def list_all_iff)

text \<open>
  A raw code is encoded to its image whatever stands before and after it, and its image
  is decoded to the code whatever follows.
\<close>

lemma raw_code_encode:
  assumes inv: "tables_invertible bank" and raw: "raw_code bank f bs"
  shows "encode_utf8_to_game_loop (m_encode_info bank) (pre @ f @ rest) (length pre) acc =
         encode_utf8_to_game_loop (m_encode_info bank) (pre @ f @ rest) (length pre + length f)
           (acc @ bs)"
  using raw
proof (induction arbitrary: pre acc)
  case raw_Nil
  then show ?case by simp
next
  case (raw_rule r s bs)
  note d = tables_invertible_encode [OF inv raw_rule.hyps(1)]
  have "encode_utf8_to_game_loop (m_encode_info bank) (pre @ chars r @ s @ rest) (length pre) acc =
      encode_utf8_to_game_loop (m_encode_info bank) (pre @ chars r @ s @ rest)
        (length pre + length (chars r)) (acc @ bytes r)"
    by (rule encode_loop_rule [OF raw_rule.hyps(1) d(1) d(7)])
  with raw_rule.IH [of "pre @ chars r" "acc @ bytes r"] show ?case by (simp add: add.assoc)
next
  case (raw_literal c s bs)
  have "encode_utf8_to_game_loop (m_encode_info bank) (pre @ (c # s) @ rest) (length pre) acc =
      encode_utf8_to_game_loop (m_encode_info bank) (pre @ (c # s) @ rest) (length pre + 1)
        (acc @ [c])"
    by (rule encode_loop_literal [OF raw_literal.hyps(2)])
  with raw_literal.IH [of "pre @ [c]" "acc @ [c]"] show ?case by simp
qed

lemma raw_code_decode:
  assumes inv: "tables_invertible bank" and raw: "raw_code bank f bs"
  shows "decode_loop bank (bs @ tail) temp = decode_loop bank tail (temp @ f)"
  using raw
proof (induction arbitrary: temp)
  case raw_Nil
  then show ?case by simp
next
  case (raw_rule r s bs)
  note d = tables_invertible_encode [OF inv raw_rule.hyps(1)]
  have "decode_loop bank (bytes r @ bs @ tail) temp = decode_loop bank (bs @ tail) (temp @ chars r)"
    by (rule decode_loop_rule [OF raw_rule.hyps(1) d(2) d(3) d(8)])
  with raw_rule.IH [of "temp @ chars r"] show ?case by simp
next
  case (raw_literal c s bs)
  have "decode_loop bank (c # bs @ tail) temp = decode_loop bank (bs @ tail) (temp @ [c])"
    by (rule decode_loop_literal [OF raw_literal.hyps(1)])
  with raw_literal.IH [of "temp @ [c]"] show ?case by simp
qed

lemma raw_code_image:
  assumes inv: "tables_invertible bank" and raw: "raw_code bank f bs"
  shows "encode_utf8_to_game bank f = bs"
proof -
  have "encode_utf8_to_game_loop (m_encode_info bank) f 0 [] =
      encode_utf8_to_game_loop (m_encode_info bank) f (length f) bs"
    using raw_code_encode [OF inv raw, of "[]" "[]" "[]"] by simp
  also have "\<dots> = bs" by (subst encode_utf8_to_game_loop.simps) simp
  finally show ?thesis by (simp add: encode_utf8_to_game_def)
qed

text \<open>What the passes need of a plain character.\<close>

lemma plain_charD:
  assumes inv: "tables_invertible bank" and c: "plain_char bank c"
  shows "literal_byte bank c" "\<not> special_char c"
    "\<forall>r\<in>set (m_encode_info bank). \<not> prefix_comparable (chars r) [c]"
    "\<forall>k<length [c]. \<forall>p\<in>set (m_replace_info bank).
       \<not> prefix_comparable (drop k [c]) (from_s p)"
    "\<forall>k<length [c]. \<forall>p\<in>set (m_replace_info bank).
       \<not> prefix_comparable (drop k [c]) (to_s p)"
proof -
  from c show "literal_byte bank c" "\<not> special_char c" by (simp_all add: plain_char_def)
  show "\<forall>r\<in>set (m_encode_info bank). \<not> prefix_comparable (chars r) [c]"
  proof
    fix r assume r: "r \<in> set (m_encode_info bank)"
    with c tables_invertible_encode(1) [OF inv r] show "\<not> prefix_comparable (chars r) [c]"
      by (cases "chars r") (auto simp add: plain_char_def)
  qed
  have "\<not> prefix_comparable [c] (from_s p) \<and> \<not> prefix_comparable [c] (to_s p)"
    if p: "p \<in> set (m_replace_info bank)" for p
  proof -
    from c p have "from_s p = [] \<or> hd (from_s p) \<noteq> c" "to_s p = [] \<or> hd (to_s p) \<noteq> c"
      by (simp_all add: plain_char_def)
    with tables_invertible_replace(1,2) [OF inv p] show ?thesis
      by (cases "from_s p"; cases "to_s p") auto
  qed
  then show "\<forall>k<length [c]. \<forall>p\<in>set (m_replace_info bank).
      \<not> prefix_comparable (drop k [c]) (from_s p)"
    "\<forall>k<length [c]. \<forall>p\<in>set (m_replace_info bank).
      \<not> prefix_comparable (drop k [c]) (to_s p)"
    by simp_all
qed

text \<open>The four passes over a text of units.\<close>

lemma replace_to_game_units:
  assumes inv: "tables_invertible bank" and us: "\<forall>u\<in>set us. unit_of bank u"
  shows "replace_to_game_loop (m_replace_info bank) (pre @ concat (map displayed us))
           (length pre) acc = Inr (acc @ concat (map encoded us))"
  using us
proof (induction us arbitrary: pre acc)
  case Nil
  then show ?case by (subst replace_to_game_loop.simps) simp
next
  case (Cons u us)
  let ?rest = "concat (map displayed us)"
  have IH: "replace_to_game_loop (m_replace_info bank) ((pre @ displayed u) @ ?rest)
      (length (pre @ displayed u)) (acc @ encoded u) =
      Inr ((acc @ encoded u) @ concat (map encoded us))"
    using Cons.prems by (intro Cons.IH) simp
  show ?case
  proof (cases u)
    case (Glyph r)
    with Cons.prems have r: "r \<in> set (m_encode_info bank)" by simp
    from replace_to_game_loop_copy [OF tables_invertible_encode(6) [OF inv r], of pre ?rest acc]
      IH Glyph
    show ?thesis by simp
  next
    case (Composite p)
    with Cons.prems have p: "p \<in> set (m_replace_info bank)" by simp
    note d = tables_invertible_replace [OF inv p]
    from replace_to_game_loop_fold [OF p d(2) d(7), of pre ?rest acc] IH Composite
    show ?thesis by simp
  next
    case (Plain c)
    with Cons.prems have c: "plain_char bank c" by simp
    from replace_to_game_loop_copy [OF plain_charD(5) [OF inv c], of pre ?rest acc] IH Plain
    show ?thesis by simp
  qed
qed

lemma encode_units:
  assumes inv: "tables_invertible bank" and us: "\<forall>u\<in>set us. unit_of bank u"
  shows "encode_utf8_to_game_loop (m_encode_info bank) (pre @ concat (map encoded us))
           (length pre) acc = acc @ concat (map (unit_bytes bank) us)"
  using us
proof (induction us arbitrary: pre acc)
  case Nil
  then show ?case by (subst encode_utf8_to_game_loop.simps) simp
next
  case (Cons u us)
  let ?rest = "concat (map encoded us)"
  have IH: "encode_utf8_to_game_loop (m_encode_info bank) ((pre @ encoded u) @ ?rest)
      (length (pre @ encoded u)) (acc @ unit_bytes bank u) =
      (acc @ unit_bytes bank u) @ concat (map (unit_bytes bank) us)"
    using Cons.prems by (intro Cons.IH) simp
  show ?case
  proof (cases u)
    case (Glyph r)
    with Cons.prems have r: "r \<in> set (m_encode_info bank)" by simp
    note d = tables_invertible_encode [OF inv r]
    from encode_loop_rule [OF r d(1) d(7), of pre ?rest acc] IH Glyph
    show ?thesis by simp
  next
    case (Composite p)
    with Cons.prems have p: "p \<in> set (m_replace_info bank)" by simp
    from tables_invertible_replace(5) [OF inv p] obtain bs where
      raw: "raw_code bank (from_s p) bs" by auto
    from raw_code_encode [OF inv raw, of pre ?rest acc] raw_code_image [OF inv raw] IH Composite
    show ?thesis by simp
  next
    case (Plain c)
    with Cons.prems have c: "plain_char bank c" by simp
    from encode_loop_literal [OF plain_charD(3) [OF inv c], of pre ?rest acc] IH Plain
    show ?thesis by simp
  qed
qed

lemma decode_units:
  assumes inv: "tables_invertible bank" and us: "\<forall>u\<in>set us. unit_of bank u"
  shows "decode_loop bank (concat (map (unit_bytes bank) us) @ CHR 0x00 # tail) temp =
         Inr (temp @ concat (map encoded us))"
  using us
proof (induction us arbitrary: temp)
  case Nil
  then show ?case by (subst decode_loop.simps) simp
next
  case (Cons u us)
  let ?rest = "concat (map (unit_bytes bank) us) @ CHR 0x00 # tail"
  have IH: "decode_loop bank ?rest (temp @ encoded u) =
      Inr ((temp @ encoded u) @ concat (map encoded us))"
    using Cons.prems by (intro Cons.IH) simp
  show ?case
  proof (cases u)
    case (Glyph r)
    with Cons.prems have r: "r \<in> set (m_encode_info bank)" by simp
    note d = tables_invertible_encode [OF inv r]
    from decode_loop_rule [OF r d(2) d(3) d(8), of ?rest temp] IH Glyph
    show ?thesis by simp
  next
    case (Composite p)
    with Cons.prems have p: "p \<in> set (m_replace_info bank)" by simp
    from tables_invertible_replace(5) [OF inv p] obtain bs where
      raw: "raw_code bank (from_s p) bs" by auto
    from raw_code_decode [OF inv raw, of ?rest temp] raw_code_image [OF inv raw] IH Composite
    show ?thesis by simp
  next
    case (Plain c)
    with Cons.prems have c: "plain_char bank c" by simp
    from decode_loop_literal [OF plain_charD(1) [OF inv c], of ?rest temp] IH Plain
    show ?thesis by simp
  qed
qed

lemma replace_to_utf8_units:
  assumes inv: "tables_invertible bank" and us: "\<forall>u\<in>set us. unit_of bank u"
  shows "replace_to_utf8_loop (m_replace_info bank) (pre @ concat (map encoded us))
           (length pre) acc = Inr (acc @ concat (map displayed us))"
  using us
proof (induction us arbitrary: pre acc)
  case Nil
  then show ?case by (subst replace_to_utf8_loop.simps) simp
next
  case (Cons u us)
  let ?rest = "concat (map encoded us)"
  have IH: "replace_to_utf8_loop (m_replace_info bank) ((pre @ encoded u) @ ?rest)
      (length (pre @ encoded u)) (acc @ displayed u) =
      Inr ((acc @ displayed u) @ concat (map displayed us))"
    using Cons.prems by (intro Cons.IH) simp
  show ?case
  proof (cases u)
    case (Glyph r)
    with Cons.prems have r: "r \<in> set (m_encode_info bank)" by simp
    from replace_to_utf8_loop_copy [OF tables_invertible_encode(5) [OF inv r], of pre ?rest acc]
      IH Glyph
    show ?thesis by simp
  next
    case (Composite p)
    with Cons.prems have p: "p \<in> set (m_replace_info bank)" by simp
    note d = tables_invertible_replace [OF inv p]
    from replace_to_utf8_loop_fold [OF p d(1) d(6), of pre ?rest acc] IH Composite
    show ?thesis by simp
  next
    case (Plain c)
    with Cons.prems have c: "plain_char bank c" by simp
    from replace_to_utf8_loop_copy [OF plain_charD(4) [OF inv c], of pre ?rest acc] IH Plain
    show ?thesis by simp
  qed
qed

lemma replace_to_utf8_displayed:
  assumes inv: "tables_invertible bank" and us: "\<forall>u\<in>set us. unit_of bank u"
  shows "replace_to_utf8_loop (m_replace_info bank) (pre @ concat (map displayed us))
           (length pre) acc = Inr (acc @ concat (map displayed us))"
  using us
proof (induction us arbitrary: pre acc)
  case Nil
  then show ?case by (subst replace_to_utf8_loop.simps) simp
next
  case (Cons u us)
  let ?rest = "concat (map displayed us)"
  have IH: "replace_to_utf8_loop (m_replace_info bank) ((pre @ displayed u) @ ?rest)
      (length (pre @ displayed u)) (acc @ displayed u) =
      Inr ((acc @ displayed u) @ concat (map displayed us))"
    using Cons.prems by (intro Cons.IH) simp
  have "\<forall>k<length (displayed u). \<forall>p\<in>set (m_replace_info bank).
      \<not> prefix_comparable (drop k (displayed u)) (from_s p)"
  proof (cases u)
    case (Glyph r)
    with Cons.prems have r: "r \<in> set (m_encode_info bank)" by simp
    from tables_invertible_encode(5) [OF inv r] Glyph show ?thesis by simp
  next
    case (Composite p)
    with Cons.prems have p: "p \<in> set (m_replace_info bank)" by simp
    from tables_invertible_replace(4) [OF inv p] Composite show ?thesis by simp
  next
    case (Plain c)
    with Cons.prems have c: "plain_char bank c" by simp
    from plain_charD(4) [OF inv c] Plain show ?thesis by simp
  qed
  from replace_to_utf8_loop_copy [OF this, of pre ?rest acc] IH show ?case by simp
qed

lemma displayed_plain:
  assumes inv: "tables_invertible bank" and us: "\<forall>u\<in>set us. unit_of bank u"
  shows "\<forall>c\<in>set (concat (map displayed us)). \<not> special_char c"
proof -
  have "\<forall>c\<in>set (displayed u). \<not> special_char c" if "u \<in> set us" for u
  proof (cases u)
    case (Glyph r)
    with that us have "r \<in> set (m_encode_info bank)" by auto
    from tables_invertible_encode(4) [OF inv this] Glyph show ?thesis by simp
  next
    case (Composite p)
    with that us have "p \<in> set (m_replace_info bank)" by auto
    from tables_invertible_replace(3) [OF inv this] Composite show ?thesis by simp
  next
    case (Plain c)
    with that us have "plain_char bank c" by auto
    from plain_charD(2) [OF inv this] Plain show ?thesis by simp
  qed
  then show ?thesis by auto
qed

text \<open>
  When the tables of a bank are invertible, the forward transcoder maps a text of units to
  the bytes of the units, and the reverse transcoder maps these bytes back to the text.
\<close>

lemma round_trip_invertible:
  assumes inv: "tables_invertible bank" and us: "\<forall>u\<in>set us. unit_of bank u"
  shows "convert_utf8_to_game bank (concat (map displayed us)) escape =
           Inr (concat (map (unit_bytes bank) us)) \<and>
         convert_game_to_utf8 bank sq (concat (map (unit_bytes bank) us) @ [CHR 0x00]) False =
           Inr (concat (map displayed us), sq)"
proof -
  let ?s = "concat (map displayed us)"
  note plain = displayed_plain [OF inv us]
  have fwd: "convert_utf8_to_game bank ?s escape = Inr (concat (map (unit_bytes bank) us))"
    using escape_loop_id [OF plain, of 0 "[]"] replace_to_game_units [OF inv us, of "[]" "[]"]
      encode_units [OF inv us, of "[]" "[]"]
    by (simp add: convert_utf8_to_game_def replace_to_game_def encode_utf8_to_game_def)
  have bwd: "convert_game_to_utf8 bank sq (concat (map (unit_bytes bank) us) @ [CHR 0x00]) False =
      Inr (?s, sq)"
    using decode_units [OF inv us, of "[]" "[]"] replace_to_utf8_units [OF inv us, of "[]" "[]"]
      escape_emit_loop_id [OF plain, of 0 "[]"] replace_to_utf8_displayed [OF inv us, of "[]" "[]"]
    by (simp add: convert_game_to_utf8_def replace_to_utf8_def)
  from fwd bwd show ?thesis by simp
qed

subsection \<open>The shipped tables are invertible\<close>

lemma all_of_iff: "all_of P xs \<longleftrightarrow> (\<forall>x\<in>set xs. P x)"
  by (simp add: all_of_def list_all_iff)

lemma all_of_Nil: "all_of P [] = True"
  by (simp add: all_of_def)

lemma all_of_Cons: "all_of P (x # xs) = (P x \<and> all_of P xs)"
  by (simp add: all_of_def)

lemma all_of_append: "all_of P (xs @ ys) = (all_of P xs \<and> all_of P ys)"
  by (simp add: all_of_def)

lemma cross_incomparable_iff:
  "cross_incomparable xs ys \<longleftrightarrow> (\<forall>x\<in>set xs. \<forall>y\<in>set ys. \<not> prefix_comparable x y)"
  by (simp add: cross_incomparable_def all_of_iff)

lemma cross_incomparable_append:
  "cross_incomparable xs (ys @ zs) \<longleftrightarrow> cross_incomparable xs ys \<and> cross_incomparable xs zs"
  by (auto simp add: cross_incomparable_iff)

lemma pairwise_incomparable_append:
  "pairwise_incomparable (xs @ ys) \<longleftrightarrow>
     pairwise_incomparable xs \<and> cross_incomparable xs ys \<and> pairwise_incomparable ys"
  by (induction xs) (auto simp add: all_of_iff cross_incomparable_iff)

lemma pairwise_incomparable_map_append:
  "pairwise_incomparable (map f (xs @ ys)) \<longleftrightarrow>
     pairwise_incomparable (map f xs) \<and> cross_incomparable (map f xs) (map f ys) \<and>
     pairwise_incomparable (map f ys)"
  by (simp add: pairwise_incomparable_append)

lemma pairwise_incomparable_sound:
  assumes "pairwise_incomparable (map f xs)" "x \<in> set xs" "y \<in> set xs"
    "prefix_comparable (f x) (f y)"
  shows "x = y"
  using assms
proof (induction xs)
  case Nil
  then show ?case by simp
next
  case (Cons a xs)
  then show ?case
    using prefix_comparable_sym [of "f x" "f y"] by (auto simp add: all_of_iff)
qed

lemma filter_Cons_True: "P x \<Longrightarrow> filter P (x # xs) = x # filter P xs"
  by simp

lemma filter_Cons_False: "\<not> P x \<Longrightarrow> filter P (x # xs) = filter P xs"
  by simp

lemma filter_unfold: "xs = ys \<Longrightarrow> filter P xs = filter P ys"
  by simp

lemma starting_none:
  assumes "all_of (\<lambda>p. p \<noteq> [] \<and> hd p \<in> set firsts) pats" and "c \<notin> set firsts"
  shows "starting c pats = []"
  using assms by (auto simp add: starting_def all_of_iff filter_empty_conv)

lemma rules_starting_none:
  assumes "all_of (\<lambda>r. chars r \<noteq> [] \<and> hd (chars r) \<in> set firsts) encode_info"
    and "c \<notin> set firsts"
  shows "rules_starting c encode_info = []"
  using assms by (auto simp add: rules_starting_def all_of_iff filter_empty_conv)

lemma avoid_check_sound:
  assumes "avoid_check firsts pats cs"
    and "all_of (\<lambda>p. p \<noteq> [] \<and> hd p \<in> set firsts) pats"
    and "k < length cs" and "p \<in> set pats"
  shows "\<not> prefix_comparable (drop k cs) p"
  using assms(1,3)
proof (induction cs arbitrary: k)
  case Nil
  then show ?case by simp
next
  case (Cons c cs)
  show ?case
  proof (cases k)
    case 0
    from assms(2,4) obtain a as where p: "p = a # as" "a \<in> set firsts"
      by (cases p) (auto simp add: all_of_iff)
    show ?thesis
    proof (cases "a = c")
      case True
      with p assms(4) have "p \<in> set (starting c pats)" by (simp add: starting_def)
      with Cons.prems(1) True p 0 show ?thesis by (auto simp add: all_of_iff)
    next
      case False
      with p 0 show ?thesis by auto
    qed
  next
    case (Suc n)
    with Cons.prems Cons.IH [of n] show ?thesis by simp
  qed
qed

lemma raw_bytes_sound:
  assumes rb: "raw_bytes E lits pending s = Some bs"
    and lits: "\<forall>c\<in>set lits. literal_byte bank c"
    and E: "set (m_encode_info bank) = set E"
    and ne: "\<forall>r\<in>set E. chars r \<noteq> []"
  shows "\<exists>s'. s = pending @ s' \<and> raw_code bank s' bs"
  using assms
proof (induction E lits pending s arbitrary: bs rule: raw_bytes.induct)
  case (1 encode_info lits)
  then show ?case by (simp add: raw_Nil)
next
  case (2 encode_info lits a pending)
  then show ?case by simp
next
  case (3 encode_info lits a pending c s)
  then show ?case by (auto split: if_splits)
next
  case (4 encode_info lits c s)
  note rb = 4(3) and lits = 4(4) and E = 4(5) and ne = 4(6)
  let ?cands = "filter (\<lambda>r. prefix_comparable (chars r) (c # s)) (rules_starting c encode_info)"
  show ?case
  proof (cases ?cands)
    case Nil
    with rb obtain bs' where c: "c \<in> set lits"
      and bs': "raw_bytes encode_info lits [] s = Some bs'" and bs: "bs = c # bs'"
      by (auto split: if_splits)
    from 4(1) [OF Nil c bs' lits E ne] have raw: "raw_code bank s bs'" by simp
    have "\<forall>r\<in>set (m_encode_info bank). \<not> prefix_comparable (chars r) (c # s)"
    proof (intro ballI notI)
      fix r assume r: "r \<in> set (m_encode_info bank)"
        and cmp: "prefix_comparable (chars r) (c # s)"
      from r E ne have "chars r \<noteq> []" by auto
      with cmp have "hd (chars r) = c" by (cases "chars r") auto
      with r E \<open>chars r \<noteq> []\<close> cmp have "r \<in> set ?cands"
        by (simp add: rules_starting_def)
      with Nil show False by simp
    qed
    with lits c raw bs show ?thesis by (auto intro: raw_literal)
  next
    case (Cons r rs)
    with rb obtain bs' where rs: "rs = []"
      and bs': "raw_bytes encode_info lits (tl (chars r)) s = Some bs'"
      and bs: "bs = bytes r @ bs'"
      by (cases rs) auto
    from Cons rs have r: "r \<in> set ?cands" by simp
    then have rE: "r \<in> set (m_encode_info bank)" and c: "chars r \<noteq> []" "hd (chars r) = c"
      using E by (auto simp add: rules_starting_def)
    from Cons rs have cands: "?cands = [r]" by simp
    from 4(2) [OF cands refl bs' lits E ne] obtain s' where s': "s = tl (chars r) @ s'"
      and raw: "raw_code bank s' bs'" by auto
    from c s' have "c # s = chars r @ s'" by (cases "chars r") auto
    with raw_rule [OF rE raw] bs show ?thesis by auto
  qed
qed

lemma literal_byteI:
  assumes E: "set (m_encode_info bank) = set E"
    and lv: "all_of (\<lambda>c. c \<noteq> CHR 0x00 \<and> (valid_char_range bank c \<or> special_char c)) lits"
    and lb: "all_of (\<lambda>r. bytes r = [] \<or> hd (bytes r) \<notin> set lits) E"
  shows "\<forall>c\<in>set lits. literal_byte bank c"
  using lv lb unfolding literal_byte_def E all_of_iff by blast

lemma plain_charI:
  assumes E: "set (m_encode_info bank) = set E" and R: "set (m_replace_info bank) = set R"
    and lv: "all_of (\<lambda>c. c \<noteq> CHR 0x00 \<and> valid_char_range bank c \<and> \<not> special_char c) cs"
    and lb: "all_of (\<lambda>r. bytes r = [] \<or> hd (bytes r) \<notin> set cs) E"
    and ef: "all_of (\<lambda>r. chars r \<noteq> [] \<and> hd (chars r) \<in> set encode_firsts) E"
    and pf: "all_of (\<lambda>p. p \<noteq> [] \<and> hd p \<in> set firsts) (patterns R)"
    and dj: "all_of (\<lambda>c. c \<notin> set encode_firsts \<and> c \<notin> set firsts) cs"
    and c: "c \<in> set cs"
  shows "plain_char bank c"
proof -
  from lv c have v: "c \<noteq> CHR 0x00" "valid_char_range bank c" "\<not> special_char c"
    by (simp_all add: all_of_iff)
  from dj c have d: "c \<notin> set encode_firsts" "c \<notin> set firsts" by (simp_all add: all_of_iff)
  from lb c have b: "\<forall>r\<in>set E. bytes r = [] \<or> hd (bytes r) \<noteq> c"
    by (auto simp add: all_of_iff)
  from ef d have e: "\<forall>r\<in>set E. chars r = [] \<or> hd (chars r) \<noteq> c"
    by (auto simp add: all_of_iff)
  from pf d have p: "\<forall>p\<in>set R. (from_s p = [] \<or> hd (from_s p) \<noteq> c) \<and>
      (to_s p = [] \<or> hd (to_s p) \<noteq> c)"
    by (auto simp add: all_of_iff patterns_def)
  from v b e p show ?thesis by (simp add: plain_char_def literal_byte_def E R)
qed

lemma tables_invertibleI:
  assumes E: "set (m_encode_info bank) = set E" and R: "set (m_replace_info bank) = set R"
    and wf: "all_of rule_well_formed E"
    and pc: "pairwise_incomparable (map chars E)"
    and pb: "pairwise_incomparable (map bytes E)"
    and fs: "all_of (\<lambda>p. p \<noteq> [] \<and> hd p \<in> set firsts) (patterns R)"
    and av: "all_of (\<lambda>r. avoid_check firsts (patterns R) (chars r)) E"
    and pw: "all_of pattern_well_formed R"
    and pf: "pairwise_incomparable (map from_s R)"
    and pt: "pairwise_incomparable (map to_s R)"
    and da: "all_of (\<lambda>p. avoid_check firsts (map from_s R) (to_s p)) R"
    and lv: "all_of (\<lambda>c. c \<noteq> CHR 0x00 \<and> (valid_char_range bank c \<or> special_char c)) lits"
    and lb: "all_of (\<lambda>r. bytes r = [] \<or> hd (bytes r) \<notin> set lits) E"
    and rc: "all_of (\<lambda>p. raw_bytes E lits [] (from_s p) \<noteq> None) R"
  shows "tables_invertible bank"
  unfolding tables_invertible_def
proof (intro ballI conjI)
  fix r assume r: "r \<in> set (m_encode_info bank)"
  with E have rE: "r \<in> set E" by simp
  from wf rE show "rule_well_formed r" by (simp add: all_of_iff)
  from av rE have a: "avoid_check firsts (patterns R) (chars r)" by (simp add: all_of_iff)
  show "rule_avoids (m_replace_info bank) r"
    using avoid_check_sound [OF a fs] by (simp add: rule_avoids_def R patterns_def)
  fix r' assume "r' \<in> set (m_encode_info bank)"
  with E have r'E: "r' \<in> set E" by simp
  show "rules_separate r r'"
    using pairwise_incomparable_sound [OF pc rE r'E] pairwise_incomparable_sound [OF pb rE r'E]
    by (auto simp add: rules_separate_def)
next
  fix p assume p: "p \<in> set (m_replace_info bank)"
  with R have pR: "p \<in> set R" by simp
  from pw pR show "pattern_well_formed p" by (simp add: all_of_iff)
  from fs have fs': "all_of (\<lambda>p. p \<noteq> [] \<and> hd p \<in> set firsts) (map from_s R)"
    by (simp add: patterns_def all_of_append)
  from da pR have a: "avoid_check firsts (map from_s R) (to_s p)" by (simp add: all_of_iff)
  show "display_avoids (m_replace_info bank) p"
    using avoid_check_sound [OF a fs'] by (simp add: display_avoids_def R)
  from rc pR obtain bs where bs: "raw_bytes E lits [] (from_s p) = Some bs"
    by (auto simp add: all_of_iff)
  have ne: "\<forall>r\<in>set E. chars r \<noteq> []"
    using wf by (simp add: all_of_iff rule_well_formed_def)
  have lits: "\<forall>c\<in>set lits. literal_byte bank c"
    using literal_byteI [OF E lv lb] .
  from raw_bytes_sound [OF bs lits E ne] show "\<exists>bs. raw_code bank (from_s p) bs" by auto
  fix q assume "q \<in> set (m_replace_info bank)"
  with R have qR: "q \<in> set R" by simp
  show "patterns_separate p q"
    using pairwise_incomparable_sound [OF pf pR qR] pairwise_incomparable_sound [OF pt pR qR]
    by (auto simp add: patterns_separate_def)
qed

text \<open>The rewrite rules that evaluate the checks on the literal tables.\<close>

lemmas literal_rules = list.map EncodeInfo.select_convs ReplaceInfo.select_convs
  all_of_Cons all_of_Nil all_of_append char.inject simp_thms if_True if_False

lemmas well_formed_rules = literal_rules rule_well_formed_def pattern_well_formed_def
  special_char_def all_of_def list.pred_inject list.distinct

lemmas starting_rules = literal_rules filter_append filter.simps(1) filter_Cons_True
  filter_Cons_False list.sel list.distinct

lemmas avoid_rules = literal_rules avoid_check.simps prefix_comparable.simps
  list.set insert_iff empty_iff list.sel list.distinct

lemmas raw_rules = literal_rules raw_bytes.simps prefix_comparable.simps filter.simps(1)
  filter_Cons_True filter_Cons_False list.case option.map option.distinct list.sel
  list.distinct list.set insert_iff empty_iff

lemmas incomparable_rules = literal_rules map_append cross_incomparable_append
  cross_incomparable_def pairwise_incomparable.simps prefix_comparable.simps

lemmas s_encode_info_jak1_parts [simplified append.simps] =
  s_encode_info_jak1_part1_def s_encode_info_jak1_part2_def s_encode_info_jak1_part3_def
  s_encode_info_jak1_part4_def s_encode_info_jak1_part5_def

lemma s_encode_info_jak1_well_formed: "all_of rule_well_formed s_encode_info_jak1"
  unfolding s_encode_info_jak1_def all_of_append
  by (simp only: s_encode_info_jak1_parts well_formed_rules)

lemma s_encode_info_jak1_chars_part1:
  "pairwise_incomparable (map chars s_encode_info_jak1_part1) \<and>
   cross_incomparable (map chars s_encode_info_jak1_part1)
     (map chars
        (s_encode_info_jak1_part2 @ s_encode_info_jak1_part3 @ s_encode_info_jak1_part4 @
         s_encode_info_jak1_part5))"
  by (simp only: s_encode_info_jak1_parts incomparable_rules)

lemma s_encode_info_jak1_chars_part2:
  "pairwise_incomparable (map chars s_encode_info_jak1_part2) \<and>
   cross_incomparable (map chars s_encode_info_jak1_part2)
     (map chars
        (s_encode_info_jak1_part3 @ s_encode_info_jak1_part4 @ s_encode_info_jak1_part5))"
  by (simp only: s_encode_info_jak1_parts incomparable_rules)

lemma s_encode_info_jak1_chars_part3:
  "pairwise_incomparable (map chars s_encode_info_jak1_part3) \<and>
   cross_incomparable (map chars s_encode_info_jak1_part3)
     (map chars
        (s_encode_info_jak1_part4 @ s_encode_info_jak1_part5))"
  by (simp only: s_encode_info_jak1_parts incomparable_rules)

lemma s_encode_info_jak1_chars_part4:
  "pairwise_incomparable (map chars s_encode_info_jak1_part4) \<and>
   cross_incomparable (map chars s_encode_info_jak1_part4)
     (map chars
        (s_encode_info_jak1_part5))"
  by (simp only: s_encode_info_jak1_parts incomparable_rules)

lemma s_encode_info_jak1_chars_part5:
  "pairwise_incomparable (map chars s_encode_info_jak1_part5)"
  by (simp only: s_encode_info_jak1_parts incomparable_rules)

lemma s_encode_info_jak1_chars: "pairwise_incomparable (map chars s_encode_info_jak1)"
  unfolding s_encode_info_jak1_def
  by (simp only: pairwise_incomparable_map_append
      s_encode_info_jak1_chars_part1 s_encode_info_jak1_chars_part2
      s_encode_info_jak1_chars_part3 s_encode_info_jak1_chars_part4
      s_encode_info_jak1_chars_part5 simp_thms)

lemma s_encode_info_jak1_bytes_part1:
  "pairwise_incomparable (map bytes s_encode_info_jak1_part1) \<and>
   cross_incomparable (map bytes s_encode_info_jak1_part1)
     (map bytes
        (s_encode_info_jak1_part2 @ s_encode_info_jak1_part3 @ s_encode_info_jak1_part4 @
         s_encode_info_jak1_part5))"
  by (simp only: s_encode_info_jak1_parts incomparable_rules)

lemma s_encode_info_jak1_bytes_part2:
  "pairwise_incomparable (map bytes s_encode_info_jak1_part2) \<and>
   cross_incomparable (map bytes s_encode_info_jak1_part2)
     (map bytes
        (s_encode_info_jak1_part3 @ s_encode_info_jak1_part4 @ s_encode_info_jak1_part5))"
  by (simp only: s_encode_info_jak1_parts incomparable_rules)

lemma s_encode_info_jak1_bytes_part3:
  "pairwise_incomparable (map bytes s_encode_info_jak1_part3) \<and>
   cross_incomparable (map bytes s_encode_info_jak1_part3)
     (map bytes
        (s_encode_info_jak1_part4 @ s_encode_info_jak1_part5))"
  by (simp only: s_encode_info_jak1_parts incomparable_rules)

lemma s_encode_info_jak1_bytes_part4:
  "pairwise_incomparable (map bytes s_encode_info_jak1_part4) \<and>
   cross_incomparable (map bytes s_encode_info_jak1_part4)
     (map bytes
        (s_encode_info_jak1_part5))"
  by (simp only: s_encode_info_jak1_parts incomparable_rules)

lemma s_encode_info_jak1_bytes_part5:
  "pairwise_incomparable (map bytes s_encode_info_jak1_part5)"
  by (simp only: s_encode_info_jak1_parts incomparable_rules)

lemma s_encode_info_jak1_bytes: "pairwise_incomparable (map bytes s_encode_info_jak1)"
  unfolding s_encode_info_jak1_def
  by (simp only: pairwise_incomparable_map_append
      s_encode_info_jak1_bytes_part1 s_encode_info_jak1_bytes_part2
      s_encode_info_jak1_bytes_part3 s_encode_info_jak1_bytes_part4
      s_encode_info_jak1_bytes_part5 simp_thms)

lemma s_encode_info_jak1_firsts:
  "all_of (\<lambda>r. chars r \<noteq> [] \<and> hd (chars r) \<in> set encode_firsts_jak1) s_encode_info_jak1"
  unfolding s_encode_info_jak1_def all_of_append
  by (simp only: s_encode_info_jak1_parts encode_firsts_jak1_def avoid_rules)

lemmas s_encode_info_jak1_literal = s_encode_info_jak1_def [simplified s_encode_info_jak1_parts]

lemmas rules_starting_jak1 [simplified filter_unfold [OF s_encode_info_jak1_literal] starting_rules,
    simplified append.simps] =
  rules_starting_def [of "CHR 0x27" s_encode_info_jak1]
  rules_starting_def [of "CHR 0x3C" s_encode_info_jak1]
  rules_starting_def [of "CHR 0x5E" s_encode_info_jak1]
  rules_starting_def [of "CHR 0x60" s_encode_info_jak1]
  rules_starting_def [of "CHR 0xC2" s_encode_info_jak1]
  rules_starting_def [of "CHR 0xC3" s_encode_info_jak1]
  rules_starting_def [of "CHR 0xC5" s_encode_info_jak1]
  rules_starting_def [of "CHR 0xCB" s_encode_info_jak1]
  rules_starting_def [of "CHR 0xE2" s_encode_info_jak1]
  rules_starting_def [of "CHR 0xE3" s_encode_info_jak1]
  rules_starting_def [of "CHR 0xE4" s_encode_info_jak1]
  rules_starting_def [of "CHR 0xE5" s_encode_info_jak1]
  rules_starting_def [of "CHR 0xE6" s_encode_info_jak1]
  rules_starting_def [of "CHR 0xE7" s_encode_info_jak1]
  rules_starting_def [of "CHR 0xE8" s_encode_info_jak1]
  rules_starting_def [of "CHR 0xE9" s_encode_info_jak1]

lemmas rules_starting_jak1_none = rules_starting_none [OF s_encode_info_jak1_firsts]

lemmas s_encode_info_jak1_v2_parts [simplified append.simps] =
  s_encode_info_jak1_v2_part1_def s_encode_info_jak1_v2_part2_def
  s_encode_info_jak1_v2_part3_def s_encode_info_jak1_v2_part4_def
  s_encode_info_jak1_v2_part5_def s_encode_info_jak1_v2_part6_def

lemma s_encode_info_jak1_v2_well_formed: "all_of rule_well_formed s_encode_info_jak1_v2"
  unfolding s_encode_info_jak1_v2_def all_of_append
  by (simp only: s_encode_info_jak1_v2_parts well_formed_rules)

lemma s_encode_info_jak1_v2_chars_part1:
  "pairwise_incomparable (map chars s_encode_info_jak1_v2_part1) \<and>
   cross_incomparable (map chars s_encode_info_jak1_v2_part1)
     (map chars
        (s_encode_info_jak1_v2_part2 @ s_encode_info_jak1_v2_part3 @
         s_encode_info_jak1_v2_part4 @ s_encode_info_jak1_v2_part5 @
         s_encode_info_jak1_v2_part6))"
  by (simp only: s_encode_info_jak1_v2_parts incomparable_rules)

lemma s_encode_info_jak1_v2_chars_part2:
  "pairwise_incomparable (map chars s_encode_info_jak1_v2_part2) \<and>
   cross_incomparable (map chars s_encode_info_jak1_v2_part2)
     (map chars
        (s_encode_info_jak1_v2_part3 @ s_encode_info_jak1_v2_part4 @
         s_encode_info_jak1_v2_part5 @ s_encode_info_jak1_v2_part6))"
  by (simp only: s_encode_info_jak1_v2_parts incomparable_rules)

lemma s_encode_info_jak1_v2_chars_part3:
  "pairwise_incomparable (map chars s_encode_info_jak1_v2_part3) \<and>
   cross_incomparable (map chars s_encode_info_jak1_v2_part3)
     (map chars
        (s_encode_info_jak1_v2_part4 @ s_encode_info_jak1_v2_part5 @
         s_encode_info_jak1_v2_part6))"
  by (simp only: s_encode_info_jak1_v2_parts incomparable_rules)

lemma s_encode_info_jak1_v2_chars_part4:
  "pairwise_incomparable (map chars s_encode_info_jak1_v2_part4) \<and>
   cross_incomparable (map chars s_encode_info_jak1_v2_part4)
     (map chars
        (s_encode_info_jak1_v2_part5 @ s_encode_info_jak1_v2_part6))"
  by (simp only: s_encode_info_jak1_v2_parts incomparable_rules)

lemma s_encode_info_jak1_v2_chars_part5:
  "pairwise_incomparable (map chars s_encode_info_jak1_v2_part5) \<and>
   cross_incomparable (map chars s_encode_info_jak1_v2_part5)
     (map chars
        (s_encode_info_jak1_v2_part6))"
  by (simp only: s_encode_info_jak1_v2_parts incomparable_rules)

lemma s_encode_info_jak1_v2_chars_part6:
  "pairwise_incomparable (map chars s_encode_info_jak1_v2_part6)"
  by (simp only: s_encode_info_jak1_v2_parts incomparable_rules)

lemma s_encode_info_jak1_v2_chars: "pairwise_incomparable (map chars s_encode_info_jak1_v2)"
  unfolding s_encode_info_jak1_v2_def
  by (simp only: pairwise_incomparable_map_append
      s_encode_info_jak1_v2_chars_part1 s_encode_info_jak1_v2_chars_part2
      s_encode_info_jak1_v2_chars_part3 s_encode_info_jak1_v2_chars_part4
      s_encode_info_jak1_v2_chars_part5 s_encode_info_jak1_v2_chars_part6 simp_thms)

lemma s_encode_info_jak1_v2_bytes_part1:
  "pairwise_incomparable (map bytes s_encode_info_jak1_v2_part1) \<and>
   cross_incomparable (map bytes s_encode_info_jak1_v2_part1)
     (map bytes
        (s_encode_info_jak1_v2_part2 @ s_encode_info_jak1_v2_part3 @
         s_encode_info_jak1_v2_part4 @ s_encode_info_jak1_v2_part5 @
         s_encode_info_jak1_v2_part6))"
  by (simp only: s_encode_info_jak1_v2_parts incomparable_rules)

lemma s_encode_info_jak1_v2_bytes_part2:
  "pairwise_incomparable (map bytes s_encode_info_jak1_v2_part2) \<and>
   cross_incomparable (map bytes s_encode_info_jak1_v2_part2)
     (map bytes
        (s_encode_info_jak1_v2_part3 @ s_encode_info_jak1_v2_part4 @
         s_encode_info_jak1_v2_part5 @ s_encode_info_jak1_v2_part6))"
  by (simp only: s_encode_info_jak1_v2_parts incomparable_rules)

lemma s_encode_info_jak1_v2_bytes_part3:
  "pairwise_incomparable (map bytes s_encode_info_jak1_v2_part3) \<and>
   cross_incomparable (map bytes s_encode_info_jak1_v2_part3)
     (map bytes
        (s_encode_info_jak1_v2_part4 @ s_encode_info_jak1_v2_part5 @
         s_encode_info_jak1_v2_part6))"
  by (simp only: s_encode_info_jak1_v2_parts incomparable_rules)

lemma s_encode_info_jak1_v2_bytes_part4:
  "pairwise_incomparable (map bytes s_encode_info_jak1_v2_part4) \<and>
   cross_incomparable (map bytes s_encode_info_jak1_v2_part4)
     (map bytes
        (s_encode_info_jak1_v2_part5 @ s_encode_info_jak1_v2_part6))"
  by (simp only: s_encode_info_jak1_v2_parts incomparable_rules)

lemma s_encode_info_jak1_v2_bytes_part5:
  "pairwise_incomparable (map bytes s_encode_info_jak1_v2_part5) \<and>
   cross_incomparable (map bytes s_encode_info_jak1_v2_part5)
     (map bytes
        (s_encode_info_jak1_v2_part6))"
  by (simp only: s_encode_info_jak1_v2_parts incomparable_rules)

lemma s_encode_info_jak1_v2_bytes_part6:
  "pairwise_incomparable (map bytes s_encode_info_jak1_v2_part6)"
  by (simp only: s_encode_info_jak1_v2_parts incomparable_rules)

lemma s_encode_info_jak1_v2_bytes: "pairwise_incomparable (map bytes s_encode_info_jak1_v2)"
  unfolding s_encode_info_jak1_v2_def
  by (simp only: pairwise_incomparable_map_append
      s_encode_info_jak1_v2_bytes_part1 s_encode_info_jak1_v2_bytes_part2
      s_encode_info_jak1_v2_bytes_part3 s_encode_info_jak1_v2_bytes_part4
      s_encode_info_jak1_v2_bytes_part5 s_encode_info_jak1_v2_bytes_part6 simp_thms)

lemma s_encode_info_jak1_v2_firsts:
  "all_of (\<lambda>r. chars r \<noteq> [] \<and> hd (chars r) \<in> set encode_firsts_jak1_v2) s_encode_info_jak1_v2"
  unfolding s_encode_info_jak1_v2_def all_of_append
  by (simp only: s_encode_info_jak1_v2_parts encode_firsts_jak1_v2_def avoid_rules)

lemmas s_encode_info_jak1_v2_literal = s_encode_info_jak1_v2_def [simplified s_encode_info_jak1_v2_parts]

lemmas rules_starting_jak1_v2 [simplified filter_unfold [OF s_encode_info_jak1_v2_literal] starting_rules,
    simplified append.simps] =
  rules_starting_def [of "CHR 0x27" s_encode_info_jak1_v2]
  rules_starting_def [of "CHR 0x3C" s_encode_info_jak1_v2]
  rules_starting_def [of "CHR 0x5E" s_encode_info_jak1_v2]
  rules_starting_def [of "CHR 0x5F" s_encode_info_jak1_v2]
  rules_starting_def [of "CHR 0x60" s_encode_info_jak1_v2]
  rules_starting_def [of "CHR 0xC2" s_encode_info_jak1_v2]
  rules_starting_def [of "CHR 0xC3" s_encode_info_jak1_v2]
  rules_starting_def [of "CHR 0xC5" s_encode_info_jak1_v2]
  rules_starting_def [of "CHR 0xCB" s_encode_info_jak1_v2]
  rules_starting_def [of "CHR 0xE2" s_encode_info_jak1_v2]
  rules_starting_def [of "CHR 0xE3" s_encode_info_jak1_v2]
  rules_starting_def [of "CHR 0xE4" s_encode_info_jak1_v2]
  rules_starting_def [of "CHR 0xE5" s_encode_info_jak1_v2]
  rules_starting_def [of "CHR 0xE6" s_encode_info_jak1_v2]
  rules_starting_def [of "CHR 0xE7" s_encode_info_jak1_v2]
  rules_starting_def [of "CHR 0xE8" s_encode_info_jak1_v2]
  rules_starting_def [of "CHR 0xE9" s_encode_info_jak1_v2]

lemmas rules_starting_jak1_v2_none = rules_starting_none [OF s_encode_info_jak1_v2_firsts]

lemmas s_encode_info_jak2_parts [simplified append.simps] =
  s_encode_info_jak2_part1_def s_encode_info_jak2_part2_def s_encode_info_jak2_part3_def
  s_encode_info_jak2_part4_def s_encode_info_jak2_part5_def s_encode_info_jak2_part6_def
  s_encode_info_jak2_part7_def s_encode_info_jak2_part8_def s_encode_info_jak2_part9_def
  s_encode_info_jak2_part10_def s_encode_info_jak2_part11_def s_encode_info_jak2_part12_def
  s_encode_info_jak2_part13_def s_encode_info_jak2_part14_def s_encode_info_jak2_part15_def
  s_encode_info_jak2_part16_def s_encode_info_jak2_part17_def






































lemma s_encode_info_jak2_firsts:
  "all_of (\<lambda>r. chars r \<noteq> [] \<and> hd (chars r) \<in> set encode_firsts_jak2) s_encode_info_jak2"
  unfolding s_encode_info_jak2_def all_of_append
  by (simp only: s_encode_info_jak2_parts encode_firsts_jak2_def avoid_rules)




lemmas s_replace_info_jak1_parts [simplified append.simps] =
  s_replace_info_jak1_part1_def s_replace_info_jak1_part2_def s_replace_info_jak1_part3_def
  s_replace_info_jak1_part4_def s_replace_info_jak1_part5_def s_replace_info_jak1_part6_def
  s_replace_info_jak1_part7_def s_replace_info_jak1_part8_def s_replace_info_jak1_part9_def
  s_replace_info_jak1_part10_def

lemma map_s_replace_info_jak1:
  "map f s_replace_info_jak1 =
     map f s_replace_info_jak1_part1 @ map f s_replace_info_jak1_part2 @
     map f s_replace_info_jak1_part3 @ map f s_replace_info_jak1_part4 @
     map f s_replace_info_jak1_part5 @ map f s_replace_info_jak1_part6 @
     map f s_replace_info_jak1_part7 @ map f s_replace_info_jak1_part8 @
     map f s_replace_info_jak1_part9 @ map f s_replace_info_jak1_part10"
  by (simp add: s_replace_info_jak1_def)

lemma all_of_s_replace_info_jak1:
  "all_of P s_replace_info_jak1 \<longleftrightarrow>
     all_of P s_replace_info_jak1_part1 \<and> all_of P s_replace_info_jak1_part2 \<and>
     all_of P s_replace_info_jak1_part3 \<and> all_of P s_replace_info_jak1_part4 \<and>
     all_of P s_replace_info_jak1_part5 \<and> all_of P s_replace_info_jak1_part6 \<and>
     all_of P s_replace_info_jak1_part7 \<and> all_of P s_replace_info_jak1_part8 \<and>
     all_of P s_replace_info_jak1_part9 \<and> all_of P s_replace_info_jak1_part10"
  by (simp add: s_replace_info_jak1_def all_of_append)

lemmas patterns_jak1 =
  patterns_def [of s_replace_info_jak1, simplified map_s_replace_info_jak1 s_replace_info_jak1_parts list.map ReplaceInfo.select_convs]

lemma s_replace_info_jak1_firsts:
  "all_of (\<lambda>p. p \<noteq> [] \<and> hd p \<in> set firsts_jak1) (patterns s_replace_info_jak1)"
  by (simp only: patterns_jak1 firsts_jak1_def avoid_rules)

lemmas starting_jak1 [simplified filter_unfold [OF patterns_jak1] starting_rules,
    simplified append.simps] =
  starting_def [of "CHR 0x2C" "patterns s_replace_info_jak1"]
  starting_def [of "CHR 0x3C" "patterns s_replace_info_jak1"]
  starting_def [of "CHR 0x41" "patterns s_replace_info_jak1"]
  starting_def [of "CHR 0x43" "patterns s_replace_info_jak1"]
  starting_def [of "CHR 0x45" "patterns s_replace_info_jak1"]
  starting_def [of "CHR 0x49" "patterns s_replace_info_jak1"]
  starting_def [of "CHR 0x4C" "patterns s_replace_info_jak1"]
  starting_def [of "CHR 0x4E" "patterns s_replace_info_jak1"]
  starting_def [of "CHR 0x4F" "patterns s_replace_info_jak1"]
  starting_def [of "CHR 0x53" "patterns s_replace_info_jak1"]
  starting_def [of "CHR 0x55" "patterns s_replace_info_jak1"]
  starting_def [of "CHR 0x5A" "patterns s_replace_info_jak1"]
  starting_def [of "CHR 0x7E" "patterns s_replace_info_jak1"]
  starting_def [of "CHR 0xC3" "patterns s_replace_info_jak1"]
  starting_def [of "CHR 0xC4" "patterns s_replace_info_jak1"]
  starting_def [of "CHR 0xC5" "patterns s_replace_info_jak1"]
  starting_def [of "CHR 0xE3" "patterns s_replace_info_jak1"]
  starting_def [of "CHR 0xE4" "patterns s_replace_info_jak1"]

lemma s_replace_info_jak1_well_formed: "all_of pattern_well_formed s_replace_info_jak1"
  unfolding s_replace_info_jak1_def all_of_append
  by (simp only: s_replace_info_jak1_parts well_formed_rules)

lemma s_replace_info_jak1_encoded_part1:
  "pairwise_incomparable (map from_s s_replace_info_jak1_part1) \<and>
   cross_incomparable (map from_s s_replace_info_jak1_part1)
     (map from_s
        (s_replace_info_jak1_part2 @ s_replace_info_jak1_part3 @ s_replace_info_jak1_part4 @
         s_replace_info_jak1_part5 @ s_replace_info_jak1_part6 @ s_replace_info_jak1_part7 @
         s_replace_info_jak1_part8 @ s_replace_info_jak1_part9 @ s_replace_info_jak1_part10))"
  by (simp only: s_replace_info_jak1_parts incomparable_rules)

lemma s_replace_info_jak1_encoded_part2:
  "pairwise_incomparable (map from_s s_replace_info_jak1_part2) \<and>
   cross_incomparable (map from_s s_replace_info_jak1_part2)
     (map from_s
        (s_replace_info_jak1_part3 @ s_replace_info_jak1_part4 @ s_replace_info_jak1_part5 @
         s_replace_info_jak1_part6 @ s_replace_info_jak1_part7 @ s_replace_info_jak1_part8 @
         s_replace_info_jak1_part9 @ s_replace_info_jak1_part10))"
  by (simp only: s_replace_info_jak1_parts incomparable_rules)

lemma s_replace_info_jak1_encoded_part3:
  "pairwise_incomparable (map from_s s_replace_info_jak1_part3) \<and>
   cross_incomparable (map from_s s_replace_info_jak1_part3)
     (map from_s
        (s_replace_info_jak1_part4 @ s_replace_info_jak1_part5 @ s_replace_info_jak1_part6 @
         s_replace_info_jak1_part7 @ s_replace_info_jak1_part8 @ s_replace_info_jak1_part9 @
         s_replace_info_jak1_part10))"
  by (simp only: s_replace_info_jak1_parts incomparable_rules)

lemma s_replace_info_jak1_encoded_part4:
  "pairwise_incomparable (map from_s s_replace_info_jak1_part4) \<and>
   cross_incomparable (map from_s s_replace_info_jak1_part4)
     (map from_s
        (s_replace_info_jak1_part5 @ s_replace_info_jak1_part6 @ s_replace_info_jak1_part7 @
         s_replace_info_jak1_part8 @ s_replace_info_jak1_part9 @ s_replace_info_jak1_part10))"
  by (simp only: s_replace_info_jak1_parts incomparable_rules)

lemma s_replace_info_jak1_encoded_part5:
  "pairwise_incomparable (map from_s s_replace_info_jak1_part5) \<and>
   cross_incomparable (map from_s s_replace_info_jak1_part5)
     (map from_s
        (s_replace_info_jak1_part6 @ s_replace_info_jak1_part7 @ s_replace_info_jak1_part8 @
         s_replace_info_jak1_part9 @ s_replace_info_jak1_part10))"
  by (simp only: s_replace_info_jak1_parts incomparable_rules)

lemma s_replace_info_jak1_encoded_part6:
  "pairwise_incomparable (map from_s s_replace_info_jak1_part6) \<and>
   cross_incomparable (map from_s s_replace_info_jak1_part6)
     (map from_s
        (s_replace_info_jak1_part7 @ s_replace_info_jak1_part8 @ s_replace_info_jak1_part9 @
         s_replace_info_jak1_part10))"
  by (simp only: s_replace_info_jak1_parts incomparable_rules)

lemma s_replace_info_jak1_encoded_part7:
  "pairwise_incomparable (map from_s s_replace_info_jak1_part7) \<and>
   cross_incomparable (map from_s s_replace_info_jak1_part7)
     (map from_s
        (s_replace_info_jak1_part8 @ s_replace_info_jak1_part9 @ s_replace_info_jak1_part10))"
  by (simp only: s_replace_info_jak1_parts incomparable_rules)

lemma s_replace_info_jak1_encoded_part8:
  "pairwise_incomparable (map from_s s_replace_info_jak1_part8) \<and>
   cross_incomparable (map from_s s_replace_info_jak1_part8)
     (map from_s
        (s_replace_info_jak1_part9 @ s_replace_info_jak1_part10))"
  by (simp only: s_replace_info_jak1_parts incomparable_rules)

lemma s_replace_info_jak1_encoded_part9:
  "pairwise_incomparable (map from_s s_replace_info_jak1_part9) \<and>
   cross_incomparable (map from_s s_replace_info_jak1_part9)
     (map from_s
        (s_replace_info_jak1_part10))"
  by (simp only: s_replace_info_jak1_parts incomparable_rules)

lemma s_replace_info_jak1_encoded_part10:
  "pairwise_incomparable (map from_s s_replace_info_jak1_part10)"
  by (simp only: s_replace_info_jak1_parts incomparable_rules)

lemma s_replace_info_jak1_encoded: "pairwise_incomparable (map from_s s_replace_info_jak1)"
  unfolding s_replace_info_jak1_def
  by (simp only: pairwise_incomparable_map_append
      s_replace_info_jak1_encoded_part1 s_replace_info_jak1_encoded_part2
      s_replace_info_jak1_encoded_part3 s_replace_info_jak1_encoded_part4
      s_replace_info_jak1_encoded_part5 s_replace_info_jak1_encoded_part6
      s_replace_info_jak1_encoded_part7 s_replace_info_jak1_encoded_part8
      s_replace_info_jak1_encoded_part9 s_replace_info_jak1_encoded_part10 simp_thms)

lemma s_replace_info_jak1_displayed_part1:
  "pairwise_incomparable (map to_s s_replace_info_jak1_part1) \<and>
   cross_incomparable (map to_s s_replace_info_jak1_part1)
     (map to_s
        (s_replace_info_jak1_part2 @ s_replace_info_jak1_part3 @ s_replace_info_jak1_part4 @
         s_replace_info_jak1_part5 @ s_replace_info_jak1_part6 @ s_replace_info_jak1_part7 @
         s_replace_info_jak1_part8 @ s_replace_info_jak1_part9 @ s_replace_info_jak1_part10))"
  by (simp only: s_replace_info_jak1_parts incomparable_rules)

lemma s_replace_info_jak1_displayed_part2:
  "pairwise_incomparable (map to_s s_replace_info_jak1_part2) \<and>
   cross_incomparable (map to_s s_replace_info_jak1_part2)
     (map to_s
        (s_replace_info_jak1_part3 @ s_replace_info_jak1_part4 @ s_replace_info_jak1_part5 @
         s_replace_info_jak1_part6 @ s_replace_info_jak1_part7 @ s_replace_info_jak1_part8 @
         s_replace_info_jak1_part9 @ s_replace_info_jak1_part10))"
  by (simp only: s_replace_info_jak1_parts incomparable_rules)

lemma s_replace_info_jak1_displayed_part3:
  "pairwise_incomparable (map to_s s_replace_info_jak1_part3) \<and>
   cross_incomparable (map to_s s_replace_info_jak1_part3)
     (map to_s
        (s_replace_info_jak1_part4 @ s_replace_info_jak1_part5 @ s_replace_info_jak1_part6 @
         s_replace_info_jak1_part7 @ s_replace_info_jak1_part8 @ s_replace_info_jak1_part9 @
         s_replace_info_jak1_part10))"
  by (simp only: s_replace_info_jak1_parts incomparable_rules)

lemma s_replace_info_jak1_displayed_part4:
  "pairwise_incomparable (map to_s s_replace_info_jak1_part4) \<and>
   cross_incomparable (map to_s s_replace_info_jak1_part4)
     (map to_s
        (s_replace_info_jak1_part5 @ s_replace_info_jak1_part6 @ s_replace_info_jak1_part7 @
         s_replace_info_jak1_part8 @ s_replace_info_jak1_part9 @ s_replace_info_jak1_part10))"
  by (simp only: s_replace_info_jak1_parts incomparable_rules)

lemma s_replace_info_jak1_displayed_part5:
  "pairwise_incomparable (map to_s s_replace_info_jak1_part5) \<and>
   cross_incomparable (map to_s s_replace_info_jak1_part5)
     (map to_s
        (s_replace_info_jak1_part6 @ s_replace_info_jak1_part7 @ s_replace_info_jak1_part8 @
         s_replace_info_jak1_part9 @ s_replace_info_jak1_part10))"
  by (simp only: s_replace_info_jak1_parts incomparable_rules)

lemma s_replace_info_jak1_displayed_part6:
  "pairwise_incomparable (map to_s s_replace_info_jak1_part6) \<and>
   cross_incomparable (map to_s s_replace_info_jak1_part6)
     (map to_s
        (s_replace_info_jak1_part7 @ s_replace_info_jak1_part8 @ s_replace_info_jak1_part9 @
         s_replace_info_jak1_part10))"
  by (simp only: s_replace_info_jak1_parts incomparable_rules)

lemma s_replace_info_jak1_displayed_part7:
  "pairwise_incomparable (map to_s s_replace_info_jak1_part7) \<and>
   cross_incomparable (map to_s s_replace_info_jak1_part7)
     (map to_s
        (s_replace_info_jak1_part8 @ s_replace_info_jak1_part9 @ s_replace_info_jak1_part10))"
  by (simp only: s_replace_info_jak1_parts incomparable_rules)

lemma s_replace_info_jak1_displayed_part8:
  "pairwise_incomparable (map to_s s_replace_info_jak1_part8) \<and>
   cross_incomparable (map to_s s_replace_info_jak1_part8)
     (map to_s
        (s_replace_info_jak1_part9 @ s_replace_info_jak1_part10))"
  by (simp only: s_replace_info_jak1_parts incomparable_rules)

lemma s_replace_info_jak1_displayed_part9:
  "pairwise_incomparable (map to_s s_replace_info_jak1_part9) \<and>
   cross_incomparable (map to_s s_replace_info_jak1_part9)
     (map to_s
        (s_replace_info_jak1_part10))"
  by (simp only: s_replace_info_jak1_parts incomparable_rules)

lemma s_replace_info_jak1_displayed_part10:
  "pairwise_incomparable (map to_s s_replace_info_jak1_part10)"
  by (simp only: s_replace_info_jak1_parts incomparable_rules)

lemma s_replace_info_jak1_displayed: "pairwise_incomparable (map to_s s_replace_info_jak1)"
  unfolding s_replace_info_jak1_def
  by (simp only: pairwise_incomparable_map_append
      s_replace_info_jak1_displayed_part1 s_replace_info_jak1_displayed_part2
      s_replace_info_jak1_displayed_part3 s_replace_info_jak1_displayed_part4
      s_replace_info_jak1_displayed_part5 s_replace_info_jak1_displayed_part6
      s_replace_info_jak1_displayed_part7 s_replace_info_jak1_displayed_part8
      s_replace_info_jak1_displayed_part9 s_replace_info_jak1_displayed_part10 simp_thms)

lemmas encoded_jak1 =
  map_s_replace_info_jak1 [of from_s, simplified s_replace_info_jak1_parts list.map ReplaceInfo.select_convs]

lemmas encoded_starting_jak1 [simplified filter_unfold [OF encoded_jak1] starting_rules,
    simplified append.simps] =
  starting_def [of "CHR 0x2C" "map from_s s_replace_info_jak1"]
  starting_def [of "CHR 0x3C" "map from_s s_replace_info_jak1"]
  starting_def [of "CHR 0x41" "map from_s s_replace_info_jak1"]
  starting_def [of "CHR 0x43" "map from_s s_replace_info_jak1"]
  starting_def [of "CHR 0x45" "map from_s s_replace_info_jak1"]
  starting_def [of "CHR 0x49" "map from_s s_replace_info_jak1"]
  starting_def [of "CHR 0x4C" "map from_s s_replace_info_jak1"]
  starting_def [of "CHR 0x4E" "map from_s s_replace_info_jak1"]
  starting_def [of "CHR 0x4F" "map from_s s_replace_info_jak1"]
  starting_def [of "CHR 0x53" "map from_s s_replace_info_jak1"]
  starting_def [of "CHR 0x55" "map from_s s_replace_info_jak1"]
  starting_def [of "CHR 0x5A" "map from_s s_replace_info_jak1"]
  starting_def [of "CHR 0x7E" "map from_s s_replace_info_jak1"]
  starting_def [of "CHR 0xC3" "map from_s s_replace_info_jak1"]
  starting_def [of "CHR 0xC4" "map from_s s_replace_info_jak1"]
  starting_def [of "CHR 0xC5" "map from_s s_replace_info_jak1"]
  starting_def [of "CHR 0xE3" "map from_s s_replace_info_jak1"]
  starting_def [of "CHR 0xE4" "map from_s s_replace_info_jak1"]

lemma s_replace_info_jak1_display_avoid:
  "all_of (\<lambda>p. avoid_check firsts_jak1 (map from_s s_replace_info_jak1) (to_s p)) s_replace_info_jak1"
  by (simp only: all_of_s_replace_info_jak1 s_replace_info_jak1_parts firsts_jak1_def encoded_starting_jak1 avoid_rules
      cong: if_weak_cong)

lemmas s_replace_info_jak2_parts [simplified append.simps] =
  s_replace_info_jak2_part1_def s_replace_info_jak2_part2_def s_replace_info_jak2_part3_def
  s_replace_info_jak2_part4_def s_replace_info_jak2_part5_def s_replace_info_jak2_part6_def
  s_replace_info_jak2_part7_def s_replace_info_jak2_part8_def s_replace_info_jak2_part9_def
  s_replace_info_jak2_part10_def s_replace_info_jak2_part11_def s_replace_info_jak2_part12_def
  s_replace_info_jak2_part13_def s_replace_info_jak2_part14_def

lemma map_s_replace_info_jak2:
  "map f s_replace_info_jak2 =
     map f s_replace_info_jak2_part1 @ map f s_replace_info_jak2_part2 @
     map f s_replace_info_jak2_part3 @ map f s_replace_info_jak2_part4 @
     map f s_replace_info_jak2_part5 @ map f s_replace_info_jak2_part6 @
     map f s_replace_info_jak2_part7 @ map f s_replace_info_jak2_part8 @
     map f s_replace_info_jak2_part9 @ map f s_replace_info_jak2_part10 @
     map f s_replace_info_jak2_part11 @ map f s_replace_info_jak2_part12 @
     map f s_replace_info_jak2_part13 @ map f s_replace_info_jak2_part14"
  by (simp add: s_replace_info_jak2_def)


lemmas patterns_jak2 =
  patterns_def [of s_replace_info_jak2, simplified map_s_replace_info_jak2 s_replace_info_jak2_parts list.map ReplaceInfo.select_convs]

lemma s_replace_info_jak2_firsts:
  "all_of (\<lambda>p. p \<noteq> [] \<and> hd p \<in> set firsts_jak2) (patterns s_replace_info_jak2)"
  by (simp only: patterns_jak2 firsts_jak2_def avoid_rules)




































lemma s_encode_info_jak1_avoid:
  "all_of (\<lambda>r. avoid_check firsts_jak1 (patterns s_replace_info_jak1) (chars r)) s_encode_info_jak1"
  unfolding s_encode_info_jak1_def all_of_append
  by (simp only: s_encode_info_jak1_parts firsts_jak1_def starting_jak1 avoid_rules cong: if_weak_cong)

lemma s_encode_info_jak1_v2_avoid:
  "all_of (\<lambda>r. avoid_check firsts_jak1 (patterns s_replace_info_jak1) (chars r)) s_encode_info_jak1_v2"
  unfolding s_encode_info_jak1_v2_def all_of_append
  by (simp only: s_encode_info_jak1_v2_parts firsts_jak1_def starting_jak1 avoid_rules cong: if_weak_cong)


lemma s_encode_info_jak1_literals:
  "all_of (\<lambda>r. bytes r = [] \<or> hd (bytes r) \<notin> set raw_literals_jak1) s_encode_info_jak1"
  unfolding s_encode_info_jak1_def all_of_append
  by (simp only: s_encode_info_jak1_parts raw_literals_jak1_def avoid_rules)

lemma s_encode_info_jak1_v2_literals:
  "all_of (\<lambda>r. bytes r = [] \<or> hd (bytes r) \<notin> set raw_literals_jak1) s_encode_info_jak1_v2"
  unfolding s_encode_info_jak1_v2_def all_of_append
  by (simp only: s_encode_info_jak1_v2_parts raw_literals_jak1_def avoid_rules)


lemma raw_jak1_part1:
  "all_of (\<lambda>p. raw_bytes s_encode_info_jak1 raw_literals_jak1 [] (from_s p) \<noteq> None) s_replace_info_jak1_part1"
  by (simp only: s_replace_info_jak1_parts(1) raw_literals_jak1_def rules_starting_jak1 rules_starting_jak1_none
      encode_firsts_jak1_def raw_rules cong: if_weak_cong list.case_cong_weak)

lemma raw_jak1_part2:
  "all_of (\<lambda>p. raw_bytes s_encode_info_jak1 raw_literals_jak1 [] (from_s p) \<noteq> None) s_replace_info_jak1_part2"
  by (simp only: s_replace_info_jak1_parts(2) raw_literals_jak1_def rules_starting_jak1 rules_starting_jak1_none
      encode_firsts_jak1_def raw_rules cong: if_weak_cong list.case_cong_weak)

lemma raw_jak1_part3:
  "all_of (\<lambda>p. raw_bytes s_encode_info_jak1 raw_literals_jak1 [] (from_s p) \<noteq> None) s_replace_info_jak1_part3"
  by (simp only: s_replace_info_jak1_parts(3) raw_literals_jak1_def rules_starting_jak1 rules_starting_jak1_none
      encode_firsts_jak1_def raw_rules cong: if_weak_cong list.case_cong_weak)

lemma raw_jak1_part4:
  "all_of (\<lambda>p. raw_bytes s_encode_info_jak1 raw_literals_jak1 [] (from_s p) \<noteq> None) s_replace_info_jak1_part4"
  by (simp only: s_replace_info_jak1_parts(4) raw_literals_jak1_def rules_starting_jak1 rules_starting_jak1_none
      encode_firsts_jak1_def raw_rules cong: if_weak_cong list.case_cong_weak)

lemma raw_jak1_part5:
  "all_of (\<lambda>p. raw_bytes s_encode_info_jak1 raw_literals_jak1 [] (from_s p) \<noteq> None) s_replace_info_jak1_part5"
  by (simp only: s_replace_info_jak1_parts(5) raw_literals_jak1_def rules_starting_jak1 rules_starting_jak1_none
      encode_firsts_jak1_def raw_rules cong: if_weak_cong list.case_cong_weak)

lemma raw_jak1_part6:
  "all_of (\<lambda>p. raw_bytes s_encode_info_jak1 raw_literals_jak1 [] (from_s p) \<noteq> None) s_replace_info_jak1_part6"
  by (simp only: s_replace_info_jak1_parts(6) raw_literals_jak1_def rules_starting_jak1 rules_starting_jak1_none
      encode_firsts_jak1_def raw_rules cong: if_weak_cong list.case_cong_weak)

lemma raw_jak1_part7:
  "all_of (\<lambda>p. raw_bytes s_encode_info_jak1 raw_literals_jak1 [] (from_s p) \<noteq> None) s_replace_info_jak1_part7"
  by (simp only: s_replace_info_jak1_parts(7) raw_literals_jak1_def rules_starting_jak1 rules_starting_jak1_none
      encode_firsts_jak1_def raw_rules cong: if_weak_cong list.case_cong_weak)

lemma raw_jak1_part8:
  "all_of (\<lambda>p. raw_bytes s_encode_info_jak1 raw_literals_jak1 [] (from_s p) \<noteq> None) s_replace_info_jak1_part8"
  by (simp only: s_replace_info_jak1_parts(8) raw_literals_jak1_def rules_starting_jak1 rules_starting_jak1_none
      encode_firsts_jak1_def raw_rules cong: if_weak_cong list.case_cong_weak)

lemma raw_jak1_part9:
  "all_of (\<lambda>p. raw_bytes s_encode_info_jak1 raw_literals_jak1 [] (from_s p) \<noteq> None) s_replace_info_jak1_part9"
  by (simp only: s_replace_info_jak1_parts(9) raw_literals_jak1_def rules_starting_jak1 rules_starting_jak1_none
      encode_firsts_jak1_def raw_rules cong: if_weak_cong list.case_cong_weak)

lemma raw_jak1_part10:
  "all_of (\<lambda>p. raw_bytes s_encode_info_jak1 raw_literals_jak1 [] (from_s p) \<noteq> None) s_replace_info_jak1_part10"
  by (simp only: s_replace_info_jak1_parts(10) raw_literals_jak1_def rules_starting_jak1 rules_starting_jak1_none
      encode_firsts_jak1_def raw_rules cong: if_weak_cong list.case_cong_weak)

lemma raw_jak1:
  "all_of (\<lambda>p. raw_bytes s_encode_info_jak1 raw_literals_jak1 [] (from_s p) \<noteq> None) s_replace_info_jak1"
  unfolding all_of_s_replace_info_jak1
  by (intro conjI
      raw_jak1_part1 raw_jak1_part2 raw_jak1_part3 raw_jak1_part4 raw_jak1_part5 raw_jak1_part6
      raw_jak1_part7 raw_jak1_part8 raw_jak1_part9 raw_jak1_part10)

lemma raw_jak1_v2_part1:
  "all_of (\<lambda>p. raw_bytes s_encode_info_jak1_v2 raw_literals_jak1 [] (from_s p) \<noteq> None) s_replace_info_jak1_part1"
  by (simp only: s_replace_info_jak1_parts(1) raw_literals_jak1_def rules_starting_jak1_v2 rules_starting_jak1_v2_none
      encode_firsts_jak1_v2_def raw_rules cong: if_weak_cong list.case_cong_weak)

lemma raw_jak1_v2_part2:
  "all_of (\<lambda>p. raw_bytes s_encode_info_jak1_v2 raw_literals_jak1 [] (from_s p) \<noteq> None) s_replace_info_jak1_part2"
  by (simp only: s_replace_info_jak1_parts(2) raw_literals_jak1_def rules_starting_jak1_v2 rules_starting_jak1_v2_none
      encode_firsts_jak1_v2_def raw_rules cong: if_weak_cong list.case_cong_weak)

lemma raw_jak1_v2_part3:
  "all_of (\<lambda>p. raw_bytes s_encode_info_jak1_v2 raw_literals_jak1 [] (from_s p) \<noteq> None) s_replace_info_jak1_part3"
  by (simp only: s_replace_info_jak1_parts(3) raw_literals_jak1_def rules_starting_jak1_v2 rules_starting_jak1_v2_none
      encode_firsts_jak1_v2_def raw_rules cong: if_weak_cong list.case_cong_weak)

lemma raw_jak1_v2_part4:
  "all_of (\<lambda>p. raw_bytes s_encode_info_jak1_v2 raw_literals_jak1 [] (from_s p) \<noteq> None) s_replace_info_jak1_part4"
  by (simp only: s_replace_info_jak1_parts(4) raw_literals_jak1_def rules_starting_jak1_v2 rules_starting_jak1_v2_none
      encode_firsts_jak1_v2_def raw_rules cong: if_weak_cong list.case_cong_weak)

lemma raw_jak1_v2_part5:
  "all_of (\<lambda>p. raw_bytes s_encode_info_jak1_v2 raw_literals_jak1 [] (from_s p) \<noteq> None) s_replace_info_jak1_part5"
  by (simp only: s_replace_info_jak1_parts(5) raw_literals_jak1_def rules_starting_jak1_v2 rules_starting_jak1_v2_none
      encode_firsts_jak1_v2_def raw_rules cong: if_weak_cong list.case_cong_weak)

lemma raw_jak1_v2_part6:
  "all_of (\<lambda>p. raw_bytes s_encode_info_jak1_v2 raw_literals_jak1 [] (from_s p) \<noteq> None) s_replace_info_jak1_part6"
  by (simp only: s_replace_info_jak1_parts(6) raw_literals_jak1_def rules_starting_jak1_v2 rules_starting_jak1_v2_none
      encode_firsts_jak1_v2_def raw_rules cong: if_weak_cong list.case_cong_weak)

lemma raw_jak1_v2_part7:
  "all_of (\<lambda>p. raw_bytes s_encode_info_jak1_v2 raw_literals_jak1 [] (from_s p) \<noteq> None) s_replace_info_jak1_part7"
  by (simp only: s_replace_info_jak1_parts(7) raw_literals_jak1_def rules_starting_jak1_v2 rules_starting_jak1_v2_none
      encode_firsts_jak1_v2_def raw_rules cong: if_weak_cong list.case_cong_weak)

lemma raw_jak1_v2_part8:
  "all_of (\<lambda>p. raw_bytes s_encode_info_jak1_v2 raw_literals_jak1 [] (from_s p) \<noteq> None) s_replace_info_jak1_part8"
  by (simp only: s_replace_info_jak1_parts(8) raw_literals_jak1_def rules_starting_jak1_v2 rules_starting_jak1_v2_none
      encode_firsts_jak1_v2_def raw_rules cong: if_weak_cong list.case_cong_weak)

lemma raw_jak1_v2_part9:
  "all_of (\<lambda>p. raw_bytes s_encode_info_jak1_v2 raw_literals_jak1 [] (from_s p) \<noteq> None) s_replace_info_jak1_part9"
  by (simp only: s_replace_info_jak1_parts(9) raw_literals_jak1_def rules_starting_jak1_v2 rules_starting_jak1_v2_none
      encode_firsts_jak1_v2_def raw_rules cong: if_weak_cong list.case_cong_weak)

lemma raw_jak1_v2_part10:
  "all_of (\<lambda>p. raw_bytes s_encode_info_jak1_v2 raw_literals_jak1 [] (from_s p) \<noteq> None) s_replace_info_jak1_part10"
  by (simp only: s_replace_info_jak1_parts(10) raw_literals_jak1_def rules_starting_jak1_v2 rules_starting_jak1_v2_none
      encode_firsts_jak1_v2_def raw_rules cong: if_weak_cong list.case_cong_weak)

lemma raw_jak1_v2:
  "all_of (\<lambda>p. raw_bytes s_encode_info_jak1_v2 raw_literals_jak1 [] (from_s p) \<noteq> None) s_replace_info_jak1"
  unfolding all_of_s_replace_info_jak1
  by (intro conjI
      raw_jak1_v2_part1 raw_jak1_v2_part2 raw_jak1_v2_part3 raw_jak1_v2_part4 raw_jak1_v2_part5
      raw_jak1_v2_part6 raw_jak1_v2_part7 raw_jak1_v2_part8 raw_jak1_v2_part9
      raw_jak1_v2_part10)
















lemma s_encode_info_jak1_plain:
  "all_of (\<lambda>r. bytes r = [] \<or> hd (bytes r) \<notin> set plain_chars_jak1_v1) s_encode_info_jak1"
  unfolding s_encode_info_jak1_def all_of_append
  by (simp only: s_encode_info_jak1_parts plain_chars_jak1_v1_def avoid_rules)

lemma s_encode_info_jak1_v2_plain:
  "all_of (\<lambda>r. bytes r = [] \<or> hd (bytes r) \<notin> set plain_chars_jak1_v2) s_encode_info_jak1_v2"
  unfolding s_encode_info_jak1_v2_def all_of_append
  by (simp only: s_encode_info_jak1_v2_parts plain_chars_jak1_v2_def avoid_rules)

lemma s_encode_info_jak2_plain:
  "all_of (\<lambda>r. bytes r = [] \<or> hd (bytes r) \<notin> set plain_chars_jak2) s_encode_info_jak2"
  unfolding s_encode_info_jak2_def all_of_append
  by (simp only: s_encode_info_jak2_parts plain_chars_jak2_def avoid_rules)

lemma set_tables_jak1_v1:
  "set (m_encode_info g_font_bank_jak1_v1) = set s_encode_info_jak1"
  "set (m_replace_info g_font_bank_jak1_v1) = set s_replace_info_jak1"
  by (simp_all add: g_font_bank_jak1_v1_def new_GameTextFontBank_def set_std_sort)

lemma set_tables_jak1_v2:
  "set (m_encode_info g_font_bank_jak1_v2) = set s_encode_info_jak1_v2"
  "set (m_replace_info g_font_bank_jak1_v2) = set s_replace_info_jak1"
  by (simp_all add: g_font_bank_jak1_v2_def g_font_bank_jak1_v1_def new_GameTextFontBank_def
      set_std_sort)

lemma set_tables_jak2:
  "set (m_encode_info g_font_bank_jak2) = set s_encode_info_jak2"
  "set (m_replace_info g_font_bank_jak2) = set s_replace_info_jak2"
  by (simp_all add: g_font_bank_jak2_def new_GameTextFontBank_def set_std_sort)

text \<open>The literals in the encoded substrings are valid literals or escaped characters.\<close>

lemma raw_literals_jak1_v1:
  "all_of (\<lambda>c. c \<noteq> CHR 0x00 \<and> (valid_char_range g_font_bank_jak1_v1 c \<or> special_char c))
     raw_literals_jak1"
  by (simp add: all_of_def raw_literals_jak1_def valid_char_range_def g_font_bank_jak1_v1_def
      new_GameTextFontBank_def less_eq_char_def s_passthrus_jak1_def)

lemma raw_literals_jak1_v2:
  "all_of (\<lambda>c. c \<noteq> CHR 0x00 \<and> (valid_char_range g_font_bank_jak1_v2 c \<or> special_char c))
     raw_literals_jak1"
  by (simp add: all_of_def raw_literals_jak1_def valid_char_range_def g_font_bank_jak1_v2_def
      new_GameTextFontBank_def less_eq_char_def s_passthrus_jak1_def)


lemma tables_invertible_jak1_v1: "tables_invertible g_font_bank_jak1_v1"
  by (rule tables_invertibleI [OF set_tables_jak1_v1 s_encode_info_jak1_well_formed
        s_encode_info_jak1_chars s_encode_info_jak1_bytes s_replace_info_jak1_firsts
        s_encode_info_jak1_avoid s_replace_info_jak1_well_formed s_replace_info_jak1_encoded
        s_replace_info_jak1_displayed s_replace_info_jak1_display_avoid raw_literals_jak1_v1
        s_encode_info_jak1_literals raw_jak1])

lemma tables_invertible_jak1_v2: "tables_invertible g_font_bank_jak1_v2"
  by (rule tables_invertibleI [OF set_tables_jak1_v2 s_encode_info_jak1_v2_well_formed
        s_encode_info_jak1_v2_chars s_encode_info_jak1_v2_bytes s_replace_info_jak1_firsts
        s_encode_info_jak1_v2_avoid s_replace_info_jak1_well_formed s_replace_info_jak1_encoded
        s_replace_info_jak1_displayed s_replace_info_jak1_display_avoid raw_literals_jak1_v2
        s_encode_info_jak1_v2_literals raw_jak1_v2])




text \<open>The plain characters of the three banks are plain.\<close>

lemma plain_chars_jak1_v1_valid:
  "all_of (\<lambda>c. c \<noteq> CHR 0x00 \<and> valid_char_range g_font_bank_jak1_v1 c \<and> \<not> special_char c)
     plain_chars_jak1_v1"
  by (simp add: all_of_def plain_chars_jak1_v1_def valid_char_range_def g_font_bank_jak1_v1_def
      new_GameTextFontBank_def less_eq_char_def s_passthrus_jak1_def special_char_def)

lemma plain_chars_jak1_v1_apart:
  "all_of (\<lambda>c. c \<notin> set encode_firsts_jak1 \<and> c \<notin> set firsts_jak1) plain_chars_jak1_v1"
  by (simp add: all_of_def plain_chars_jak1_v1_def encode_firsts_jak1_def firsts_jak1_def)

lemma plain_chars_jak1_v1:
  assumes "c \<in> set plain_chars_jak1_v1"
  shows "plain_char g_font_bank_jak1_v1 c"
  using plain_charI [OF set_tables_jak1_v1 plain_chars_jak1_v1_valid s_encode_info_jak1_plain
      s_encode_info_jak1_firsts s_replace_info_jak1_firsts plain_chars_jak1_v1_apart assms] .

lemma plain_chars_jak1_v2_valid:
  "all_of (\<lambda>c. c \<noteq> CHR 0x00 \<and> valid_char_range g_font_bank_jak1_v2 c \<and> \<not> special_char c)
     plain_chars_jak1_v2"
  by (simp add: all_of_def plain_chars_jak1_v2_def valid_char_range_def g_font_bank_jak1_v2_def
      new_GameTextFontBank_def less_eq_char_def s_passthrus_jak1_def special_char_def)

lemma plain_chars_jak1_v2_apart:
  "all_of (\<lambda>c. c \<notin> set encode_firsts_jak1_v2 \<and> c \<notin> set firsts_jak1) plain_chars_jak1_v2"
  by (simp add: all_of_def plain_chars_jak1_v2_def encode_firsts_jak1_v2_def firsts_jak1_def)

lemma plain_chars_jak1_v2:
  assumes "c \<in> set plain_chars_jak1_v2"
  shows "plain_char g_font_bank_jak1_v2 c"
  using plain_charI [OF set_tables_jak1_v2 plain_chars_jak1_v2_valid s_encode_info_jak1_v2_plain
      s_encode_info_jak1_v2_firsts s_replace_info_jak1_firsts plain_chars_jak1_v2_apart assms] .

lemma plain_chars_jak2_valid:
  "all_of (\<lambda>c. c \<noteq> CHR 0x00 \<and> valid_char_range g_font_bank_jak2 c \<and> \<not> special_char c)
     plain_chars_jak2"
  by (simp add: all_of_def plain_chars_jak2_def valid_char_range_def g_font_bank_jak2_def
      new_GameTextFontBank_def less_eq_char_def s_passthrus_jak2_def special_char_def)

lemma plain_chars_jak2_apart:
  "all_of (\<lambda>c. c \<notin> set encode_firsts_jak2 \<and> c \<notin> set firsts_jak2) plain_chars_jak2"
  by (simp add: all_of_def plain_chars_jak2_def encode_firsts_jak2_def firsts_jak2_def)

lemma plain_chars_jak2:
  assumes "c \<in> set plain_chars_jak2"
  shows "plain_char g_font_bank_jak2 c"
  using plain_charI [OF set_tables_jak2 plain_chars_jak2_valid s_encode_info_jak2_plain
      s_encode_info_jak2_firsts s_replace_info_jak2_firsts plain_chars_jak2_apart assms] .






subsection \<open>Round trip through the shipped banks\<close>



lemma geki_rule_jak1:
  "\<lparr>chars = [CHR 0xE6, CHR 0x92, CHR 0x83], bytes = [CHR 0x61]\<rparr>
     \<in> set (m_encode_info g_font_bank_jak1_v1)"
  by (simp add: set_tables_jak1_v1 s_encode_info_jak1_def s_encode_info_jak1_part1_def)

lemma geki_rule_jak1_v2:
  "\<lparr>chars = [CHR 0xE6, CHR 0x92, CHR 0x83], bytes = [CHR 0x61]\<rparr>
     \<in> set (m_encode_info g_font_bank_jak1_v2)"
  by (simp add: set_tables_jak1_v2 s_encode_info_jak1_v2_def s_encode_info_jak1_v2_part1_def)








subsection \<open>The byte 0x61 in the three versions\<close>

text \<open>
  A byte that no encode rule starts with, that is a valid literal of the bank and not one
  of the escaped characters, and that alone is no encoded pattern of a replace rule, is
  copied by the reverse transcoder.
\<close>

lemma convert_game_to_utf8_literal:
  assumes enc: "\<forall>info\<in>set (m_encode_info bank). bytes info = [] \<or> hd (bytes info) \<noteq> c"
    and rep: "\<forall>p\<in>set (m_replace_info bank). from_s p \<noteq> [c]"
    and valid: "valid_char_range bank c" and c: "c \<noteq> CHR 0x00" "\<not> special_char c"
  shows "convert_game_to_utf8 bank sq [c, CHR 0x00] False = Inr ([c], sq)"
proof -
  have "find_encode_to_utf8 (m_encode_info bank) [c, CHR 0x00] = Inr None"
    unfolding find_encode_to_utf8_def
  proof (intro find_encode_to_utf8_loop_no_match ballI)
    fix info assume "info \<in> set (m_encode_info bank)"
    with enc show "bytes info = [] \<or> match_bytes [c, CHR 0x00] (bytes info) = Inr False"
      by (cases "bytes info") auto
  qed
  then have "decode_loop bank [c, CHR 0x00] [] = decode_loop bank [CHR 0x00] [c]"
    using valid c by (subst decode_loop.simps) simp
  also have "\<dots> = Inr [c]"
    by (subst decode_loop.simps) simp
  finally have dec: "decode_loop bank [c, CHR 0x00] [] = Inr [c]" .
  have "find_replace_to_utf8 (m_replace_info bank) [c] 0 = Inr None"
    unfolding find_replace_to_utf8_def
  proof (intro find_replace_to_utf8_loop_no_match ballI)
    fix p assume "p \<in> set (m_replace_info bank)"
    with rep have "from_s p \<noteq> [c]" by simp
    then show "from_s p = [] \<or> size_t_sub (length [c]) 0 < length (from_s p) \<or>
        memcmp_eq [c] 0 (from_s p) = Inr False"
      by (cases "from_s p") (auto simp add: size_t_sub_def memcmp_eq_def)
  qed
  then have "replace_to_utf8_loop (m_replace_info bank) [c] 0 [] =
      replace_to_utf8_loop (m_replace_info bank) [c] 1 [c]"
    by (subst replace_to_utf8_loop.simps) simp
  also have "\<dots> = Inr [c]"
    by (subst replace_to_utf8_loop.simps) simp
  finally have rep': "replace_to_utf8 bank [c] = Inr [c]"
    by (simp add: replace_to_utf8_def)
  have "escape_emit_loop [c] 0 [] = [c]"
    using escape_emit_loop_id [of "[c]" 0 "[]"] c by simp
  with dec rep' show ?thesis
    by (simp add: convert_game_to_utf8_def)
qed

lemmas first_byte_rules = literal_rules list.sel list.distinct list.inject

lemma s_encode_info_jak2_first_byte:
  "all_of (\<lambda>r. bytes r = [] \<or> hd (bytes r) \<noteq> CHR 0x61) s_encode_info_jak2"
  unfolding s_encode_info_jak2_def all_of_append
  by (simp only: s_encode_info_jak2_parts first_byte_rules)

lemma s_replace_info_jak2_single:
  "all_of (\<lambda>p. from_s p \<noteq> [CHR 0x61]) s_replace_info_jak2"
  unfolding s_replace_info_jak2_def all_of_append
  by (simp only: s_replace_info_jak2_parts first_byte_rules)

lemma jak2_passes_a:
  "valid_char_range g_font_bank_jak2 (CHR 0x61) \<and>
   convert_game_to_utf8 g_font_bank_jak2 sq [CHR 0x61, CHR 0x00] False = Inr (''a'', sq)"
proof -
  have valid: "valid_char_range g_font_bank_jak2 (CHR 0x61)"
    by (simp add: valid_char_range_def g_font_bank_jak2_def new_GameTextFontBank_def
        less_eq_char_def)
  have enc: "\<forall>info\<in>set (m_encode_info g_font_bank_jak2).
      bytes info = [] \<or> hd (bytes info) \<noteq> CHR 0x61"
    using s_encode_info_jak2_first_byte by (simp add: set_tables_jak2 all_of_iff)
  have rep: "\<forall>p\<in>set (m_replace_info g_font_bank_jak2). from_s p \<noteq> [CHR 0x61]"
    using s_replace_info_jak2_single by (simp add: set_tables_jak2 all_of_iff)
  have "convert_game_to_utf8 g_font_bank_jak2 sq [CHR 0x61, CHR 0x00] False =
      Inr ([CHR 0x61], sq)"
    by (rule convert_game_to_utf8_literal [OF enc rep valid]) (simp_all add: special_char_def)
  with valid show ?thesis by simp
qed

lemma jak1_v1_renders_a:
  "\<not> valid_char_range g_font_bank_jak1_v1 (CHR 0x61) \<and>
   convert_game_to_utf8 g_font_bank_jak1_v1 sq [CHR 0x61, CHR 0x00] False =
     Inr ([CHR 0xE6, CHR 0x92, CHR 0x83], sq)"
proof -
  have "\<not> valid_char_range g_font_bank_jak1_v1 (CHR 0x61)"
    by (simp add: valid_char_range_def g_font_bank_jak1_v1_def new_GameTextFontBank_def
        less_eq_char_def s_passthrus_jak1_def)
  moreover have "\<forall>u\<in>set [Glyph \<lparr>chars = [CHR 0xE6, CHR 0x92, CHR 0x83], bytes = [CHR 0x61]\<rparr>].
      unit_of g_font_bank_jak1_v1 u"
    using geki_rule_jak1 by simp
  note round_trip_invertible [OF tables_invertible_jak1_v1 this, where escape = False and sq = sq]
  ultimately show ?thesis by simp
qed

lemma jak1_v2_renders_a:
  "\<not> valid_char_range g_font_bank_jak1_v2 (CHR 0x61) \<and>
   convert_game_to_utf8 g_font_bank_jak1_v2 sq [CHR 0x61, CHR 0x00] False =
     Inr ([CHR 0xE6, CHR 0x92, CHR 0x83], sq)"
proof -
  have "\<not> valid_char_range g_font_bank_jak1_v2 (CHR 0x61)"
    by (simp add: valid_char_range_def g_font_bank_jak1_v2_def new_GameTextFontBank_def
        less_eq_char_def s_passthrus_jak1_def)
  moreover have "\<forall>u\<in>set [Glyph \<lparr>chars = [CHR 0xE6, CHR 0x92, CHR 0x83], bytes = [CHR 0x61]\<rparr>].
      unit_of g_font_bank_jak1_v2 u"
    using geki_rule_jak1_v2 by simp
  note round_trip_invertible [OF tables_invertible_jak1_v2 this, where escape = False and sq = sq]
  ultimately show ?thesis by simp
qed

text \<open>
  Without an encode rule for the byte, a bank of a Jak 1 version renders it as the escape.
\<close>

lemma no_rule_escapes_a:
  assumes "version = JAK1_V1 \<or> version = JAK1_V2"
  shows "convert_game_to_utf8
      (new_GameTextFontBank version s_encode_info_null s_replace_info_null s_passthrus_jak1)
      sq [CHR 0x61, CHR 0x00] False = Inr ([CHR 0x5C, CHR ''c'', CHR ''6'', CHR ''1''], sq)"
proof -
  let ?bank = "new_GameTextFontBank version s_encode_info_null s_replace_info_null
      s_passthrus_jak1"
  have tables: "m_encode_info ?bank = []" "m_replace_info ?bank = []"
    by (simp_all add: new_GameTextFontBank_def s_encode_info_null_def s_replace_info_null_def)
  have invalid: "\<not> valid_char_range ?bank (CHR 0x61)"
    using assms
    by (auto simp add: valid_char_range_def new_GameTextFontBank_def less_eq_char_def
        s_passthrus_jak1_def)
  have "decode_loop ?bank [CHR 0x61, CHR 0x00] [] =
      decode_loop ?bank [CHR 0x00] (format_c_escape (CHR 0x61))"
    using invalid by (subst decode_loop.simps) (simp add: tables find_encode_to_utf8_def)
  also have "\<dots> = Inr (format_c_escape (CHR 0x61))"
    by (subst decode_loop.simps) simp
  finally have dec: "decode_loop ?bank [CHR 0x61, CHR 0x00] [] =
      Inr [CHR 0x5C, CHR ''c'', CHR ''6'', CHR ''1'']"
    by (simp add: format_c_escape_def hex_digit_def)
  have rep: "replace_to_utf8 ?bank [CHR 0x5C, CHR ''c'', CHR ''6'', CHR ''1''] =
      Inr [CHR 0x5C, CHR ''c'', CHR ''6'', CHR ''1'']"
    by (simp add: replace_to_utf8_def tables replace_to_utf8_loop.simps find_replace_to_utf8_def)
  have esc: "escape_emit_loop [CHR 0x5C, CHR ''c'', CHR ''6'', CHR ''1''] 0 [] =
      [CHR 0x5C, CHR ''c'', CHR ''6'', CHR ''1'']"
    by (simp add: escape_emit_loop.simps)
  from dec rep esc show ?thesis
    by (simp add: convert_game_to_utf8_def)
qed

text \<open>
  C5, as amended.  In both Jak 1 versions the byte 0x61 is not a valid literal, but with
  the tables of these versions the reverse transcoder does not reach the literal test:
  the encode rule with the byte sequence 0x61 matches first, and the byte is rendered as
  the kanji of that rule (the UTF-8 bytes E6 92 83).  The escape \<^verbatim>\<open>\c61\<close> is what a bank of
  these versions produces when no encode rule matches the byte, as with empty tables.  In
  Jak 2 the byte is a valid literal, no encode rule starts with it, and it is rendered
  as the letter a.
\<close>

theorem lowercase_a_by_version:
  "\<not> valid_char_range g_font_bank_jak1_v1 (CHR 0x61) \<and>
   convert_game_to_utf8 g_font_bank_jak1_v1 sq [CHR 0x61, CHR 0x00] False =
     Inr ([CHR 0xE6, CHR 0x92, CHR 0x83], sq) \<and>
   \<not> valid_char_range g_font_bank_jak1_v2 (CHR 0x61) \<and>
   convert_game_to_utf8 g_font_bank_jak1_v2 sq [CHR 0x61, CHR 0x00] False =
     Inr ([CHR 0xE6, CHR 0x92, CHR 0x83], sq) \<and>
   convert_game_to_utf8
     (new_GameTextFontBank JAK1_V1 s_encode_info_null s_replace_info_null s_passthrus_jak1)
     sq [CHR 0x61, CHR 0x00] False = Inr ([CHR 0x5C, CHR ''c'', CHR ''6'', CHR ''1''], sq) \<and>
   convert_game_to_utf8
     (new_GameTextFontBank JAK1_V2 s_encode_info_null s_replace_info_null s_passthrus_jak1)
     sq [CHR 0x61, CHR 0x00] False = Inr ([CHR 0x5C, CHR ''c'', CHR ''6'', CHR ''1''], sq) \<and>
   valid_char_range g_font_bank_jak2 (CHR 0x61) \<and>
   convert_game_to_utf8 g_font_bank_jak2 sq [CHR 0x61, CHR 0x00] False = Inr (''a'', sq)"
  using jak1_v1_renders_a [of sq] jak1_v2_renders_a [of sq] jak2_passes_a [of sq]
    no_rule_escapes_a [of JAK1_V1 sq] no_rule_escapes_a [of JAK1_V2 sq]
  by simp

text \<open>
  With the tables of Jak 1 the byte 0x61 is not rendered as \<^verbatim>\<open>\c61\<close>.
\<close>

theorem lowercase_a_counterexample:
  "\<not> valid_char_range g_font_bank_jak1_v1 (CHR 0x61) \<and>
   convert_game_to_utf8 g_font_bank_jak1_v1 [] [CHR 0x61, CHR 0x00] False =
     Inr ([CHR 0xE6, CHR 0x92, CHR 0x83], []) \<and>
   convert_game_to_utf8 g_font_bank_jak1_v1 [] [CHR 0x61, CHR 0x00] False \<noteq>
     Inr ([CHR 0x5C, CHR ''c'', CHR ''6'', CHR ''1''], [])"
  using jak1_v1_renders_a [of "[]"] by simp

end
